(* ===== verification/Prelude.thy ===== *)
theory Prelude
  imports Main "HOL-Library.Word" "HOL-Library.State_Monad" "HOL-Library.Multiset"
begin

unbundle bit_operations_syntax

text \<open>
  Shared vocabulary of the development: machine integers, C strings, the state monad the
  stateful code is written in, a small calculus for invariants of monadic code, and the
  \<open>machine\<close> locale from which every component with a step function obtains its invariants
  over whole runs.
\<close>

section \<open>Machine integers\<close>

type_synonym u8 = "8 word"
type_synonym u16 = "16 word"
type_synonym u32 = "32 word"

text \<open>\<open>holds m c\<close> is C's truth value of \<open>m & c\<close>.\<close>

abbreviation holds :: "'a::len word \<Rightarrow> 'a word \<Rightarrow> bool" where
  "holds m c \<equiv> m AND c \<noteq> 0"

abbreviation masked_in :: "'a::len word \<Rightarrow> 'a word \<Rightarrow> bool" where
  "masked_in d m \<equiv> d AND NOT m = 0"

named_theorems mask_simps "facts on bit masks"

lemma and_masked_in [mask_simps]: "masked_in (m AND c) (m :: 'a::len word)"
  by (intro bit_eqI) (simp add: bit_simps)

lemma masked_in_zero [mask_simps]: "masked_in 0 (m :: 'a::len word)"
  by simp

lemma masked_in_or [mask_simps]:
  "masked_in (a OR b) (m :: 'a::len word) \<longleftrightarrow> masked_in a m \<and> masked_in b m"
  by (auto simp: bit_eq_iff bit_simps)

lemma masked_in_and_left:
  assumes "masked_in a (m :: 'a::len word)"
  shows "masked_in (a AND b) m"
  using assms by (auto simp: bit_eq_iff bit_simps)

lemma masked_in_self [mask_simps]: "masked_in m (m :: 'a::len word)"
  by (intro bit_eqI) (simp add: bit_simps)

lemma masked_in_holds: "masked_in d (m :: 'a::len word) \<Longrightarrow> d \<noteq> 0 \<Longrightarrow> holds m d"
  by (auto simp: bit_eq_iff bit_simps)

lemma and_not_clears [mask_simps]: "(m AND NOT c) AND c = (0 :: 'a::len word)"
  by (intro bit_eqI) (simp add: bit_simps)

lemma or_sets [mask_simps]: "(m OR c) AND c = (c :: 'a::len word)"
  by (intro bit_eqI) (auto simp: bit_simps)

section \<open>C strings\<close>

text \<open>\<open>tolower\<close> in the C locale, and the case-insensitive comparison of \<open>strcasecmp\<close>.\<close>

definition tolower :: "char \<Rightarrow> char" where
  "tolower c =
     (if 65 \<le> (of_char c :: nat) \<and> (of_char c :: nat) \<le> 90 then char_of ((of_char c :: nat) + 32)
      else c)"

definition strcaseeq :: "string \<Rightarrow> string \<Rightarrow> bool" where
  "strcaseeq a b \<longleftrightarrow> map tolower a = map tolower b"

lemma strcaseeq_refl [simp]: "strcaseeq s s"
  by (simp add: strcaseeq_def)

lemma strcaseeq_sym: "strcaseeq a b \<Longrightarrow> strcaseeq b a"
  by (simp add: strcaseeq_def)

section \<open>The state monad\<close>

definition gets :: "('s \<Rightarrow> 'a) \<Rightarrow> ('s, 'a) state" where
  "gets f = State (\<lambda>s. (f s, s))"

definition modify :: "('s \<Rightarrow> 's) \<Rightarrow> ('s, unit) state" where
  "modify f = State (\<lambda>s. ((), f s))"

definition whenM :: "bool \<Rightarrow> ('s, unit) state \<Rightarrow> ('s, unit) state" where
  "whenM b m = (if b then m else State_Monad.return ())"

abbreviation ret :: "'a \<Rightarrow> ('s, 'a) state" where
  "ret \<equiv> State_Monad.return"

definition exec :: "('s, 'a) state \<Rightarrow> 's \<Rightarrow> 's" where
  "exec m s = snd (run_state m s)"

definition result :: "('s, 'a) state \<Rightarrow> 's \<Rightarrow> 'a" where
  "result m s = fst (run_state m s)"

lemma run_gets [simp]: "run_state (gets f) s = (f s, s)"
  by (simp add: gets_def)

lemma run_modify [simp]: "run_state (modify f) s = ((), f s)"
  by (simp add: modify_def)

lemma run_whenM [simp]: "run_state (whenM b m) s = (if b then run_state m s else ((), s))"
  by (simp add: whenM_def)

lemma run_if [simp]: "run_state (if b then m else n) s = (if b then run_state m s else run_state n s)"
  by simp

lemma exec_return [simp]: "exec (State_Monad.return x) s = s"
  by (simp add: exec_def)

lemma exec_gets [simp]: "exec (gets f) s = s"
  by (simp add: exec_def)

lemma exec_modify [simp]: "exec (modify f) s = f s"
  by (simp add: exec_def)

lemma exec_whenM [simp]: "exec (whenM b m) s = (if b then exec m s else s)"
  by (simp add: exec_def)

lemma exec_if [simp]: "exec (if b then m else n) s = (if b then exec m s else exec n s)"
  by (simp add: exec_def)

lemma exec_bind [simp]: "exec (State_Monad.bind m f) s = exec (f (result m s)) (exec m s)"
  by (simp add: exec_def result_def split: prod.splits)

lemma result_return [simp]: "result (State_Monad.return x) s = x"
  by (simp add: result_def)

lemma result_gets [simp]: "result (gets f) s = f s"
  by (simp add: result_def)

lemma result_if [simp]: "result (if b then m else n) s = (if b then result m s else result n s)"
  by (simp add: result_def)

lemma result_bind [simp]: "result (State_Monad.bind m f) s = result (f (result m s)) (exec m s)"
  by (simp add: exec_def result_def split: prod.splits)

lemma exec_let: "exec (let x = v in f x) s = exec (f v) s"
  by simp

lemma run_state_split: "run_state m s = (result m s, exec m s)"
  by (simp add: result_def exec_def)

section \<open>Invariants of monadic code\<close>

text \<open>
  \<open>preserves I m\<close>: every run of \<open>m\<close> from a state with \<open>I\<close> ends in one. The rules below
  follow the shape of the code, so that the invariant of a whole function reduces to the
  updates it makes.
\<close>

definition preserves :: "('s \<Rightarrow> bool) \<Rightarrow> ('s, 'a) state \<Rightarrow> bool" where
  "preserves I m \<longleftrightarrow> (\<forall>s. I s \<longrightarrow> I (exec m s))"

named_theorems pres "rules that prove \<open>preserves\<close>"

lemma preservesI: "(\<And>s. I s \<Longrightarrow> I (exec m s)) \<Longrightarrow> preserves I m"
  by (simp add: preserves_def)

lemma preservesD: "preserves I m \<Longrightarrow> I s \<Longrightarrow> I (exec m s)"
  by (simp add: preserves_def)

lemma preserves_return [pres]: "preserves I (State_Monad.return x)"
  by (simp add: preserves_def)

lemma preserves_gets [pres]: "preserves I (gets f)"
  by (simp add: preserves_def)

lemma preserves_modify [pres]: "(\<And>s. I s \<Longrightarrow> I (f s)) \<Longrightarrow> preserves I (modify f)"
  by (simp add: preserves_def)

lemma preserves_bind [pres]:
  "preserves I m \<Longrightarrow> (\<And>x. preserves I (f x)) \<Longrightarrow> preserves I (State_Monad.bind m f)"
  by (simp add: preserves_def)

lemma preserves_if [pres]:
  "(b \<Longrightarrow> preserves I m) \<Longrightarrow> (\<not> b \<Longrightarrow> preserves I n) \<Longrightarrow> preserves I (if b then m else n)"
  by simp

lemma preserves_whenM [pres]: "(b \<Longrightarrow> preserves I m) \<Longrightarrow> preserves I (whenM b m)"
  by (simp add: whenM_def pres)

lemma preserves_let [pres]: "(\<And>x. preserves I (f x)) \<Longrightarrow> preserves I (let x = v in f x)"
  by simp

lemma preserves_option [pres]:
  "(preserves I m) \<Longrightarrow> (\<And>x. preserves I (f x)) \<Longrightarrow>
     preserves I (case v of None \<Rightarrow> m | Some x \<Rightarrow> f x)"
  by (cases v) auto

lemma preserves_prod [pres]:
  "(\<And>x y. preserves I (f x y)) \<Longrightarrow> preserves I (case v of (x, y) \<Rightarrow> f x y)"
  by (cases v) auto

section \<open>Machines: a step function and an invariant\<close>

text \<open>
  The contract of a component driven by a sequence of calls: \<open>step\<close> performs one call, the
  invariant holds at the start and survives each call. What follows is proved once here and
  obtained by interpretation for each component.
\<close>

locale machine =
  fixes step :: "'e \<Rightarrow> 's \<Rightarrow> 's"
    and good :: "'s \<Rightarrow> bool"
  assumes step_good: "good s \<Longrightarrow> good (step e s)"
begin

lemma run_good: "good s \<Longrightarrow> good (fold step es s)"
  by (induction es arbitrary: s) (simp_all add: step_good)

lemma every_prefix_good: "good s \<Longrightarrow> good (fold step (take n es) s)"
  by (rule run_good)

end

text \<open>A quantity that no step changes (a frame property), again lifted to runs.\<close>

locale framed_machine =
  fixes step :: "'e \<Rightarrow> 's \<Rightarrow> 's"
    and view :: "'s \<Rightarrow> 'v"
  assumes step_view: "view (step e s) = view s"
begin

lemma run_view: "view (fold step es s) = view s"
  by (induction es arbitrary: s) (simp_all add: step_view)

end

sublocale framed_machine \<subseteq> at: machine step "\<lambda>s. view s = v" for v
  by unfold_locales (simp add: step_view)

end
