(* ===== verification/FilterTypes.thy ===== *)
theory FilterTypes
  imports Prelude
begin

text \<open>
  The filter structures of \<open>audio/AudioHardware.h\<close> and the static tables of
  \<open>audio/AudioHardware.cpp\<close> that the calibration file fills: three output devices
  (speaker, handset, headset) and nine recording rates. C arrays are lists of their
  declared length; \<open>wf_audpp\<close> states those lengths.
\<close>

section \<open>Structures of AudioHardware.h\<close>

record eqalizer =
  eq_bands :: u16
  eq_params :: "u16 list"

record rx_iir_filter =
  rx_num_bands :: u16
  rx_iir_params :: "u16 list"

record adrc_filter =
  adrc_params :: "u16 list"

record tx_iir =
  ti_cmd_id :: u16
  ti_active_flag :: u16
  ti_num_bands :: u16
  ti_iir_params :: "u16 list"

record ns =
  ns_cmd_id :: u16
  ec_mode_new :: u16
  dens_gamma_n :: u16
  dens_nfe_block_size :: u16
  dens_limit_ns :: u16
  dens_limit_ns_d :: u16
  wb_gamma_e :: u16
  wb_gamma_n :: u16

record tx_agc =
  agc_cmd_id :: u16
  tx_agc_param_mask :: u16
  tx_agc_enable_flag :: u16
  static_gain :: u16
  adaptive_gain_flag :: u16
  agc_params :: "u16 list"

text \<open>\<open>adrc_band\<close> holds five bands of ten parameters, \<open>ext_buf\<close> 196 samples.\<close>

record mbadrc_filter =
  mb_num_bands :: u16
  down_samp_level :: u16
  adrc_delay :: u16
  ext_buf_size :: u16
  ext_partition :: u16
  ext_buf_msw :: u16
  ext_buf_lsw :: u16
  adrc_band :: "u16 list list"
  ext_buf :: "u16 list"

section \<open>Feature bits\<close>

definition ADRC_ENABLE :: u32 where "ADRC_ENABLE = 0x0001"
definition ADRC_DISABLE :: u32 where "ADRC_DISABLE = 0xFFFE"
definition EQ_ENABLE :: u32 where "EQ_ENABLE = 0x0002"
definition EQ_DISABLE :: u32 where "EQ_DISABLE = 0xFFFD"
definition RX_IIR_ENABLE :: u32 where "RX_IIR_ENABLE = 0x0004"
definition RX_IIR_DISABLE :: u32 where "RX_IIR_DISABLE = 0xFFFB"
definition MBADRC_ENABLE :: u32 where "MBADRC_ENABLE = 0x0010"
definition MBADRC_DISABLE :: u32 where "MBADRC_DISABLE = 0xFFEF"
definition AGC_ENABLE :: u32 where "AGC_ENABLE = 0x0001"
definition NS_ENABLE :: u32 where "NS_ENABLE = 0x0002"
definition TX_IIR_ENABLE :: u32 where "TX_IIR_ENABLE = 0x0004"

lemmas feature_bits =
  ADRC_ENABLE_def ADRC_DISABLE_def EQ_ENABLE_def EQ_DISABLE_def RX_IIR_ENABLE_def
  RX_IIR_DISABLE_def MBADRC_ENABLE_def MBADRC_DISABLE_def AGC_ENABLE_def NS_ENABLE_def
  TX_IIR_ENABLE_def

section \<open>The static tables\<close>

record audpp =
  iir_cfg :: "rx_iir_filter list"
  adrc_cfg :: "adrc_filter list"
  mbadrc_cfg :: "mbadrc_filter list"
  equalizer :: "eqalizer list"
  adrc_flag :: "u16 list"
  mbadrc_flag :: "u16 list"
  eq_flag :: "u16 list"
  rx_iir_flag :: "u16 list"
  agc_flag :: "u16 list"
  ns_flag :: "u16 list"
  txiir_flag :: "u16 list"
  adrc_filter_exists :: "bool list"
  mbadrc_filter_exists :: "bool list"
  tx_iir_cfg :: "tx_iir list"
  ns_cfg :: "ns list"
  tx_agc_cfg :: "tx_agc list"
  enable_preproc_mask :: "u32 list"

definition zero_mbadrc :: mbadrc_filter where
  "zero_mbadrc =
     \<lparr>mb_num_bands = 0, down_samp_level = 0, adrc_delay = 0, ext_buf_size = 0,
      ext_partition = 0, ext_buf_msw = 0, ext_buf_lsw = 0,
      adrc_band = replicate 5 (replicate 10 0), ext_buf = replicate 196 0\<rparr>"

text \<open>Static storage starts zeroed.\<close>

definition audpp_init :: audpp where
  "audpp_init =
     \<lparr>iir_cfg = replicate 3 \<lparr>rx_num_bands = 0, rx_iir_params = replicate 48 0\<rparr>,
      adrc_cfg = replicate 3 \<lparr>adrc_params = replicate 8 0\<rparr>,
      mbadrc_cfg = replicate 3 zero_mbadrc,
      equalizer = replicate 3 \<lparr>eq_bands = 0, eq_params = replicate 132 0\<rparr>,
      adrc_flag = replicate 3 0, mbadrc_flag = replicate 3 0, eq_flag = replicate 3 0,
      rx_iir_flag = replicate 3 0, agc_flag = replicate 3 0, ns_flag = replicate 3 0,
      txiir_flag = replicate 3 0, adrc_filter_exists = replicate 3 False,
      mbadrc_filter_exists = replicate 3 False,
      tx_iir_cfg = replicate 9 \<lparr>ti_cmd_id = 0, ti_active_flag = 0, ti_num_bands = 0,
                                ti_iir_params = replicate 48 0\<rparr>,
      ns_cfg = replicate 9 \<lparr>ns_cmd_id = 0, ec_mode_new = 0, dens_gamma_n = 0,
                            dens_nfe_block_size = 0, dens_limit_ns = 0, dens_limit_ns_d = 0,
                            wb_gamma_e = 0, wb_gamma_n = 0\<rparr>,
      tx_agc_cfg = replicate 9 \<lparr>agc_cmd_id = 0, tx_agc_param_mask = 0,
                                tx_agc_enable_flag = 0, static_gain = 0,
                                adaptive_gain_flag = 0, agc_params = replicate 19 0\<rparr>,
      enable_preproc_mask = replicate 9 0\<rparr>"

definition wf_mbadrc :: "mbadrc_filter \<Rightarrow> bool" where
  "wf_mbadrc m \<longleftrightarrow>
     length (adrc_band m) = 5 \<and> list_all (\<lambda>b. length b = 10) (adrc_band m)
     \<and> length (ext_buf m) = 196"

definition wf_audpp :: "audpp \<Rightarrow> bool" where
  "wf_audpp c \<longleftrightarrow>
     length (iir_cfg c) = 3 \<and> list_all (\<lambda>f. length (rx_iir_params f) = 48) (iir_cfg c)
     \<and> length (adrc_cfg c) = 3 \<and> list_all (\<lambda>f. length (adrc_params f) = 8) (adrc_cfg c)
     \<and> length (mbadrc_cfg c) = 3 \<and> list_all wf_mbadrc (mbadrc_cfg c)
     \<and> length (equalizer c) = 3 \<and> list_all (\<lambda>f. length (eq_params f) = 132) (equalizer c)
     \<and> length (adrc_flag c) = 3 \<and> length (mbadrc_flag c) = 3 \<and> length (eq_flag c) = 3
     \<and> length (rx_iir_flag c) = 3 \<and> length (agc_flag c) = 3 \<and> length (ns_flag c) = 3
     \<and> length (txiir_flag c) = 3
     \<and> length (adrc_filter_exists c) = 3 \<and> length (mbadrc_filter_exists c) = 3
     \<and> length (tx_iir_cfg c) = 9 \<and> list_all (\<lambda>f. length (ti_iir_params f) = 48) (tx_iir_cfg c)
     \<and> length (ns_cfg c) = 9
     \<and> length (tx_agc_cfg c) = 9 \<and> list_all (\<lambda>f. length (agc_params f) = 19) (tx_agc_cfg c)
     \<and> length (enable_preproc_mask c) = 9"

lemma wf_audpp_init: "wf_audpp audpp_init"
  by (simp add: wf_audpp_def audpp_init_def wf_mbadrc_def zero_mbadrc_def list_all_iff)

text \<open>Updating one entry of a table keeps a property of all its entries.\<close>

lemma list_all_update:
  "list_all P xs \<Longrightarrow> P v \<Longrightarrow> list_all P (xs[i := v])"
  by (cases "i < length xs") (auto simp: list_all_length nth_list_update list_update_beyond)

lemma list_all_nth_lt: "list_all P xs \<Longrightarrow> i < length xs \<Longrightarrow> P (xs ! i)"
  by (simp add: list_all_length)

end
