(* ===== verification/CStrings.thy ===== *)
theory CStrings
  imports Prelude
begin

text \<open>
  The C library string functions the calibration parser is written with: \<open>strtok\<close> with the
  separator ",", \<open>strtol\<close> on a 32-bit \<open>long\<close>, and the cast of its result to \<open>uint16_t\<close>.
\<close>

section \<open>strtok\<close>

definition comma :: char where "comma = CHR '',''"

text \<open>
  One call: skip separators, NULL at the end of the string, otherwise the token up to the next
  separator and the string after that separator.
\<close>

definition strtok_next :: "string \<Rightarrow> (string \<times> string) option" where
  "strtok_next s =
     (let s' = dropWhile (\<lambda>c. c = comma) s
      in if s' = [] then None
         else Some (takeWhile (\<lambda>c. c \<noteq> comma) s', drop 1 (dropWhile (\<lambda>c. c \<noteq> comma) s')))"

lemma strtok_next_shrinks:
  assumes "strtok_next s = Some (t, r)"
  shows "length r < length s"
proof -
  let ?s = "dropWhile (\<lambda>c. c = comma) s"
  from assms have ne: "?s \<noteq> []" and r: "r = drop 1 (dropWhile (\<lambda>c. c \<noteq> comma) ?s)"
    by (auto simp: strtok_next_def Let_def split: if_splits)
  have "hd ?s \<noteq> comma" using hd_dropWhile [OF ne] by simp
  then obtain c cs where c: "?s = c # cs" "c \<noteq> comma"
    using ne by (cases ?s) auto
  have "length r \<le> length (dropWhile (\<lambda>c. c \<noteq> comma) cs)" using r c by simp
  also have "\<dots> \<le> length cs" by (rule length_dropWhile_le)
  also have "\<dots> < length ?s" using c by simp
  also have "\<dots> \<le> length s" by (rule length_dropWhile_le)
  finally show ?thesis .
qed

text \<open>All the tokens that repeated calls return.\<close>

function tokens :: "string \<Rightarrow> string list" where
  "tokens s = (case strtok_next s of None \<Rightarrow> [] | Some (t, r) \<Rightarrow> t # tokens r)"
  by pat_completeness auto
termination
  by (relation "measure length") (auto simp: strtok_next_shrinks)

declare tokens.simps [simp del]

lemma tokens_None: "strtok_next s = None \<Longrightarrow> tokens s = []"
  by (subst tokens.simps) simp

lemma tokens_Some: "strtok_next s = Some (t, r) \<Longrightarrow> tokens s = t # tokens r"
  by (subst tokens.simps) simp

lemma tokens_Nil_iff: "tokens s = [] \<longleftrightarrow> strtok_next s = None"
  by (subst tokens.simps) (auto split: option.splits)

lemma token_no_comma: "strtok_next s = Some (t, r) \<Longrightarrow> t \<noteq> [] \<and> comma \<notin> set t"
proof -
  assume a: "strtok_next s = Some (t, r)"
  let ?s = "dropWhile (\<lambda>c. c = comma) s"
  from a have ne: "?s \<noteq> []" and t: "t = takeWhile (\<lambda>c. c \<noteq> comma) ?s"
    by (auto simp: strtok_next_def Let_def split: if_splits)
  have "hd ?s \<noteq> comma" using hd_dropWhile [OF ne] by simp
  with ne have "t \<noteq> []" unfolding t by (cases ?s) auto
  moreover have "comma \<notin> set t" unfolding t by (auto dest: set_takeWhileD)
  ultimately show ?thesis by simp
qed

text \<open>A line written with its tokens joined by commas is read back as those tokens.\<close>

fun join :: "string list \<Rightarrow> string" where
  "join [] = []"
| "join [t] = t"
| "join (t # ts) = t @ comma # join ts"

lemma strtok_next_join:
  assumes "t \<noteq> []" "comma \<notin> set t"
  shows "strtok_next (t @ comma # r) = Some (t, r)" and "strtok_next t = Some (t, [])"
proof -
  obtain c cs where c: "t = c # cs" "c \<noteq> comma" using assms by (cases t) auto
  have tw: "takeWhile (\<lambda>c. c \<noteq> comma) (t @ comma # r) = t"
    using assms(2) by (subst takeWhile_append2) auto
  have dw: "dropWhile (\<lambda>c. c \<noteq> comma) (t @ comma # r) = comma # r"
    using assms(2) by (subst dropWhile_append2) auto
  show "strtok_next (t @ comma # r) = Some (t, r)"
    using c tw dw by (simp add: strtok_next_def Let_def)
  have tw': "takeWhile (\<lambda>c. c \<noteq> comma) t = t"
    using assms(2) by (auto simp: takeWhile_eq_all_conv)
  have dw': "dropWhile (\<lambda>c. c \<noteq> comma) t = []"
    using assms(2) by (auto simp: dropWhile_eq_Nil_conv)
  have "dropWhile (\<lambda>c. c = comma) t = t" using c by simp
  then show "strtok_next t = Some (t, [])"
    using assms(1) by (simp add: strtok_next_def Let_def tw' dw')
qed

lemma tokens_join:
  assumes "list_all (\<lambda>t. t \<noteq> [] \<and> comma \<notin> set t) ts"
  shows "tokens (join ts) = ts"
  using assms
proof (induction ts rule: join.induct)
  case 1
  show ?case by (simp add: tokens_None strtok_next_def)
next
  case (2 t)
  then have "strtok_next t = Some (t, [])" by (auto intro: strtok_next_join)
  moreover have "tokens [] = []" by (simp add: tokens_None strtok_next_def)
  ultimately show ?case by (simp add: tokens_Some)
next
  case (3 t u ts)
  then have "strtok_next (join (t # u # ts)) = Some (t, join (u # ts))"
    by (auto intro: strtok_next_join)
  with 3 show ?case by (simp add: tokens_Some)
qed

section \<open>strtol\<close>

definition is_space :: "char \<Rightarrow> bool" where
  "is_space c \<longleftrightarrow> c = CHR '' '' \<or> (9 \<le> (of_char c :: nat) \<and> (of_char c :: nat) \<le> 13)"

definition digit_val :: "char \<Rightarrow> nat option" where
  "digit_val c =
     (let n = (of_char c :: nat)
      in if 48 \<le> n \<and> n \<le> 57 then Some (n - 48)
         else if 65 \<le> n \<and> n \<le> 90 then Some (n - 55)
         else if 97 \<le> n \<and> n \<le> 122 then Some (n - 87)
         else None)"

fun digits_value :: "nat \<Rightarrow> nat \<Rightarrow> string \<Rightarrow> nat" where
  "digits_value base acc [] = acc"
| "digits_value base acc (c # cs) =
     (case digit_val c of
        None \<Rightarrow> acc
      | Some d \<Rightarrow> if d < base then digits_value base (acc * base + d) cs else acc)"

definition strip_0x :: "string \<Rightarrow> string" where
  "strip_0x s =
     (case s of a # b # r \<Rightarrow>
        if a = CHR ''0'' \<and> (b = CHR ''x'' \<or> b = CHR ''X'') then r else s
      | _ \<Rightarrow> s)"

text \<open>\<open>long\<close> is 32 bits on the target: \<open>strtol\<close> saturates there.\<close>

definition clamp_long :: "int \<Rightarrow> int" where
  "clamp_long x = max (- (2 ^ 31)) (min (2 ^ 31 - 1) x)"

definition strtol16 :: "string \<Rightarrow> int" where
  "strtol16 s =
     (case dropWhile is_space s of
        [] \<Rightarrow> 0
      | c # r \<Rightarrow>
          if c = CHR ''-'' then clamp_long (- int (digits_value 16 0 (strip_0x r)))
          else if c = CHR ''+'' then clamp_long (int (digits_value 16 0 (strip_0x r)))
          else clamp_long (int (digits_value 16 0 (strip_0x (c # r)))))"

text \<open>\<open>(uint16_t)strtol(p, &ps, 16)\<close>\<close>

definition hex16 :: "string \<Rightarrow> u16" where
  "hex16 s = word_of_int (strtol16 s)"

lemma strtol16_range: "- (2 ^ 31) \<le> strtol16 s \<and> strtol16 s \<le> 2 ^ 31 - 1"
  by (auto simp: strtol16_def clamp_long_def split: list.splits)

lemma uint_hex16: "uint (hex16 s) = strtol16 s mod 65536"
  by (simp add: hex16_def uint_word_of_int)

end
