(* ===== verification/AudppParser.thy ===== *)
theory AudppParser
  imports FilterTypes CStrings
begin

text \<open>
  \<open>check_and_set_audpp_parameters\<close> and \<open>get_audpp_filter\<close> of \<open>audio/AudioHardware.cpp\<close>: the
  reader of \<open>/system/etc/AudioFilter.csv\<close>. A record of the file is a list of steps, each a
  \<open>strtok\<close> call (\<open>Tok\<close>), the store of the current token read as hexadecimal (\<open>Put\<close>, \<open>None\<close>
  when the C code would write outside the array), a local variable (\<open>Loc\<close>) or an assignment
  that reads no token (\<open>Fix\<close>). After the first failure nothing more is stored, as after
  \<open>goto token_err\<close>; what was stored before stays.
\<close>

section \<open>Parser state and steps\<close>

datatype perr = Malformed | Overrun | EqLibMissing

record pst =
  p_cur :: string
  p_rest :: string
  p_loc :: "u16 list"
  p_err :: "perr option"
  p_tab :: audpp

datatype pstep =
    Tok
  | Put "u16 \<Rightarrow> audpp \<Rightarrow> audpp option"
  | Loc
  | Fix "u16 list \<Rightarrow> audpp \<Rightarrow> audpp"

fun pstep_run :: "pstep \<Rightarrow> pst \<Rightarrow> pst" where
  "pstep_run Tok p =
     (if p_err p \<noteq> None then p
      else case strtok_next (p_rest p) of
             None \<Rightarrow> p\<lparr>p_err := Some Malformed\<rparr>
           | Some (t, r) \<Rightarrow> p\<lparr>p_cur := t, p_rest := r\<rparr>)"
| "pstep_run (Put f) p =
     (if p_err p \<noteq> None then p
      else case f (hex16 (p_cur p)) (p_tab p) of
             None \<Rightarrow> p\<lparr>p_err := Some Overrun\<rparr>
           | Some c \<Rightarrow> p\<lparr>p_tab := c\<rparr>)"
| "pstep_run Loc p =
     (if p_err p \<noteq> None then p else p\<lparr>p_loc := p_loc p @ [hex16 (p_cur p)]\<rparr>)"
| "pstep_run (Fix f) p =
     (if p_err p \<noteq> None then p else p\<lparr>p_tab := f (p_loc p) (p_tab p), p_loc := []\<rparr>)"

definition run_steps :: "pstep list \<Rightarrow> pst \<Rightarrow> pst" where
  "run_steps ss p = fold pstep_run ss p"

lemma run_steps_Nil [simp]: "run_steps [] p = p"
  by (simp add: run_steps_def)

lemma run_steps_Cons [simp]: "run_steps (x # ss) p = run_steps ss (pstep_run x p)"
  by (simp add: run_steps_def)

lemma run_steps_append: "run_steps (xs @ ys) p = run_steps ys (run_steps xs p)"
  by (simp add: run_steps_def)

definition start :: "string \<Rightarrow> audpp \<Rightarrow> pst" where
  "start buf c = \<lparr>p_cur = [], p_rest = buf, p_loc = [], p_err = None, p_tab = c\<rparr>"

section \<open>Stores\<close>

definition upd_at :: "nat \<Rightarrow> 'a \<Rightarrow> 'a list \<Rightarrow> 'a list option" where
  "upd_at i v xs = (if i < length xs then Some (xs[i := v]) else None)"

definition in_iir :: "nat \<Rightarrow> (rx_iir_filter \<Rightarrow> rx_iir_filter option) \<Rightarrow> audpp \<Rightarrow> audpp option" where
  "in_iir d f c = map_option (\<lambda>x. c\<lparr>iir_cfg := (iir_cfg c)[d := x]\<rparr>) (f (iir_cfg c ! d))"

definition in_adrc :: "nat \<Rightarrow> (adrc_filter \<Rightarrow> adrc_filter option) \<Rightarrow> audpp \<Rightarrow> audpp option" where
  "in_adrc d f c = map_option (\<lambda>x. c\<lparr>adrc_cfg := (adrc_cfg c)[d := x]\<rparr>) (f (adrc_cfg c ! d))"

definition in_mbadrc :: "nat \<Rightarrow> (mbadrc_filter \<Rightarrow> mbadrc_filter option) \<Rightarrow> audpp \<Rightarrow> audpp option" where
  "in_mbadrc d f c =
     map_option (\<lambda>x. c\<lparr>mbadrc_cfg := (mbadrc_cfg c)[d := x]\<rparr>) (f (mbadrc_cfg c ! d))"

definition in_eq :: "nat \<Rightarrow> (eqalizer \<Rightarrow> eqalizer) \<Rightarrow> audpp \<Rightarrow> audpp" where
  "in_eq d f c = c\<lparr>equalizer := (equalizer c)[d := f (equalizer c ! d)]\<rparr>"

definition in_txiir :: "nat \<Rightarrow> (tx_iir \<Rightarrow> tx_iir option) \<Rightarrow> audpp \<Rightarrow> audpp option" where
  "in_txiir k f c =
     map_option (\<lambda>x. c\<lparr>tx_iir_cfg := (tx_iir_cfg c)[k := x]\<rparr>) (f (tx_iir_cfg c ! k))"

definition in_agc :: "nat \<Rightarrow> (tx_agc \<Rightarrow> tx_agc option) \<Rightarrow> audpp \<Rightarrow> audpp option" where
  "in_agc k f c =
     map_option (\<lambda>x. c\<lparr>tx_agc_cfg := (tx_agc_cfg c)[k := x]\<rparr>) (f (tx_agc_cfg c ! k))"

definition in_ns :: "nat \<Rightarrow> (ns \<Rightarrow> ns) \<Rightarrow> audpp \<Rightarrow> audpp option" where
  "in_ns k f c = Some (c\<lparr>ns_cfg := (ns_cfg c)[k := f (ns_cfg c ! k)]\<rparr>)"

definition set_mask :: "nat \<Rightarrow> u32 \<Rightarrow> audpp \<Rightarrow> audpp" where
  "set_mask k b c =
     c\<lparr>enable_preproc_mask := (enable_preproc_mask c)[k := enable_preproc_mask c ! k OR b]\<rparr>"

section \<open>The records of the file\<close>

text \<open>Every record starts with the table header and its description.\<close>

definition header_steps :: "pstep list" where
  "header_steps = [Tok, Tok]"

text \<open>\<open>A1\<close>-\<open>A3\<close>: the RX IIR filter.\<close>

definition steps_A :: "nat \<Rightarrow> pstep list" where
  "steps_A d =
     header_steps @ [Tok]
     @ concat (map (\<lambda>i. [Put (\<lambda>v. in_iir d (\<lambda>f. map_option (\<lambda>xs. f\<lparr>rx_iir_params := xs\<rparr>)
                                                   (upd_at i v (rx_iir_params f)))),
                         Tok]) [0..<48])
     @ [Put (\<lambda>v c. Some (c\<lparr>rx_iir_flag := (rx_iir_flag c)[d := v]\<rparr>)), Tok,
        Put (\<lambda>v. in_iir d (\<lambda>f. Some (f\<lparr>rx_num_bands := v\<rparr>)))]"

text \<open>\<open>B1\<close>-\<open>B3\<close>: the ADRC filter.\<close>

definition steps_B :: "nat \<Rightarrow> pstep list" where
  "steps_B d =
     [Fix (\<lambda>_ c. c\<lparr>adrc_filter_exists := (adrc_filter_exists c)[d := True]\<rparr>)]
     @ header_steps
     @ [Tok, Put (\<lambda>v c. Some (c\<lparr>adrc_flag := (adrc_flag c)[d := v]\<rparr>))]
     @ concat (map (\<lambda>i. [Tok, Put (\<lambda>v. in_adrc d (\<lambda>f. map_option (\<lambda>xs. f\<lparr>adrc_params := xs\<rparr>)
                                                          (upd_at i v (adrc_params f))))]) [0..<8])
     @ [Tok]"

text \<open>
  \<open>C1\<close>-\<open>C3\<close>: the equalizer. \<open>audioeq_calccoefs\<close> of \<open>libaudioeq.so\<close> is a parameter:
  from gain, frequency, type and quality it computes six numerators, four denominators and the
  shift, of which the first is kept.
\<close>

type_synonym eq_cal = "u16 \<Rightarrow> u16 \<Rightarrow> u16 \<Rightarrow> u16 \<Rightarrow> u16 list \<times> u16 list \<times> u16"

definition write_at :: "nat \<Rightarrow> u16 list \<Rightarrow> u16 list \<Rightarrow> u16 list" where
  "write_at off vs xs = fold (\<lambda>j ys. ys[off + j := vs ! j]) [0..<length vs] xs"

definition store_coefs :: "eq_cal \<Rightarrow> nat \<Rightarrow> u16 list \<Rightarrow> eqalizer \<Rightarrow> eqalizer" where
  "store_coefs cal i loc e =
     (let (num, den, sh) = cal (loc ! 0) (loc ! 1) (loc ! 2) (loc ! 3);
          b = unat (eq_bands e)
      in e\<lparr>eq_params :=
             (write_at (b * 6 + i * 4) (take 4 den)
               (write_at (i * 6) (take 6 num) (eq_params e)))[b * 10 + i := sh]\<rparr>)"

definition steps_C_head :: "nat \<Rightarrow> pstep list" where
  "steps_C_head d =
     header_steps
     @ [Tok, Put (\<lambda>v c. Some (c\<lparr>eq_flag := (eq_flag c)[d := v]\<rparr>)), Tok]"

definition steps_C_bands :: "eq_cal \<Rightarrow> nat \<Rightarrow> pstep list" where
  "steps_C_bands cal d =
     [Fix (\<lambda>_. in_eq d (\<lambda>_. \<lparr>eq_bands = 8, eq_params = replicate 132 0\<rparr>))]
     @ concat (map (\<lambda>i. [Loc, Tok, Loc, Tok, Loc, Tok, Loc, Tok,
                         Fix (\<lambda>loc. in_eq d (store_coefs cal i loc))]) [0..<8])"

text \<open>\<open>D1\<close>-\<open>D3\<close>: the multi-band ADRC filter; two loop bounds are values just read.\<close>

definition steps_D_head :: "nat \<Rightarrow> pstep list" where
  "steps_D_head d =
     [Fix (\<lambda>_ c. c\<lparr>mbadrc_filter_exists := (mbadrc_filter_exists c)[d := True]\<rparr>)]
     @ header_steps
     @ [Tok, Put (\<lambda>v. in_mbadrc d (\<lambda>f. Some (f\<lparr>mb_num_bands := v\<rparr>))),
        Tok, Put (\<lambda>v. in_mbadrc d (\<lambda>f. Some (f\<lparr>down_samp_level := v\<rparr>))),
        Tok, Put (\<lambda>v. in_mbadrc d (\<lambda>f. Some (f\<lparr>adrc_delay := v\<rparr>))),
        Tok, Put (\<lambda>v. in_mbadrc d (\<lambda>f. Some (f\<lparr>ext_buf_size := v\<rparr>))),
        Tok, Put (\<lambda>v. in_mbadrc d (\<lambda>f. Some (f\<lparr>ext_partition := v\<rparr>))),
        Tok, Put (\<lambda>v. in_mbadrc d (\<lambda>f. Some (f\<lparr>ext_buf_msw := v\<rparr>))),
        Tok, Put (\<lambda>v. in_mbadrc d (\<lambda>f. Some (f\<lparr>ext_buf_lsw := v\<rparr>)))]"

definition put_band :: "nat \<Rightarrow> nat \<Rightarrow> nat \<Rightarrow> pstep" where
  "put_band d i j =
     Put (\<lambda>v. in_mbadrc d (\<lambda>f.
       if i < length (adrc_band f)
       then map_option (\<lambda>b. f\<lparr>adrc_band := (adrc_band f)[i := b]\<rparr>) (upd_at j v (adrc_band f ! i))
       else None))"

definition steps_D_bands :: "nat \<Rightarrow> nat \<Rightarrow> pstep list" where
  "steps_D_bands d n =
     concat (map (\<lambda>i. concat (map (\<lambda>j. [Tok, put_band d i j]) [0..<10])) [0..<n])"

definition put_ext :: "nat \<Rightarrow> nat \<Rightarrow> pstep" where
  "put_ext d i =
     Put (\<lambda>v. in_mbadrc d (\<lambda>f. map_option (\<lambda>xs. f\<lparr>ext_buf := xs\<rparr>) (upd_at i v (ext_buf f))))"

definition steps_D_ext :: "nat \<Rightarrow> nat \<Rightarrow> pstep list" where
  "steps_D_ext d n = concat (map (\<lambda>i. [Tok, put_ext d i]) [0..<n])"

definition steps_D_tail :: "nat \<Rightarrow> pstep list" where
  "steps_D_tail d = [Tok, Put (\<lambda>v c. Some (c\<lparr>mbadrc_flag := (mbadrc_flag c)[d := v]\<rparr>))]"

text \<open>
  \<open>E1\<close>-\<open>E9\<close>, \<open>F1\<close>-\<open>F9\<close>, \<open>G1\<close>-\<open>G9\<close>: the recording filters of one sampling rate. Their
  enable flags are stored at \<open>device_id\<close>, which is 0 in this branch.
\<close>

definition txiir_slot :: "nat \<Rightarrow> nat" where
  "txiir_slot i = (if i \<ge> 40 then i else if i mod 2 \<noteq> 0 then i - 1 else i + 1)"

definition steps_E :: "nat \<Rightarrow> pstep list" where
  "steps_E k =
     header_steps @ [Tok]
     @ concat (map (\<lambda>i. [Put (\<lambda>v. in_txiir k (\<lambda>f. map_option (\<lambda>xs. f\<lparr>ti_iir_params := xs\<rparr>)
                                                     (upd_at (txiir_slot i) v (ti_iir_params f)))),
                         Tok]) [0..<48])
     @ [Put (\<lambda>v. in_txiir k (\<lambda>f. Some (f\<lparr>ti_active_flag := v\<rparr>))), Tok,
        Put (\<lambda>v c. Some (c\<lparr>txiir_flag := (txiir_flag c)[0 := v]\<rparr>)), Tok,
        Put (\<lambda>v. in_txiir k (\<lambda>f. Some (f\<lparr>ti_num_bands := v\<rparr>))),
        Fix (\<lambda>_ c. c\<lparr>tx_iir_cfg := (tx_iir_cfg c)[k := (tx_iir_cfg c ! k)\<lparr>ti_cmd_id := 0\<rparr>]\<rparr>),
        Fix (\<lambda>_ c. if txiir_flag c ! 0 \<noteq> 0 then set_mask k TX_IIR_ENABLE c else c)]"

definition steps_F :: "nat \<Rightarrow> pstep list" where
  "steps_F k =
     header_steps
     @ [Tok, Put (\<lambda>v. in_agc k (\<lambda>f. Some (f\<lparr>agc_cmd_id := v\<rparr>))),
        Tok, Put (\<lambda>v. in_agc k (\<lambda>f. Some (f\<lparr>tx_agc_param_mask := v\<rparr>))),
        Tok, Put (\<lambda>v. in_agc k (\<lambda>f. Some (f\<lparr>tx_agc_enable_flag := v\<rparr>))),
        Tok, Put (\<lambda>v. in_agc k (\<lambda>f. Some (f\<lparr>static_gain := v\<rparr>))),
        Tok, Put (\<lambda>v. in_agc k (\<lambda>f. Some (f\<lparr>adaptive_gain_flag := v\<rparr>))),
        Tok]
     @ concat (map (\<lambda>i. [Put (\<lambda>v. in_agc k (\<lambda>f. map_option (\<lambda>xs. f\<lparr>agc_params := xs\<rparr>)
                                                   (upd_at i v (agc_params f)))),
                         Tok]) [0..<19])
     @ [Put (\<lambda>v c. Some (c\<lparr>agc_flag := (agc_flag c)[0 := v]\<rparr>)),
        Fix (\<lambda>_ c. if agc_flag c ! 0 \<noteq> 0 then set_mask k AGC_ENABLE c else c)]"

definition steps_G :: "nat \<Rightarrow> pstep list" where
  "steps_G k =
     header_steps
     @ [Tok, Put (\<lambda>v. in_ns k (\<lambda>f. f\<lparr>ns_cmd_id := v\<rparr>)),
        Tok, Put (\<lambda>v. in_ns k (\<lambda>f. f\<lparr>ec_mode_new := v\<rparr>)),
        Tok, Put (\<lambda>v. in_ns k (\<lambda>f. f\<lparr>dens_gamma_n := v\<rparr>)),
        Tok, Put (\<lambda>v. in_ns k (\<lambda>f. f\<lparr>dens_nfe_block_size := v\<rparr>)),
        Tok, Put (\<lambda>v. in_ns k (\<lambda>f. f\<lparr>dens_limit_ns := v\<rparr>)),
        Tok, Put (\<lambda>v. in_ns k (\<lambda>f. f\<lparr>dens_limit_ns_d := v\<rparr>)),
        Tok, Put (\<lambda>v. in_ns k (\<lambda>f. f\<lparr>wb_gamma_e := v\<rparr>)),
        Tok, Put (\<lambda>v. in_ns k (\<lambda>f. f\<lparr>wb_gamma_n := v\<rparr>)),
        Tok, Put (\<lambda>v c. Some (c\<lparr>ns_flag := (ns_flag c)[0 := v]\<rparr>)),
        Fix (\<lambda>_ c. if ns_flag c ! 0 \<noteq> 0 then set_mask k NS_ENABLE c else c)]"

section \<open>check_and_set_audpp_parameters\<close>

text \<open>
  The return codes: 0, \<open>-EINVAL\<close>, -1 when \<open>libaudioeq.so\<close> is missing; \<open>Clobbered\<close> stands
  for a write outside an array, where the C code has no defined behaviour.
\<close>

datatype parse_ret = Parsed | Rejected | NoEqLib | Clobbered

definition finish :: "pst \<Rightarrow> parse_ret \<times> audpp" where
  "finish p =
     (case p_err p of
        None \<Rightarrow> Parsed
      | Some Malformed \<Rightarrow> Rejected
      | Some EqLibMissing \<Rightarrow> NoEqLib
      | Some Overrun \<Rightarrow> Clobbered, p_tab p)"

definition nth_c :: "string \<Rightarrow> nat \<Rightarrow> char" where
  "nth_c s i = (if i < length s then s ! i else CHR 0x00)"

definition device_index :: "char \<Rightarrow> nat option" where
  "device_index ch =
     (if ch = CHR ''1'' then Some 0 else if ch = CHR ''2'' then Some 1
      else if ch = CHR ''3'' then Some 2 else None)"

definition samp_digit :: "char \<Rightarrow> nat option" where
  "samp_digit ch =
     (let n = (of_char ch :: nat) in if 49 \<le> n \<and> n \<le> 57 then Some (n - 49) else None)"

definition parse_C :: "eq_cal option \<Rightarrow> nat \<Rightarrow> pst \<Rightarrow> pst" where
  "parse_C eqlib d p =
     (let p1 = run_steps (steps_C_head d) p
      in if p_err p1 \<noteq> None then p1
         else case eqlib of
                None \<Rightarrow> p1\<lparr>p_err := Some EqLibMissing\<rparr>
              | Some cal \<Rightarrow> run_steps (steps_C_bands cal d) p1)"

definition parse_D :: "nat \<Rightarrow> pst \<Rightarrow> pst" where
  "parse_D d p =
     (let p1 = run_steps (steps_D_head d) p;
          f = mbadrc_cfg (p_tab p1) ! d;
          p2 = run_steps (steps_D_bands d (unat (mb_num_bands f))) p1;
          p3 = run_steps (steps_D_ext d (unat (ext_buf_size f) div 2)) p2
      in run_steps (steps_D_tail d) p3)"

definition check_and_set_audpp_parameters ::
  "eq_cal option \<Rightarrow> string \<Rightarrow> audpp \<Rightarrow> parse_ret \<times> audpp"
where
  "check_and_set_audpp_parameters eqlib buf c =
     (let b0 = nth_c buf 0; b1 = nth_c buf 1; p = start buf c
      in case (if b0 \<in> set ''ABCD'' then device_index b1 else None) of
           Some d \<Rightarrow>
             finish (if b0 = CHR ''A'' then run_steps (steps_A d) p
                     else if b0 = CHR ''B'' then run_steps (steps_B d) p
                     else if b0 = CHR ''C'' then parse_C eqlib d p
                     else parse_D d p)
         | None \<Rightarrow>
             if b0 \<in> set ''EFG'' then
               (case samp_digit b1 of
                  None \<Rightarrow> (Rejected, c)
                | Some k \<Rightarrow>
                    finish (run_steps (if b0 = CHR ''E'' then steps_E k
                                       else if b0 = CHR ''F'' then steps_F k
                                       else steps_G k) p))
             else (Parsed, c))"

section \<open>get_audpp_filter: the lines of the file\<close>

text \<open>The text up to the next newline, or none: \<open>strchr\<close> stops at a NUL byte.\<close>

definition newline :: char where "newline = CHR 0x0A"

definition split_line :: "string \<Rightarrow> (string \<times> string) option" where
  "split_line cs =
     (let line = takeWhile (\<lambda>ch. ch \<noteq> newline \<and> ch \<noteq> CHR 0x00) cs
      in case drop (length line) cs of
           [] \<Rightarrow> None
         | ch # rest \<Rightarrow> if ch = newline then Some (line, rest) else None)"

lemma split_line_shrinks: "split_line cs = Some (line, rest) \<Longrightarrow> length rest < length cs"
proof -
  assume a: "split_line cs = Some (line, rest)"
  let ?l = "takeWhile (\<lambda>ch. ch \<noteq> newline \<and> ch \<noteq> CHR 0x00) cs"
  from a obtain ch where "drop (length ?l) cs = ch # rest"
    by (auto simp: split_line_def Let_def split: list.splits if_splits)
  then have "length (drop (length ?l) cs) = Suc (length rest)" by simp
  then show ?thesis by simp
qed

function parse_lines :: "eq_cal option \<Rightarrow> string \<Rightarrow> audpp \<Rightarrow> parse_ret \<times> audpp" where
  "parse_lines eqlib cs c =
     (if cs \<noteq> [] \<and> hd cs = CHR 0xFF then (Parsed, c)
      else case split_line cs of
             None \<Rightarrow> (Parsed, c)
           | Some (line, rest) \<Rightarrow>
               (case check_and_set_audpp_parameters eqlib line c of
                  (r, c') \<Rightarrow> if r = Parsed then parse_lines eqlib rest c' else (r, c')))"
  by pat_completeness auto
termination
  by (relation "measure (\<lambda>(_, cs, _). length cs)") (auto dest: split_line_shrinks)

declare parse_lines.simps [simp del]

end
