(* ===== verification/AudppProps.thy ===== *)
theory AudppProps
  imports AudppParser
begin

text \<open>
  Correctness of the calibration parser: a record is accepted exactly when it has enough
  tokens, the stores of the fixed-size records stay inside their arrays, and what is stored
  are the hexadecimal values of the tokens.
\<close>

section \<open>Runs of safe steps\<close>

fun is_tok :: "pstep \<Rightarrow> bool" where
  "is_tok Tok = True"
| "is_tok _ = False"

definition ntok :: "pstep list \<Rightarrow> nat" where
  "ntok ss = length (filter is_tok ss)"

lemma ntok_append [simp]: "ntok (xs @ ys) = ntok xs + ntok ys"
  by (simp add: ntok_def)

lemma ntok_simps [simp]:
  "ntok [] = 0" "ntok (Tok # ss) = Suc (ntok ss)" "ntok (Put f # ss) = ntok ss"
  "ntok (Loc # ss) = ntok ss" "ntok (Fix g # ss) = ntok ss"
  by (simp_all add: ntok_def)

lemma ntok_concat: "ntok (concat (map f xs)) = sum_list (map (\<lambda>x. ntok (f x)) xs)"
  by (induction xs) simp_all

text \<open>A step that keeps the table property \<open>W\<close> and never writes outside an array.\<close>

fun safe_step :: "(audpp \<Rightarrow> bool) \<Rightarrow> pstep \<Rightarrow> bool" where
  "safe_step W Tok = True"
| "safe_step W Loc = True"
| "safe_step W (Put f) = (\<forall>v c. W c \<longrightarrow> (\<exists>c'. f v c = Some c' \<and> W c'))"
| "safe_step W (Fix f) = (\<forall>l c. W c \<longrightarrow> W (f l c))"

lemma run_steps_failed: "p_err p \<noteq> None \<Longrightarrow> run_steps ss p = p"
proof (induction ss arbitrary: p)
  case Nil
  then show ?case by simp
next
  case (Cons x ss)
  then have "pstep_run x p = p" by (cases x) auto
  with Cons show ?case by simp
qed

lemma pstep_run_safe:
  assumes "safe_step W x" "W (p_tab p)" "p_err p = None"
  shows "W (p_tab (pstep_run x p))
    \<and> p_err (pstep_run x p) =
          (if is_tok x \<and> tokens (p_rest p) = [] then Some Malformed else None)
    \<and> tokens (p_rest (pstep_run x p)) =
          (if is_tok x then drop 1 (tokens (p_rest p)) else tokens (p_rest p))
    \<and> p_cur (pstep_run x p) =
          (if is_tok x \<and> tokens (p_rest p) \<noteq> [] then hd (tokens (p_rest p)) else p_cur p)"
proof (cases x)
  case Tok
  show ?thesis
  proof (cases "strtok_next (p_rest p)")
    case None
    with Tok assms show ?thesis by (simp add: tokens_None)
  next
    case (Some tr)
    obtain t r where tr: "tr = (t, r)" by (cases tr)
    with Tok assms Some show ?thesis by (simp add: tokens_Some)
  qed
next
  case (Put f)
  with assms obtain c' where "f (hex16 (p_cur p)) (p_tab p) = Some c'" "W c'" by fastforce
  with Put assms show ?thesis by simp
next
  case Loc
  with assms show ?thesis by simp
next
  case (Fix f)
  with assms show ?thesis by simp
qed

lemma run_steps_safe:
  assumes "list_all (safe_step W) ss" "W (p_tab p)" "p_err p = None"
  shows "W (p_tab (run_steps ss p))
     \<and> p_err (run_steps ss p) =
         (if ntok ss \<le> length (tokens (p_rest p)) then None else Some Malformed)
     \<and> (p_err (run_steps ss p) = None \<longrightarrow>
          tokens (p_rest (run_steps ss p)) = drop (ntok ss) (tokens (p_rest p)))"
  using assms
proof (induction ss arbitrary: p)
  case Nil
  then show ?case by simp
next
  case (Cons x ss)
  let ?q = "pstep_run x p"
  have safe: "safe_step W x" "list_all (safe_step W) ss" using Cons.prems by auto
  note one = pstep_run_safe [OF safe(1) Cons.prems(2,3)]
  show ?case
  proof (cases "is_tok x \<and> tokens (p_rest p) = []")
    case True
    then have e: "p_err ?q = Some Malformed" using one by simp
    then have "run_steps ss ?q = ?q" by (simp add: run_steps_failed)
    with True e one show ?thesis by (cases x) auto
  next
    case False
    then have e: "p_err ?q = None" using one by auto
    have n: "ntok (x # ss) = (if is_tok x then Suc (ntok ss) else ntok ss)" by (cases x) simp_all
    have le: "(ntok (x # ss) \<le> length (tokens (p_rest p))) = (ntok ss \<le> length (tokens (p_rest ?q)))"
      using False n one by (cases "tokens (p_rest p)") auto
    have d: "drop (ntok ss) (tokens (p_rest ?q)) = drop (ntok (x # ss)) (tokens (p_rest p))"
      using n one by (cases "tokens (p_rest p)") auto
    from Cons.IH [OF safe(2) conjunct1 [OF one] e] le d show ?thesis by simp
  qed
qed

lemmas run_steps_tab = run_steps_safe [THEN conjunct1]
  and run_steps_err = run_steps_safe [THEN conjunct2, THEN conjunct1]
  and run_steps_rest = run_steps_safe [THEN conjunct2, THEN conjunct2, THEN mp]

section \<open>The stores keep the table well-formed\<close>

lemma upd_at_Some [simp]: "i < length xs \<Longrightarrow> upd_at i v xs = Some (xs[i := v])"
  by (simp add: upd_at_def)

lemma txiir_slot_less: "i < 48 \<Longrightarrow> txiir_slot i < 48"
  by (auto simp: txiir_slot_def)

lemma in_iir_safe:
  assumes "d < 3" "wf_audpp c"
    and "\<And>f. length (rx_iir_params f) = 48 \<Longrightarrow> \<exists>f'. g f = Some f' \<and> length (rx_iir_params f') = 48"
  shows "\<exists>c'. in_iir d g c = Some c' \<and> wf_audpp c'"
proof -
  have "length (rx_iir_params (iir_cfg c ! d)) = 48"
    using assms(1,2) by (auto simp: wf_audpp_def list_all_length)
  then obtain f' where "g (iir_cfg c ! d) = Some f'" "length (rx_iir_params f') = 48"
    using assms(3) by blast
  with assms(1,2) show ?thesis by (simp add: in_iir_def wf_audpp_def list_all_update)
qed

lemma in_adrc_safe:
  assumes "d < 3" "wf_audpp c"
    and "\<And>f. length (adrc_params f) = 8 \<Longrightarrow> \<exists>f'. g f = Some f' \<and> length (adrc_params f') = 8"
  shows "\<exists>c'. in_adrc d g c = Some c' \<and> wf_audpp c'"
proof -
  have "length (adrc_params (adrc_cfg c ! d)) = 8"
    using assms(1,2) by (auto simp: wf_audpp_def list_all_length)
  then obtain f' where "g (adrc_cfg c ! d) = Some f'" "length (adrc_params f') = 8"
    using assms(3) by blast
  with assms(1,2) show ?thesis by (simp add: in_adrc_def wf_audpp_def list_all_update)
qed

lemma in_mbadrc_safe:
  assumes "d < 3" "wf_audpp c" "\<And>f. wf_mbadrc f \<Longrightarrow> \<exists>f'. g f = Some f' \<and> wf_mbadrc f'"
  shows "\<exists>c'. in_mbadrc d g c = Some c' \<and> wf_audpp c'"
proof -
  have "wf_mbadrc (mbadrc_cfg c ! d)"
    using assms(1,2) by (auto simp: wf_audpp_def list_all_length)
  then obtain f' where "g (mbadrc_cfg c ! d) = Some f'" "wf_mbadrc f'"
    using assms(3) by blast
  with assms(1,2) show ?thesis by (simp add: in_mbadrc_def wf_audpp_def list_all_update)
qed

lemma in_txiir_safe:
  assumes "k < 9" "wf_audpp c"
    and "\<And>f. length (ti_iir_params f) = 48 \<Longrightarrow> \<exists>f'. g f = Some f' \<and> length (ti_iir_params f') = 48"
  shows "\<exists>c'. in_txiir k g c = Some c' \<and> wf_audpp c'"
proof -
  have "length (ti_iir_params (tx_iir_cfg c ! k)) = 48"
    using assms(1,2) by (auto simp: wf_audpp_def list_all_length)
  then obtain f' where "g (tx_iir_cfg c ! k) = Some f'" "length (ti_iir_params f') = 48"
    using assms(3) by blast
  with assms(1,2) show ?thesis by (simp add: in_txiir_def wf_audpp_def list_all_update)
qed

lemma in_agc_safe:
  assumes "k < 9" "wf_audpp c"
    and "\<And>f. length (agc_params f) = 19 \<Longrightarrow> \<exists>f'. g f = Some f' \<and> length (agc_params f') = 19"
  shows "\<exists>c'. in_agc k g c = Some c' \<and> wf_audpp c'"
proof -
  have "length (agc_params (tx_agc_cfg c ! k)) = 19"
    using assms(1,2) by (auto simp: wf_audpp_def list_all_length)
  then obtain f' where "g (tx_agc_cfg c ! k) = Some f'" "length (agc_params f') = 19"
    using assms(3) by blast
  with assms(1,2) show ?thesis by (simp add: in_agc_def wf_audpp_def list_all_update)
qed

lemma in_ns_safe: "wf_audpp c \<Longrightarrow> \<exists>c'. in_ns k g c = Some c' \<and> wf_audpp c'"
  by (simp add: in_ns_def wf_audpp_def)

lemma set_mask_wf: "wf_audpp c \<Longrightarrow> wf_audpp (set_mask k b c)"
  by (simp add: set_mask_def wf_audpp_def)

lemma write_at_length [simp]: "length (write_at off vs xs) = length xs"
proof -
  have "length (fold (\<lambda>j ys. ys[off + j := vs ! j]) js xs) = length xs" for js
    by (induction js arbitrary: xs) simp_all
  then show ?thesis by (simp add: write_at_def)
qed

lemma in_eq_wf:
  assumes "d < 3" "wf_audpp c"
    and "\<And>e. length (eq_params e) = 132 \<Longrightarrow> length (eq_params (g e)) = 132"
  shows "wf_audpp (in_eq d g c)"
proof -
  have "length (eq_params (equalizer c ! d)) = 132"
    using assms(1,2) by (auto simp: wf_audpp_def list_all_length)
  with assms show ?thesis by (simp add: in_eq_def wf_audpp_def list_all_update)
qed

lemma wf_header_steps [simp]: "list_all (safe_step W) header_steps"
  by (simp add: header_steps_def)

lemma list_all_concat_map:
  "list_all P (concat (map f xs)) \<longleftrightarrow> (\<forall>x \<in> set xs. list_all P (f x))"
  by (induction xs) simp_all

text \<open>Scalar fields of the table.\<close>

lemma flag_store_wf:
  assumes "wf_audpp c"
  shows "wf_audpp (c\<lparr>rx_iir_flag := (rx_iir_flag c)[d := v]\<rparr>)"
    and "wf_audpp (c\<lparr>adrc_flag := (adrc_flag c)[d := v]\<rparr>)"
    and "wf_audpp (c\<lparr>eq_flag := (eq_flag c)[d := v]\<rparr>)"
    and "wf_audpp (c\<lparr>mbadrc_flag := (mbadrc_flag c)[d := v]\<rparr>)"
    and "wf_audpp (c\<lparr>txiir_flag := (txiir_flag c)[d := v]\<rparr>)"
    and "wf_audpp (c\<lparr>agc_flag := (agc_flag c)[d := v]\<rparr>)"
    and "wf_audpp (c\<lparr>ns_flag := (ns_flag c)[d := v]\<rparr>)"
    and "wf_audpp (c\<lparr>adrc_filter_exists := (adrc_filter_exists c)[d := b]\<rparr>)"
    and "wf_audpp (c\<lparr>mbadrc_filter_exists := (mbadrc_filter_exists c)[d := b]\<rparr>)"
  using assms by (simp_all add: wf_audpp_def)

lemma txiir_cmd_wf:
  assumes "wf_audpp c"
  shows "wf_audpp (c\<lparr>tx_iir_cfg := (tx_iir_cfg c)[k := (tx_iir_cfg c ! k)\<lparr>ti_cmd_id := 0\<rparr>]\<rparr>)"
proof (cases "k < 9")
  case True
  with assms have "length (ti_iir_params (tx_iir_cfg c ! k)) = 48"
    by (auto simp: wf_audpp_def list_all_length)
  with assms show ?thesis by (simp add: wf_audpp_def list_all_update)
next
  case False
  with assms show ?thesis by (simp add: wf_audpp_def list_update_beyond)
qed

lemmas store_safe =
  in_iir_safe in_adrc_safe in_mbadrc_safe in_txiir_safe in_agc_safe in_ns_safe

lemma steps_A_safe: "d < 3 \<Longrightarrow> list_all (safe_step wf_audpp) (steps_A d)"
  by (auto simp: steps_A_def list_all_concat_map flag_store_wf intro!: store_safe)

lemma steps_B_safe: "d < 3 \<Longrightarrow> list_all (safe_step wf_audpp) (steps_B d)"
  by (auto simp: steps_B_def list_all_concat_map flag_store_wf intro!: store_safe)

lemma steps_C_head_safe: "list_all (safe_step wf_audpp) (steps_C_head d)"
  by (auto simp: steps_C_head_def flag_store_wf)

lemma steps_C_bands_safe: "d < 3 \<Longrightarrow> list_all (safe_step wf_audpp) (steps_C_bands cal d)"
  by (auto simp: steps_C_bands_def list_all_concat_map store_coefs_def Let_def
      intro!: in_eq_wf split: prod.splits)

lemma steps_D_head_safe: "d < 3 \<Longrightarrow> list_all (safe_step wf_audpp) (steps_D_head d)"
  by (auto simp: steps_D_head_def flag_store_wf wf_mbadrc_def intro!: store_safe)

lemma put_band_store:
  assumes "wf_mbadrc f" "i < 5" "j < 10"
  shows "upd_at j v (adrc_band f ! i) = Some ((adrc_band f ! i)[j := v])"
    and "wf_mbadrc (f\<lparr>adrc_band := (adrc_band f)[i := (adrc_band f ! i)[j := v]]\<rparr>)"
proof -
  from assms have l: "length (adrc_band f ! i) = 10"
    by (auto simp: wf_mbadrc_def list_all_length)
  with assms show "upd_at j v (adrc_band f ! i) = Some ((adrc_band f ! i)[j := v])" by simp
  from l assms show "wf_mbadrc (f\<lparr>adrc_band := (adrc_band f)[i := (adrc_band f ! i)[j := v]]\<rparr>)"
    by (simp add: wf_mbadrc_def list_all_update)
qed

lemma put_band_safe:
  assumes "d < 3" "i < 5" "j < 10"
  shows "safe_step wf_audpp (put_band d i j)"
proof -
  have "i < length (adrc_band f)" if "wf_mbadrc f" for f
    using that assms by (simp add: wf_mbadrc_def)
  with assms show ?thesis by (auto simp: put_band_def put_band_store intro!: in_mbadrc_safe)
qed

lemma steps_D_bands_safe:
  "d < 3 \<Longrightarrow> n \<le> 5 \<Longrightarrow> list_all (safe_step wf_audpp) (steps_D_bands d n)"
  by (auto simp: steps_D_bands_def list_all_concat_map intro!: put_band_safe)

lemma steps_D_ext_safe:
  "d < 3 \<Longrightarrow> n \<le> 196 \<Longrightarrow> list_all (safe_step wf_audpp) (steps_D_ext d n)"
  by (auto simp: steps_D_ext_def put_ext_def list_all_concat_map wf_mbadrc_def intro!: store_safe)

lemma steps_D_tail_safe: "list_all (safe_step wf_audpp) (steps_D_tail d)"
  by (auto simp: steps_D_tail_def flag_store_wf)

lemma steps_E_safe: "k < 9 \<Longrightarrow> list_all (safe_step wf_audpp) (steps_E k)"
  by (auto simp: steps_E_def list_all_concat_map flag_store_wf set_mask_wf txiir_cmd_wf
      txiir_slot_less intro!: store_safe)

lemma steps_F_safe: "k < 9 \<Longrightarrow> list_all (safe_step wf_audpp) (steps_F k)"
  by (auto simp: steps_F_def list_all_concat_map flag_store_wf set_mask_wf intro!: store_safe)

lemma steps_G_safe: "list_all (safe_step wf_audpp) (steps_G k)"
  by (auto simp: steps_G_def flag_store_wf set_mask_wf intro!: store_safe)

section \<open>How many tokens each record needs\<close>

lemma ntok_header [simp]: "ntok header_steps = 2"
  by (simp add: header_steps_def)

lemma ntok_steps:
  "ntok (steps_A d) = 52" "ntok (steps_B d) = 12" "ntok (steps_C_head d) = 4"
  "ntok (steps_C_bands cal d) = 32" "ntok (steps_D_head d) = 9"
  "ntok (steps_E k) = 53" "ntok (steps_F k) = 27" "ntok (steps_G k) = 11"
  "ntok (steps_D_bands d n) = 10 * n" "ntok (steps_D_ext d n) = n" "ntok (steps_D_tail d) = 1"
  by (simp_all add: steps_A_def steps_B_def steps_C_head_def steps_C_bands_def steps_D_head_def
      steps_E_def steps_F_def steps_G_def steps_D_bands_def steps_D_ext_def steps_D_tail_def
      put_band_def put_ext_def ntok_concat sum_list_triv)

section \<open>Records of the file: acceptance\<close>

lemma start_simps [simp]:
  "p_rest (start buf c) = buf" "p_err (start buf c) = None" "p_tab (start buf c) = c"
  "p_loc (start buf c) = []"
  by (simp_all add: start_def)

lemma finish_run:
  assumes "list_all (safe_step wf_audpp) ss" "wf_audpp (p_tab p)" "p_err p = None"
  shows "fst (finish (run_steps ss p)) =
           (if ntok ss \<le> length (tokens (p_rest p)) then Parsed else Rejected)"
    and "wf_audpp (snd (finish (run_steps ss p)))"
  using run_steps_err [OF assms] run_steps_tab [OF assms] by (simp_all add: finish_def)

lemma device_index_less: "device_index ch = Some d \<Longrightarrow> d < 3"
  by (auto simp: device_index_def split: if_splits)

lemma samp_digit_less: "samp_digit ch = Some k \<Longrightarrow> k < 9"
  by (auto simp: samp_digit_def Let_def split: if_splits)

text \<open>Which step list a record is run through.\<close>

lemma check_as_run:
  "nth_c buf 0 = CHR ''A'' \<Longrightarrow> device_index (nth_c buf 1) = Some d \<Longrightarrow>
     check_and_set_audpp_parameters eqlib buf c = finish (run_steps (steps_A d) (start buf c))"
  "nth_c buf 0 = CHR ''B'' \<Longrightarrow> device_index (nth_c buf 1) = Some d \<Longrightarrow>
     check_and_set_audpp_parameters eqlib buf c = finish (run_steps (steps_B d) (start buf c))"
  "nth_c buf 0 = CHR ''C'' \<Longrightarrow> device_index (nth_c buf 1) = Some d \<Longrightarrow>
     check_and_set_audpp_parameters eqlib buf c = finish (parse_C eqlib d (start buf c))"
  "nth_c buf 0 = CHR ''D'' \<Longrightarrow> device_index (nth_c buf 1) = Some d \<Longrightarrow>
     check_and_set_audpp_parameters eqlib buf c = finish (parse_D d (start buf c))"
  "nth_c buf 0 = CHR ''E'' \<Longrightarrow> samp_digit (nth_c buf 1) = Some k \<Longrightarrow>
     check_and_set_audpp_parameters eqlib buf c = finish (run_steps (steps_E k) (start buf c))"
  "nth_c buf 0 = CHR ''F'' \<Longrightarrow> samp_digit (nth_c buf 1) = Some k \<Longrightarrow>
     check_and_set_audpp_parameters eqlib buf c = finish (run_steps (steps_F k) (start buf c))"
  "nth_c buf 0 = CHR ''G'' \<Longrightarrow> samp_digit (nth_c buf 1) = Some k \<Longrightarrow>
     check_and_set_audpp_parameters eqlib buf c = finish (run_steps (steps_G k) (start buf c))"
  by (simp_all add: check_and_set_audpp_parameters_def Let_def)

text \<open>
  The selector of a record: the kind and the entry (output device or recording rate) its
  first two characters name. Other lines are skipped, except an \<open>E\<close>, \<open>F\<close> or \<open>G\<close> line with a
  bad rate digit, which is an error.
\<close>

datatype selector = Rx nat | Tx nat | BadTx | Skip

definition selector :: "string \<Rightarrow> selector" where
  "selector buf =
     (case (if nth_c buf 0 \<in> set ''ABCD'' then device_index (nth_c buf 1) else None) of
        Some d \<Rightarrow> Rx d
      | None \<Rightarrow> if nth_c buf 0 \<in> set ''EFG''
                then (case samp_digit (nth_c buf 1) of None \<Rightarrow> BadTx | Some k \<Rightarrow> Tx k)
                else Skip)"

lemma check_skips:
  "selector buf = Skip \<Longrightarrow> check_and_set_audpp_parameters eqlib buf c = (Parsed, c)"
  "selector buf = BadTx \<Longrightarrow> check_and_set_audpp_parameters eqlib buf c = (Rejected, c)"
  by (auto simp: check_and_set_audpp_parameters_def selector_def Let_def
      split: option.splits if_splits)

lemma selector_Rx:
  assumes "selector buf = Rx d"
  shows "device_index (nth_c buf 1) = Some d \<and> d < 3 \<and> nth_c buf 0 \<in> set ''ABCD''"
proof -
  from assms have "device_index (nth_c buf 1) = Some d \<and> nth_c buf 0 \<in> set ''ABCD''"
    by (simp add: selector_def split: option.splits if_split_asm)
  then show ?thesis by (auto dest: device_index_less)
qed

lemma selector_Tx:
  assumes "selector buf = Tx k"
  shows "samp_digit (nth_c buf 1) = Some k \<and> k < 9 \<and> nth_c buf 0 \<in> set ''EFG''"
proof -
  from assms have "samp_digit (nth_c buf 1) = Some k \<and> nth_c buf 0 \<in> set ''EFG''"
    by (simp add: selector_def split: option.splits if_split_asm)
  then show ?thesis by (auto dest: samp_digit_less)
qed

text \<open>The tokens a record of each fixed-size kind needs.\<close>

definition needed :: "char \<Rightarrow> nat" where
  "needed b =
     (if b = CHR ''A'' then 52 else if b = CHR ''B'' then 12 else if b = CHR ''E'' then 53
      else if b = CHR ''F'' then 27 else 11)"

definition verdict :: "nat \<Rightarrow> string \<Rightarrow> parse_ret" where
  "verdict n buf = (if n \<le> length (tokens buf) then Parsed else Rejected)"

lemma run_fixed:
  assumes "list_all (safe_step wf_audpp) ss" "wf_audpp c"
  shows "fst (finish (run_steps ss (start buf c))) = verdict (ntok ss) buf"
    and "wf_audpp (snd (finish (run_steps ss (start buf c))))"
  using finish_run [OF assms(1), of "start buf c"] assms(2) by (simp_all add: verdict_def)

lemma check_AB:
  assumes "wf_audpp c" "selector buf = Rx d" "nth_c buf 0 \<in> set ''AB''"
  shows "fst (check_and_set_audpp_parameters eqlib buf c) = verdict (needed (nth_c buf 0)) buf"
    and "wf_audpp (snd (check_and_set_audpp_parameters eqlib buf c))"
proof -
  have d: "device_index (nth_c buf 1) = Some d" "d < 3" using selector_Rx [OF assms(2)] by simp_all
  have "nth_c buf 0 = CHR ''A'' \<or> nth_c buf 0 = CHR ''B''" using assms(3) by simp
  then have "fst (check_and_set_audpp_parameters eqlib buf c) = verdict (needed (nth_c buf 0)) buf
    \<and> wf_audpp (snd (check_and_set_audpp_parameters eqlib buf c))"
  proof
    assume a: "nth_c buf 0 = CHR ''A''"
    from run_fixed [OF steps_A_safe [OF d(2)] assms(1)] check_as_run(1) [OF a d(1)] a
    show ?thesis by (simp add: needed_def ntok_steps)
  next
    assume b: "nth_c buf 0 = CHR ''B''"
    from run_fixed [OF steps_B_safe [OF d(2)] assms(1)] check_as_run(2) [OF b d(1)] b
    show ?thesis by (simp add: needed_def ntok_steps)
  qed
  then show "fst (check_and_set_audpp_parameters eqlib buf c) = verdict (needed (nth_c buf 0)) buf"
    and "wf_audpp (snd (check_and_set_audpp_parameters eqlib buf c))" by simp_all
qed

lemma check_EFG:
  assumes "wf_audpp c" "selector buf = Tx k"
  shows "fst (check_and_set_audpp_parameters eqlib buf c) = verdict (needed (nth_c buf 0)) buf"
    and "wf_audpp (snd (check_and_set_audpp_parameters eqlib buf c))"
proof -
  have k: "samp_digit (nth_c buf 1) = Some k" "k < 9" "nth_c buf 0 \<in> set ''EFG''"
    using selector_Tx [OF assms(2)] by simp_all
  from k(3) consider "nth_c buf 0 = CHR ''E''" | "nth_c buf 0 = CHR ''F''" | "nth_c buf 0 = CHR ''G''"
    by auto
  then have "fst (check_and_set_audpp_parameters eqlib buf c) = verdict (needed (nth_c buf 0)) buf
    \<and> wf_audpp (snd (check_and_set_audpp_parameters eqlib buf c))"
  proof cases
    case 1
    from run_fixed [OF steps_E_safe [OF k(2)] assms(1)] check_as_run(5) [OF 1 k(1)] 1
    show ?thesis by (simp add: needed_def ntok_steps)
  next
    case 2
    from run_fixed [OF steps_F_safe [OF k(2)] assms(1)] check_as_run(6) [OF 2 k(1)] 2
    show ?thesis by (simp add: needed_def ntok_steps)
  next
    case 3
    from run_fixed [OF steps_G_safe assms(1)] check_as_run(7) [OF 3 k(1)] 3
    show ?thesis by (simp add: needed_def ntok_steps)
  qed
  then show "fst (check_and_set_audpp_parameters eqlib buf c) = verdict (needed (nth_c buf 0)) buf"
    and "wf_audpp (snd (check_and_set_audpp_parameters eqlib buf c))" by simp_all
qed

lemma run_C:
  assumes "wf_audpp c" "d < 3"
  shows "fst (finish (parse_C eqlib d (start buf c))) =
           (if length (tokens buf) < 4 then Rejected
            else if eqlib = None then NoEqLib
            else if length (tokens buf) < 36 then Rejected else Parsed)"
    and "wf_audpp (snd (finish (parse_C eqlib d (start buf c))))"
proof -
  let ?p = "run_steps (steps_C_head d) (start buf c)"
  have h: "list_all (safe_step wf_audpp) (steps_C_head d)" by (rule steps_C_head_safe)
  have w: "wf_audpp (p_tab (start buf c))" and e: "p_err (start buf c) = None"
    using assms by simp_all
  note err = run_steps_err [OF h w e] and tab = run_steps_tab [OF h w e]
    and rest = run_steps_rest [OF h w e]
  have "fst (finish (parse_C eqlib d (start buf c))) =
           (if length (tokens buf) < 4 then Rejected
            else if eqlib = None then NoEqLib
            else if length (tokens buf) < 36 then Rejected else Parsed)
        \<and> wf_audpp (snd (finish (parse_C eqlib d (start buf c))))"
  proof (cases "4 \<le> length (tokens buf)")
    case False
    with err tab show ?thesis by (simp add: parse_C_def finish_def ntok_steps)
  next
    case True
    with err have e1: "p_err ?p = None" by (simp add: ntok_steps)
    with rest have r1: "tokens (p_rest ?p) = drop 4 (tokens buf)" by (simp add: ntok_steps)
    show ?thesis
    proof (cases eqlib)
      case None
      with True e1 tab show ?thesis by (simp add: parse_C_def finish_def)
    next
      case (Some cal)
      from finish_run [OF steps_C_bands_safe [OF assms(2)] tab e1] Some True e1 r1
      show ?thesis by (auto simp: parse_C_def Let_def ntok_steps)
    qed
  qed
  then show "fst (finish (parse_C eqlib d (start buf c))) =
           (if length (tokens buf) < 4 then Rejected
            else if eqlib = None then NoEqLib
            else if length (tokens buf) < 36 then Rejected else Parsed)"
    and "wf_audpp (snd (finish (parse_C eqlib d (start buf c))))" by auto
qed

section \<open>What a run stores: the token-level meaning of steps\<close>

text \<open>
  The meaning of a step list over the tokens of the line, without the \<open>strtok\<close> cursor; \<open>None\<close>
  when a step fails. \<open>sem_run\<close> is the refinement: a run of the parser on the characters has
  this meaning on the tokens.
\<close>

fun sem :: "pstep list \<Rightarrow> string \<Rightarrow> string list \<Rightarrow> u16 list \<Rightarrow> audpp
              \<Rightarrow> (string \<times> string list \<times> u16 list \<times> audpp) option" where
  "sem [] cur ts l c = Some (cur, ts, l, c)"
| "sem (Tok # ss) cur ts l c = (case ts of [] \<Rightarrow> None | t # ts' \<Rightarrow> sem ss t ts' l c)"
| "sem (Put f # ss) cur ts l c =
     (case f (hex16 cur) c of None \<Rightarrow> None | Some c' \<Rightarrow> sem ss cur ts l c')"
| "sem (Loc # ss) cur ts l c = sem ss cur ts (l @ [hex16 cur]) c"
| "sem (Fix f # ss) cur ts l c = sem ss cur ts [] (f l c)"

definition psem :: "pstep list \<Rightarrow> pst \<Rightarrow> (string \<times> string list \<times> u16 list \<times> audpp) option" where
  "psem ss p = sem ss (p_cur p) (tokens (p_rest p)) (p_loc p) (p_tab p)"

definition outcome :: "pst \<Rightarrow> (string \<times> string list \<times> u16 list \<times> audpp) option" where
  "outcome q = (if p_err q = None then Some (p_cur q, tokens (p_rest q), p_loc q, p_tab q) else None)"

lemma psem_Tok:
  "p_err p = None \<Longrightarrow>
     psem (Tok # ss) p =
       (if p_err (pstep_run Tok p) = None then psem ss (pstep_run Tok p) else None)"
  by (cases "strtok_next (p_rest p)")
    (auto simp: psem_def tokens_None tokens_Some split: prod.splits)

lemma sem_run:
  "p_err p = None \<Longrightarrow> psem ss p = outcome (run_steps ss p)"
proof (induction ss arbitrary: p)
  case Nil
  then show ?case by (simp add: psem_def outcome_def)
next
  case (Cons x ss)
  show ?case
  proof (cases "p_err (pstep_run x p) = None")
    case True
    then have "psem (x # ss) p = psem ss (pstep_run x p)"
    proof (cases x)
      case Tok
      with True Cons.prems show ?thesis by (simp only: psem_Tok) simp
    next
      case (Put f)
      with True Cons.prems show ?thesis
        by (auto simp: psem_def split: option.splits)
    qed (use Cons.prems in \<open>simp_all add: psem_def\<close>)
    with Cons.IH [OF True] show ?thesis by simp
  next
    case False
    then have "run_steps ss (pstep_run x p) = pstep_run x p" by (simp add: run_steps_failed)
    moreover have "psem (x # ss) p = None"
    proof (cases x)
      case Tok
      with False Cons.prems show ?thesis by (simp only: psem_Tok) simp
    next
      case (Put f)
      with False Cons.prems show ?thesis
        by (auto simp: psem_def split: option.splits)
    qed (use Cons.prems False in simp_all)
    ultimately show ?thesis using False by (simp add: outcome_def)
  qed
qed

lemma sem_append:
  "sem (xs @ ys) cur ts l c =
     (case sem xs cur ts l c of None \<Rightarrow> None | Some (cur', ts', l', c') \<Rightarrow> sem ys cur' ts' l' c')"
  by (induction xs cur ts l c rule: sem.induct) (auto split: option.splits list.splits)

text \<open>The two shapes of the parser's loops; \<open>C i\<close> is the table before iteration \<open>i\<close>.\<close>

lemma sem_put_tok_loop:
  assumes "n \<le> length ts" "\<And>i. i < n \<Longrightarrow> F i (hex16 ((cur # ts) ! i)) (C i) = Some (C (Suc i))"
  shows "sem (concat (map (\<lambda>i. [Put (F i), Tok]) [0..<n])) cur ts l (C 0) =
           Some ((cur # ts) ! n, drop n ts, l, C n)"
  using assms
proof (induction n)
  case 0
  then show ?case by simp
next
  case (Suc n)
  then have "drop n ts = ts ! n # drop (Suc n) ts" by (simp add: Cons_nth_drop_Suc)
  with Suc show ?case by (simp add: sem_append)
qed

lemma sem_tok_put_loop:
  assumes "n \<le> length ts" "\<And>i. i < n \<Longrightarrow> F i (hex16 (ts ! i)) (C i) = Some (C (Suc i))"
  shows "sem (concat (map (\<lambda>i. [Tok, Put (F i)]) [0..<n])) cur ts l (C 0) =
           Some ((cur # ts) ! n, drop n ts, l, C n)"
  using assms
proof (induction n)
  case 0
  then show ?case by simp
next
  case (Suc n)
  then have "drop n ts = ts ! n # drop (Suc n) ts" by (simp add: Cons_nth_drop_Suc)
  with Suc show ?case by (simp add: sem_append)
qed

lemma finish_sem:
  assumes "sem ss [] (tokens buf) [] c = Some (cur, ts, l, c')"
  shows "finish (run_steps ss (start buf c)) = (Parsed, c')"
proof -
  have "psem ss (start buf c) = Some (cur, ts, l, c')"
    using assms by (simp add: psem_def start_def)
  then have "outcome (run_steps ss (start buf c)) = Some (cur, ts, l, c')"
    by (simp add: sem_run)
  then show ?thesis by (auto simp: outcome_def finish_def split: if_splits)
qed

text \<open>Writing the values \<open>w 0, w 1, \<dots>\<close> one after the other fills the array.\<close>

definition filled :: "(nat \<Rightarrow> 'a) \<Rightarrow> nat \<Rightarrow> 'a list \<Rightarrow> 'a list" where
  "filled w i xs = map w [0..<i] @ drop i xs"

lemma filled_0 [simp]: "filled w 0 xs = xs"
  by (simp add: filled_def)

lemma filled_all: "length xs = n \<Longrightarrow> filled w n xs = map w [0..<n]"
  by (simp add: filled_def)

lemma filled_length [simp]: "i \<le> length xs \<Longrightarrow> length (filled w i xs) = length xs"
  by (simp add: filled_def)

lemma filled_Suc:
  assumes "i < length xs"
  shows "(filled w i xs)[i := w i] = filled w (Suc i) xs"
proof -
  have "drop i xs = xs ! i # drop (Suc i) xs" using assms by (simp add: Cons_nth_drop_Suc)
  then show ?thesis by (simp add: filled_def list_update_append)
qed

lemma upd_filled:
  "i < length xs \<Longrightarrow> v = w i \<Longrightarrow> upd_at i v (filled w i xs) = Some (filled w (Suc i) xs)"
  by (simp add: filled_Suc)

section \<open>The values of an RX IIR record\<close>

definition iir_of :: "string list \<Rightarrow> rx_iir_filter" where
  "iir_of ts = \<lparr>rx_num_bands = hex16 (ts ! 51), rx_iir_params = map (\<lambda>i. hex16 (ts ! (i + 2))) [0..<48]\<rparr>"

lemma iir_updates:
  "f\<lparr>rx_iir_params := xs, rx_num_bands := v\<rparr> = \<lparr>rx_num_bands = v, rx_iir_params = xs\<rparr>"
  "(c :: audpp)\<lparr>rx_iir_flag := a, iir_cfg := b\<rparr> = c\<lparr>iir_cfg := b, rx_iir_flag := a\<rparr>"
  by (cases f) simp_all

lemma sem_A:
  assumes "wf_audpp c" "d < 3" "52 \<le> length ts"
  shows "\<exists>cur ts' l. sem (steps_A d) [] ts [] c =
     Some (cur, ts', l,
       c\<lparr>iir_cfg := (iir_cfg c)[d := iir_of ts], rx_iir_flag := (rx_iir_flag c)[d := hex16 (ts ! 50)]\<rparr>)"
proof -
  obtain a b x r where ts: "ts = a # b # x # r" "49 \<le> length r"
    using assms(3) by (cases ts; cases "tl ts"; cases "tl (tl ts)") auto
  let ?f = "iir_cfg c ! d" and ?w = "\<lambda>i. hex16 ((x # r) ! i)"
  define C where "C i = c\<lparr>iir_cfg := (iir_cfg c)[d := ?f\<lparr>rx_iir_params :=
                            filled ?w i (rx_iir_params ?f)\<rparr>]\<rparr>" for i
  have len: "length (rx_iir_params ?f) = 48" "length (iir_cfg c) = 3"
    using assms(1,2) by (auto simp: wf_audpp_def list_all_length)
  have c0: "C 0 = c" by (simp add: C_def)
  have loop: "sem (concat (map (\<lambda>i. [Put (\<lambda>v. in_iir d (\<lambda>f. map_option (\<lambda>xs. f\<lparr>rx_iir_params := xs\<rparr>)
                 (upd_at i v (rx_iir_params f)))), Tok]) [0..<48])) x r [] (C 0) =
        Some ((x # r) ! 48, drop 48 r, [], C 48)"
    using ts(2) len assms(2)
    by (intro sem_put_tok_loop) (simp_all add: C_def in_iir_def upd_filled del: upd_at_Some)
  obtain y r' where r': "drop 48 r = y # r'" "y = r ! 48"
    using ts(2) by (cases "drop 48 r") (auto simp: hd_drop_conv_nth [symmetric])
  show ?thesis
    unfolding steps_A_def header_steps_def
    using ts r' len assms(2) loop
    by (simp add: sem_append c0 [symmetric])
       (simp add: C_def in_iir_def iir_of_def filled_all nth_Cons' iir_updates)
qed

section \<open>The values of a TX IIR record\<close>

definition tx_iir_of :: "string list \<Rightarrow> tx_iir" where
  "tx_iir_of ts =
     \<lparr>ti_cmd_id = 0, ti_active_flag = hex16 (ts ! 50), ti_num_bands = hex16 (ts ! 52),
      ti_iir_params = map (\<lambda>i. hex16 (ts ! (txiir_slot i + 2))) [0..<48]\<rparr>"

lemma txiir_slot_involutive: "i < 48 \<Longrightarrow> txiir_slot (txiir_slot i) = i"
  by (auto simp: txiir_slot_def elim: oddE) presburger+

definition swapped :: "(nat \<Rightarrow> 'a) \<Rightarrow> nat \<Rightarrow> 'a list \<Rightarrow> 'a list" where
  "swapped w i xs = fold (\<lambda>j ys. ys[txiir_slot j := w j]) [0..<i] xs"

lemma swapped_0 [simp]: "swapped w 0 xs = xs"
  by (simp add: swapped_def)

lemma swapped_length [simp]: "length (swapped w i xs) = length xs"
  by (induction i) (simp_all add: swapped_def)

lemma swapped_Suc: "(swapped w i xs)[txiir_slot i := w i] = swapped w (Suc i) xs"
  by (simp add: swapped_def)

lemma swapped_nth:
  assumes "length xs = 48" "n \<le> 48" "j < n"
  shows "swapped w n xs ! txiir_slot j = w j"
  using assms(2,3)
proof (induction n)
  case 0
  then show ?case by simp
next
  case (Suc n)
  have "txiir_slot j < length (swapped w n xs)" using Suc assms(1) by (simp add: txiir_slot_less)
  moreover have "txiir_slot j = txiir_slot n \<longleftrightarrow> j = n"
  proof
    assume "txiir_slot j = txiir_slot n"
    then have "txiir_slot (txiir_slot j) = txiir_slot (txiir_slot n)" by simp
    then show "j = n" using Suc.prems by (simp add: txiir_slot_involutive)
  qed simp
  ultimately show ?case
    using Suc by (cases "j = n") (simp_all add: swapped_Suc [symmetric] nth_list_update)
qed

lemma swapped_all:
  assumes "length xs = 48"
  shows "swapped w 48 xs = map (\<lambda>i. w (txiir_slot i)) [0..<48]"
proof (rule nth_equalityI)
  fix i assume "i < length (swapped w 48 xs)"
  then have "i < 48" using assms by simp
  then have "swapped w 48 xs ! txiir_slot (txiir_slot i) = w (txiir_slot i)"
    using assms by (intro swapped_nth) (simp_all add: txiir_slot_less)
  with \<open>i < 48\<close> show "swapped w 48 xs ! i = map (\<lambda>i. w (txiir_slot i)) [0..<48] ! i"
    by (simp add: txiir_slot_involutive)
qed (use assms in simp)

lemma tx_updates:
  "f\<lparr>ti_iir_params := xs, ti_active_flag := a, ti_num_bands := v, ti_cmd_id := 0\<rparr>
     = \<lparr>ti_cmd_id = 0, ti_active_flag = a, ti_num_bands = v, ti_iir_params = xs\<rparr>"
  "(c :: audpp)\<lparr>txiir_flag := fl, tx_iir_cfg := b\<rparr> = c\<lparr>tx_iir_cfg := b, txiir_flag := fl\<rparr>"
  by (cases f) simp_all

lemma sem_E:
  assumes "wf_audpp c" "k < 9" "53 \<le> length ts"
  shows "\<exists>cur ts' l. sem (steps_E k) [] ts [] c =
     Some (cur, ts', l,
       (let c' = c\<lparr>tx_iir_cfg := (tx_iir_cfg c)[k := tx_iir_of ts],
                   txiir_flag := (txiir_flag c)[0 := hex16 (ts ! 51)]\<rparr>
        in if hex16 (ts ! 51) \<noteq> 0 then set_mask k TX_IIR_ENABLE c' else c'))"
proof -
  obtain a b x r where ts: "ts = a # b # x # r" "50 \<le> length r"
    using assms(3) by (cases ts; cases "tl ts"; cases "tl (tl ts)") auto
  let ?f = "tx_iir_cfg c ! k" and ?w = "\<lambda>i. hex16 ((x # r) ! i)"
  define C where "C i = c\<lparr>tx_iir_cfg := (tx_iir_cfg c)[k := ?f\<lparr>ti_iir_params :=
                            swapped ?w i (ti_iir_params ?f)\<rparr>]\<rparr>" for i
  have len: "length (ti_iir_params ?f) = 48" "length (tx_iir_cfg c) = 9" "length (txiir_flag c) = 3"
    using assms(1,2) by (auto simp: wf_audpp_def list_all_length)
  have c0: "C 0 = c" by (simp add: C_def)
  have stp: "in_txiir k (\<lambda>f. map_option (\<lambda>xs. f\<lparr>ti_iir_params := xs\<rparr>)
                 (upd_at (txiir_slot i) (?w i) (ti_iir_params f))) (C i) = Some (C (Suc i))"
    if "i < 48" for i
    using that len assms(2)
    by (simp add: C_def in_txiir_def txiir_slot_less swapped_Suc [symmetric])
  have loop: "sem (concat (map (\<lambda>i. [Put (\<lambda>v. in_txiir k (\<lambda>f. map_option (\<lambda>xs. f\<lparr>ti_iir_params := xs\<rparr>)
                 (upd_at (txiir_slot i) v (ti_iir_params f)))), Tok]) [0..<48])) x r [] (C 0) =
        Some ((x # r) ! 48, drop 48 r, [], C 48)"
    using ts(2) stp by (intro sem_put_tok_loop) simp_all
  have c48: "C 48 = c\<lparr>tx_iir_cfg := (tx_iir_cfg c)[k := ?f\<lparr>ti_iir_params :=
               map (\<lambda>i. hex16 (ts ! (txiir_slot i + 2))) [0..<48]\<rparr>]\<rparr>"
    using len by (simp add: C_def swapped_all ts(1))
  have "drop 48 r = r ! 48 # drop 49 r" and "drop 49 r = r ! 49 # drop 50 r"
    using ts(2) Cons_nth_drop_Suc [of 48 r] Cons_nth_drop_Suc [of 49 r] by simp_all
  then have r': "drop 48 r = r ! 48 # r ! 49 # drop 50 r" by simp
  have n: "ts ! 50 = r ! 47" "ts ! 51 = r ! 48" "ts ! 52 = r ! 49"
    using ts by (simp_all add: nth_Cons')
  have rest: "sem [Put (\<lambda>v. in_txiir k (\<lambda>f. Some (f\<lparr>ti_active_flag := v\<rparr>))), Tok,
        Put (\<lambda>v c. Some (c\<lparr>txiir_flag := (txiir_flag c)[0 := v]\<rparr>)), Tok,
        Put (\<lambda>v. in_txiir k (\<lambda>f. Some (f\<lparr>ti_num_bands := v\<rparr>))),
        Fix (\<lambda>_ c. c\<lparr>tx_iir_cfg := (tx_iir_cfg c)[k := (tx_iir_cfg c ! k)\<lparr>ti_cmd_id := 0\<rparr>]\<rparr>),
        Fix (\<lambda>_ c. if txiir_flag c ! 0 \<noteq> 0 then set_mask k TX_IIR_ENABLE c else c)]
        (r ! 47) (r ! 48 # r ! 49 # drop 50 r) [] (C 48) =
     Some (r ! 49, drop 50 r, [],
       (let c' = c\<lparr>tx_iir_cfg := (tx_iir_cfg c)[k := tx_iir_of ts],
                   txiir_flag := (txiir_flag c)[0 := hex16 (ts ! 51)]\<rparr>
        in if hex16 (ts ! 51) \<noteq> 0 then set_mask k TX_IIR_ENABLE c' else c'))"
    using len assms(2) unfolding c48
    by (simp add: in_txiir_def tx_updates tx_iir_of_def n)
  show ?thesis
    using rest loop ts(2) unfolding steps_E_def header_steps_def c0
    by (simp add: sem_append ts(1) r')
qed

section \<open>Multi-band ADRC records\<close>

lemma sem_D_head:
  assumes "wf_audpp c" "d < 3" "9 \<le> length ts"
  shows "\<exists>c'. sem (steps_D_head d) [] ts [] c = Some (ts ! 8, drop 9 ts, [], c')
    \<and> mb_num_bands (mbadrc_cfg c' ! d) = hex16 (ts ! 2)
    \<and> ext_buf_size (mbadrc_cfg c' ! d) = hex16 (ts ! 5)"
proof -
  obtain t0 t1 t2 t3 t4 t5 t6 t7 t8 r where
    ts: "ts = t0 # t1 # t2 # t3 # t4 # t5 # t6 # t7 # t8 # r"
    using assms(3) by (auto simp: numeral_eq_Suc Suc_le_length_iff)
  have "d < length (mbadrc_cfg c)" using assms(1,2) by (simp add: wf_audpp_def)
  then show ?thesis
    unfolding steps_D_head_def header_steps_def ts by (simp add: in_mbadrc_def)
qed

text \<open>The tokens and the two counts of a \<open>D\<close> record.\<close>

definition D_bands :: "string \<Rightarrow> nat" where
  "D_bands buf = unat (hex16 (tokens buf ! 2))"

definition D_ext :: "string \<Rightarrow> nat" where
  "D_ext buf = unat (hex16 (tokens buf ! 5)) div 2"

lemma after_D_head:
  assumes "wf_audpp c" "d < 3" "9 \<le> length (tokens buf)"
  shows "\<exists>p1. run_steps (steps_D_head d) (start buf c) = p1 \<and> p_err p1 = None \<and> wf_audpp (p_tab p1)
    \<and> tokens (p_rest p1) = drop 9 (tokens buf)
    \<and> unat (mb_num_bands (mbadrc_cfg (p_tab p1) ! d)) = D_bands buf
    \<and> unat (ext_buf_size (mbadrc_cfg (p_tab p1) ! d)) div 2 = D_ext buf"
proof -
  let ?p = "run_steps (steps_D_head d) (start buf c)"
  obtain c' where c': "sem (steps_D_head d) [] (tokens buf) [] c
        = Some (tokens buf ! 8, drop 9 (tokens buf), [], c')"
      "mb_num_bands (mbadrc_cfg c' ! d) = hex16 (tokens buf ! 2)"
      "ext_buf_size (mbadrc_cfg c' ! d) = hex16 (tokens buf ! 5)"
    using sem_D_head [OF assms] by blast
  then have "outcome ?p = Some (tokens buf ! 8, drop 9 (tokens buf), [], c')"
    using sem_run [of "start buf c" "steps_D_head d"] by (simp add: psem_def start_def)
  then have "p_err ?p = None \<and> p_tab ?p = c' \<and> tokens (p_rest ?p) = drop 9 (tokens buf)"
    by (auto simp: outcome_def split: if_splits)
  moreover have "wf_audpp (p_tab ?p)"
    using run_steps_tab [OF steps_D_head_safe [OF assms(2)]] assms(1) by simp
  ultimately show ?thesis using c' by (simp add: D_bands_def D_ext_def)
qed

lemma parse_D_short:
  assumes "wf_audpp c" "d < 3" "length (tokens buf) < 9"
  shows "fst (finish (parse_D d (start buf c))) = Rejected"
    and "wf_audpp (snd (finish (parse_D d (start buf c))))"
proof -
  let ?p = "run_steps (steps_D_head d) (start buf c)"
  have s: "list_all (safe_step wf_audpp) (steps_D_head d)" by (rule steps_D_head_safe [OF assms(2)])
  have e: "p_err ?p = Some Malformed"
    using run_steps_err [OF s, of "start buf c"] assms by (simp add: ntok_steps)
  then have "parse_D d (start buf c) = ?p" by (simp add: parse_D_def Let_def run_steps_failed)
  with e run_steps_tab [OF s, of "start buf c"] assms(1)
  show "fst (finish (parse_D d (start buf c))) = Rejected"
    and "wf_audpp (snd (finish (parse_D d (start buf c))))"
    by (simp_all add: finish_def)
qed

lemma parse_D_fits:
  assumes "wf_audpp c" "d < 3" "9 \<le> length (tokens buf)" "D_bands buf \<le> 5" "D_ext buf \<le> 196"
  shows "fst (finish (parse_D d (start buf c))) = verdict (10 + 10 * D_bands buf + D_ext buf) buf"
    and "wf_audpp (snd (finish (parse_D d (start buf c))))"
proof -
  obtain p1 where p1: "run_steps (steps_D_head d) (start buf c) = p1" "p_err p1 = None"
      "wf_audpp (p_tab p1)" "tokens (p_rest p1) = drop 9 (tokens buf)"
      "unat (mb_num_bands (mbadrc_cfg (p_tab p1) ! d)) = D_bands buf"
      "unat (ext_buf_size (mbadrc_cfg (p_tab p1) ! d)) div 2 = D_ext buf"
    using after_D_head [OF assms(1-3)] by blast
  let ?ss = "steps_D_bands d (D_bands buf) @ steps_D_ext d (D_ext buf) @ steps_D_tail d"
  have eq: "parse_D d (start buf c) = run_steps ?ss p1"
    using p1 by (simp add: parse_D_def Let_def run_steps_append)
  have s: "list_all (safe_step wf_audpp) ?ss"
    using assms by (simp add: steps_D_bands_safe steps_D_ext_safe steps_D_tail_safe)
  have n: "(ntok ?ss \<le> length (tokens (p_rest p1))) =
      (10 + 10 * D_bands buf + D_ext buf \<le> length (tokens buf))"
    using assms(3) p1(4) by (auto simp: ntok_steps)
  from finish_run [OF s p1(3,2)]
  show "fst (finish (parse_D d (start buf c))) = verdict (10 + 10 * D_bands buf + D_ext buf) buf"
    and "wf_audpp (snd (finish (parse_D d (start buf c))))"
    unfolding eq n verdict_def by simp_all
qed

lemma upt_split_at: "k < n \<Longrightarrow> [0..<n] = [0..<k] @ k # [Suc k..<n]"
  using upt_add_eq_append [of 0 k "n - k"] upt_conv_Cons [of k n] by simp

text \<open>A sixth band: the parser stores past the end of \<open>adrc_band\<close>.\<close>

lemma parse_D_overrun:
  assumes "wf_audpp c" "d < 3" "60 \<le> length (tokens buf)" "5 < D_bands buf"
  shows "fst (finish (parse_D d (start buf c))) = Clobbered"
proof -
  obtain p1 where p1: "run_steps (steps_D_head d) (start buf c) = p1" "p_err p1 = None"
      "wf_audpp (p_tab p1)" "tokens (p_rest p1) = drop 9 (tokens buf)"
      "unat (mb_num_bands (mbadrc_cfg (p_tab p1) ! d)) = D_bands buf"
      "unat (ext_buf_size (mbadrc_cfg (p_tab p1) ! d)) div 2 = D_ext buf"
    using after_D_head [OF assms(1,2)] assms(3) by fastforce
  let ?five = "steps_D_bands d 5"
  let ?p2 = "run_steps ?five p1"
  have s: "list_all (safe_step wf_audpp) ?five" using assms(2) by (simp add: steps_D_bands_safe)
  have e2: "p_err ?p2 = None" and w2: "wf_audpp (p_tab ?p2)"
    using run_steps_err [OF s p1(3,2)] run_steps_tab [OF s p1(3,2)] p1(4) assms(3)
    by (simp_all add: ntok_steps)
  have t2: "tokens (p_rest ?p2) = drop 59 (tokens buf)"
    using run_steps_rest [OF s p1(3,2) e2] p1(4) by (simp add: ntok_steps)
  obtain t r where tr: "strtok_next (p_rest ?p2) = Some (t, r)"
    using t2 assms(3) by (cases "strtok_next (p_rest ?p2)") (auto simp: tokens_None)
  have "length (adrc_band (mbadrc_cfg (p_tab ?p2) ! d)) = 5"
    using w2 assms(2) by (auto simp: wf_audpp_def wf_mbadrc_def list_all_length)
  then have bad: "p_err (run_steps (Tok # put_band d 5 0 # ss) ?p2) = Some Overrun" for ss
    using e2 tr by (simp add: put_band_def in_mbadrc_def run_steps_failed)
  have "[0..<D_bands buf] = [0..<5] @ 5 # [6..<D_bands buf]"
    using upt_split_at [OF assms(4)] by simp
  then have "steps_D_bands d (D_bands buf) =
      ?five @ concat (map (\<lambda>j. [Tok, put_band d 5 j]) [0..<10])
            @ concat (map (\<lambda>i. concat (map (\<lambda>j. [Tok, put_band d i j]) [0..<10])) [6..<D_bands buf])"
    by (simp add: steps_D_bands_def)
  moreover have "[0..<10] = 0 # [1..<10::nat]" using upt_split_at [of 0 10] by simp
  ultimately have "\<exists>ss. steps_D_bands d (D_bands buf) = ?five @ Tok # put_band d 5 0 # ss" by simp
  then obtain ss where ss: "steps_D_bands d (D_bands buf) = ?five @ Tok # put_band d 5 0 # ss" by blast
  have "parse_D d (start buf c) =
      run_steps (Tok # put_band d 5 0 # ss @ steps_D_ext d (D_ext buf) @ steps_D_tail d) ?p2"
    using p1 by (simp add: parse_D_def Let_def ss run_steps_append)
  with bad show ?thesis by (simp add: finish_def)
qed

section \<open>The contract of the parser\<close>

text \<open>
  The verdict the file format promises for a line, and the condition under which the parser
  keeps it: the counts of a \<open>D\<close> record fit the arrays.
\<close>

definition spec_verdict :: "eq_cal option \<Rightarrow> string \<Rightarrow> parse_ret" where
  "spec_verdict eqlib buf =
     (case selector buf of
        Skip \<Rightarrow> Parsed
      | BadTx \<Rightarrow> Rejected
      | Tx k \<Rightarrow> verdict (needed (nth_c buf 0)) buf
      | Rx d \<Rightarrow>
          if nth_c buf 0 = CHR ''C'' then
            (if length (tokens buf) < 4 then Rejected
             else if eqlib = None then NoEqLib
             else verdict 36 buf)
          else if nth_c buf 0 = CHR ''D'' then
            (if length (tokens buf) < 9 then Rejected
             else verdict (10 + 10 * D_bands buf + D_ext buf) buf)
          else verdict (needed (nth_c buf 0)) buf)"

definition record_fits :: "string \<Rightarrow> bool" where
  "record_fits buf \<longleftrightarrow>
     nth_c buf 0 \<noteq> CHR ''D'' \<or> selector buf = Skip \<or> length (tokens buf) < 9
     \<or> D_bands buf \<le> 5 \<and> D_ext buf \<le> 196"

lemma check_verdict:
  assumes "wf_audpp c" "record_fits buf"
  shows "fst (check_and_set_audpp_parameters eqlib buf c) = spec_verdict eqlib buf
    \<and> wf_audpp (snd (check_and_set_audpp_parameters eqlib buf c))"
proof (cases "selector buf")
  case (Rx d)
  have d: "device_index (nth_c buf 1) = Some d" "d < 3" "nth_c buf 0 \<in> set ''ABCD''"
    using selector_Rx [OF Rx] by simp_all
  from d(3) consider "nth_c buf 0 \<in> set ''AB''" | "nth_c buf 0 = CHR ''C''" | "nth_c buf 0 = CHR ''D''"
    by auto
  then show ?thesis
  proof cases
    case 1
    with check_AB [OF assms(1) Rx 1] Rx show ?thesis by (auto simp: spec_verdict_def)
  next
    case 2
    with run_C [OF assms(1) d(2)] check_as_run(3) [OF 2 d(1)] Rx show ?thesis
      by (auto simp: spec_verdict_def verdict_def)
  next
    case 3
    then have "length (tokens buf) < 9 \<or> D_bands buf \<le> 5 \<and> D_ext buf \<le> 196"
      using assms(2) Rx by (simp add: record_fits_def)
    with parse_D_short [OF assms(1) d(2)] parse_D_fits [OF assms(1) d(2)]
      check_as_run(4) [OF 3 d(1)] Rx 3 show ?thesis
      by (cases "length (tokens buf) < 9") (simp_all add: spec_verdict_def)
  qed
next
  case (Tx k)
  with check_EFG [OF assms(1) Tx] show ?thesis by (simp add: spec_verdict_def)
next
  case BadTx
  with assms show ?thesis by (simp add: check_skips spec_verdict_def)
next
  case Skip
  with assms show ?thesis by (simp add: check_skips spec_verdict_def)
qed

text \<open>The complete lines of the file, up to one that starts with the EOF byte.\<close>

function file_lines :: "string \<Rightarrow> string list" where
  "file_lines cs =
     (if cs \<noteq> [] \<and> hd cs = CHR 0xFF then []
      else case split_line cs of None \<Rightarrow> [] | Some (l, rest) \<Rightarrow> l # file_lines rest)"
  by pat_completeness auto
termination
  by (relation "measure length") (auto dest: split_line_shrinks)

declare file_lines.simps [simp del]

lemma parse_lines_verdict:
  assumes "wf_audpp c" "list_all record_fits (file_lines cs)"
  shows "fst (parse_lines eqlib cs c) \<noteq> Clobbered
    \<and> (fst (parse_lines eqlib cs c) = Parsed
         \<longleftrightarrow> list_all (\<lambda>l. spec_verdict eqlib l = Parsed) (file_lines cs))
    \<and> wf_audpp (snd (parse_lines eqlib cs c))"
  using assms
proof (induction eqlib cs c rule: parse_lines.induct)
  case (1 eqlib cs c)
  show ?case
  proof (cases "cs \<noteq> [] \<and> hd cs = CHR 0xFF \<or> split_line cs = None")
    case True
    with 1 show ?thesis by (auto simp: parse_lines.simps [of eqlib cs] file_lines.simps [of cs])
  next
    case False
    then obtain l rest where sl: "split_line cs = Some (l, rest)" by auto
    have fl: "file_lines cs = l # file_lines rest"
      using False sl by (subst file_lines.simps) auto
    obtain r c' where ck: "check_and_set_audpp_parameters eqlib l c = (r, c')" by fastforce
    have pl: "parse_lines eqlib cs c = (if r = Parsed then parse_lines eqlib rest c' else (r, c'))"
      using False sl ck by (subst parse_lines.simps) auto
    have v: "r = spec_verdict eqlib l" "wf_audpp c'"
      using check_verdict [of c l eqlib] "1.prems" fl ck by simp_all
    have "spec_verdict eqlib l \<noteq> Clobbered"
      by (auto simp: spec_verdict_def verdict_def split: selector.splits)
    with v pl fl 1 False sl ck show ?thesis by auto
  qed
qed

section \<open>Properties\<close>

text \<open>
  C1. A record of the calibration file whose counts fit the arrays gets exactly the verdict
  its kind and its number of tokens call for, and the tables keep their shape.
\<close>

theorem record_accepted_iff_complete:
  assumes "wf_audpp c" "record_fits buf"
  shows "fst (check_and_set_audpp_parameters eqlib buf c) = spec_verdict eqlib buf
    \<and> wf_audpp (snd (check_and_set_audpp_parameters eqlib buf c))"
  by (rule check_verdict [OF assms])

definition iir_line :: string where
  "iir_line = join (''A2'' # replicate 51 ''7f'')"

lemma iir_line_tokens: "tokens iir_line = ''A2'' # replicate 51 ''7f''"
  unfolding iir_line_def by (rule tokens_join) (simp add: comma_def list_all_iff)

lemma iir_line_head: "nth_c iir_line 0 = CHR ''A''" "nth_c iir_line (Suc 0) = CHR ''2''"
  by (simp_all add: iir_line_def nth_c_def numeral_eq_Suc)

lemma record_accepted_witness:
  "fst (check_and_set_audpp_parameters None iir_line audpp_init) = Parsed"
proof -
  have "record_fits iir_line" by (simp add: record_fits_def iir_line_head)
  moreover have "spec_verdict None iir_line = Parsed"
    by (simp add: spec_verdict_def selector_def iir_line_head device_index_def verdict_def
        needed_def iir_line_tokens)
  ultimately show ?thesis
    using record_accepted_iff_complete [OF wf_audpp_init, of iir_line None] by simp
qed

text \<open>
  C11. A calibration file all of whose records fit is read without a store outside the tables,
  is accepted exactly when each of its lines is, and leaves well-formed tables.
\<close>

theorem file_accepted_iff_lines:
  assumes "wf_audpp c" "list_all record_fits (file_lines cs)"
  shows "fst (parse_lines eqlib cs c) \<noteq> Clobbered
    \<and> (fst (parse_lines eqlib cs c) = Parsed
         \<longleftrightarrow> list_all (\<lambda>l. spec_verdict eqlib l = Parsed) (file_lines cs))
    \<and> wf_audpp (snd (parse_lines eqlib cs c))"
  by (rule parse_lines_verdict [OF assms])

lemma file_accepted_witness:
  "fst (parse_lines None (''E0,1'' @ [newline] @ ''#'') audpp_init) \<noteq> Parsed"
proof -
  let ?f = "''E0,1'' @ [newline] @ ''#''"
  have l: "file_lines ?f = [''E0,1'']"
    by code_simp
  have "spec_verdict None ''E0,1'' = Rejected"
    by (simp add: spec_verdict_def selector_def nth_c_def samp_digit_def)
  then show ?thesis
    using file_accepted_iff_lines [OF wf_audpp_init, of ?f None] l
    by (simp add: record_fits_def nth_c_def)
qed

text \<open>
  C32. A \<open>D\<close> record that announces more than five bands and carries their tokens makes the
  parser store outside \<open>adrc_band\<close>: the file's counts are not checked.
\<close>

theorem sixth_band_overruns:
  assumes "wf_audpp c" "nth_c buf 0 = CHR ''D''" "selector buf = Rx d"
    and "60 \<le> length (tokens buf)" "5 < D_bands buf"
  shows "fst (check_and_set_audpp_parameters eqlib buf c) = Clobbered"
proof -
  have d: "device_index (nth_c buf 1) = Some d" "d < 3" using selector_Rx [OF assms(3)] by simp_all
  show ?thesis
    using check_as_run(4) [OF assms(2) d(1)] parse_D_overrun [OF assms(1) d(2) assms(4,5)] by simp
qed

definition band_line :: string where
  "band_line = join (''D1'' # replicate 60 ''6'')"

lemma sixth_band_witness:
  "fst (check_and_set_audpp_parameters None band_line audpp_init) = Clobbered"
proof -
  have t: "tokens band_line = ''D1'' # replicate 60 ''6''"
    unfolding band_line_def by (rule tokens_join) (simp add: comma_def list_all_iff)
  have h: "nth_c band_line 0 = CHR ''D''" "nth_c band_line (Suc 0) = CHR ''1''"
    by (simp_all add: band_line_def nth_c_def numeral_eq_Suc)
  have six: "hex16 ''6'' = 6"
    by (simp add: hex16_def strtol16_def is_space_def strip_0x_def digit_val_def clamp_long_def)
  show ?thesis
    by (rule sixth_band_overruns [OF wf_audpp_init, where d = 0])
       (simp_all add: selector_def h device_index_def t D_bands_def six nth_Cons')
qed

text \<open>
  A complete \<open>A\<close> record stores the 48 filter coefficients, the enable flag and the number
  of bands its tokens denote in the entry of the device it names, and changes nothing else.
\<close>

theorem iir_record_stored:
  assumes "wf_audpp c" "nth_c buf 0 = CHR ''A''" "selector buf = Rx d"
    and "52 \<le> length (tokens buf)"
  shows "check_and_set_audpp_parameters eqlib buf c =
     (Parsed, c\<lparr>iir_cfg := (iir_cfg c)[d := iir_of (tokens buf)],
                rx_iir_flag := (rx_iir_flag c)[d := hex16 (tokens buf ! 50)]\<rparr>)"
proof -
  have d: "device_index (nth_c buf 1) = Some d" "d < 3" using selector_Rx [OF assms(3)] by simp_all
  obtain cur ts l where "sem (steps_A d) [] (tokens buf) [] c = Some (cur, ts, l,
      c\<lparr>iir_cfg := (iir_cfg c)[d := iir_of (tokens buf)],
        rx_iir_flag := (rx_iir_flag c)[d := hex16 (tokens buf ! 50)]\<rparr>)"
    using sem_A [OF assms(1) d(2) assms(4)] by blast
  from finish_sem [OF this] check_as_run(1) [OF assms(2) d(1)] show ?thesis by simp
qed

lemma iir_record_witness:
  "check_and_set_audpp_parameters None iir_line audpp_init =
     (Parsed, audpp_init\<lparr>iir_cfg := (iir_cfg audpp_init)[1 := iir_of (tokens iir_line)],
                rx_iir_flag := (rx_iir_flag audpp_init)[1 := hex16 (tokens iir_line ! 50)]\<rparr>)"
  by (rule iir_record_stored [OF wf_audpp_init, where d = 1])
     (simp_all add: iir_line_head selector_def device_index_def iir_line_tokens)

text \<open>
  C26. A complete \<open>E\<close> record stores the recording filter of its rate with the first forty
  coefficients swapped in pairs, and its enable bit in the mask of that rate; the flag itself
  is stored in entry 0 whatever the rate.
\<close>

theorem tx_iir_record_stored:
  assumes "wf_audpp c" "nth_c buf 0 = CHR ''E''" "selector buf = Tx k"
    and "53 \<le> length (tokens buf)"
  shows "check_and_set_audpp_parameters eqlib buf c =
     (Parsed,
      (let c' = c\<lparr>tx_iir_cfg := (tx_iir_cfg c)[k := tx_iir_of (tokens buf)],
                  txiir_flag := (txiir_flag c)[0 := hex16 (tokens buf ! 51)]\<rparr>
       in if hex16 (tokens buf ! 51) \<noteq> 0 then set_mask k TX_IIR_ENABLE c' else c'))"
    (is "_ = (Parsed, ?c)")
proof -
  have k: "samp_digit (nth_c buf 1) = Some k" "k < 9" using selector_Tx [OF assms(3)] by simp_all
  obtain cur ts l where "sem (steps_E k) [] (tokens buf) [] c = Some (cur, ts, l, ?c)"
    using sem_E [OF assms(1) k(2) assms(4)] by blast
  from finish_sem [OF this] check_as_run(5) [OF assms(2) k(1)] show ?thesis by simp
qed

definition tx_line :: string where
  "tx_line = join (''E9'' # replicate 52 ''1'')"

lemma tx_iir_record_witness:
  "enable_preproc_mask (snd (check_and_set_audpp_parameters None tx_line audpp_init)) ! 8 =
     TX_IIR_ENABLE"
proof -
  have t: "tokens tx_line = ''E9'' # replicate 52 ''1''"
    unfolding tx_line_def by (rule tokens_join) (simp add: comma_def list_all_iff)
  have h: "nth_c tx_line 0 = CHR ''E''" "nth_c tx_line (Suc 0) = CHR ''9''"
    by (simp_all add: tx_line_def nth_c_def numeral_eq_Suc)
  have s: "selector tx_line = Tx 8" by (simp add: selector_def h samp_digit_def)
  have one: "hex16 (tokens tx_line ! 51) = 1"
    by (simp add: t hex16_def strtol16_def is_space_def strip_0x_def digit_val_def clamp_long_def)
  show ?thesis
    using tx_iir_record_stored [OF wf_audpp_init h(1) s, of None] t one
    by (simp add: set_mask_def audpp_init_def)
qed

end
