(* ===== verification/HwTypes.thy ===== *)
theory HwTypes
  imports FilterTypes Complex_Main
begin

text \<open>
  What the audio HAL talks to and the state it keeps. The kernel is a log of calls and a
  parameter that answers them: \<open>env\<close> holds everything the code reads from outside the
  repository (drivers, properties, constants of platform headers, the base class), \<open>hw\<close> the
  static variables of \<open>AudioHardware.cpp\<close>, the members of class \<open>AudioHardware\<close> and its streams.
\<close>

section \<open>Platform constants\<close>

text \<open>Device and channel masks of \<open>AudioSystem\<close>, by name; their values are a parameter.\<close>

datatype dev_name =
    IN_VOICE_CALL | IN_BLUETOOTH_SCO_HEADSET | IN_WIRED_HEADSET | IN_FM_RX_A2DP | IN_FM_RX
  | IN_COMMUNICATION
  | OUT_EARPIECE | OUT_SPEAKER | OUT_WIRED_HEADSET | OUT_WIRED_HEADPHONE | OUT_FM
  | OUT_BLUETOOTH_SCO | OUT_BLUETOOTH_SCO_HEADSET | OUT_BLUETOOTH_SCO_CARKIT

datatype chan_name =
    CH_OUT_STEREO | CH_OUT_MONO | CH_IN_MONO | CH_IN_STEREO | CH_IN_UPLINK | CH_IN_DNLINK

datatype format =
    FMT_NONE | PCM_16_BIT | AMR_NB | AMR_WB | EVRC | EVRCB | EVRCWB | QCELP | AAC | FMT_OTHER nat

datatype amode = MODE_NORMAL | MODE_RINGTONE | MODE_IN_CALL | MODE_IN_COMMUNICATION | MODE_OTHER int

datatype status =
    NO_ERROR | BAD_VALUE | INVALID_OPERATION | NO_INIT | UNKNOWN_ERROR
  | E_PERM | E_IO | E_INVAL | E_BUSY | Code int

text \<open>A driver's return value used as a status.\<close>

definition of_rc :: "int \<Rightarrow> status" where
  "of_rc r = (if r = 0 then NO_ERROR else Code r)"

datatype mvs_mode =
    MVS_PCM | MVS_PCM_WB | MVS_AMR | MVS_AMR_WB | MVS_IS127 | MVS_4GV_NB | MVS_4GV_WB | BAD_INDEX

datatype mvs_rate = AMR_MODE nat | AMR_WB_MODE nat | VOC_RATE u32 | RATE_ZERO | RATE_DRIVER

text \<open>The endpoints of the sound driver the code has a variable for.\<close>

datatype snd_name =
    S_CURRENT | S_HANDSET | S_SPEAKER | S_BT | S_BT_EC_OFF | S_HEADSET
  | S_STEREO_HEADSET_AND_SPEAKER | S_IN_S_SADC_OUT_HANDSET | S_IN_S_SADC_OUT_SPEAKER_PHONE
  | S_TTY_HEADSET | S_TTY_HCO | S_TTY_VCO | S_CARKIT | S_FM_SPEAKER | S_FM_HEADSET
  | S_NO_MIC_HEADSET | S_FM_DIGITAL_STEREO_HEADSET | S_FM_DIGITAL_SPEAKER_PHONE
  | S_FM_DIGITAL_BT_A2DP_HEADSET | S_FM_ANALOG_STEREO_HEADSET
  | S_FM_ANALOG_STEREO_HEADSET_CODEC

datatype tty_modes = TTY_OFF | TTY_VCO | TTY_HCO | TTY_FULL

section \<open>Driver calls\<close>

record msm_config =
  c_buffer_size :: u32
  c_buffer_count :: u32
  c_channel_count :: u32
  c_sample_rate :: u32
  c_type :: u32

record voicememo =
  vm_rec_type :: nat
  vm_capability :: nat
  vm_max_rate :: nat
  vm_min_rate :: nat
  vm_frame_format :: nat
  vm_dtx_enable :: nat
  vm_data_req_ms :: nat

datatype req =
    AUDIO_GET_CONFIG | AUDIO_SET_CONFIG msm_config | AUDIO_START | AUDIO_STOP | AUDIO_FLUSH
  | AUDIO_PAUSE bool | AUDIO_SET_VOLUME int | AUDIO_ASYNC_WRITE int nat
  | AUDIO_REGISTER_ION "int option" int | AUDIO_DEREGISTER_ION int int | AUDIO_ABORT_GET_EVENT | AUDIO_GET_STATS
  | ION_IOC_ALLOC | ION_IOC_FREE
  | AUDIO_GET_MVS_CONFIG | AUDIO_SET_MVS_CONFIG mvs_mode mvs_rate
  | AUDIO_SET_VOICEMEMO_CONFIG voicememo | AUDIO_GET_VOICEMEMO_CONFIG
  | AUDIO_SET_MBADRC mbadrc_filter | AUDIO_SET_ADRC adrc_filter | AUDIO_SET_EQ eqalizer
  | AUDIO_SET_RX_IIR rx_iir_filter | AUDIO_ENABLE_AUDPP u32 | AUDIO_SET_SRS_TRUMEDIA_PARAM u32 u16
  | AUDIO_SET_AGC tx_agc | AUDIO_SET_NS ns | AUDIO_SET_TX_IIR tx_iir | AUDIO_ENABLE_AUDPRE u32
  | SND_SET_VOLUME u32 int | SND_SET_DEVICE u32 bool bool
  | SND_GET_NUM_ENDPOINTS | SND_GET_ENDPOINT nat | SND_AVC_CTL bool | SND_AGC_CTL bool
  | I2C_RDWR "u8 list"

datatype kcall =
    Open string | Close int | Ioctl int req | Fwrite int nat | Fread int nat
  | Share int | Fstat int | Mmap int | Munmap int | Usleep nat | Fsync int

text \<open>
  \<open>Share fd\<close> is \<open>ioctl(fd, ION_IOC_SHARE, &data)\<close> with the descriptor it stores in \<open>data\<close> as its
  result, negative when the call fails.
\<close>

type_synonym klog = "(kcall \<times> int) list"

section \<open>The environment\<close>

text \<open>
  \<open>e_ret\<close>: the result of a call given the calls before it; \<open>e_again\<close>: whether \<open>errno\<close> is
  \<open>EAGAIN\<close>; \<open>e_cfg\<close>: what \<open>AUDIO_GET_CONFIG\<close> fills in; \<open>e_numept\<close>, \<open>e_ept\<close>: number, name and id
  of the sound endpoints; \<open>e_prop\<close>: system properties; \<open>e_dev\<close>, \<open>e_chan\<close>, \<open>e_voc\<close>: constants;
  \<open>e_setMode\<close>: \<open>AudioHardwareBase::setMode\<close>; \<open>e_csv\<close>, \<open>e_avc\<close>: contents of the two files of
  \<open>/system/etc\<close>; \<open>e_popcount\<close>, \<open>e_isInput\<close>: functions of \<open>AudioSystem\<close>; \<open>e_int\<close>, \<open>e_float\<close>,
  \<open>e_atoi\<close>: how \<open>AudioParameter\<close> and libc read numbers; \<open>e_f32\<close>: rounding of a number to \<open>float\<close>;
  \<open>e_frameSize\<close>: the base class; \<open>e_mvs_frame\<close>, \<open>e_voc_pkt\<close>: sizes of the driver's voice frame;
  \<open>e_time\<close>: the clock in microseconds; \<open>e_malloc\<close>:
  whether \<open>malloc\<close> succeeds; \<open>e_keyRouting\<close> and the two after it: keys declared by \<open>AudioParameter\<close>.
\<close>

record env =
  e_ret :: "klog \<Rightarrow> kcall \<Rightarrow> int"
  e_again :: "klog \<Rightarrow> bool"
  e_cfg :: "klog \<Rightarrow> msm_config"
  e_numept :: nat
  e_ept :: "nat \<Rightarrow> string \<times> u32"
  e_prop :: "string \<Rightarrow> string option"
  e_dev :: "dev_name \<Rightarrow> u32"
  e_chan :: "chan_name \<Rightarrow> u32"
  e_voc :: "u32 \<Rightarrow> bool"
  e_setMode :: "amode \<Rightarrow> amode \<Rightarrow> status \<times> amode"
  e_csv :: string
  e_avc :: string
  e_popcount :: "u32 \<Rightarrow> u32"
  e_isInput :: "u32 \<Rightarrow> bool"
  e_int :: "string \<Rightarrow> int option"
  e_float :: "string \<Rightarrow> rat option"
  e_f32 :: "rat \<Rightarrow> rat"
  e_atoi :: "string \<Rightarrow> u32"
  e_frameSize :: nat
  e_mvs_frame :: nat
  e_voc_pkt :: nat
  e_time :: "klog \<Rightarrow> int"
  e_malloc :: "klog \<Rightarrow> bool"
  e_keyRouting :: string
  e_keyFmVolume :: string
  e_keyHandleFm :: string

section \<open>State\<close>

datatype fault = NullDeref | BadPointer | SelfDeadlock | OutOfBounds

record kern =
  k_log :: klog
  k_fault :: "fault option"

text \<open>\<open>AudioStreamOutMSM72xx\<close>\<close>

record out72 =
  o_fd :: int
  o_startCount :: nat
  o_retryCount :: nat
  o_standby :: bool
  o_devices :: u32

text \<open>\<open>AudioStreamOutDirect\<close>\<close>

record outdirect =
  d_fd :: int
  d_retryCount :: nat
  d_standby :: bool
  d_devices :: u32
  d_channels :: u32
  d_rate :: u32
  d_bufsz :: nat
  d_format :: format

datatype input_state = IN_CLOSED | IN_OPENED | IN_STARTED

text \<open>\<open>AudioStreamInMSM72xx\<close> and \<open>AudioStreamInVoip\<close>; \<open>i_hw\<close> says that \<open>mHardware\<close> is set.\<close>

record instream =
  i_hw :: bool
  i_fd :: int
  i_state :: input_state
  i_retryCount :: nat
  i_format :: format
  i_channels :: u32
  i_rate :: u32
  i_bufsz :: nat
  i_devices :: u32
  i_firstread :: bool

record voipin = instream +
  v_setup :: bool

record hw = kern +
  tables :: audpp
  audpp_filter_inited :: bool
  audpre_index :: int
  post_proc_feature_mask :: u32
  new_post_proc_feature_mask :: u32
  hpcm_playback_in_progress :: bool
  lpa_playback_in_progress :: bool
  snd_device :: u32
  SND_DEVICE :: "snd_name \<Rightarrow> u32"
  instanceCount :: int
  mInit :: bool
  mMode :: amode
  mMicMute :: bool
  mFmFd :: int
  fmA2dp :: int
  mBluetoothNrec :: bool
  mBluetoothVGS :: bool
  mBluetoothId :: u32
  mOutput :: "out72 option"
  mDirectOutput :: "outdirect option"
  mInputs :: "(nat \<times> instream) list"
  mVoipInputs :: "(nat \<times> voipin) list"
  mVoipBitRate :: u32
  mSndEndpoints :: "(string \<times> u32) list"
  mCurSndDevice :: u32
  m7xsnddriverfd :: int
  mDualMicEnabled :: bool
  mTtyMode :: tty_modes
  mVoipFd :: int
  mVoipInActive :: bool
  mVoipOutActive :: bool
  mDirectOutrefCnt :: int
  mLock :: bool
  mVoipLock :: bool

definition NO_DEVICE :: u32 where "NO_DEVICE = 0xFFFFFFFF"

text \<open>
  The static variables before the object exists and the member initialisers of the
  constructor. Members without an initialiser (\<open>mNumSndEndpoints\<close>, \<open>m7xsnddriverfd\<close>) are set by
  its body.
\<close>

definition hw_init :: hw where
  "hw_init =
     \<lparr>k_log = [], k_fault = None, tables = audpp_init, audpp_filter_inited = False,
      audpre_index = 0, post_proc_feature_mask = 0, new_post_proc_feature_mask = 0,
      hpcm_playback_in_progress = False, lpa_playback_in_progress = False,
      snd_device = NO_DEVICE, SND_DEVICE = (\<lambda>_. NO_DEVICE), instanceCount = 0, mInit = False,
      mMode = MODE_NORMAL, mMicMute = True, mFmFd = -1, fmA2dp = -1, mBluetoothNrec = True,
      mBluetoothVGS = False, mBluetoothId = 0, mOutput = None, mDirectOutput = None,
      mInputs = [], mVoipInputs = [], mVoipBitRate = 0, mSndEndpoints = [],
      mCurSndDevice = NO_DEVICE, m7xsnddriverfd = -1, mDualMicEnabled = False,
      mTtyMode = TTY_OFF, mVoipFd = -1, mVoipInActive = False, mVoipOutActive = False,
      mDirectOutrefCnt = 0, mLock = False, mVoipLock = False\<rparr>"

text \<open>
  An environment for concrete runs: every call succeeds, each \<open>open\<close> returns a new descriptor,
  and the masks of the devices are different single bits.
\<close>

definition env0 :: env where
  "env0 =
     \<lparr>e_ret = (\<lambda>l c. case c of Open p \<Rightarrow> 3 + int (length l) | Share fd \<Rightarrow> 3 + int (length l) | Fwrite fd n \<Rightarrow> int n
                   | Fread fd n \<Rightarrow> int n | _ \<Rightarrow> 0),
      e_again = (\<lambda>_. False),
      e_cfg = (\<lambda>_. \<lparr>c_buffer_size = 2048, c_buffer_count = 2, c_channel_count = 1,
                   c_sample_rate = 8000, c_type = 0\<rparr>),
      e_numept = 2, e_ept = (\<lambda>i. if i = 0 then (''SPEAKER'', 1) else (''HANDSET'', 2)),
      e_prop = (\<lambda>_. None),
      e_dev = (\<lambda>d. case d of
         OUT_EARPIECE \<Rightarrow> 0x1 | OUT_SPEAKER \<Rightarrow> 0x2 | OUT_WIRED_HEADSET \<Rightarrow> 0x4
       | OUT_WIRED_HEADPHONE \<Rightarrow> 0x8 | OUT_BLUETOOTH_SCO \<Rightarrow> 0x10
       | OUT_BLUETOOTH_SCO_HEADSET \<Rightarrow> 0x20 | OUT_BLUETOOTH_SCO_CARKIT \<Rightarrow> 0x40 | OUT_FM \<Rightarrow> 0x80
       | IN_COMMUNICATION \<Rightarrow> 0x10000 | IN_BLUETOOTH_SCO_HEADSET \<Rightarrow> 0x20000
       | IN_WIRED_HEADSET \<Rightarrow> 0x40000 | IN_VOICE_CALL \<Rightarrow> 0x80000 | IN_FM_RX \<Rightarrow> 0x100000
       | IN_FM_RX_A2DP \<Rightarrow> 0x200000),
      e_chan = (\<lambda>c. case c of
         CH_OUT_STEREO \<Rightarrow> 3 | CH_OUT_MONO \<Rightarrow> 1 | CH_IN_MONO \<Rightarrow> 0x10 | CH_IN_STEREO \<Rightarrow> 0xC
       | CH_IN_UPLINK \<Rightarrow> 0x4000 | CH_IN_DNLINK \<Rightarrow> 0x8000),
      e_voc = (\<lambda>_. False),
      e_setMode = (\<lambda>old new. if old = new then (INVALID_OPERATION, old) else (NO_ERROR, new)),
      e_csv = [], e_avc = ''0'', e_popcount = (\<lambda>_. 1), e_isInput = (\<lambda>_. True),
      e_int = (\<lambda>v. if v = ''2'' then Some 2 else if v = ''0'' then Some 0 else None),
      e_float = (\<lambda>_. None), e_f32 = (\<lambda>x. x), e_atoi = (\<lambda>v. if v = ''12200'' then 12200 else 0),
      e_frameSize = 4, e_mvs_frame = 648, e_voc_pkt = 640, e_time = (\<lambda>l. int (length l)), e_malloc = (\<lambda>_. True), e_keyRouting = ''routing'', e_keyFmVolume = ''fm_volume'', e_keyHandleFm = ''handle_fm''\<rparr>"

section \<open>Kernel operations\<close>

definition kcall :: "env \<Rightarrow> kcall \<Rightarrow> ('a kern_scheme, int) state" where
  "kcall E c = State (\<lambda>s. (let r = e_ret E (k_log s) c in (r, s\<lparr>k_log := k_log s @ [(c, r)]\<rparr>)))"

definition sys_open :: "env \<Rightarrow> string \<Rightarrow> ('a kern_scheme, int) state" where
  "sys_open E p = kcall E (Open p)"

definition sys_close :: "env \<Rightarrow> int \<Rightarrow> ('a kern_scheme, int) state" where
  "sys_close E fd = kcall E (Close fd)"

definition sys_ioctl :: "env \<Rightarrow> int \<Rightarrow> req \<Rightarrow> ('a kern_scheme, int) state" where
  "sys_ioctl E fd r = kcall E (Ioctl fd r)"

text \<open>The first fault is kept: what happens after it has no meaning.\<close>

definition raise_fault :: "fault \<Rightarrow> ('a kern_scheme, unit) state" where
  "raise_fault f =
     modify (\<lambda>s. s\<lparr>k_fault := (case k_fault s of None \<Rightarrow> Some f | Some g \<Rightarrow> Some g)\<rparr>)"

text \<open>The descriptors a log leaves open, as a multiset.\<close>

fun live_step :: "int multiset \<Rightarrow> kcall \<times> int \<Rightarrow> int multiset" where
  "live_step fds (Open p, r) = (if r < 0 then fds else add_mset r fds)"
| "live_step fds (Share ion, r) = (if r < 0 then fds else add_mset r fds)"
| "live_step fds (Close fd, r) = fds - {#fd#}"
| "live_step fds _ = fds"

definition live :: "klog \<Rightarrow> int multiset" where
  "live l = foldl live_step {#} l"

lemma live_append [simp]: "live (l @ xs) = foldl live_step (live l) xs"
  by (simp add: live_def)

lemma live_Nil [simp]: "live [] = {#}"
  by (simp add: live_def)

lemma exec_kcall [simp]:
  "exec (kcall E c) s = s\<lparr>k_log := k_log s @ [(c, e_ret E (k_log s) c)]\<rparr>"
  by (simp add: kcall_def exec_def Let_def)

lemma result_kcall [simp]: "result (kcall E c) s = e_ret E (k_log s) c"
  by (simp add: kcall_def result_def Let_def)

lemma exec_sys [simp]:
  "exec (sys_open E p) s = s\<lparr>k_log := k_log s @ [(Open p, e_ret E (k_log s) (Open p))]\<rparr>"
  "exec (sys_close E fd) s = s\<lparr>k_log := k_log s @ [(Close fd, e_ret E (k_log s) (Close fd))]\<rparr>"
  "exec (sys_ioctl E fd r) s = s\<lparr>k_log := k_log s @ [(Ioctl fd r, e_ret E (k_log s) (Ioctl fd r))]\<rparr>"
  by (simp_all add: sys_open_def sys_close_def sys_ioctl_def)

lemma result_sys [simp]:
  "result (sys_open E p) s = e_ret E (k_log s) (Open p)"
  "result (sys_close E fd) s = e_ret E (k_log s) (Close fd)"
  "result (sys_ioctl E fd r) s = e_ret E (k_log s) (Ioctl fd r)"
  by (simp_all add: sys_open_def sys_close_def sys_ioctl_def)

lemma exec_raise [simp]:
  "exec (raise_fault f) s =
     s\<lparr>k_fault := (case k_fault s of None \<Rightarrow> Some f | Some g \<Rightarrow> Some g)\<rparr>"
  by (simp add: raise_fault_def)

lemma preserves_kcall [pres]:
  "(\<And>s. I s \<Longrightarrow> I (s\<lparr>k_log := k_log s @ [(c, e_ret E (k_log s) c)]\<rparr>)) \<Longrightarrow> preserves I (kcall E c)"
  by (simp add: preserves_def)

lemma preserves_sys [pres]:
  "(\<And>s r. I s \<Longrightarrow> I (s\<lparr>k_log := k_log s @ [(Open p, r)]\<rparr>)) \<Longrightarrow> preserves I (sys_open E p)"
  "(\<And>s r. I s \<Longrightarrow> I (s\<lparr>k_log := k_log s @ [(Close fd, r)]\<rparr>)) \<Longrightarrow> preserves I (sys_close E fd)"
  "(\<And>s r. I s \<Longrightarrow> I (s\<lparr>k_log := k_log s @ [(Ioctl fd q, r)]\<rparr>)) \<Longrightarrow> preserves I (sys_ioctl E fd q)"
  by (simp_all add: preserves_def)

section \<open>Parameters\<close>

text \<open>\<open>AudioParameter\<close>: the keys and values of a string \<open>key=value;key=value\<close>.\<close>

type_synonym params = "(string \<times> string) list"

definition par_get :: "params \<Rightarrow> string \<Rightarrow> string option" where
  "par_get ps k = map_of ps k"

definition par_remove :: "string \<Rightarrow> params \<Rightarrow> params" where
  "par_remove k ps = filter (\<lambda>(k', _). k' \<noteq> k) ps"

definition par_getInt :: "env \<Rightarrow> params \<Rightarrow> string \<Rightarrow> int option" where
  "par_getInt E ps k = (case par_get ps k of None \<Rightarrow> None | Some v \<Rightarrow> e_int E v)"

definition par_add :: "string \<Rightarrow> string \<Rightarrow> params \<Rightarrow> params" where
  "par_add k v ps =
     (if par_get ps k = None then ps @ [(k, v)] else map (\<lambda>(k', v'). (k', if k' = k then v else v')) ps)"

section \<open>Locks\<close>

text \<open>
  \<open>Mutex::lock\<close> by the thread that already holds the mutex never returns. The state below is
  the one of a single thread, so a lock found taken was taken by the caller.
\<close>

definition lock_mLock :: "(hw, unit) state" where
  "lock_mLock = do {
     held \<leftarrow> gets mLock;
     whenM held (raise_fault SelfDeadlock);
     modify (\<lambda>s. s\<lparr>mLock := True\<rparr>)
   }"

definition unlock_mLock :: "(hw, unit) state" where
  "unlock_mLock = modify (\<lambda>s. s\<lparr>mLock := False\<rparr>)"

text \<open>\<open>Mutex::Autolock lock(mLock)\<close> around a block.\<close>

definition autolock :: "(hw, 'a) state \<Rightarrow> (hw, 'a) state" where
  "autolock m = do {
     lock_mLock;
     r \<leftarrow> m;
     unlock_mLock;
     ret r
   }"

definition autolock_voip :: "(hw, 'a) state \<Rightarrow> (hw, 'a) state" where
  "autolock_voip m = do {
     held \<leftarrow> gets mVoipLock;
     whenM held (raise_fault SelfDeadlock);
     modify (\<lambda>s. s\<lparr>mVoipLock := True\<rparr>);
     r \<leftarrow> m;
     modify (\<lambda>s. s\<lparr>mVoipLock := False\<rparr>);
     ret r
   }"

lemma exec_lock [simp]:
  "exec lock_mLock s = (if mLock s then exec (raise_fault SelfDeadlock) s else s)\<lparr>mLock := True\<rparr>"
  by (simp add: lock_mLock_def)

lemma exec_unlock [simp]: "exec unlock_mLock s = s\<lparr>mLock := False\<rparr>"
  by (simp add: unlock_mLock_def)

lemma preserves_raise [pres]:
  "(\<And>s. I s \<Longrightarrow> I (s\<lparr>k_fault := (case k_fault s of None \<Rightarrow> Some f | Some g \<Rightarrow> Some g)\<rparr>)) \<Longrightarrow>
     preserves I (raise_fault f)"
  by (simp add: preserves_def)

end
