(* ===== verification/AudioTables.thy ===== *)
theory AudioTables
  imports HwTypes
begin

text \<open>
  The pure tables of \<open>audio/AudioHardware.cpp\<close>: supported sampling rates, buffer sizes, the MVS
  vocoder modes and rates.
\<close>

section \<open>Sampling rates\<close>

definition inputSamplingRates :: "u32 list" where
  "inputSamplingRates = [8000, 11025, 12000, 16000, 22050, 24000, 32000, 44100, 48000]"

text \<open>\<open>abs\<close> on the unsigned difference, converted to \<open>int\<close> and back.\<close>

definition abs32 :: "u32 \<Rightarrow> u32" where
  "abs32 x = (if x <s 0 then - x else x)"

text \<open>\<open>getInputSampleRate\<close>: walk the table while the distance does not grow.\<close>

fun nearest_from :: "u32 \<Rightarrow> u32 \<Rightarrow> u32 \<Rightarrow> u32 list \<Rightarrow> u32" where
  "nearest_from rate prev prevDelta [] = prev"
| "nearest_from rate prev prevDelta (r # rs) =
     (let delta = abs32 (rate - r)
      in if delta > prevDelta then prev else nearest_from rate r delta rs)"

definition getInputSampleRate :: "u32 \<Rightarrow> u32" where
  "getInputSampleRate rate = nearest_from rate 0 0xFFFFFFFF inputSamplingRates"

text \<open>The row of a rate in the pre-processing tables; -1 for a rate without one.\<close>

definition calculate_audpre_table_index :: "u32 \<Rightarrow> int" where
  "calculate_audpre_table_index rate =
     (if rate = 48000 then 8 else if rate = 44100 then 7 else if rate = 32000 then 6
      else if rate = 24000 then 5 else if rate = 22050 then 4 else if rate = 16000 then 3
      else if rate = 12000 then 2 else if rate = 11025 then 1 else if rate = 8000 then 0
      else -1)"

definition getInputBufferSize :: "u32 \<Rightarrow> format \<Rightarrow> int \<Rightarrow> nat" where
  "getInputBufferSize sampleRate fmt channelCount =
     (if fmt \<notin> set [PCM_16_BIT, AMR_NB, AMR_WB, EVRC, EVRCB, EVRCWB, QCELP, AAC] then 0
      else if channelCount < 1 \<or> channelCount > 2 then 0
      else if fmt = AMR_NB then 320 * nat channelCount
      else if fmt = EVRC then 230 * nat channelCount
      else if fmt = QCELP then 350 * nat channelCount
      else if fmt = AAC then 2048
      else if sampleRate = 8000 then 320 * nat channelCount
      else if sampleRate = 16000 then 640 * nat channelCount
      else 2048 * nat channelCount)"

section \<open>MVS vocoder modes and rates\<close>

definition getMvsMode :: "format \<Rightarrow> u32 \<Rightarrow> mvs_mode" where
  "getMvsMode fmt rate =
     (case fmt of
        PCM_16_BIT \<Rightarrow> if rate = 8000 then MVS_PCM else if rate = 16000 then MVS_PCM_WB else MVS_PCM
      | AMR_NB \<Rightarrow> MVS_AMR
      | AMR_WB \<Rightarrow> MVS_AMR_WB
      | EVRC \<Rightarrow> MVS_IS127
      | EVRCB \<Rightarrow> MVS_4GV_NB
      | EVRCWB \<Rightarrow> MVS_4GV_WB
      | _ \<Rightarrow> BAD_INDEX)"

definition amr_rates :: "u32 list" where
  "amr_rates = [4750, 5150, 5900, 6700, 7400, 7950, 10200, 12200]"

definition amr_wb_rates :: "u32 list" where
  "amr_wb_rates = [6600, 8850, 12650, 14250, 15850, 18250, 19850, 23050, 23850]"

text \<open>
  The error code and the rate type; a rate that is not supported leaves \<open>*rateType\<close> at the
  value it had. The AMR modes are named by their position in the tables above.
\<close>

definition table_pos :: "u32 list \<Rightarrow> u32 \<Rightarrow> nat option" where
  "table_pos tab r =
     (if r \<in> set tab then Some (length (takeWhile (\<lambda>x. x \<noteq> r) tab)) else None)"

definition getMvsRateType ::
  "(u32 \<Rightarrow> bool) \<Rightarrow> u32 \<Rightarrow> mvs_mode \<Rightarrow> mvs_rate \<Rightarrow> bool \<times> mvs_rate" where
  "getMvsRateType isVoc bitRate mode old =
     (case mode of
        MVS_AMR \<Rightarrow> (case table_pos amr_rates bitRate of
                      Some k \<Rightarrow> (True, AMR_MODE k) | None \<Rightarrow> (False, old))
      | MVS_AMR_WB \<Rightarrow> (case table_pos amr_wb_rates bitRate of
                      Some k \<Rightarrow> (True, AMR_WB_MODE k) | None \<Rightarrow> (False, old))
      | MVS_PCM \<Rightarrow> (True, RATE_ZERO)
      | MVS_PCM_WB \<Rightarrow> (True, RATE_ZERO)
      | MVS_IS127 \<Rightarrow> if isVoc bitRate then (True, VOC_RATE bitRate) else (False, old)
      | MVS_4GV_NB \<Rightarrow> if isVoc bitRate then (True, VOC_RATE bitRate) else (False, old)
      | MVS_4GV_WB \<Rightarrow> if isVoc bitRate then (True, VOC_RATE bitRate) else (False, old)
      | BAD_INDEX \<Rightarrow> (False, old))"

section \<open>The nearest rate\<close>

definition dist :: "u32 \<Rightarrow> u32 \<Rightarrow> int" where
  "dist a b = \<bar>uint a - uint b\<bar>"

lemma sint_small: assumes "uint (r::32 word) < 2 ^ 31" shows "sint r = uint r"
  using assms by (simp add: sint_uint signed_take_bit_int_eq_self order_trans [OF _ uint_ge_0])

lemma sint_diff_small:
  assumes "uint (a::u32) < 2 ^ 31" "uint b < 2 ^ 31"
  shows "sint (a - b) = uint a - uint b"
proof -
  have "sint (a - b) = signed_take_bit 31 (uint a - uint b)"
    using assms by (simp add: sint_word_diff sint_small)
  moreover have "- (2 ^ 31) \<le> uint a - uint b \<and> uint a - uint b < 2 ^ 31"
    using assms uint_ge_0 [of a] uint_ge_0 [of b] by linarith
  ultimately show ?thesis by (simp add: signed_take_bit_int_eq_self)
qed

lemma uint_word_of_sint:
  "0 \<le> k \<Longrightarrow> k < 2 ^ 32 \<Longrightarrow> uint (word_of_int k :: u32) = k"
  by (simp add: uint_word_of_int)

lemma uint_abs32: "uint (abs32 x) = \<bar>sint x\<bar>"
proof -
  have lo: "- (2 ^ 31) \<le> sint x" using sint_ge [of x] by simp
  have hi: "sint x < 2 ^ 31" using sint_less [of x] by simp
  have x: "x = word_of_int (sint x)" by simp
  have m: "- x = word_of_int (- sint x)" by simp
  show ?thesis
  proof (cases "x <s 0")
    case True
    then have "sint x < 0" by (simp add: word_sless_alt)
    then have "uint (word_of_int (- sint x) :: u32) = - sint x"
      using lo by (intro uint_word_of_sint) auto
    with True \<open>sint x < 0\<close> show ?thesis by (simp add: abs32_def)
  next
    case False
    then have "0 \<le> sint x" by (simp add: word_sless_alt)
    then have "uint (word_of_int (sint x) :: u32) = sint x"
      using hi by (intro uint_word_of_sint) auto
    with False \<open>0 \<le> sint x\<close> show ?thesis by (simp add: abs32_def)
  qed
qed

lemma abs32_dist:
  assumes "uint rate < 2 ^ 31" "uint r < 2 ^ 31"
  shows "uint (abs32 (rate - r)) = dist rate r"
  using assms by (simp add: uint_abs32 sint_diff_small dist_def)

text \<open>Beyond the nearest entry of a sorted table the distance only grows.\<close>

lemma dist_grows:
  assumes "a \<le> b" "b \<le> c" "dist x a < dist x b"
  shows "dist x b \<le> dist x c"
  using assms by (simp add: dist_def word_le_def split: abs_split)

lemma nearest_from_best:
  assumes "uint rate < 2 ^ 31" "\<forall>r \<in> set (p # rs). uint r < 2 ^ 31" "sorted (p # rs)"
    and "uint d = dist rate p"
  shows "nearest_from rate p d rs \<in> set (p # rs)
    \<and> (\<forall>r \<in> set (p # rs). dist rate (nearest_from rate p d rs) \<le> dist rate r)"
  using assms(2-)
proof (induction rs arbitrary: p d)
  case Nil
  then show ?case by simp
next
  case (Cons r rs)
  let ?e = "abs32 (rate - r)"
  have e: "uint ?e = dist rate r" using Cons.prems assms(1) by (simp add: abs32_dist)
  show ?case
  proof (cases "?e > d")
    case True
    then have lt: "dist rate p < dist rate r" using e Cons.prems by (simp add: word_less_def)
    have "dist rate p \<le> dist rate q" if "q \<in> set (r # rs)" for q
    proof -
      have "p \<le> r" "r \<le> q" using Cons.prems that by auto
      from dist_grows [OF this lt] lt show ?thesis by simp
    qed
    with True show ?thesis by (simp add: Let_def)
  next
    case False
    then have le: "dist rate r \<le> dist rate p" using e Cons.prems by (simp add: word_less_def)
    from Cons.IH [of r ?e] Cons.prems e have
      "nearest_from rate r ?e rs \<in> set (r # rs)
        \<and> (\<forall>q \<in> set (r # rs). dist rate (nearest_from rate r ?e rs) \<le> dist rate q)" by simp
    with False le show ?thesis by (auto simp: Let_def intro: order_trans)
  qed
qed

lemma getInputSampleRate_best:
  assumes "uint rate < 2 ^ 31"
  shows "getInputSampleRate rate \<in> set inputSamplingRates
    \<and> (\<forall>r \<in> set inputSamplingRates. dist rate (getInputSampleRate rate) \<le> dist rate r)"
proof -
  let ?rs = "tl inputSamplingRates"
  have small: "uint (abs32 (rate - 8000)) = dist rate 8000"
    using assms by (simp add: abs32_dist)
  have cons: "inputSamplingRates = 8000 # ?rs" by (simp add: inputSamplingRates_def)
  have "\<not> abs32 (rate - 8000) > 0xFFFFFFFF"
    using uint_lt2p [of "abs32 (rate - 8000)"] by (simp add: word_less_def)
  then have "getInputSampleRate rate = nearest_from rate 8000 (abs32 (rate - 8000)) ?rs"
    by (simp add: getInputSampleRate_def inputSamplingRates_def Let_def)
  moreover have "\<forall>r \<in> set (8000 # ?rs). uint r < 2 ^ 31" "sorted (8000 # ?rs)"
    by (simp_all add: inputSamplingRates_def)
  ultimately show ?thesis
    using nearest_from_best [OF assms, of 8000 ?rs "abs32 (rate - 8000)"] small cons by simp
qed

lemma getInputSampleRate_fixed:
  "getInputSampleRate rate = rate \<longleftrightarrow> rate \<in> set inputSamplingRates"
proof
  assume "rate \<in> set inputSamplingRates"
  moreover have "\<forall>r \<in> set inputSamplingRates. getInputSampleRate r = r"
    by (simp add: inputSamplingRates_def getInputSampleRate_def abs32_def word_sless_alt)
  ultimately show "getInputSampleRate rate = rate" by blast
next
  assume fx: "getInputSampleRate rate = rate"
  have "nearest_from r p d rs \<in> set (p # rs)" for r p d rs
    by (induction r p d rs rule: nearest_from.induct) (auto simp: Let_def)
  then have "getInputSampleRate rate \<in> set (0 # inputSamplingRates)"
    unfolding getInputSampleRate_def by blast
  moreover have "getInputSampleRate 0 \<noteq> 0"
    by (simp add: inputSamplingRates_def getInputSampleRate_def abs32_def word_sless_alt)
  ultimately show "rate \<in> set inputSamplingRates" using fx by auto
qed

section \<open>Properties\<close>

text \<open>
  The rate offered for recording is a supported one, and no supported rate is nearer to
  the rate that was asked for.
\<close>

theorem recording_rate_nearest:
  assumes "uint rate < 2 ^ 31"
  shows "getInputSampleRate rate \<in> set inputSamplingRates
    \<and> (\<forall>r \<in> set inputSamplingRates. dist rate (getInputSampleRate rate) \<le> dist rate r)"
  by (rule getInputSampleRate_best [OF assms])

lemma recording_rate_witness:
  "dist 23000 (getInputSampleRate 23000) \<le> dist 23000 22050"
  using recording_rate_nearest [of 23000] by (simp add: inputSamplingRates_def)

text \<open>
  The rows of the pre-processing tables and the list of recording rates agree: a rate is
  accepted unchanged by \<open>getInputSampleRate\<close> exactly when it has a row, and the row of
  entry \<open>i\<close> of the list is \<open>i\<close>; every other rate has index -1.
\<close>

theorem audpre_rows_are_recording_rates:
  "(getInputSampleRate rate = rate \<longleftrightarrow> calculate_audpre_table_index rate \<noteq> -1)
   \<and> (calculate_audpre_table_index rate = -1
      \<or> (0 \<le> calculate_audpre_table_index rate \<and> calculate_audpre_table_index rate < 9
         \<and> inputSamplingRates ! nat (calculate_audpre_table_index rate) = rate))"
proof -
  have "calculate_audpre_table_index rate \<noteq> -1 \<longleftrightarrow> rate \<in> set inputSamplingRates"
    by (simp add: calculate_audpre_table_index_def inputSamplingRates_def)
  moreover have "calculate_audpre_table_index rate = -1
      \<or> (0 \<le> calculate_audpre_table_index rate \<and> calculate_audpre_table_index rate < 9
         \<and> inputSamplingRates ! nat (calculate_audpre_table_index rate) = rate)"
    by (simp add: calculate_audpre_table_index_def inputSamplingRates_def)
  ultimately show ?thesis by (simp add: getInputSampleRate_fixed)
qed

text \<open>
  The input buffer size is 0 exactly for a format that cannot be recorded or a channel
  count other than one or two, and never exceeds two buffers of 2048 bytes.
\<close>

theorem input_buffer_size_bounds:
  "(getInputBufferSize rate fmt ch = 0 \<longleftrightarrow>
      fmt \<notin> {PCM_16_BIT, AMR_NB, AMR_WB, EVRC, EVRCB, EVRCWB, QCELP, AAC} \<or> ch \<notin> {1, 2})
   \<and> getInputBufferSize rate fmt ch \<le> 4096"
proof (cases "fmt \<in> {PCM_16_BIT, AMR_NB, AMR_WB, EVRC, EVRCB, EVRCWB, QCELP, AAC} \<and> ch \<in> {1, 2}")
  case False
  then have "fmt \<notin> set [PCM_16_BIT, AMR_NB, AMR_WB, EVRC, EVRCB, EVRCWB, QCELP, AAC] \<or> ch < 1 \<or> ch > 2"
    by auto
  then have "getInputBufferSize rate fmt ch = 0" unfolding getInputBufferSize_def
    by (elim disjE) simp_all
  moreover from this have "getInputBufferSize rate fmt ch \<le> 4096" by simp
  ultimately show ?thesis using False by blast
next
  case True
  then have "ch = 1 \<or> ch = 2" by simp
  then have "getInputBufferSize rate fmt ch \<noteq> 0 \<and> getInputBufferSize rate fmt ch \<le> 4096"
    using True unfolding getInputBufferSize_def by (elim disjE) simp_all
  with True show ?thesis by blast
qed

lemma input_buffer_size_witness:
  "getInputBufferSize 8000 AMR_NB 1 \<noteq> 0 \<and> getInputBufferSize 8000 AMR_NB 3 = 0"
  using input_buffer_size_bounds [of 8000 AMR_NB 1] input_buffer_size_bounds [of 8000 AMR_NB 3]
  by simp

end
