(* ===== verification/PostProc.thy ===== *)
theory PostProc
  imports HwTypes
begin

text \<open>
  \<open>msm72xx_enable_postproc\<close> and \<open>msm72xx_enable_preproc\<close> of \<open>audio/AudioHardware.cpp\<close>: the
  calibration tables are sent to the DSP for the current output device or recording rate.
\<close>

section \<open>Post-processing\<close>

definition mask_and :: "u32 \<Rightarrow> (hw, unit) state" where
  "mask_and m = modify (\<lambda>s. s\<lparr>post_proc_feature_mask := post_proc_feature_mask s AND m\<rparr>)"

definition mask_off_all :: "(hw, unit) state" where
  "mask_off_all = do {
     mask_and MBADRC_DISABLE;
     mask_and ADRC_DISABLE;
     mask_and EQ_DISABLE;
     mask_and RX_IIR_DISABLE
   }"

definition pp_on :: "u32 \<Rightarrow> (hw, bool) state" where
  "pp_on feat = gets (\<lambda>s. holds (post_proc_feature_mask s) feat)"

text \<open>The entry of the tables for the current sound device.\<close>

definition pp_device_id :: "hw \<Rightarrow> nat" where
  "pp_device_id s =
     (if snd_device s = SND_DEVICE s S_HEADSET then 2
      else if snd_device s = SND_DEVICE s S_HANDSET then 1
      else 0)"

definition pp_dynamics :: "env \<Rightarrow> int \<Rightarrow> nat \<Rightarrow> bool \<Rightarrow> (hw, unit) state" where
  "pp_dynamics E fd d enable = do {
     t \<leftarrow> gets tables;
     if mbadrc_filter_exists t ! d \<and> enable then do {
       mask_and ADRC_DISABLE;
       on \<leftarrow> pp_on MBADRC_ENABLE;
       if mbadrc_flag t ! d = 0 \<and> on then mask_and MBADRC_DISABLE
       else whenM on (do { sys_ioctl E fd (AUDIO_SET_MBADRC (mbadrc_cfg t ! d)); ret () })
     } else if adrc_filter_exists t ! d \<and> enable then do {
       mask_and MBADRC_DISABLE;
       on \<leftarrow> pp_on ADRC_ENABLE;
       if adrc_flag t ! d = 0 \<and> on then mask_and ADRC_DISABLE
       else whenM on (do { sys_ioctl E fd (AUDIO_SET_ADRC (adrc_cfg t ! d)); ret () })
     } else mask_and (MBADRC_DISABLE OR ADRC_DISABLE)
   }"

definition pp_eq :: "env \<Rightarrow> int \<Rightarrow> nat \<Rightarrow> bool \<Rightarrow> (hw, unit) state" where
  "pp_eq E fd d enable = do {
     t \<leftarrow> gets tables;
     on \<leftarrow> pp_on EQ_ENABLE;
     if eq_flag t ! d = 0 \<and> on then mask_and EQ_DISABLE
     else whenM (on \<and> enable) (do { sys_ioctl E fd (AUDIO_SET_EQ (equalizer t ! d)); ret () })
   }"

definition pp_iir :: "env \<Rightarrow> int \<Rightarrow> nat \<Rightarrow> bool \<Rightarrow> (hw, unit) state" where
  "pp_iir E fd d enable = do {
     t \<leftarrow> gets tables;
     on \<leftarrow> pp_on RX_IIR_ENABLE;
     if rx_iir_flag t ! d = 0 \<and> on then mask_and RX_IIR_DISABLE
     else whenM (on \<and> enable) (do { sys_ioctl E fd (AUDIO_SET_RX_IIR (iir_cfg t ! d)); ret () })
   }"

definition clear_if_on :: "u32 \<Rightarrow> u32 \<Rightarrow> (hw, unit) state" where
  "clear_if_on feat m = do { on \<leftarrow> pp_on feat; whenM on (mask_and m) }"

definition pp_clear_enabled :: "(hw, unit) state" where
  "pp_clear_enabled = do {
     clear_if_on MBADRC_ENABLE MBADRC_DISABLE;
     clear_if_on ADRC_ENABLE ADRC_DISABLE;
     clear_if_on EQ_ENABLE EQ_DISABLE;
     clear_if_on RX_IIR_ENABLE RX_IIR_DISABLE
   }"

definition msm72xx_enable_postproc :: "env \<Rightarrow> bool \<Rightarrow> (hw, status) state" where
  "msm72xx_enable_postproc E enable = do {
     inited \<leftarrow> gets audpp_filter_inited;
     dev \<leftarrow> gets snd_device;
     if e_prop E ''audio.legacy.postproc'' \<noteq> Some ''true'' then do {
       mask_off_all; ret NO_ERROR
     } else if \<not> inited then do {
       mask_off_all; ret E_INVAL
     } else if dev <s 0 then do {
       mask_off_all; ret E_INVAL
     } else do {
       d \<leftarrow> gets pp_device_id;
       fd \<leftarrow> sys_open E ''/dev/msm_pcm_ctl'';
       if fd < 0 then ret E_PERM
       else do {
         pp_dynamics E fd d enable;
         pp_eq E fd d enable;
         pp_iir E fd d enable;
         whenM (\<not> enable) pp_clear_enabled;
         m \<leftarrow> gets post_proc_feature_mask;
         rc \<leftarrow> sys_ioctl E fd (AUDIO_ENABLE_AUDPP m);
         sys_close E fd;
         ret (if rc < 0 then E_PERM else NO_ERROR)
       }
     }
   }"

section \<open>Pre-processing\<close>

text \<open>\<open>audpre_index\<close> indexes arrays of nine entries; a negative index is outside them.\<close>

definition msm72xx_enable_preproc :: "env \<Rightarrow> bool \<Rightarrow> (hw, status) state" where
  "msm72xx_enable_preproc E enable = do {
     inited \<leftarrow> gets audpp_filter_inited;
     if \<not> inited then ret NO_ERROR
     else do {
       fd \<leftarrow> sys_open E ''/dev/msm_preproc_ctl'';
       if fd < 0 then ret E_PERM
       else do {
         ix \<leftarrow> gets audpre_index;
         whenM (ix < 0) (raise_fault OutOfBounds);
         t \<leftarrow> gets tables;
         let k = nat ix;
         let m = enable_preproc_mask t ! k;
         whenM (holds m AGC_ENABLE) (do { sys_ioctl E fd (AUDIO_SET_AGC (tx_agc_cfg t ! k)); ret () });
         whenM (holds m NS_ENABLE) (do { sys_ioctl E fd (AUDIO_SET_NS (ns_cfg t ! k)); ret () });
         whenM (holds m TX_IIR_ENABLE)
           (do { sys_ioctl E fd (AUDIO_SET_TX_IIR (tx_iir_cfg t ! k)); ret () });
         sys_ioctl E fd (AUDIO_ENABLE_AUDPRE (if enable then m else 0));
         sys_close E fd;
         ret NO_ERROR
       }
     }
   }"

section \<open>What the calls may change\<close>

lemmas pp_defs = pp_dynamics_def pp_eq_def pp_iir_def pp_clear_enabled_def clear_if_on_def
  pp_on_def mask_and_def mask_off_all_def

text \<open>The state without the kernel log and the feature mask.\<close>

definition but_pp :: "hw \<Rightarrow> hw" where
  "but_pp s = s\<lparr>post_proc_feature_mask := 0, k_log := []\<rparr>"

lemma but_pp_upd [simp]:
  "but_pp (s\<lparr>post_proc_feature_mask := m\<rparr>) = but_pp s"
  "but_pp (s\<lparr>k_log := l\<rparr>) = but_pp s"
  by (simp_all add: but_pp_def)

lemma postproc_frame: "preserves (\<lambda>s. but_pp s = v) (msm72xx_enable_postproc E enable)"
  unfolding msm72xx_enable_postproc_def pp_defs
  by (intro pres) simp_all

lemma but_pp_exec: "but_pp (exec (msm72xx_enable_postproc E enable) s) = but_pp s"
  using preservesD [OF postproc_frame, of s] by simp

section \<open>The mask as a function of the tables\<close>

lemma piece_frames:
  "preserves (\<lambda>s. tables s = t) (pp_dynamics E fd d en)" 
  "preserves (\<lambda>s. tables s = t) (pp_eq E fd d en)" 
  "preserves (\<lambda>s. tables s = t) (pp_iir E fd d en)" 
  unfolding pp_defs by ((intro pres; simp)+)

lemma masked_in_trans_and: "masked_in a m \<Longrightarrow> masked_in (a AND b) (m :: u32)"
  by (rule masked_in_and_left)

lemma postproc_subset: "preserves (\<lambda>s. masked_in (post_proc_feature_mask s) m) (msm72xx_enable_postproc E en)"
  unfolding msm72xx_enable_postproc_def pp_defs
  by (intro pres) (simp_all add: masked_in_and_left)

lemma pieces_live:
  "preserves (\<lambda>s. live (k_log s) = v) (pp_dynamics E fd d en)" 
  "preserves (\<lambda>s. live (k_log s) = v) (pp_eq E fd d en)" 
  "preserves (\<lambda>s. live (k_log s) = v) (pp_iir E fd d en)" 
  "preserves (\<lambda>s. live (k_log s) = v) pp_clear_enabled" 
  unfolding pp_defs by ((intro pres; simp)+)

lemma live_pieces [simp]:
  "live (k_log (exec (pp_dynamics E fd d en) s)) = live (k_log s)"
  "live (k_log (exec (pp_eq E fd d en) s)) = live (k_log s)"
  "live (k_log (exec (pp_iir E fd d en) s)) = live (k_log s)"
  "live (k_log (exec pp_clear_enabled s)) = live (k_log s)"
  using pieces_live [THEN preservesD] by blast+

lemma postproc_live:
  "live (k_log (exec (msm72xx_enable_postproc E en) s)) = live (k_log s)"
  by (simp add: msm72xx_enable_postproc_def mask_off_all_def mask_and_def del: add_mset_remove_trivial_eq)
lemma preproc_live:
  "live (k_log (exec (msm72xx_enable_preproc E en) s)) = live (k_log s)"
  by (simp add: msm72xx_enable_preproc_def Let_def)


text \<open>No feature of the calibration is on.\<close>

definition features_off :: "u32 \<Rightarrow> bool" where
  "features_off m \<longleftrightarrow>
     m AND ADRC_ENABLE = 0 \<and> m AND MBADRC_ENABLE = 0 \<and> m AND EQ_ENABLE = 0 \<and> m AND RX_IIR_ENABLE = 0"

lemma pp_clear_mask: "features_off (post_proc_feature_mask (exec pp_clear_enabled s))"
  by (simp add: pp_defs feature_bits and.assoc features_off_def)

lemma postproc_off:
  assumes "result (msm72xx_enable_postproc E False) s \<noteq> E_PERM"
  shows "features_off (post_proc_feature_mask (exec (msm72xx_enable_postproc E False) s))"
proof -
  have "features_off ((((m AND MBADRC_DISABLE) AND ADRC_DISABLE) AND EQ_DISABLE) AND RX_IIR_DISABLE)" for m
    by (simp add: features_off_def feature_bits and.assoc)
  then show ?thesis using assms pp_clear_mask
    by (auto simp: msm72xx_enable_postproc_def mask_off_all_def mask_and_def split: if_splits)
qed


text \<open>What each piece does to each feature bit when the features are being enabled.\<close>

lemma dynamics_bits:
  "post_proc_feature_mask (exec (pp_dynamics E fd d True) s) AND EQ_ENABLE = post_proc_feature_mask s AND EQ_ENABLE"
  "post_proc_feature_mask (exec (pp_dynamics E fd d True) s) AND RX_IIR_ENABLE = post_proc_feature_mask s AND RX_IIR_ENABLE"
  "post_proc_feature_mask (exec (pp_dynamics E fd d True) s) AND MBADRC_ENABLE = 0 \<longleftrightarrow>
     \<not> (holds (post_proc_feature_mask s) MBADRC_ENABLE
     \<and> (if mbadrc_filter_exists (tables s) ! d then mbadrc_flag (tables s) ! d \<noteq> 0
        else \<not> adrc_filter_exists (tables s) ! d))"
  "post_proc_feature_mask (exec (pp_dynamics E fd d True) s) AND ADRC_ENABLE = 0 \<longleftrightarrow>
     \<not> (holds (post_proc_feature_mask s) ADRC_ENABLE \<and> \<not> mbadrc_filter_exists (tables s) ! d
     \<and> (adrc_filter_exists (tables s) ! d \<longrightarrow> adrc_flag (tables s) ! d \<noteq> 0))"
  by (simp_all add: pp_dynamics_def mask_and_def pp_on_def feature_bits and.assoc)

lemma eq_bits:
  "post_proc_feature_mask (exec (pp_eq E fd d True) s) AND MBADRC_ENABLE = post_proc_feature_mask s AND MBADRC_ENABLE"
  "post_proc_feature_mask (exec (pp_eq E fd d True) s) AND ADRC_ENABLE = post_proc_feature_mask s AND ADRC_ENABLE"
  "post_proc_feature_mask (exec (pp_eq E fd d True) s) AND RX_IIR_ENABLE = post_proc_feature_mask s AND RX_IIR_ENABLE"
  "post_proc_feature_mask (exec (pp_eq E fd d True) s) AND EQ_ENABLE = 0 \<longleftrightarrow>
     \<not> (holds (post_proc_feature_mask s) EQ_ENABLE \<and> eq_flag (tables s) ! d \<noteq> 0)"
  by (simp_all add: pp_eq_def mask_and_def pp_on_def feature_bits and.assoc)

lemma iir_bits:
  "post_proc_feature_mask (exec (pp_iir E fd d True) s) AND MBADRC_ENABLE = post_proc_feature_mask s AND MBADRC_ENABLE"
  "post_proc_feature_mask (exec (pp_iir E fd d True) s) AND ADRC_ENABLE = post_proc_feature_mask s AND ADRC_ENABLE"
  "post_proc_feature_mask (exec (pp_iir E fd d True) s) AND EQ_ENABLE = post_proc_feature_mask s AND EQ_ENABLE"
  "post_proc_feature_mask (exec (pp_iir E fd d True) s) AND RX_IIR_ENABLE = 0 \<longleftrightarrow>
     \<not> (holds (post_proc_feature_mask s) RX_IIR_ENABLE \<and> rx_iir_flag (tables s) ! d \<noteq> 0)"
  by (simp_all add: pp_iir_def mask_and_def pp_on_def feature_bits and.assoc)

lemma piece_tables [simp]:
  "tables (exec (pp_dynamics E fd d en) s) = tables s"
  "tables (exec (pp_eq E fd d en) s) = tables s"
  "tables (exec (pp_iir E fd d en) s) = tables s"
  using piece_frames [THEN preservesD] by blast+

text \<open>The driver is reached: the calibration is in use, read, and the device is known.\<close>

definition pp_reaches :: "env \<Rightarrow> hw \<Rightarrow> bool" where
  "pp_reaches E s \<longleftrightarrow>
     e_prop E ''audio.legacy.postproc'' = Some ''true'' \<and> audpp_filter_inited s
     \<and> \<not> snd_device s <s 0 \<and> 0 \<le> e_ret E (k_log s) (Open ''/dev/msm_pcm_ctl'')"

lemma postproc_on_mask:
  assumes "pp_reaches E s"
  shows "post_proc_feature_mask (exec (msm72xx_enable_postproc E True) s) =
    post_proc_feature_mask (let fd = e_ret E (k_log s) (Open ''/dev/msm_pcm_ctl''); d = pp_device_id s
      in exec (pp_iir E fd d True) (exec (pp_eq E fd d True) (exec (pp_dynamics E fd d True) 
           (s\<lparr>k_log := k_log s @ [(Open ''/dev/msm_pcm_ctl'', fd)]\<rparr>))))"
  using assms by (simp add: msm72xx_enable_postproc_def pp_reaches_def Let_def)

section \<open>Properties\<close>

text \<open>
  Whatever the drivers answer, neither of the two calls leaves a descriptor open or
  closes one that is not its own.
\<close>

theorem processing_keeps_descriptors:
  "live (k_log (exec (msm72xx_enable_postproc E en) s)) = live (k_log s)
   \<and> live (k_log (exec (msm72xx_enable_preproc E en) s)) = live (k_log s)"
  by (simp add: postproc_live preproc_live)

text \<open>
  Post-processing only ever switches features off in the mask, and a disable that does
  not fail leaves all four off.
\<close>

theorem postproc_mask_shrinks:
  "masked_in (post_proc_feature_mask (exec (msm72xx_enable_postproc E en) s)) (post_proc_feature_mask s)
   \<and> (result (msm72xx_enable_postproc E False) s = E_PERM
      \<or> features_off (post_proc_feature_mask (exec (msm72xx_enable_postproc E False) s)))"
  using preservesD [OF postproc_subset, of s "post_proc_feature_mask s"] postproc_off
  by (auto simp: mask_simps)


definition calibrated_hw :: hw where
  "calibrated_hw = hw_init\<lparr>audpp_filter_inited := True, snd_device := 1,
     SND_DEVICE := (\<lambda>_. NO_DEVICE)(S_SPEAKER := 1), post_proc_feature_mask := 0x17,
     tables := audpp_init\<lparr>eq_flag := [1, 0, 0]\<rparr>\<rparr>"

definition legacy_env :: env where
  "legacy_env = env0\<lparr>e_prop := (\<lambda>_. None)(''audio.legacy.postproc'' := Some ''true'')\<rparr>"

lemma calibrated_reaches: "pp_reaches legacy_env calibrated_hw"
  by (simp add: pp_reaches_def legacy_env_def calibrated_hw_def env0_def hw_init_def word_sless_alt)

lemma calibrated_device: "pp_device_id calibrated_hw = 0" "tables calibrated_hw = audpp_init\<lparr>eq_flag := [1, 0, 0]\<rparr>"
  "post_proc_feature_mask calibrated_hw = 0x17"
  by (simp_all add: pp_device_id_def calibrated_hw_def hw_init_def NO_DEVICE_def)


text \<open>
  With neither dynamic range control calibrated for the device both requested bits stay
  on: the branch for that case clears nothing, since the or of the two clearing masks is all
  ones.
\<close>

theorem uncalibrated_dynamics_stay_on:
  assumes "pp_reaches E s" "\<not> mbadrc_filter_exists (tables s) ! pp_device_id s"
    "\<not> adrc_filter_exists (tables s) ! pp_device_id s"
  shows "(holds (post_proc_feature_mask (exec (msm72xx_enable_postproc E True) s)) MBADRC_ENABLE
            \<longleftrightarrow> holds (post_proc_feature_mask s) MBADRC_ENABLE)
       \<and> (holds (post_proc_feature_mask (exec (msm72xx_enable_postproc E True) s)) ADRC_ENABLE
            \<longleftrightarrow> holds (post_proc_feature_mask s) ADRC_ENABLE)"
  using postproc_on_mask [OF assms(1)] assms(2,3)
  by (simp add: Let_def dynamics_bits eq_bits iir_bits)

lemma uncalibrated_dynamics_witness:
  "holds (post_proc_feature_mask (exec (msm72xx_enable_postproc legacy_env True) calibrated_hw)) MBADRC_ENABLE"
  using uncalibrated_dynamics_stay_on [OF calibrated_reaches]
  by (simp add: calibrated_device audpp_init_def feature_bits)

end
