(* ===== verification/PinSwitch.thy ===== *)
theory PinSwitch
  imports HwTypes
begin

text \<open>
  \<open>audio/HardwarePinSwitching.c\<close>: the Bluetooth PCM bus and the FM I2S bus share the codec, and
  a switch puts the lines of one into pin control mode before the lines of the other are
  driven. The chip is seen through the I2C writes in the kernel log.
\<close>

section \<open>Model\<close>

definition I2C_PIN_CTL :: u8 where "I2C_PIN_CTL = 0x15"
definition I2C_NORMAL :: u8 where "I2C_NORMAL = 0x40"

text \<open>\<open>BT_PCM_BCLK_MODE\<close> to \<open>BT_PCM_SYNC_MODE\<close> and \<open>FM_I2S_SD_MODE\<close> to \<open>FM_I2S_SCK_MODE\<close>.\<close>

definition BT_LINES :: "u8 list" where "BT_LINES = [0x88, 0x89, 0x8A, 0x8B]"
definition FM_LINES :: "u8 list" where "FM_LINES = [0x8E, 0x8F, 0x90]"

definition do_rdwr :: "env \<Rightarrow> int \<Rightarrow> u8 list \<Rightarrow> ('a kern_scheme, int) state" where
  "do_rdwr E fd msg = do {
     rc \<leftarrow> sys_ioctl E fd (I2C_RDWR msg);
     ret (if rc < 0 then -1 else 0)
   }"

definition marimba_write :: "env \<Rightarrow> int \<Rightarrow> u8 \<Rightarrow> u8 list \<Rightarrow> ('a kern_scheme, int) state" where
  "marimba_write E fd offset buf = do_rdwr E fd (offset # buf)"

text \<open>One of the four loops of \<open>switch_pins\<close>; a negative result ends it.\<close>

fun write_lines :: "env \<Rightarrow> int \<Rightarrow> u8 \<Rightarrow> u8 list \<Rightarrow> ('a kern_scheme, int) state" where
  "write_lines E fd v [] = ret 0"
| "write_lines E fd v (r # rs) = do {
     rc \<leftarrow> marimba_write E fd r [v];
     if rc < 0 then ret rc else write_lines E fd v rs
   }"

definition switch_pins :: "env \<Rightarrow> int \<Rightarrow> bool \<Rightarrow> ('a kern_scheme, int) state" where
  "switch_pins E fd fm = do {
     rc \<leftarrow> write_lines E fd I2C_PIN_CTL (if fm then BT_LINES else FM_LINES);
     if rc < 0 then ret rc
     else write_lines E fd I2C_NORMAL (if fm then FM_LINES else BT_LINES)
   }"

definition switch_mode :: "env \<Rightarrow> bool \<Rightarrow> ('a kern_scheme, int) state" where
  "switch_mode E fm = do {
     fd \<leftarrow> sys_open E ''/dev/i2c-1'';
     if fd \<ge> 0 then do {
       rc \<leftarrow> switch_pins E fd fm;
       sys_close E fd;
       ret rc
     } else ret (-1)
   }"

section \<open>The pins as the chip sees them\<close>

fun pin_step :: "(u8 \<Rightarrow> u8) \<Rightarrow> kcall \<times> int \<Rightarrow> (u8 \<Rightarrow> u8)" where
  "pin_step f (Ioctl fd (I2C_RDWR [r, v]), rc) = (if rc < 0 then f else f(r := v))"
| "pin_step f _ = f"

definition pins :: "(u8 \<Rightarrow> u8) \<Rightarrow> klog \<Rightarrow> (u8 \<Rightarrow> u8)" where
  "pins f l = foldl pin_step f l"

definition silent :: "u8 list \<Rightarrow> (u8 \<Rightarrow> u8) \<Rightarrow> bool" where
  "silent lines f \<longleftrightarrow> list_all (\<lambda>r. f r \<noteq> I2C_NORMAL) lines"

text \<open>At most one of the two buses is driven.\<close>

definition exclusive :: "(u8 \<Rightarrow> u8) \<Rightarrow> bool" where
  "exclusive f \<longleftrightarrow> silent BT_LINES f \<or> silent FM_LINES f"

text \<open>\<dots> at every point of the log.\<close>

fun always_exclusive :: "(u8 \<Rightarrow> u8) \<Rightarrow> klog \<Rightarrow> bool" where
  "always_exclusive f [] \<longleftrightarrow> exclusive f"
| "always_exclusive f (x # xs) \<longleftrightarrow> exclusive f \<and> always_exclusive (pin_step f x) xs"

lemma pins_append [simp]: "pins f (l @ m) = pins (pins f l) m"
  by (simp add: pins_def)

lemma pins_simps [simp]: "pins f [] = f" "pins f (x # xs) = pins (pin_step f x) xs"
  by (simp_all add: pins_def)

lemma always_exclusive_append:
  "always_exclusive f (l @ m) \<longleftrightarrow> always_exclusive f l \<and> always_exclusive (pins f l) m"
proof (induction l arbitrary: f)
  case Nil
  show ?case by (cases m) auto
qed auto

lemma always_exclusive_snoc:
  "always_exclusive f (l @ [x]) \<longleftrightarrow> always_exclusive f l \<and> exclusive (pins f (l @ [x]))"
  by (simp add: always_exclusive_append) (metis always_exclusive.simps(1) append_Nil2 always_exclusive_append)

lemma always_exclusive_pins: "always_exclusive f l \<Longrightarrow> exclusive (pins f l)"
  by (induction l arbitrary: f) auto

text \<open>Every prefix: the reading of \<open>always_exclusive\<close>.\<close>

lemma always_exclusive_prefix:
  "always_exclusive f l \<Longrightarrow> exclusive (pins f (take n l))"
  by (metis always_exclusive_append always_exclusive_pins append_take_drop_id)

section \<open>Invariants of the loops\<close>

lemma write_lines_Cons:
  "exec (write_lines E fd v (r # rs)) s =
     (let rc = e_ret E (k_log s) (Ioctl fd (I2C_RDWR [r, v]));
          s' = s\<lparr>k_log := k_log s @ [(Ioctl fd (I2C_RDWR [r, v]), rc)]\<rparr>
      in if rc < 0 then s' else exec (write_lines E fd v rs) s')"
  "result (write_lines E fd v (r # rs)) s =
     (let rc = e_ret E (k_log s) (Ioctl fd (I2C_RDWR [r, v]));
          s' = s\<lparr>k_log := k_log s @ [(Ioctl fd (I2C_RDWR [r, v]), rc)]\<rparr>
      in if rc < 0 then -1 else result (write_lines E fd v rs) s')"
  by (simp_all add: marimba_write_def do_rdwr_def Let_def)

declare write_lines.simps(2) [simp del]

lemma write_lines_preserves:
  assumes "\<And>s r rc. r \<in> set rs \<Longrightarrow> I s \<Longrightarrow> I (s\<lparr>k_log := k_log s @ [(Ioctl fd (I2C_RDWR [r, v]), rc)]\<rparr>)"
  shows "preserves I (write_lines E fd v rs)"
proof (rule preservesI)
  fix s assume "I s"
  then show "I (exec (write_lines E fd v rs) s)"
    using assms
  proof (induction rs arbitrary: s)
    case Nil
    then show ?case by simp
  next
    case (Cons r rs)
    let ?c = "Ioctl fd (I2C_RDWR [r, v])"
    have "I (s\<lparr>k_log := k_log s @ [(?c, e_ret E (k_log s) ?c)]\<rparr>)" using Cons.prems by simp
    with Cons show ?case by (simp add: write_lines_Cons Let_def)
  qed
qed

lemma silent_upd: "silent ls f \<Longrightarrow> v \<noteq> I2C_NORMAL \<or> r \<notin> set ls \<Longrightarrow> silent ls (f(r := v))"
  by (auto simp: silent_def list_all_iff)

lemma write_lines_off:
  "preserves (\<lambda>s. always_exclusive f (k_log s)) (write_lines E fd I2C_PIN_CTL rs)"
proof (rule write_lines_preserves)
  fix s :: "'a kern_scheme" and r rc
  assume a: "always_exclusive f (k_log s)"
  then have "exclusive (pins f (k_log s))" by (rule always_exclusive_pins)
  then have "exclusive (pins f (k_log s @ [(Ioctl fd (I2C_RDWR [r, I2C_PIN_CTL]), rc)]))"
    by (auto simp: exclusive_def I2C_PIN_CTL_def I2C_NORMAL_def intro: silent_upd)
  with a show "always_exclusive f (k_log (s\<lparr>k_log := k_log s @
      [(Ioctl fd (I2C_RDWR [r, I2C_PIN_CTL]), rc)]\<rparr>))"
    by (simp add: always_exclusive_snoc)
qed

lemma lines_disjoint: "set BT_LINES \<inter> set FM_LINES = {}"
  by (simp add: BT_LINES_def FM_LINES_def)

lemma write_lines_on:
  assumes "off = BT_LINES \<and> on = FM_LINES \<or> off = FM_LINES \<and> on = BT_LINES"
  shows "preserves (\<lambda>s. always_exclusive f (k_log s) \<and> silent off (pins f (k_log s)))
           (write_lines E fd I2C_NORMAL on)"
proof (rule write_lines_preserves)
  fix s :: "'a kern_scheme" and r rc
  assume r: "r \<in> set on" and a: "always_exclusive f (k_log s) \<and> silent off (pins f (k_log s))"
  have "r \<notin> set off" using assms r lines_disjoint by auto
  then have "silent off (pins f (k_log s @ [(Ioctl fd (I2C_RDWR [r, I2C_NORMAL]), rc)]))"
    using a by (auto intro: silent_upd)
  moreover from this have "exclusive (pins f (k_log s @ [(Ioctl fd (I2C_RDWR [r, I2C_NORMAL]), rc)]))"
    using assms by (auto simp: exclusive_def)
  ultimately show "always_exclusive f (k_log (s\<lparr>k_log := k_log s @
        [(Ioctl fd (I2C_RDWR [r, I2C_NORMAL]), rc)]\<rparr>))
      \<and> silent off (pins f (k_log (s\<lparr>k_log := k_log s @
        [(Ioctl fd (I2C_RDWR [r, I2C_NORMAL]), rc)]\<rparr>)))"
    using a by (simp add: always_exclusive_snoc)
qed

text \<open>A loop that reports success has set all its lines.\<close>

lemma write_lines_keeps:
  "r \<notin> set rs \<Longrightarrow> pins f (k_log (exec (write_lines E fd v rs) s)) r = pins f (k_log s) r"
proof -
  assume "r \<notin> set rs"
  then have "preserves (\<lambda>s'. pins f (k_log s') r = pins f (k_log s) r) (write_lines E fd v rs)"
    by (intro write_lines_preserves) auto
  from preservesD [OF this, of s]
  show "pins f (k_log (exec (write_lines E fd v rs) s)) r = pins f (k_log s) r" by simp
qed

lemma write_lines_done:
  assumes "0 \<le> result (write_lines E fd v rs) s" "distinct rs" "r \<in> set rs"
  shows "pins f (k_log (exec (write_lines E fd v rs) s)) r = v"
  using assms
proof (induction rs arbitrary: s)
  case Nil
  then show ?case by simp
next
  case (Cons x rs)
  let ?c = "Ioctl fd (I2C_RDWR [x, v])"
  let ?s = "s\<lparr>k_log := k_log s @ [(?c, e_ret E (k_log s) ?c)]\<rparr>"
  have nn: "\<not> e_ret E (k_log s) ?c < 0"
    and ok: "0 \<le> result (write_lines E fd v rs) ?s"
    using Cons.prems(1) by (auto simp: write_lines_Cons Let_def split: if_splits)
  show ?case
  proof (cases "r = x")
    case True
    then have "r \<notin> set rs" using Cons.prems by simp
    from write_lines_keeps [OF this, of f E fd v ?s] True nn show ?thesis
      by (simp add: write_lines_Cons Let_def)
  next
    case False
    with Cons ok nn show ?thesis by (simp add: write_lines_Cons Let_def)
  qed
qed

lemma lines_distinct [simp]: "distinct BT_LINES" "distinct FM_LINES"
  by (simp_all add: BT_LINES_def FM_LINES_def)

lemma pin_ctl_silent: "(\<And>r. r \<in> set ls \<Longrightarrow> f r = I2C_PIN_CTL) \<Longrightarrow> silent ls f"
  by (simp add: silent_def list_all_iff I2C_PIN_CTL_def I2C_NORMAL_def)

lemma switch_pins_exclusive:
  "preserves (\<lambda>s. always_exclusive f (k_log s)) (switch_pins E fd fm)"
proof (rule preservesI)
  fix s :: "'a kern_scheme"
  assume a: "always_exclusive f (k_log s)"
  let ?off = "if fm then BT_LINES else FM_LINES"
  let ?on = "if fm then FM_LINES else BT_LINES"
  let ?s1 = "exec (write_lines E fd I2C_PIN_CTL ?off) s"
  have a1: "always_exclusive f (k_log ?s1)" by (rule preservesD [OF write_lines_off a])
  show "always_exclusive f (k_log (exec (switch_pins E fd fm) s))"
  proof (cases "result (write_lines E fd I2C_PIN_CTL ?off) s < 0")
    case True
    with a1 show ?thesis by (simp add: switch_pins_def)
  next
    case False
    then have "silent ?off (pins f (k_log ?s1))"
      by (intro pin_ctl_silent write_lines_done) auto
    with a1 have "always_exclusive f (k_log ?s1) \<and> silent ?off (pins f (k_log ?s1))" by simp
    from preservesD [OF write_lines_on this, of ?on] False show ?thesis
      by (simp add: switch_pins_def)
  qed
qed

lemma pin_step_open_close [simp]:
  "pin_step f (Open p, r) = f" "pin_step f (Close fd, r) = f"
  by simp_all

lemma switch_mode_exclusive:
  "preserves (\<lambda>s. always_exclusive f (k_log s)) (switch_mode E fm)"
  unfolding switch_mode_def
  by (intro pres switch_pins_exclusive) (simp_all add: always_exclusive_snoc always_exclusive_pins)

lemma write_lines_live: "preserves (\<lambda>s. live (k_log s) = v) (write_lines E fd x rs)"
  by (rule write_lines_preserves) simp

lemma switch_pins_live [simp]: "live (k_log (exec (switch_pins E fd fm) s)) = live (k_log s)"
proof -
  have "preserves (\<lambda>s. live (k_log s) = v) (switch_pins E fd fm)" for v
    unfolding switch_pins_def by (intro pres write_lines_live)
  from preservesD [OF this] show ?thesis by blast
qed

lemma switch_mode_live: "live (k_log (exec (switch_mode E fm) s)) = live (k_log s)"
  by (simp add: switch_mode_def)

lemma write_lines_frame: "preserves (\<lambda>s. s\<lparr>k_log := []\<rparr> = v) (write_lines E fd x rs)"
  by (rule write_lines_preserves) simp

lemma switch_mode_frame: "preserves (\<lambda>s. s\<lparr>k_log := []\<rparr> = v) (switch_mode E fm)"
  unfolding switch_mode_def switch_pins_def by (intro pres write_lines_frame) simp_all

section \<open>Properties\<close>

text \<open>
  C7. Whatever the I2C driver answers, also when a switch fails half way, the Bluetooth and
  the FM bus are never driven at the same time during a switch, if they were not before it.
\<close>

theorem buses_never_both_driven:
  assumes "always_exclusive f (k_log s)"
  shows "exclusive (pins f (take n (k_log (exec (switch_mode E fm) s))))"
  using preservesD [OF switch_mode_exclusive assms] by (rule always_exclusive_prefix)

lemma buses_never_both_driven_witness:
  "exclusive (pins (\<lambda>r. if r \<in> set BT_LINES then I2C_NORMAL else I2C_PIN_CTL)
     (take 6 (k_log (exec (switch_mode env0 True) hw_init))))"
  by (rule buses_never_both_driven)
     (simp add: hw_init_def exclusive_def silent_def FM_LINES_def BT_LINES_def
       I2C_PIN_CTL_def I2C_NORMAL_def)

text \<open>
  A switch that returns 0 has moved all lines: those of the chosen bus are driven, those
  of the other are in pin control mode; and it leaves no descriptor open.
\<close>

theorem switch_success_moves_all_lines:
  "(result (switch_mode E fm) s = 0 \<longrightarrow>
     (\<forall>r \<in> set FM_LINES. pins f (k_log (exec (switch_mode E fm) s)) r =
        (if fm then I2C_NORMAL else I2C_PIN_CTL))
     \<and> (\<forall>r \<in> set BT_LINES. pins f (k_log (exec (switch_mode E fm) s)) r =
        (if fm then I2C_PIN_CTL else I2C_NORMAL)))
   \<and> live (k_log (exec (switch_mode E fm) s)) = live (k_log s)"
proof (intro conjI impI)
  show "live (k_log (exec (switch_mode E fm) s)) = live (k_log s)" by (rule switch_mode_live)
next
  assume ok: "result (switch_mode E fm) s = 0"
  define fd where "fd = e_ret E (k_log s) (Open ''/dev/i2c-1'')"
  define s0 where "s0 = s\<lparr>k_log := k_log s @ [(Open ''/dev/i2c-1'', fd)]\<rparr>"
  define off where "off = (if fm then BT_LINES else FM_LINES)"
  define on where "on = (if fm then FM_LINES else BT_LINES)"
  define s1 where "s1 = exec (write_lines E fd I2C_PIN_CTL off) s0"
  have r0: "result (switch_pins E fd fm) s0 = 0" and fd: "fd \<ge> 0"
    using ok by (auto simp: switch_mode_def fd_def s0_def split: if_splits)
  have r1: "\<not> result (write_lines E fd I2C_PIN_CTL off) s0 < 0"
    using r0 by (auto simp: switch_pins_def off_def split: if_splits)
  have r2: "0 \<le> result (write_lines E fd I2C_NORMAL on) s1"
    using r0 r1 by (simp add: switch_pins_def off_def on_def s1_def)
  have fin: "pins f (k_log (exec (switch_mode E fm) s)) =
      pins f (k_log (exec (write_lines E fd I2C_NORMAL on) s1))"
    using fd r1 by (simp add: switch_mode_def switch_pins_def fd_def s0_def s1_def off_def on_def)
  have d: "distinct on" "distinct off" by (simp_all add: on_def off_def)
  have on: "pins f (k_log (exec (switch_mode E fm) s)) r = I2C_NORMAL" if "r \<in> set on" for r
    unfolding fin using write_lines_done [OF r2 d(1) that] .
  have off: "pins f (k_log (exec (switch_mode E fm) s)) r = I2C_PIN_CTL" if "r \<in> set off" for r
  proof -
    have r: "r \<notin> set on" using that lines_disjoint by (auto simp: on_def off_def split: if_splits)
    have "pins f (k_log s1) r = I2C_PIN_CTL"
      using write_lines_done [OF _ d(2) that, of E fd I2C_PIN_CTL s0] r1 by (simp add: s1_def)
    then show ?thesis unfolding fin by (simp add: write_lines_keeps [OF r])
  qed
  show "\<forall>r \<in> set FM_LINES. pins f (k_log (exec (switch_mode E fm) s)) r =
        (if fm then I2C_NORMAL else I2C_PIN_CTL)"
    using on off by (auto simp: on_def off_def split: if_splits)
  show "\<forall>r \<in> set BT_LINES. pins f (k_log (exec (switch_mode E fm) s)) r =
        (if fm then I2C_PIN_CTL else I2C_NORMAL)"
    using on off by (auto simp: on_def off_def split: if_splits)
qed

lemma switch_success_witness:
  "pins (\<lambda>_. 0) (k_log (exec (switch_mode env0 True) hw_init)) 0x8F = I2C_NORMAL"
proof -
  have "result (switch_mode env0 True) hw_init = 0"
    by (simp add: switch_mode_def switch_pins_def BT_LINES_def FM_LINES_def write_lines_Cons
        env0_def hw_init_def Let_def)
  with switch_success_moves_all_lines [of env0 True hw_init "\<lambda>_. 0"]
  show ?thesis by (simp add: FM_LINES_def)
qed

end
