(* ===== verification/Routing.thy ===== *)
theory Routing
  imports PostProc PinSwitch
begin

text \<open>
  The control part of class \<open>AudioHardware\<close>: volume, routing, microphone mute, mode, FM and the
  parameter strings. Names of definitions are those of the member functions; \<open>env\<close> is the
  environment, the state monad the object.
\<close>

section \<open>Volume\<close>

text \<open>\<open>lrint\<close> in the default rounding mode: to nearest, ties to even.\<close>

definition lrint :: "rat \<Rightarrow> int" where
  "lrint x =
     (let f = \<lfloor>x\<rfloor>; d = x - of_int f
      in if d < 1 / 2 then f else if d > 1 / 2 then f + 1 else if even f then f else f + 1)"

definition set_volume_rpc :: "env \<Rightarrow> u32 \<Rightarrow> int \<Rightarrow> (hw, status) state" where
  "set_volume_rpc E device volume = do {
     fd \<leftarrow> gets m7xsnddriverfd;
     if device = NO_DEVICE then ret NO_ERROR
     else if fd < 0 then ret E_PERM
     else do {
       rc \<leftarrow> sys_ioctl E fd (SND_SET_VOLUME device volume);
       ret (if rc < 0 then E_IO else NO_ERROR)
     }
   }"

definition clamp01 :: "rat \<Rightarrow> rat" where
  "clamp01 v = (if v < 0 then 0 else if v > 1 then 1 else v)"

definition voice_level :: "env \<Rightarrow> rat \<Rightarrow> int" where
  "voice_level E v = lrint (e_f32 E (2 / 5 + clamp01 v) * 5)"

definition setVoiceVolume :: "env \<Rightarrow> rat \<Rightarrow> (hw, status) state" where
  "setVoiceVolume E v = do {
     cur \<leftarrow> gets mCurSndDevice;
     dev \<leftarrow> gets SND_DEVICE;
     let vol = (if cur \<noteq> NO_DEVICE \<and> (cur = dev S_TTY_HEADSET \<or> cur = dev S_TTY_VCO) then 1
                else voice_level E v);
     autolock (set_volume_rpc E (dev S_CURRENT) vol);
     ret NO_ERROR
   }"

definition fm_level :: "rat \<Rightarrow> int" where
  "fm_level v = min 7 (lrint (clamp01 v * (15 / 2)))"

definition setFmVolume :: "env \<Rightarrow> rat \<Rightarrow> (hw, status) state" where
  "setFmVolume E v = do {
     dev \<leftarrow> gets SND_DEVICE;
     autolock (set_volume_rpc E (dev S_CURRENT) (fm_level v));
     ret NO_ERROR
   }"

definition setMasterVolume :: "env \<Rightarrow> rat \<Rightarrow> (hw, status) state" where
  "setMasterVolume E v = autolock (do {
     dev \<leftarrow> gets SND_DEVICE;
     let vol = \<lceil>v * 7\<rceil>;
     set_volume_rpc E (dev S_HANDSET) vol;
     set_volume_rpc E (dev S_SPEAKER) vol;
     set_volume_rpc E (dev S_BT) vol;
     set_volume_rpc E (dev S_HEADSET) vol;
     set_volume_rpc E (dev S_IN_S_SADC_OUT_HANDSET) vol;
     set_volume_rpc E (dev S_IN_S_SADC_OUT_SPEAKER_PHONE) vol;
     set_volume_rpc E (dev S_TTY_HEADSET) 1;
     set_volume_rpc E (dev S_TTY_VCO) 1;
     ret (Code (-1))
   })"

section \<open>Sound device and mute\<close>

definition is_fm_device :: "hw \<Rightarrow> u32 \<Rightarrow> bool" where
  "is_fm_device s d \<longleftrightarrow>
     d = SND_DEVICE s S_FM_DIGITAL_STEREO_HEADSET \<or> d = SND_DEVICE s S_FM_DIGITAL_SPEAKER_PHONE
     \<or> d = SND_DEVICE s S_FM_DIGITAL_BT_A2DP_HEADSET"

text \<open>The second call of \<open>SND_SET_DEVICE\<close> carries the requested mute state of the microphone.\<close>

definition do_route_audio_rpc :: "env \<Rightarrow> u32 \<Rightarrow> bool \<Rightarrow> bool \<Rightarrow> (hw, status) state" where
  "do_route_audio_rpc E device ear_mute mic_mute = do {
     fd \<leftarrow> gets m7xsnddriverfd;
     cur \<leftarrow> gets (\<lambda>s. SND_DEVICE s S_CURRENT);
     fm \<leftarrow> gets (\<lambda>s. is_fm_device s device);
     if device = NO_DEVICE then ret NO_ERROR
     else if fd < 0 then ret E_PERM
     else do {
       rc1 \<leftarrow> (if device \<noteq> cur \<and> \<not> mic_mute \<and> \<not> fm
              then sys_ioctl E fd (SND_SET_DEVICE device ear_mute True) else ret 0);
       if rc1 < 0 then ret E_IO
       else do {
         rc2 \<leftarrow> sys_ioctl E fd (SND_SET_DEVICE device ear_mute mic_mute);
         ret (if rc2 < 0 then E_IO else NO_ERROR)
       }
     }
   }"

definition IsFmon :: "hw \<Rightarrow> bool" where
  "IsFmon s \<longleftrightarrow> mFmFd s \<noteq> -1"

definition doAudioRouteOrMute :: "env \<Rightarrow> u32 \<Rightarrow> (hw, status) state" where
  "doAudioRouteOrMute E device = do {
     fmon \<leftarrow> gets IsFmon;
     whenM fmon (modify (\<lambda>s. s\<lparr>mMicMute := False\<rparr>));
     mode \<leftarrow> gets mMode;
     mute \<leftarrow> gets mMicMute;
     let earMute = (\<not> fmon \<and> mode \<noteq> MODE_IN_CALL \<and> mode \<noteq> MODE_IN_COMMUNICATION);
     rc \<leftarrow> do_route_audio_rpc E device earMute mute;
     cur \<leftarrow> gets mCurSndDevice;
     toFm \<leftarrow> gets (\<lambda>s. is_fm_device s device);
     fromFm \<leftarrow> gets (\<lambda>s. is_fm_device s cur);
     (if toFm \<and> device \<noteq> cur then do { switch_mode E True; ret () }
      else if fromFm \<and> device \<noteq> cur then do { switch_mode E False; ret () }
      else ret ());
     ret rc
   }"

definition setMicMute_nosync :: "env \<Rightarrow> bool \<Rightarrow> (hw, status) state" where
  "setMicMute_nosync E st = do {
     m \<leftarrow> gets mMicMute;
     if m \<noteq> st then do {
       modify (\<lambda>s. s\<lparr>mMicMute := st\<rparr>);
       cur \<leftarrow> gets (\<lambda>s. SND_DEVICE s S_CURRENT);
       doAudioRouteOrMute E cur
     } else ret NO_ERROR
   }"

definition setMicMute :: "env \<Rightarrow> bool \<Rightarrow> (hw, status) state" where
  "setMicMute E st = autolock (setMicMute_nosync E st)"

definition getMicMute :: "(hw, bool \<times> status) state" where
  "getMicMute = gets (\<lambda>s. (mMicMute s, NO_ERROR))"

definition checkMicMute :: "env \<Rightarrow> (hw, status) state" where
  "checkMicMute E = autolock (do {
     mode \<leftarrow> gets mMode;
     whenM (mode \<noteq> MODE_IN_CALL) (do { setMicMute_nosync E True; ret () });
     ret NO_ERROR
   })"

section \<open>Mode\<close>

definition clearCurDevice :: "(hw, unit) state" where
  "clearCurDevice = modify (\<lambda>s. s\<lparr>mCurSndDevice := NO_DEVICE\<rparr>)"

definition setMode :: "env \<Rightarrow> amode \<Rightarrow> (hw, status) state" where
  "setMode E mode = do {
     old \<leftarrow> gets mMode;
     let (st, new) = e_setMode E old mode;
     modify (\<lambda>s. s\<lparr>mMode := new\<rparr>);
     whenM (st = NO_ERROR) clearCurDevice;
     ret st
   }"

definition setupDeviceforVoipCall :: "env \<Rightarrow> bool \<Rightarrow> (hw, status) state" where
  "setupDeviceforVoipCall E value = do {
     mode \<leftarrow> gets mMode;
     if mode = MODE_IN_CALL \<and> \<not> value then ret NO_ERROR
     else do {
       st \<leftarrow> setMode E (if value then MODE_IN_COMMUNICATION else MODE_NORMAL);
       if st = BAD_VALUE then ret UNKNOWN_ERROR
       else do {
         st2 \<leftarrow> setMicMute E (\<not> value);
         ret (if st2 \<noteq> NO_ERROR then UNKNOWN_ERROR else NO_ERROR)
       }
     }
   }"

definition initCheck :: "(hw, status) state" where
  "initCheck = gets (\<lambda>s. if mInit s then NO_ERROR else NO_INIT)"

definition checkOutputStandby :: "(hw, bool) state" where
  "checkOutputStandby =
     gets (\<lambda>s. case mOutput s of None \<Rightarrow> True | Some st \<Rightarrow> o_standby st)"

section \<open>Routing\<close>

definition isFMAnalog :: "env \<Rightarrow> bool" where
  "isFMAnalog E =
     (case e_prop E ''hw.fm.isAnalog'' of None \<Rightarrow> False | Some v \<Rightarrow> strcaseeq v ''true'')"

definition ALL_PP :: u32 where
  "ALL_PP = ADRC_ENABLE OR EQ_ENABLE OR RX_IIR_ENABLE OR MBADRC_ENABLE"

text \<open>
  What a routing rule selects: the endpoint (\<open>None\<close>: no rule applies) and whether the rule
  requests the post-processing features.
\<close>

type_synonym route = "snd_name option \<times> bool"

text \<open>The rules for an input device, in the order of the code.\<close>

definition route_in :: "env \<Rightarrow> u32 \<Rightarrow> u32 \<Rightarrow> route" where
  "route_in E inputDevice outputDevices =
     (if inputDevice = 0 then (None, False)
      else if holds inputDevice (e_dev E IN_BLUETOOTH_SCO_HEADSET) then (Some S_BT, False)
      else if holds inputDevice (e_dev E IN_WIRED_HEADSET) then (Some S_HEADSET, False)
      else if holds inputDevice (e_dev E IN_FM_RX_A2DP)
        then (Some S_FM_DIGITAL_BT_A2DP_HEADSET, False)
      else if holds inputDevice (e_dev E IN_FM_RX) then (None, False)
      else if holds outputDevices (e_dev E OUT_SPEAKER) then (Some S_SPEAKER, True)
      else (Some S_HANDSET, False))"

definition in_is_a2dp :: "env \<Rightarrow> u32 \<Rightarrow> bool" where
  "in_is_a2dp E inputDevice \<longleftrightarrow>
     inputDevice \<noteq> 0 \<and> \<not> holds inputDevice (e_dev E IN_BLUETOOTH_SCO_HEADSET)
     \<and> \<not> holds inputDevice (e_dev E IN_WIRED_HEADSET) \<and> holds inputDevice (e_dev E IN_FM_RX_A2DP)"

text \<open>The rules for the output devices.\<close>

definition route_out :: "env \<Rightarrow> tty_modes \<Rightarrow> amode \<Rightarrow> u32 \<Rightarrow> route" where
  "route_out E tty mode d =
     (if tty \<noteq> TTY_OFF \<and> mode = MODE_IN_CALL \<and> holds d (e_dev E OUT_WIRED_HEADSET) then
        (case tty of
           TTY_FULL \<Rightarrow> (Some S_TTY_HEADSET, False)
         | TTY_VCO \<Rightarrow> (Some S_TTY_VCO, False)
         | TTY_HCO \<Rightarrow> (Some S_TTY_HCO, False)
         | TTY_OFF \<Rightarrow> (None, False))
      else if holds d (e_dev E OUT_WIRED_HEADSET) \<and> holds d (e_dev E OUT_SPEAKER)
        then (Some S_STEREO_HEADSET_AND_SPEAKER, True)
      else if holds d (e_dev E OUT_WIRED_HEADPHONE) \<and> holds d (e_dev E OUT_SPEAKER)
        then (Some S_STEREO_HEADSET_AND_SPEAKER, True)
      else if holds d (e_dev E OUT_WIRED_HEADSET) \<and> holds d (e_dev E OUT_FM) then
        (if \<not> isFMAnalog E then (Some S_FM_DIGITAL_STEREO_HEADSET, True)
         else (Some S_FM_ANALOG_STEREO_HEADSET_CODEC, False))
      else if holds d (e_dev E OUT_SPEAKER) \<and> holds d (e_dev E OUT_FM)
        then (Some S_FM_DIGITAL_SPEAKER_PHONE, True)
      else if holds d (e_dev E OUT_FM) \<and> isFMAnalog E
        then (Some S_FM_ANALOG_STEREO_HEADSET, False)
      else if holds d (e_dev E OUT_BLUETOOTH_SCO OR e_dev E OUT_BLUETOOTH_SCO_HEADSET)
        then (Some S_BT, False)
      else if holds d (e_dev E OUT_BLUETOOTH_SCO_CARKIT) then (Some S_CARKIT, False)
      else if holds d (e_dev E OUT_WIRED_HEADSET) then (Some S_HEADSET, True)
      else if holds d (e_dev E OUT_WIRED_HEADPHONE) then (Some S_HEADSET, True)
      else if holds d (e_dev E OUT_SPEAKER) then (Some S_SPEAKER, True)
      else if holds d (e_dev E OUT_EARPIECE) then (Some S_HANDSET, True)
      else (None, False))"

definition route_id :: "hw \<Rightarrow> route \<Rightarrow> u32" where
  "route_id s r = (case fst r of None \<Rightarrow> NO_DEVICE | Some n \<Rightarrow> SND_DEVICE s n)"

text \<open>Replacement of the endpoint for two microphones in a call.\<close>

definition dual_mic :: "hw \<Rightarrow> u32 \<Rightarrow> u32" where
  "dual_mic s d =
     (if mDualMicEnabled s \<and> mMode s = MODE_IN_CALL then
        (if d = SND_DEVICE s S_HANDSET then SND_DEVICE s S_IN_S_SADC_OUT_HANDSET
         else if d = SND_DEVICE s S_SPEAKER then SND_DEVICE s S_IN_S_SADC_OUT_SPEAKER_PHONE
         else d)
      else d)"

definition request_pp :: "bool \<Rightarrow> (hw, unit) state" where
  "request_pp b = whenM b (modify (\<lambda>s. s\<lparr>new_post_proc_feature_mask := ALL_PP\<rparr>))"

text \<open>
  The endpoint for an input (its device mask, \<open>None\<close> for no input) and the output devices. An
  input rule whose endpoint the driver does not have falls through to the output rules, like
  no rule at all, because the code tests the id and not the rule.
\<close>

definition select_device :: "env \<Rightarrow> u32 option \<Rightarrow> u32 \<Rightarrow> (hw, u32) state" where
  "select_device E input outputDevices = do {
     s0 \<leftarrow> gets (\<lambda>s. s);
     let rin = (case input of None \<Rightarrow> (None, False) | Some i \<Rightarrow> route_in E i outputDevices);
     whenM (case input of None \<Rightarrow> False | Some i \<Rightarrow> in_is_a2dp E i)
       (modify (\<lambda>s. s\<lparr>fmA2dp := 1\<rparr>));
     request_pp (snd rin);
     let rout = route_out E (mTtyMode s0) (mMode s0) outputDevices;
     d \<leftarrow> (if route_id s0 rin = NO_DEVICE then do {
            request_pp (snd rout);
            ret (route_id s0 rout)
          } else ret (route_id s0 rin));
     a2dp \<leftarrow> gets fmA2dp;
     ret (if outputDevices = 0 \<and> a2dp = 1 then SND_DEVICE s0 S_FM_DIGITAL_BT_A2DP_HEADSET
          else dual_mic s0 d)
   }"

text \<open>The switch to a new device, with post-processing taken off the old one.\<close>

definition switch_device :: "env \<Rightarrow> u32 \<Rightarrow> (hw, status) state" where
  "switch_device E d = do {
     cur \<leftarrow> gets mCurSndDevice;
     if d \<noteq> NO_DEVICE \<and> d \<noteq> cur then do {
       rc \<leftarrow> doAudioRouteOrMute E d;
       playing \<leftarrow> gets (\<lambda>s. hpcm_playback_in_progress s \<or> lpa_playback_in_progress s);
       whenM playing (do { msm72xx_enable_postproc E False; ret () });
       modify (\<lambda>s. s\<lparr>snd_device := d,
                     post_proc_feature_mask := new_post_proc_feature_mask s\<rparr>);
       whenM playing (do { msm72xx_enable_postproc E True; ret () });
       modify (\<lambda>s. s\<lparr>mCurSndDevice := d\<rparr>);
       ret rc
     } else ret NO_ERROR
   }"

definition doRouting :: "env \<Rightarrow> u32 option \<Rightarrow> u32 \<Rightarrow> (hw, status) state" where
  "doRouting E input outputDevice = autolock (do {
     out \<leftarrow> gets mOutput;
     whenM (outputDevice = 0 \<and> out = None) (raise_fault NullDeref);
     let outputDevices = (if outputDevice \<noteq> 0 then outputDevice
                          else (case out of None \<Rightarrow> 0 | Some st \<Rightarrow> o_devices st));
     if input = Some (e_dev E IN_VOICE_CALL) then ret NO_ERROR
     else do {
       d \<leftarrow> select_device E input outputDevices;
       switch_device E d
     }
   })"

section \<open>FM\<close>

definition enableFM :: "env \<Rightarrow> (hw, status) state" where
  "enableFM E = do {
     fd \<leftarrow> sys_open E ''/dev/msm_fm'';
     failed \<leftarrow> (if fd < 0 then ret True else do {
       modify (\<lambda>s. s\<lparr>mFmFd := fd\<rparr>);
       rc \<leftarrow> sys_ioctl E fd AUDIO_START;
       ret (rc < 0)
     });
     old \<leftarrow> gets mFmFd;
     whenM (failed \<and> old \<ge> 0) (do {
       sys_close E old;
       modify (\<lambda>s. s\<lparr>mFmFd := -1\<rparr>)
     });
     ret NO_ERROR
   }"

definition disableFM :: "env \<Rightarrow> (hw, status) state" where
  "disableFM E = do {
     fd \<leftarrow> gets mFmFd;
     whenM (fd \<ge> 0) (do {
       sys_ioctl E fd AUDIO_STOP;
       sys_close E fd;
       modify (\<lambda>s. s\<lparr>mFmFd := -1\<rparr>)
     });
     ret NO_ERROR
   }"

section \<open>Parameters\<close>

definition bt_name_id :: "(string \<times> u32) list \<Rightarrow> string \<Rightarrow> u32" where
  "bt_name_id epts name =
     (case find (\<lambda>(n, _). strcaseeq name n) epts of None \<Rightarrow> 0 | Some (_, i) \<Rightarrow> i)"

definition tty_of :: "string \<Rightarrow> tty_modes" where
  "tty_of v = (if v = ''full'' then TTY_FULL else if v = ''hco'' then TTY_HCO
               else if v = ''vco'' then TTY_VCO else TTY_OFF)"

definition on_param :: "params \<Rightarrow> string \<Rightarrow> (string \<Rightarrow> (hw, unit) state) \<Rightarrow> (hw, unit) state" where
  "on_param ps k f = (case par_get ps k of None \<Rightarrow> ret () | Some v \<Rightarrow> f v)"

definition setParameters :: "env \<Rightarrow> params \<Rightarrow> (hw, status) state" where
  "setParameters E ps =
     (if ps = [] then ret BAD_VALUE
      else do {
        on_param ps ''bt_headset_nrec'' (\<lambda>v. modify (\<lambda>s. s\<lparr>mBluetoothNrec := v = ''on''\<rparr>));
        on_param ps ''bt_headset_vgs'' (\<lambda>v. modify (\<lambda>s. s\<lparr>mBluetoothVGS := v = ''on''\<rparr>));
        on_param ps ''bt_headset_name'' (\<lambda>v. do {
          modify (\<lambda>s. s\<lparr>mBluetoothId := bt_name_id (mSndEndpoints s) v\<rparr>);
          i \<leftarrow> gets mBluetoothId;
          whenM (i = 0) (do { doRouting E None 0; ret () })
        });
        on_param ps ''dualmic_enabled'' (\<lambda>v. do {
          modify (\<lambda>s. s\<lparr>mDualMicEnabled := v = ''true''\<rparr>);
          doRouting E None 0;
          ret ()
        });
        on_param ps ''tty_mode'' (\<lambda>v. modify (\<lambda>s. s\<lparr>mTtyMode := tty_of v\<rparr>));
        mode \<leftarrow> gets mMode;
        if par_get ps ''tty_mode'' \<noteq> None \<and> mode \<noteq> MODE_IN_CALL then ret NO_ERROR
        else do {
          cur \<leftarrow> gets mCurSndDevice;
          hs \<leftarrow> gets (\<lambda>s. SND_DEVICE s S_HEADSET);
          whenM (par_get ps ''tty_mode'' \<noteq> None \<and> cur = hs) (do { doRouting E None 0; ret () });
          on_param ps ''voip_rate'' (\<lambda>v. modify (\<lambda>s. s\<lparr>mVoipBitRate := e_atoi E v\<rparr>));
          ret NO_ERROR
        }
      })"

definition getParameters :: "params \<Rightarrow> hw \<Rightarrow> params" where
  "getParameters ps s =
     (let p1 = (if par_get ps ''dualmic_enabled'' \<noteq> None
                then par_add ''dualmic_enabled'' (if mDualMicEnabled s then ''true'' else ''false'') ps
                else ps);
          p2 = (if par_get p1 ''bt_headset_vgs'' \<noteq> None \<and> mBluetoothVGS s
                then par_add ''isVGS'' ''1'' p1 else p1);
          p3 = (if par_get p2 ''tunneled-input-formats'' \<noteq> None
                then (let q = par_add ''AMR'' ''1'' p2
                      in if mMode s = MODE_IN_CALL
                         then par_add ''EVRC'' ''1'' (par_add ''QCELP'' ''1'' q) else q)
                else p2)
      in if par_get p3 ''ec_supported'' \<noteq> None then par_add ''ec_supported'' ''yes'' p3 else p3)"

end
