(* ===== verification/RoutingProps.thy ===== *)
theory RoutingProps
  imports Routing
begin

text \<open>
  Correctness of the control part: the locks, the descriptors, the agreement of \<open>mCurSndDevice\<close>
  with the route the driver was last given, volume ranges, the routing rules, FM.
\<close>

section \<open>The route the driver was given last\<close>

fun route_step :: "u32 \<Rightarrow> u32 option \<Rightarrow> kcall \<times> int \<Rightarrow> u32 option" where
  "route_step cur acc (Ioctl fd (SND_SET_DEVICE d e m), r) = (if d = cur then acc else Some d)"
| "route_step cur acc _ = acc"

definition last_route :: "u32 \<Rightarrow> klog \<Rightarrow> u32 option" where
  "last_route cur l = foldl (route_step cur) None l"

lemma last_route_append [simp]:
  "last_route cur (l @ xs) = foldl (route_step cur) (last_route cur l) xs"
  by (simp add: last_route_def)

fun is_route :: "kcall \<Rightarrow> bool" where
  "is_route (Ioctl fd (SND_SET_DEVICE d e m)) = True"
| "is_route _ = False"

lemma route_step_other [simp]: "\<not> is_route c \<Longrightarrow> route_step cur acc (c, r) = acc"
  by (cases "(cur, acc, c, r)" rule: route_step.cases) auto

text \<open>\<open>mCurSndDevice\<close> is the endpoint of the last route, unless it was cleared.\<close>

definition routed :: "hw \<Rightarrow> bool" where
  "routed s \<longleftrightarrow>
     mCurSndDevice s = NO_DEVICE \<or> m7xsnddriverfd s < 0
     \<or> mCurSndDevice s = SND_DEVICE s S_CURRENT
     \<or> last_route (SND_DEVICE s S_CURRENT) (k_log s) = Some (mCurSndDevice s)"

section \<open>Generic preservation by the helpers\<close>

lemma switch_mode_pres:
  assumes "\<And>s c r. I s \<Longrightarrow> \<not> is_route c \<Longrightarrow> I (s\<lparr>k_log := k_log s @ [(c, r)]\<rparr>)"
  shows "preserves I (switch_mode E fm)"
  unfolding switch_mode_def switch_pins_def
  by (intro pres write_lines_preserves) (simp_all add: assms)

lemma postproc_pres:
  assumes "\<And>s c r. I s \<Longrightarrow> \<not> is_route c \<Longrightarrow> I (s\<lparr>k_log := k_log s @ [(c, r)]\<rparr>)"
    and "\<And>s m. I s \<Longrightarrow> I (s\<lparr>post_proc_feature_mask := m\<rparr>)"
  shows "preserves I (msm72xx_enable_postproc E en)"
  unfolding msm72xx_enable_postproc_def pp_defs
  by (intro pres) (simp_all add: assms)

lemma autolock_pres:
  assumes "preserves (\<lambda>s. mLock s \<and> k_fault s \<noteq> Some SelfDeadlock \<and> P s) m"
    and "\<And>s b. P (s\<lparr>mLock := b\<rparr>) = P s"
  shows "preserves (\<lambda>s. \<not> mLock s \<and> k_fault s \<noteq> Some SelfDeadlock \<and> P s) (autolock m)"
proof (rule preservesI)
  fix s assume s: "\<not> mLock s \<and> k_fault s \<noteq> Some SelfDeadlock \<and> P s"
  then have "mLock (s\<lparr>mLock := True\<rparr>) \<and> k_fault (s\<lparr>mLock := True\<rparr>) \<noteq> Some SelfDeadlock
      \<and> P (s\<lparr>mLock := True\<rparr>)" using assms(2) by simp
  from preservesD [OF assms(1) this] s
  show "\<not> mLock (exec (autolock m) s) \<and> k_fault (exec (autolock m) s) \<noteq> Some SelfDeadlock
      \<and> P (exec (autolock m) s)"
    by (simp add: autolock_def assms(2))
qed

text \<open>Fields the routing code never writes; \<open>but_ctl\<close> erases the ones it does.\<close>

definition free :: "hw \<Rightarrow> bool" where
  "free s \<longleftrightarrow> \<not> mLock s \<and> k_fault s \<noteq> Some SelfDeadlock \<and> routed s"

definition busy :: "hw \<Rightarrow> bool" where
  "busy s \<longleftrightarrow> mLock s \<and> k_fault s \<noteq> Some SelfDeadlock \<and> routed s"

lemma routed_mLock [simp]: "routed (s\<lparr>mLock := b\<rparr>) = routed s"
  by (simp add: routed_def)

lemma autolock_free: "preserves busy m \<Longrightarrow> preserves free (autolock m)"
  unfolding busy_def free_def by (rule autolock_pres) simp_all

lemma busy_log [simp]: "busy s \<Longrightarrow> \<not> is_route c \<Longrightarrow> busy (s\<lparr>k_log := k_log s @ [(c, r)]\<rparr>)"
  by (simp add: busy_def routed_def)

lemma free_log [simp]: "free s \<Longrightarrow> \<not> is_route c \<Longrightarrow> free (s\<lparr>k_log := k_log s @ [(c, r)]\<rparr>)"
  by (simp add: free_def routed_def)

lemma busy_fields [simp]:
  "busy (s\<lparr>post_proc_feature_mask := m\<rparr>) = busy s"
  "busy (s\<lparr>new_post_proc_feature_mask := m\<rparr>) = busy s"
  "busy (s\<lparr>snd_device := d\<rparr>) = busy s"
  "busy (s\<lparr>mMicMute := b\<rparr>) = busy s"
  "busy (s\<lparr>fmA2dp := i\<rparr>) = busy s"
  by (simp_all add: busy_def routed_def)

lemma free_fields [simp]:
  "free (s\<lparr>mMode := mo\<rparr>) = free s"
  "free (s\<lparr>mFmFd := fd\<rparr>) = free s"
  "free (s\<lparr>mBluetoothNrec := b\<rparr>) = free s"
  "free (s\<lparr>mBluetoothVGS := b\<rparr>) = free s"
  "free (s\<lparr>mBluetoothId := w\<rparr>) = free s"
  "free (s\<lparr>mDualMicEnabled := b\<rparr>) = free s"
  "free (s\<lparr>mTtyMode := t\<rparr>) = free s"
  "free (s\<lparr>mVoipBitRate := w\<rparr>) = free s"
  by (simp_all add: free_def routed_def)

lemma busy_clear [simp]:
  "free s \<Longrightarrow> free (s\<lparr>mCurSndDevice := NO_DEVICE\<rparr>)"
  by (simp add: free_def routed_def)

section \<open>Each operation keeps the locks and the route\<close>

lemma set_volume_busy: "preserves busy (set_volume_rpc E d v)"
  unfolding set_volume_rpc_def by (intro pres) simp_all

text \<open>A mute of the current device does not change the route.\<close>

lemma route_rpc_current: "preserves (\<lambda>s. busy s \<and> SND_DEVICE s S_CURRENT = d) (do_route_audio_rpc E d em mm)"
  unfolding do_route_audio_rpc_def by (intro pres) (auto simp: busy_def routed_def)

lemma doAudioRouteOrMute_current:
  "preserves (\<lambda>s. busy s \<and> SND_DEVICE s S_CURRENT = d) (doAudioRouteOrMute E d)"
  unfolding doAudioRouteOrMute_def Let_def
  by (intro pres route_rpc_current switch_mode_pres) simp_all

lemma setMicMute_nosync_busy: "preserves busy (setMicMute_nosync E b)"
proof (rule preservesI)
  fix s assume s: "busy s"
  let ?t = "s\<lparr>mMicMute := b\<rparr>"
  have "busy ?t \<and> SND_DEVICE ?t S_CURRENT = SND_DEVICE s S_CURRENT" using s by simp
  from preservesD [OF doAudioRouteOrMute_current this, of E] s
  show "busy (exec (setMicMute_nosync E b) s)" by (simp add: setMicMute_nosync_def)
qed

lemma checkMicMute_free: "preserves free (checkMicMute E)"
  unfolding checkMicMute_def by (intro autolock_free pres setMicMute_nosync_busy)

lemma setMicMute_free: "preserves free (setMicMute E b)"
  unfolding setMicMute_def by (intro autolock_free setMicMute_nosync_busy)

lemma volume_free:
  "preserves free (setVoiceVolume E v)" "preserves free (setFmVolume E v)"
  "preserves free (setMasterVolume E v)"
  unfolding setVoiceVolume_def setFmVolume_def setMasterVolume_def Let_def
  by (intro pres autolock_free set_volume_busy)+

lemma clearCurDevice_free: "preserves free clearCurDevice"
  unfolding clearCurDevice_def by (intro pres) simp

lemma setMode_free: "preserves free (setMode E m)"
  unfolding setMode_def Let_def by (intro pres clearCurDevice_free) simp_all

lemma voip_setup_free: "preserves free (setupDeviceforVoipCall E b)"
  unfolding setupDeviceforVoipCall_def by (intro pres setMode_free setMicMute_free)

lemma FM_free: "preserves free (enableFM E)" "preserves free (disableFM E)"
  unfolding enableFM_def disableFM_def by ((intro pres; simp)+)

text \<open>The switch to a new device: the route of the driver is the new one, also when it refuses.\<close>

lemma route_rpc_new:
  assumes "d \<noteq> NO_DEVICE" "busy s"
  shows "let t = exec (do_route_audio_rpc E d em mm) s
         in mLock t \<and> k_fault t \<noteq> Some SelfDeadlock \<and> SND_DEVICE t = SND_DEVICE s
          \<and> m7xsnddriverfd t = m7xsnddriverfd s
          \<and> (m7xsnddriverfd s < 0 \<or> d = SND_DEVICE s S_CURRENT
             \<or> last_route (SND_DEVICE s S_CURRENT) (k_log t) = Some d)"
  using assms by (auto simp: do_route_audio_rpc_def Let_def busy_def)

text \<open>\<open>heading d\<close>: the driver was last given \<open>d\<close>.\<close>

definition heading :: "u32 \<Rightarrow> hw \<Rightarrow> bool" where
  "heading d s \<longleftrightarrow> mLock s \<and> k_fault s \<noteq> Some SelfDeadlock
     \<and> (m7xsnddriverfd s < 0 \<or> d = SND_DEVICE s S_CURRENT
        \<or> last_route (SND_DEVICE s S_CURRENT) (k_log s) = Some d)"

lemma heading_log [simp]: "heading d s \<Longrightarrow> \<not> is_route c \<Longrightarrow> heading d (s\<lparr>k_log := k_log s @ [(c, r)]\<rparr>)"
  by (simp add: heading_def)

lemma heading_fields [simp]:
  "heading d (s\<lparr>post_proc_feature_mask := m\<rparr>) = heading d s"
  "heading d (s\<lparr>snd_device := e\<rparr>) = heading d s"
  "heading d s \<Longrightarrow> busy (s\<lparr>mCurSndDevice := d\<rparr>)"
  by (auto simp: heading_def busy_def routed_def)

lemma doAudioRouteOrMute_new:
  assumes "d \<noteq> NO_DEVICE" "busy s"
  shows "heading d (exec (doAudioRouteOrMute E d) s)"
proof -
  have *: "heading d (exec (do_route_audio_rpc E d em mm) t)" if "busy t" for em mm t
    using route_rpc_new [OF assms(1) that, of E em mm] by (simp add: Let_def heading_def)
  have sw: "heading d t \<Longrightarrow> heading d (exec (switch_mode E fm) t)" for fm t
    by (rule preservesD [OF switch_mode_pres]) simp_all
  show ?thesis
    using assms(2) by (simp add: doAudioRouteOrMute_def Let_def sw *)
qed

lemma switch_device_busy: "preserves busy (switch_device E d)"
proof (rule preservesI)
  fix s assume s: "busy s"
  have pp: "heading d t \<Longrightarrow> heading d (exec (msm72xx_enable_postproc E en) t)" for en t
    by (rule preservesD [OF postproc_pres]) simp_all
  show "busy (exec (switch_device E d) s)"
  proof (cases "d \<noteq> NO_DEVICE \<and> d \<noteq> mCurSndDevice s")
    case False
    with s show ?thesis by (auto simp: switch_device_def)
  next
    case True
    then have "heading d (exec (doAudioRouteOrMute E d) s)"
      using s by (simp add: doAudioRouteOrMute_new)
    with True show ?thesis by (simp add: switch_device_def pp)
  qed
qed

lemma select_device_busy: "preserves busy (select_device E i od)"
  unfolding select_device_def request_pp_def Let_def by (intro pres) simp_all

lemma doRouting_free: "preserves free (doRouting E i od)"
  unfolding doRouting_def Let_def
  by (intro autolock_free pres select_device_busy switch_device_busy)
     (auto simp: busy_def routed_def split: option.splits)

lemma on_param_pres: "(\<And>v. preserves I (f v)) \<Longrightarrow> preserves I (on_param ps k f)"
  by (simp add: on_param_def pres split: option.split)

lemma setParameters_free: "preserves free (setParameters E ps)"
  unfolding setParameters_def by (intro pres on_param_pres doRouting_free) simp_all

section \<open>What the control operations cannot change\<close>

text \<open>
  The contract of a state predicate that routing keeps: it survives the two helpers that open
  and close a device of their own, any \<open>ioctl\<close>, and the assignments routing makes.
\<close>

locale route_frame =
  fixes E :: env and I :: "hw \<Rightarrow> bool"
  assumes switch_mode: "preserves I (switch_mode E fm)"
    and postproc: "preserves I (msm72xx_enable_postproc E en)"
    and log_ioctl: "I s \<Longrightarrow> I (s\<lparr>k_log := k_log s @ [(Ioctl fd q, r)]\<rparr>)"
    and fault [simp]: "I (s\<lparr>k_fault := f\<rparr>) = I s"
    and route_members [simp]:
      "I (s\<lparr>mLock := b\<rparr>) = I s" "I (s\<lparr>mMicMute := b\<rparr>) = I s"
      "I (s\<lparr>mCurSndDevice := w\<rparr>) = I s" "I (s\<lparr>snd_device := w\<rparr>) = I s"
      "I (s\<lparr>post_proc_feature_mask := w\<rparr>) = I s" "I (s\<lparr>new_post_proc_feature_mask := w\<rparr>) = I s"
      "I (s\<lparr>fmA2dp := i\<rparr>) = I s"
begin

lemma autolock: "preserves I m \<Longrightarrow> preserves I (autolock m)"
  unfolding autolock_def lock_mLock_def unlock_mLock_def by (intro pres) simp_all

lemma ioctl: "preserves I (sys_ioctl E fd q)"
  by (intro pres) (rule log_ioctl)

lemma route_rpc: "preserves I (do_route_audio_rpc E d em mm)"
  unfolding do_route_audio_rpc_def by (intro pres ioctl)

lemma route_or_mute: "preserves I (doAudioRouteOrMute E d)"
  unfolding doAudioRouteOrMute_def Let_def
  by (intro pres route_rpc switch_mode) simp_all

lemma nosync: "preserves I (setMicMute_nosync E b)"
  unfolding setMicMute_nosync_def by (intro pres route_or_mute) simp_all

lemma mic: "preserves I (setMicMute E b)" "preserves I (checkMicMute E)"
  unfolding setMicMute_def checkMicMute_def by (intro pres autolock nosync)+

lemma clear: "preserves I clearCurDevice"
  unfolding clearCurDevice_def by (intro pres) simp_all

lemma select: "preserves I (select_device E i od)"
  unfolding select_device_def request_pp_def Let_def by (intro pres) simp_all

lemma switch: "preserves I (switch_device E d)"
  unfolding switch_device_def by (intro pres route_or_mute postproc) simp_all

lemma routing: "preserves I (doRouting E i od)"
  unfolding doRouting_def Let_def by (intro pres autolock select switch) simp_all

lemma volume_rpc: "preserves I (set_volume_rpc E d v)"
  unfolding set_volume_rpc_def by (intro pres ioctl)

lemma volumes:
  "preserves I (setVoiceVolume E v)" "preserves I (setFmVolume E v)" "preserves I (setMasterVolume E v)"
  unfolding setVoiceVolume_def setFmVolume_def setMasterVolume_def Let_def
  by (intro pres autolock volume_rpc)+

end

text \<open>A predicate that does not depend on mode and settings either survives every operation.\<close>

locale ctl_frame = route_frame +
  assumes members [simp]:
      "I (s\<lparr>mMode := mo\<rparr>) = I s" "I (s\<lparr>mBluetoothNrec := b\<rparr>) = I s"
      "I (s\<lparr>mBluetoothVGS := b\<rparr>) = I s" "I (s\<lparr>mBluetoothId := w\<rparr>) = I s"
      "I (s\<lparr>mDualMicEnabled := b\<rparr>) = I s" "I (s\<lparr>mTtyMode := t\<rparr>) = I s"
      "I (s\<lparr>mVoipBitRate := w\<rparr>) = I s"
begin

lemma mode: "preserves I (setMode E m)"
  unfolding setMode_def Let_def by (intro pres clear) simp_all

lemma voip_setup: "preserves I (setupDeviceforVoipCall E b)"
  unfolding setupDeviceforVoipCall_def by (intro pres mode mic)

lemma parameters: "preserves I (setParameters E ps)"
  unfolding setParameters_def by (intro pres on_param_pres routing) simp_all

end

text \<open>The streams, the drivers' descriptors and the tables.\<close>

definition fixed :: "hw \<Rightarrow> audpp \<times> (snd_name \<Rightarrow> u32) \<times> out72 option \<times> outdirect option
    \<times> (nat \<times> instream) list \<times> (nat \<times> voipin) list \<times> int \<times> int \<times> bool \<times> bool"
where
  "fixed s = (tables s, SND_DEVICE s, mOutput s, mDirectOutput s, mInputs s, mVoipInputs s,
              m7xsnddriverfd s, mVoipFd s, mVoipInActive s, mVoipOutActive s)"

interpretation keeps_live: ctl_frame E "\<lambda>s. live (k_log s) = v" for E v
  by unfold_locales (auto simp: preserves_def switch_mode_live postproc_live)

interpretation keeps_fixed: ctl_frame E "\<lambda>s. fixed s = v" for E v
proof unfold_locales
  show "preserves (\<lambda>s. fixed s = v) (switch_mode E fm)" for fm
    by (rule switch_mode_pres) (simp add: fixed_def)
  show "preserves (\<lambda>s. fixed s = v) (msm72xx_enable_postproc E en)" for en
    by (rule postproc_pres) (simp_all add: fixed_def)
qed (simp_all add: fixed_def)

lemma FM_fixed: "preserves (\<lambda>s. fixed s = v) (enableFM E)" "preserves (\<lambda>s. fixed s = v) (disableFM E)"
  unfolding enableFM_def disableFM_def by ((intro pres; simp add: fixed_def)+)

section \<open>The control part as a machine\<close>

datatype ctl_event =
    CSetMode amode | CSetMicMute bool | CCheckMicMute | CVoiceVolume rat | CFmVolume rat
  | CMasterVolume rat | CRoute "u32 option" u32 | CParams params | CVoipSetup bool
  | CEnableFM | CDisableFM

fun ctl_step :: "env \<Rightarrow> ctl_event \<Rightarrow> hw \<Rightarrow> hw" where
  "ctl_step E (CSetMode m) s = exec (setMode E m) s"
| "ctl_step E (CSetMicMute b) s = exec (setMicMute E b) s"
| "ctl_step E CCheckMicMute s = exec (checkMicMute E) s"
| "ctl_step E (CVoiceVolume v) s = exec (setVoiceVolume E v) s"
| "ctl_step E (CFmVolume v) s = exec (setFmVolume E v) s"
| "ctl_step E (CMasterVolume v) s = exec (setMasterVolume E v) s"
| "ctl_step E (CRoute i d) s = exec (doRouting E i d) s"
| "ctl_step E (CParams ps) s = exec (setParameters E ps) s"
| "ctl_step E (CVoipSetup b) s = exec (setupDeviceforVoipCall E b) s"
| "ctl_step E CEnableFM s = exec (enableFM E) s"
| "ctl_step E CDisableFM s = exec (disableFM E) s"

lemmas free_ops = setMode_free setMicMute_free checkMicMute_free volume_free doRouting_free
  setParameters_free voip_setup_free FM_free

lemmas fixed_ops = keeps_fixed.mode keeps_fixed.mic keeps_fixed.volumes keeps_fixed.routing
  keeps_fixed.parameters keeps_fixed.voip_setup FM_fixed

interpretation control: machine "ctl_step E" free for E
proof
  fix s e assume s: "free s"
  show "free (ctl_step E e s)"
    by (cases e) (use s free_ops [THEN preservesD, OF s] in auto)
qed

interpretation control_frame: framed_machine "ctl_step E" fixed for E
proof
  fix s e
  show "fixed (ctl_step E e s) = fixed s"
    by (cases e) (use fixed_ops [THEN preservesD, OF refl] in auto)
qed

fun is_fm_event :: "ctl_event \<Rightarrow> bool" where
  "is_fm_event CEnableFM = True"
| "is_fm_event CDisableFM = True"
| "is_fm_event _ = False"

lemmas live_ops = keeps_live.mode keeps_live.mic keeps_live.volumes keeps_live.routing
  keeps_live.parameters keeps_live.voip_setup

lemma ctl_step_live: "\<not> is_fm_event e \<Longrightarrow> live (k_log (ctl_step E e s)) = live (k_log s)"
  by (cases e) (use live_ops [THEN preservesD, OF refl] in auto)

section \<open>Settings\<close>

record settings =
  t_nrec :: bool
  t_vgs :: bool
  t_btid :: u32
  t_dual :: bool
  t_tty :: tty_modes
  t_voip :: u32

definition settings_of :: "hw \<Rightarrow> settings" where
  "settings_of s = \<lparr>t_nrec = mBluetoothNrec s, t_vgs = mBluetoothVGS s, t_btid = mBluetoothId s,
     t_dual = mDualMicEnabled s, t_tty = mTtyMode s, t_voip = mVoipBitRate s\<rparr>"

definition ctx_of :: "hw \<Rightarrow> settings \<times> amode \<times> (string \<times> u32) list" where
  "ctx_of s = (settings_of s, mMode s, mSndEndpoints s)"

interpretation keeps_ctx: route_frame E "\<lambda>s. ctx_of s = v" for E v
proof unfold_locales
  show "preserves (\<lambda>s. ctx_of s = v) (switch_mode E fm)" for fm
    by (rule switch_mode_pres) (simp add: ctx_of_def settings_of_def)
  show "preserves (\<lambda>s. ctx_of s = v) (msm72xx_enable_postproc E en)" for en
    by (rule postproc_pres) (simp_all add: ctx_of_def settings_of_def)
qed (simp_all add: ctx_of_def settings_of_def)

lemma doRouting_ctx: "ctx_of (exec (doRouting E i od) s) = ctx_of s"
  using preservesD [OF keeps_ctx.routing refl] .

lemma doRouting_settings [simp]:
  "settings_of (exec (doRouting E i od) s) = settings_of s"
  "mMode (exec (doRouting E i od) s) = mMode s"
  "mSndEndpoints (exec (doRouting E i od) s) = mSndEndpoints s"
  using doRouting_ctx [of E i od s] by (simp_all add: ctx_of_def)

lemma settings_upd [simp]:
  "settings_of (s\<lparr>mBluetoothNrec := b\<rparr>) = (settings_of s)\<lparr>t_nrec := b\<rparr>"
  "settings_of (s\<lparr>mBluetoothVGS := b\<rparr>) = (settings_of s)\<lparr>t_vgs := b\<rparr>"
  "settings_of (s\<lparr>mBluetoothId := i\<rparr>) = (settings_of s)\<lparr>t_btid := i\<rparr>"
  "settings_of (s\<lparr>mDualMicEnabled := b\<rparr>) = (settings_of s)\<lparr>t_dual := b\<rparr>"
  "settings_of (s\<lparr>mTtyMode := t\<rparr>) = (settings_of s)\<lparr>t_tty := t\<rparr>"
  "settings_of (s\<lparr>mVoipBitRate := w\<rparr>) = (settings_of s)\<lparr>t_voip := w\<rparr>"
  by (simp_all add: settings_of_def)

text \<open>What a parameter string means for the settings.\<close>

definition par_or :: "params \<Rightarrow> string \<Rightarrow> (string \<Rightarrow> 'a) \<Rightarrow> 'a \<Rightarrow> 'a" where
  "par_or ps k f old = (case par_get ps k of None \<Rightarrow> old | Some v \<Rightarrow> f v)"

definition new_settings :: "env \<Rightarrow> params \<Rightarrow> amode \<Rightarrow> (string \<times> u32) list \<Rightarrow> settings \<Rightarrow> settings" where
  "new_settings E ps mode epts t =
     \<lparr>t_nrec = par_or ps ''bt_headset_nrec'' (\<lambda>v. v = ''on'') (t_nrec t),
      t_vgs = par_or ps ''bt_headset_vgs'' (\<lambda>v. v = ''on'') (t_vgs t),
      t_btid = par_or ps ''bt_headset_name'' (bt_name_id epts) (t_btid t),
      t_dual = par_or ps ''dualmic_enabled'' (\<lambda>v. v = ''true'') (t_dual t),
      t_tty = par_or ps ''tty_mode'' tty_of (t_tty t),
      t_voip = (if par_get ps ''tty_mode'' \<noteq> None \<and> mode \<noteq> MODE_IN_CALL then t_voip t
                else par_or ps ''voip_rate'' (e_atoi E) (t_voip t))\<rparr>"

lemma exec_on_param [simp]:
  "exec (on_param ps k f) s = (case par_get ps k of None \<Rightarrow> s | Some v \<Rightarrow> exec (f v) s)"
  by (simp add: on_param_def split: option.split)

lemma setParameters_settings:
  "ps \<noteq> [] \<Longrightarrow> settings_of (exec (setParameters E ps) s)
     = new_settings E ps (mMode s) (mSndEndpoints s) (settings_of s)"
  by (cases "par_get ps ''bt_headset_nrec''"; cases "par_get ps ''bt_headset_vgs''";
      cases "par_get ps ''bt_headset_name''"; cases "par_get ps ''dualmic_enabled''";
      cases "par_get ps ''tty_mode''"; cases "par_get ps ''voip_rate''")
     (simp_all add: setParameters_def new_settings_def par_or_def)

section \<open>Volume levels\<close>

lemma lrint_bounds: "of_int (lrint x) \<le> x + 1 / 2" "x - 1 / 2 \<le> of_int (lrint x)"
proof -
  define f where "f = \<lfloor>x\<rfloor>"
  have f: "of_int f \<le> x" "x < of_int f + 1" unfolding f_def by linarith+
  have l: "lrint x = (if x - of_int f < 1 / 2 then f else if x - of_int f > 1 / 2 then f + 1
      else if even f then f else f + 1)"
    by (simp add: lrint_def f_def Let_def)
  consider "x - of_int f < 1 / 2" | "x - of_int f > 1 / 2" | "x - of_int f = 1 / 2" by linarith
  then have "of_int (lrint x) \<le> x + 1 / 2 \<and> x - 1 / 2 \<le> of_int (lrint x)"
  proof cases
    case 1
    then have "lrint x = f" using l by simp
    with f 1 show ?thesis by simp
  next
    case 2
    then have "lrint x = f + 1" using l by simp
    with f 2 show ?thesis by simp
  next
    case 3
    then have "lrint x = f \<or> lrint x = f + 1" using l by auto
    with f 3 show ?thesis by auto
  qed
  then show "of_int (lrint x) \<le> x + 1 / 2" "x - 1 / 2 \<le> of_int (lrint x)" by simp_all
qed

lemma lrint_ge: "of_int n - 1 / 2 < x \<Longrightarrow> n \<le> lrint x"
proof -
  assume "of_int n - 1 / 2 < x"
  then have "of_int n - 1 < (of_int (lrint x) :: rat)" using lrint_bounds(2) [of x] by linarith
  then show ?thesis by linarith
qed

lemma lrint_le: "x < of_int n + 1 / 2 \<Longrightarrow> lrint x \<le> n"
proof -
  assume "x < of_int n + 1 / 2"
  then have "(of_int (lrint x) :: rat) < of_int n + 1" using lrint_bounds(1) [of x] by linarith
  then show ?thesis by linarith
qed

lemma clamp01_range: "0 \<le> clamp01 v \<and> clamp01 v \<le> 1"
  by (simp add: clamp01_def)

text \<open>The error of the rounding to \<open>float\<close> on the numbers that occur.\<close>

definition f32_error :: "env \<Rightarrow> rat \<Rightarrow> bool" where
  "f32_error E \<epsilon> \<longleftrightarrow> (\<forall>x. 0 \<le> x \<and> x \<le> 2 \<longrightarrow> \<bar>e_f32 E x - x\<bar> \<le> \<epsilon>)"

lemma voice_level_range:
  assumes "f32_error E (1 / 100)"
  shows "2 \<le> voice_level E v \<and> voice_level E v \<le> 7"
proof -
  define x where "x = 2 / 5 + clamp01 v"
  have "0 \<le> x \<and> x \<le> 2" and x: "2 / 5 \<le> x" "x \<le> 7 / 5"
    using clamp01_range [of v] by (auto simp: x_def)
  then have "\<bar>e_f32 E x - x\<bar> \<le> 1 / 100" using assms by (simp add: f32_error_def)
  then have "x - 1 / 100 \<le> e_f32 E x" "e_f32 E x \<le> x + 1 / 100" by linarith+
  then have "e_f32 E x * 5 > 3 / 2" "e_f32 E x * 5 < 15 / 2" using x by linarith+
  then have "2 \<le> lrint (e_f32 E x * 5)" "lrint (e_f32 E x * 5) \<le> 7"
    by (intro lrint_ge lrint_le; simp)+
  then show ?thesis by (simp add: voice_level_def x_def)
qed

lemma fm_level_range: "0 \<le> fm_level v \<and> fm_level v \<le> 7"
proof -
  have "0 \<le> clamp01 v * (15 / 2)" using clamp01_range [of v] by simp
  then have "0 \<le> lrint (clamp01 v * (15 / 2))" by (intro lrint_ge) simp
  then show ?thesis by (simp add: fm_level_def)
qed

section \<open>Concrete objects for the examples\<close>

definition speaker_ids :: "snd_name \<Rightarrow> u32" where
  "speaker_ids = (\<lambda>_. NO_DEVICE)(S_CURRENT := 256, S_SPEAKER := 1, S_HANDSET := 2, S_HEADSET := 3)"

definition speaker_hw :: hw where
  "speaker_hw = hw_init\<lparr>m7xsnddriverfd := 3, SND_DEVICE := speaker_ids,
     mOutput := Some \<lparr>o_fd = -1, o_startCount = 0, o_retryCount = 0, o_standby = True, o_devices = 2\<rparr>\<rparr>"

lemma speaker_free: "free speaker_hw"
  by (simp add: free_def routed_def speaker_hw_def hw_init_def)

text \<open>A driver that refuses every route.\<close>

definition refusing_env :: env where
  "refusing_env = env0\<lparr>e_ret := (\<lambda>l c. if is_route c then -1 else e_ret env0 l c)\<rparr>"

section \<open>FM\<close>

lemma disableFM_effect:
  "mFmFd (exec (disableFM E) s) = (if 0 \<le> mFmFd s then -1 else mFmFd s)"
  "live (k_log (exec (disableFM E) s)) =
     (if 0 \<le> mFmFd s then live (k_log s) - {#mFmFd s#} else live (k_log s))"
  by (simp_all add: disableFM_def)

text \<open>Whether the driver starts FM after it was opened.\<close>

definition fm_starts :: "env \<Rightarrow> hw \<Rightarrow> bool" where
  "fm_starts E s \<longleftrightarrow>
     (let fd = e_ret E (k_log s) (Open ''/dev/msm_fm'')
      in 0 \<le> fd \<and> 0 \<le> e_ret E (k_log s @ [(Open ''/dev/msm_fm'', fd)]) (Ioctl fd AUDIO_START))"

lemma fm_starts_opened: "fm_starts E s \<Longrightarrow> 0 \<le> e_ret E (k_log s) (Open ''/dev/msm_fm'')"
  by (simp add: fm_starts_def Let_def)

lemma enableFM_effect:
  "mFmFd (exec (enableFM E) s) =
     (if fm_starts E s then e_ret E (k_log s) (Open ''/dev/msm_fm'')
      else if 0 \<le> e_ret E (k_log s) (Open ''/dev/msm_fm'') \<or> 0 \<le> mFmFd s then -1 else mFmFd s)"
  "live (k_log (exec (enableFM E) s)) =
     (if fm_starts E s then add_mset (e_ret E (k_log s) (Open ''/dev/msm_fm'')) (live (k_log s))
      else if 0 \<le> e_ret E (k_log s) (Open ''/dev/msm_fm'') then live (k_log s)
      else if 0 \<le> mFmFd s then live (k_log s) - {#mFmFd s#} else live (k_log s))"
  by (cases "e_ret E (k_log s) (Open ''/dev/msm_fm'') < 0"; cases "fm_starts E s";
      simp add: enableFM_def fm_starts_def Let_def)+

section \<open>Properties\<close>

text \<open>
  C6. Any sequence of control calls, whatever the drivers answer, leaves the lock free and
  never locks it twice; the current device is afterwards the one the sound driver was given
  last, or none; streams, device ids and driver descriptors are untouched.
\<close>

theorem control_calls_keep_route:
  assumes "free s"
  shows "let t = fold (ctl_step E) es s
         in \<not> mLock t \<and> k_fault t \<noteq> Some SelfDeadlock
          \<and> (mCurSndDevice t = NO_DEVICE \<or> m7xsnddriverfd t < 0
             \<or> mCurSndDevice t = SND_DEVICE t S_CURRENT
             \<or> last_route (SND_DEVICE t S_CURRENT) (k_log t) = Some (mCurSndDevice t))
          \<and> fixed t = fixed s"
  using control.run_good [OF assms, of E es] control_frame.run_view [of E es s]
  by (simp add: Let_def free_def routed_def)

lemma control_calls_witness:
  "mCurSndDevice (fold (ctl_step env0) [CRoute None 0, CSetMicMute False] speaker_hw) = 1
   \<and> last_route 256 (k_log (fold (ctl_step env0) [CRoute None 0, CSetMicMute False] speaker_hw)) = Some 1"
proof -
  let ?t = "fold (ctl_step env0) [CRoute None 0, CSetMicMute False] speaker_hw"
  have c: "mCurSndDevice ?t = 1" by code_simp
  moreover have "fixed ?t = fixed speaker_hw"
    using control_calls_keep_route [OF speaker_free, of env0 "[CRoute None 0, CSetMicMute False]"]
    by (simp only: Let_def)
  then have "SND_DEVICE ?t = speaker_ids" "m7xsnddriverfd ?t = 3"
    by (simp_all add: fixed_def speaker_hw_def del: fold.simps)
  ultimately show ?thesis
    using control_calls_keep_route [OF speaker_free, of env0 "[CRoute None 0, CSetMicMute False]"]
    by (simp add: Let_def speaker_ids_def NO_DEVICE_def del: fold.simps)
qed

text \<open>
  Apart from FM, no sequence of control calls opens a descriptor it does not close.
\<close>

theorem control_calls_keep_descriptors:
  assumes "list_all (\<lambda>e. \<not> is_fm_event e) es"
  shows "live (k_log (fold (ctl_step E) es s)) = live (k_log s)"
  using assms by (induction es arbitrary: s) (simp_all add: ctl_step_live)

lemma control_descriptors_witness:
  "live (k_log (fold (ctl_step env0) [CRoute None 0, CSetMode MODE_IN_CALL] speaker_hw)) = {#}"
  using control_calls_keep_descriptors [of "[CRoute None 0, CSetMode MODE_IN_CALL]" env0 speaker_hw]
  by (simp add: speaker_hw_def hw_init_def)

text \<open>
  Switching FM on and off again restores the open descriptors when FM was off. When it
  was on, the descriptor in use is overwritten and stays open for good.
\<close>

theorem fm_on_off_descriptors:
  assumes "mFmFd s < 0 \<longrightarrow> mFmFd s = -1"
  shows "let t = exec (disableFM E) (exec (enableFM E) s)
         in mFmFd t = -1
          \<and> (mFmFd s = -1 \<longrightarrow> live (k_log t) = live (k_log s))
          \<and> (0 \<le> mFmFd s \<and> 0 \<le> e_ret E (k_log s) (Open ''/dev/msm_fm'')
               \<longrightarrow> live (k_log t) = live (k_log s))"
proof (cases "mFmFd s = -1")
  case True
  then show ?thesis
    using fm_starts_opened [of E s] by (auto simp: Let_def disableFM_effect enableFM_effect)
next
  case False
  then have "0 \<le> mFmFd s" using assms by linarith
  then show ?thesis
    using fm_starts_opened [of E s] by (auto simp: Let_def disableFM_effect enableFM_effect)
qed

lemma fm_on_off_witness:
  "let t = exec (disableFM env0) (exec (enableFM env0) (speaker_hw\<lparr>mFmFd := 7, k_log := [(Open ''/dev/msm_fm'', 7)]\<rparr>))
   in mFmFd t = -1 \<and> live (k_log t) = {#7#}"
  using fm_on_off_descriptors [of "speaker_hw\<lparr>mFmFd := 7, k_log := [(Open ''/dev/msm_fm'', 7)]\<rparr>" env0]
  by (simp add: Let_def env0_def live_def)

text \<open>
  C34. A route that the driver refuses is recorded as current all the same: the next request
  for the device returns success without a call to the driver.
\<close>

theorem refused_route_not_retried:
  assumes "d \<noteq> NO_DEVICE" "result (switch_device E d) s = E_IO"
  shows "let t = exec (switch_device E d) s
         in mCurSndDevice t = d \<and> result (switch_device E d) t = NO_ERROR
          \<and> k_log (exec (switch_device E d) t) = k_log t"
proof -
  have "mCurSndDevice (exec (switch_device E d) s) = d"
    using assms by (auto simp: switch_device_def)
  then show ?thesis by (simp add: switch_device_def Let_def)
qed

lemma refused_route_witness:
  "let t = exec (switch_device refusing_env 1) speaker_hw
   in mCurSndDevice t = 1 \<and> result (switch_device refusing_env 1) t = NO_ERROR"
proof -
  have "result (switch_device refusing_env 1) speaker_hw = E_IO"
    by (simp add: switch_device_def speaker_hw_def hw_init_def doAudioRouteOrMute_def IsFmon_def
        do_route_audio_rpc_def is_fm_device_def speaker_ids_def NO_DEVICE_def refusing_env_def
        env0_def Let_def)
  then show ?thesis
    using refused_route_not_retried [of 1 refusing_env speaker_hw]
    by (simp add: Let_def NO_DEVICE_def)
qed

text \<open>
  Before a route opens the microphone it is set with the microphone muted: the driver
  sees exactly these two calls, except for the current device and digital FM.
\<close>

theorem mic_opened_after_mute:
  assumes "result (do_route_audio_rpc E d em False) s = NO_ERROR" "d \<noteq> NO_DEVICE"
    and "d \<noteq> SND_DEVICE s S_CURRENT" "\<not> is_fm_device s d"
  shows "map fst (drop (length (k_log s)) (k_log (exec (do_route_audio_rpc E d em False) s))) =
    [Ioctl (m7xsnddriverfd s) (SND_SET_DEVICE d em True),
     Ioctl (m7xsnddriverfd s) (SND_SET_DEVICE d em False)]"
  using assms by (auto simp: do_route_audio_rpc_def split: if_splits)

lemma mic_opened_witness:
  "map fst (drop 0 (k_log (exec (do_route_audio_rpc env0 1 False False) speaker_hw))) =
    [Ioctl 3 (SND_SET_DEVICE 1 False True), Ioctl 3 (SND_SET_DEVICE 1 False False)]"
proof -
  have "result (do_route_audio_rpc env0 1 False False) speaker_hw = NO_ERROR"
    by (simp add: do_route_audio_rpc_def speaker_hw_def hw_init_def is_fm_device_def
        speaker_ids_def NO_DEVICE_def env0_def)
  from mic_opened_after_mute [OF this] show ?thesis
    by (simp add: speaker_hw_def hw_init_def is_fm_device_def speaker_ids_def NO_DEVICE_def)
qed

text \<open>
  The in-call volume is sent in the range 2 to 7 and the FM volume in the range 0 to 7
  for every argument, if rounding to \<open>float\<close> errs by no more than a hundredth.
\<close>

theorem volume_levels_in_range:
  assumes "f32_error E (1 / 100)"
  shows "2 \<le> voice_level E v \<and> voice_level E v \<le> 7 \<and> 0 \<le> fm_level w \<and> fm_level w \<le> 7"
  using voice_level_range [OF assms] fm_level_range by simp

lemma volume_levels_witness: "voice_level env0 (3 / 2) \<le> 7 \<and> 0 \<le> fm_level (- 1)"
proof -
  have "f32_error env0 (1 / 100)" by (simp add: f32_error_def env0_def)
  from volume_levels_in_range [OF this, of "3 / 2" "- 1"] show ?thesis by simp
qed

text \<open>Device masks that are not 0 and share no bit.\<close>

definition separate_masks :: "env \<Rightarrow> bool" where
  "separate_masks E \<longleftrightarrow>
     (let ds = map (e_dev E) [OUT_EARPIECE, OUT_SPEAKER, OUT_WIRED_HEADSET, OUT_WIRED_HEADPHONE,
                 OUT_FM, OUT_BLUETOOTH_SCO, OUT_BLUETOOTH_SCO_HEADSET, OUT_BLUETOOTH_SCO_CARKIT]
      in list_all (\<lambda>d. d \<noteq> 0) ds
         \<and> list_all (\<lambda>i. list_all (\<lambda>j. i = j \<or> ds ! i AND ds ! j = 0) [0..<8]) [0..<8])"

text \<open>
  Outside of a teletype call every single output device goes to the endpoint of its name,
  headphones to the headset, and the loudspeaker together with a headset or headphones to the
  combined endpoint, when the masks of the devices share no bit.
\<close>

theorem single_output_routes:
  assumes "separate_masks E" "tty = TTY_OFF \<or> mode \<noteq> MODE_IN_CALL"
  shows "fst (route_out E tty mode (e_dev E OUT_EARPIECE)) = Some S_HANDSET
   \<and> fst (route_out E tty mode (e_dev E OUT_SPEAKER)) = Some S_SPEAKER
   \<and> fst (route_out E tty mode (e_dev E OUT_WIRED_HEADSET)) = Some S_HEADSET
   \<and> fst (route_out E tty mode (e_dev E OUT_WIRED_HEADPHONE)) = Some S_HEADSET
   \<and> fst (route_out E tty mode (e_dev E OUT_BLUETOOTH_SCO)) = Some S_BT
   \<and> fst (route_out E tty mode (e_dev E OUT_BLUETOOTH_SCO_HEADSET)) = Some S_BT
   \<and> fst (route_out E tty mode (e_dev E OUT_BLUETOOTH_SCO_CARKIT)) = Some S_CARKIT
   \<and> fst (route_out E tty mode (e_dev E OUT_SPEAKER OR e_dev E OUT_WIRED_HEADSET))
       = Some S_STEREO_HEADSET_AND_SPEAKER
   \<and> fst (route_out E tty mode (e_dev E OUT_SPEAKER OR e_dev E OUT_WIRED_HEADPHONE))
       = Some S_STEREO_HEADSET_AND_SPEAKER"
proof -
  note rules = route_out_def separate_masks_def Let_def upt_rec bit.conj_disj_distrib
    bit.conj_disj_distrib2
  show ?thesis
  proof (cases "tty = TTY_OFF")
    case True
    with assms(1) show ?thesis by (simp add: rules)
  next
    case False
    with assms show ?thesis by (simp add: rules)
  qed
qed

lemma single_output_witness: "fst (route_out env0 TTY_OFF MODE_NORMAL 2) = Some S_SPEAKER"
proof -
  have "separate_masks env0" by (simp add: separate_masks_def env0_def upt_rec)
  from single_output_routes [OF this, of TTY_OFF MODE_NORMAL] show ?thesis
    by (simp add: env0_def)
qed

text \<open>
  A parameter string changes the settings as \<open>new_settings\<close> says, each key on its own,
  with one exception: a \<open>tty_mode\<close> outside of a call hides the \<open>voip_rate\<close> next to it.
\<close>

theorem parameters_set_settings:
  assumes "ps \<noteq> []"
  shows "settings_of (exec (setParameters E ps) s)
     = new_settings E ps (mMode s) (mSndEndpoints s) (settings_of s)"
  by (rule setParameters_settings [OF assms])

lemma parameters_witness:
  "let t = settings_of (exec (setParameters env0 [(''tty_mode'', ''full''), (''voip_rate'', ''12200'')]) speaker_hw)
   in t_tty t = TTY_FULL \<and> t_voip t = 0"
  using parameters_set_settings [of "[(''tty_mode'', ''full''), (''voip_rate'', ''12200'')]" env0 speaker_hw]
  by (simp add: Let_def new_settings_def par_or_def par_get_def tty_of_def speaker_hw_def hw_init_def
      settings_of_def)

text \<open>
  After a request to mute or unmute the microphone its state is the requested one, except
  that it cannot be muted while FM is on.
\<close>

theorem mic_mute_request:
  "mMicMute (exec (setMicMute E b) s) = (if mMicMute s = b then b else b \<and> \<not> IsFmon s)"
proof -
  have rpc: "mMicMute (exec (do_route_audio_rpc E d em mm) t) = mMicMute t" for d em mm t
    by (simp add: do_route_audio_rpc_def)
  have sw: "mMicMute (exec (switch_mode E fm) t) = mMicMute t" for fm and t :: hw
    using preservesD [OF switch_mode_pres, of "\<lambda>s. mMicMute s = mMicMute t" t] by simp
  show ?thesis
    by (auto simp: setMicMute_def setMicMute_nosync_def autolock_def doAudioRouteOrMute_def Let_def
        rpc sw IsFmon_def)
qed

end
