(* ===== verification/OutStream.thy ===== *)
theory OutStream
  imports RoutingProps
begin

text \<open>
  \<open>AudioStreamOutMSM72xx\<close>, the PCM playback stream: opened on the first write after standby,
  started when two buffers are filled, closed by standby. The stream is the object \<open>mOutput\<close>
  points to; the loop around \<open>write\<close> runs on fuel and \<open>None\<close> means that it has not returned.
\<close>

section \<open>Configuration\<close>

definition out72_high_quality :: "env \<Rightarrow> bool" where
  "out72_high_quality E \<longleftrightarrow> e_prop E ''af.resampler.quality'' = Some ''255''"

definition out72_sampleRate :: "env \<Rightarrow> u32" where
  "out72_sampleRate E = (if out72_high_quality E then 48000 else 44100)"

definition out72_bufferSize :: "env \<Rightarrow> nat" where
  "out72_bufferSize E = (if out72_high_quality E then 5248 else 4800)"

definition out72_channels :: "env \<Rightarrow> u32" where
  "out72_channels E = e_chan E CH_OUT_STEREO"

definition out72_format :: format where
  "out72_format = PCM_16_BIT"

definition out72_latency :: "env \<Rightarrow> nat" where
  "out72_latency E =
     1000 * 2 * (out72_bufferSize E div e_frameSize E) div unat (out72_sampleRate E)"

definition out72_new :: out72 where
  "out72_new = \<lparr>o_fd = -1, o_startCount = 0, o_retryCount = 0, o_standby = True, o_devices = 0\<rparr>"

text \<open>\<open>set\<close>: the stream and the negotiated format, channels and rate; the status is \<open>NO_ERROR\<close>.\<close>

definition out72_set ::
  "env \<Rightarrow> u32 \<Rightarrow> format \<Rightarrow> u32 \<Rightarrow> u32 \<Rightarrow> out72 \<Rightarrow> status \<times> out72 \<times> format \<times> u32 \<times> u32" where
  "out72_set E devices fmt ch rate st =
     (let lf = (if fmt = FMT_NONE then out72_format else fmt);
          lc = (if ch = 0 then out72_channels E else ch);
          lr = (if rate = 0 then out72_sampleRate E else rate)
      in if lf \<noteq> out72_format \<or> lc \<noteq> out72_channels E \<or> lr \<noteq> out72_sampleRate E
         then (NO_ERROR, st, out72_format, out72_channels E, out72_sampleRate E)
         else (NO_ERROR, st\<lparr>o_devices := devices\<rparr>, lf, lc, lr))"

section \<open>write\<close>

definition upd_out :: "(out72 \<Rightarrow> out72) \<Rightarrow> (hw, unit) state" where
  "upd_out f = modify (\<lambda>s. s\<lparr>mOutput := map_option f (mOutput s)\<rparr>)"

definition out_get :: "(out72 \<Rightarrow> 'a) \<Rightarrow> (hw, 'a) state" where
  "out_get f = gets (\<lambda>s. f (the (mOutput s)))"

datatype loop_end = Finished | Failed int | OutOfFuel

fun out72_write_loop :: "env \<Rightarrow> nat \<Rightarrow> nat \<Rightarrow> (hw, loop_end) state" where
  "out72_write_loop E fuel cnt =
     (if cnt = 0 then ret Finished
      else case fuel of
        0 \<Rightarrow> ret OutOfFuel
      | Suc n \<Rightarrow> do {
          fd \<leftarrow> out_get o_fd;
          w \<leftarrow> kcall E (Fwrite fd cnt);
          again \<leftarrow> gets (\<lambda>s. e_again E (k_log s));
          if w \<ge> 0 then out72_write_loop E n (cnt - nat w)
          else if \<not> again then ret (Failed w)
          else do {
            upd_out (\<lambda>st. st\<lparr>o_retryCount := o_retryCount st + 1\<rparr>);
            out72_write_loop E n cnt
          }
        })"

declare out72_write_loop.simps [simp del]

text \<open>The driver is opened and configured; the result is the failing status, if any.\<close>

definition out72_config :: "env \<Rightarrow> msm_config \<Rightarrow> msm_config" where
  "out72_config E c = c\<lparr>c_channel_count := e_popcount E (out72_channels E),
     c_sample_rate := out72_sampleRate E, c_buffer_size := of_nat (out72_bufferSize E),
     c_buffer_count := 2, c_type := 0\<rparr>"

definition out72_open :: "env \<Rightarrow> (hw, int) state" where
  "out72_open E = do {
     fd \<leftarrow> sys_open E ''/dev/msm_pcm_out'';
     if fd < 0 then ret fd
     else do {
       upd_out (\<lambda>st. st\<lparr>o_fd := fd\<rparr>);
       r1 \<leftarrow> sys_ioctl E fd AUDIO_GET_CONFIG;
       if r1 < 0 then ret r1
       else do {
         c \<leftarrow> gets (\<lambda>s. e_cfg E (k_log s));
         r2 \<leftarrow> sys_ioctl E fd (AUDIO_SET_CONFIG (out72_config E c));
         if r2 < 0 then ret r2
         else do {
           upd_out (\<lambda>st. st\<lparr>o_startCount := 2, o_standby := False\<rparr>);
           ret 0
         }
       }
     }
   }"

text \<open>\<open>usleep(bytes * 1000000 / frameSize() / sampleRate())\<close> on 32-bit \<open>size_t\<close>.\<close>

definition out72_sleep :: "env \<Rightarrow> nat \<Rightarrow> nat" where
  "out72_sleep E bytes =
     unat ((of_nat bytes * 1000000 :: u32) div of_nat (e_frameSize E) div out72_sampleRate E)"

definition out72_start :: "env \<Rightarrow> (hw, unit) state" where
  "out72_start E = do {
     n \<leftarrow> out_get o_startCount;
     whenM (n \<noteq> 0) (do {
       upd_out (\<lambda>st. st\<lparr>o_startCount := n - 1\<rparr>);
       whenM (n = 1) (do {
         fd \<leftarrow> out_get o_fd;
         sys_ioctl E fd AUDIO_START;
         modify (\<lambda>s. s\<lparr>hpcm_playback_in_progress := True,
                       post_proc_feature_mask := new_post_proc_feature_mask s\<rparr>);
         msm72xx_enable_postproc E True;
         ret ()
       })
     })
   }"

definition out72_write :: "env \<Rightarrow> nat \<Rightarrow> nat \<Rightarrow> (hw, int option) state" where
  "out72_write E fuel bytes = do {
     sb \<leftarrow> out_get o_standby;
     err \<leftarrow> (if sb then out72_open E else ret 0);
     if err < 0 then do {
       fd \<leftarrow> out_get o_fd;
       whenM (fd \<ge> 0) (do { sys_close E fd; upd_out (\<lambda>st. st\<lparr>o_fd := -1\<rparr>) });
       kcall E (Usleep (out72_sleep E bytes));
       ret (Some err)
     } else do {
       l \<leftarrow> out72_write_loop E fuel bytes;
       (case l of
          OutOfFuel \<Rightarrow> ret None
        | Failed w \<Rightarrow> ret (Some w)
        | Finished \<Rightarrow> do { out72_start E; ret (Some (int bytes)) })
     }
   }"

section \<open>standby and the rest\<close>

definition out72_standby :: "env \<Rightarrow> (hw, status) state" where
  "out72_standby E = do {
     sb \<leftarrow> out_get o_standby;
     fd \<leftarrow> out_get o_fd;
     whenM (\<not> sb \<and> fd \<ge> 0) (do {
       modify (\<lambda>s. s\<lparr>hpcm_playback_in_progress := False\<rparr>);
       lpa \<leftarrow> gets lpa_playback_in_progress;
       whenM (\<not> lpa) (do { msm72xx_enable_postproc E False; ret () });
       sys_close E fd;
       upd_out (\<lambda>st. st\<lparr>o_fd := -1\<rparr>)
     });
     upd_out (\<lambda>st. st\<lparr>o_standby := True\<rparr>);
     ret NO_ERROR
   }"

text \<open>The destructor closes the driver and nothing else.\<close>

definition out72_delete :: "env \<Rightarrow> (hw, unit) state" where
  "out72_delete E = do {
     fd \<leftarrow> out_get o_fd;
     whenM (fd \<ge> 0) (do { sys_close E fd; ret () });
     modify (\<lambda>s. s\<lparr>mOutput := None\<rparr>)
   }"

definition out72_checkStandby :: "(hw, bool) state" where
  "out72_checkStandby = out_get o_standby"

definition out72_getRenderPosition :: status where
  "out72_getRenderPosition = INVALID_OPERATION"

definition out72_setParameters :: "env \<Rightarrow> params \<Rightarrow> (hw, status) state" where
  "out72_setParameters E ps = do {
     let fmv = (case par_get ps (e_keyFmVolume E) of None \<Rightarrow> None | Some v \<Rightarrow> e_float E v);
     whenM (fmv \<noteq> None) (do { setFmVolume E (the fmv); ret () });
     let ps1 = (if fmv \<noteq> None then par_remove (e_keyFmVolume E) ps else ps);
     let fm = par_getInt E ps1 (e_keyHandleFm E);
     whenM (fm \<noteq> None) (do {
       (if holds (word_of_int (the fm)) (e_dev E OUT_FM) then enableFM E else disableFM E);
       ret ()
     });
     let ps2 = (if fm \<noteq> None then par_remove (e_keyHandleFm E) ps1 else ps1);
     (case par_getInt E ps2 (e_keyRouting E) of
        None \<Rightarrow> ret (if ps2 \<noteq> [] then BAD_VALUE else NO_ERROR)
      | Some d \<Rightarrow> do {
          upd_out (\<lambda>st. st\<lparr>o_devices := word_of_int d\<rparr>);
          st \<leftarrow> doRouting E None 0;
          ret (if par_remove (e_keyRouting E) ps2 \<noteq> [] then BAD_VALUE else st)
        })
   }"

text \<open>\<open>getParameters\<close> of this and of the LPA stream: the routing key, with the devices as value.\<close>

definition stream_getParameters :: "env \<Rightarrow> (u32 \<Rightarrow> string) \<Rightarrow> u32 \<Rightarrow> params \<Rightarrow> params" where
  "stream_getParameters E show_int devices ps =
     (if par_get ps (e_keyRouting E) \<noteq> None
      then par_add (e_keyRouting E) (show_int devices) ps else ps)"

section \<open>Ownership of the driver's descriptor\<close>

definition out_owned :: "hw \<Rightarrow> int multiset" where
  "out_owned s = (case mOutput s of None \<Rightarrow> {#} | Some st \<Rightarrow> if 0 \<le> o_fd st then {#o_fd st#} else {#})"

text \<open>
  The stream exists, is in standby exactly when the driver is closed, and the open descriptors
  are those of \<open>base\<close>, held by others, and its own.
\<close>

definition out_ok :: "int multiset \<Rightarrow> hw \<Rightarrow> bool" where
  "out_ok base s \<longleftrightarrow>
     (\<exists>st. mOutput s = Some st \<and> (o_standby st \<longleftrightarrow> o_fd st < 0))
     \<and> live (k_log s) = base + out_owned s"

text \<open>While it is being opened the stream is in standby but may own a descriptor.\<close>

definition out_opening :: "int multiset \<Rightarrow> hw \<Rightarrow> bool" where
  "out_opening base s \<longleftrightarrow>
     (\<exists>st. mOutput s = Some st \<and> o_standby st) \<and> live (k_log s) = base + out_owned s"

lemma exec_upd_out [simp]: "exec (upd_out f) s = s\<lparr>mOutput := map_option f (mOutput s)\<rparr>"
  by (simp add: upd_out_def)

lemma result_out_get [simp]: "result (out_get f) s = f (the (mOutput s))"
  by (simp add: out_get_def)

lemma exec_out_get [simp]: "exec (out_get f) s = s"
  by (simp add: out_get_def)

lemma preserves_out_get [pres]: "preserves I (out_get f)"
  by (simp add: preserves_def)

lemma out_owned_simps [simp]:
  "out_owned (s\<lparr>k_log := l\<rparr>) = out_owned s"
  "out_owned (s\<lparr>hpcm_playback_in_progress := b\<rparr>) = out_owned s"
  "out_owned (s\<lparr>post_proc_feature_mask := m\<rparr>) = out_owned s"
  by (simp_all add: out_owned_def)

lemma postproc_mOutput [simp]: "mOutput (exec (msm72xx_enable_postproc E en) s) = mOutput s"
  using preservesD [OF postproc_pres, of "\<lambda>t. mOutput t = mOutput s" s E en] by simp

lemma out_ok_postproc [simp]: "out_ok base s \<Longrightarrow> out_ok base (exec (msm72xx_enable_postproc E en) s)"
  by (simp add: out_ok_def out_owned_def postproc_live)

lemma out_ok_fwrite [simp]:
  "out_ok base s \<Longrightarrow> out_ok base (s\<lparr>k_log := k_log s @ [(Fwrite fd n, r)]\<rparr>)"
  by (simp add: out_ok_def)

lemma preserves_upd_out:
  "(\<And>s st. I s \<Longrightarrow> mOutput s = Some st \<Longrightarrow> I (s\<lparr>mOutput := Some (f st)\<rparr>)) \<Longrightarrow>
   (\<And>s. I s \<Longrightarrow> mOutput s \<noteq> None) \<Longrightarrow> preserves I (upd_out f)"
  by (rule preservesI) fastforce

lemma out_ok_Some: "out_ok base s \<Longrightarrow> mOutput s \<noteq> None"
  by (auto simp: out_ok_def)

lemma upd_counts:
  "preserves (out_ok base) (upd_out (\<lambda>st. st\<lparr>o_retryCount := f st\<rparr>))"
  "preserves (out_ok base) (upd_out (\<lambda>st. st\<lparr>o_startCount := g st\<rparr>))"
  by (rule preserves_upd_out; auto simp: out_ok_def out_owned_def)+

lemma fwrite_ok: "preserves (out_ok base) (kcall E (Fwrite fd n))"
  by (intro pres) simp

lemma out72_write_loop_ok: "preserves (out_ok base) (out72_write_loop E fuel cnt)"
proof (induction fuel arbitrary: cnt)
  case 0
  then show ?case by (simp add: out72_write_loop.simps pres)
next
  case (Suc n)
  then show ?case
    by (subst out72_write_loop.simps) (simp, intro pres impI conjI fwrite_ok upd_counts)
qed

lemma postproc_ok: "preserves (out_ok base) (msm72xx_enable_postproc E en)"
  by (rule preservesI) simp

lemma sys_ioctl_ok: "preserves (out_ok base) (sys_ioctl E fd q)"
  by (intro pres) (simp add: out_ok_def)

lemma out72_start_ok: "preserves (out_ok base) (out72_start E)"
  unfolding out72_start_def
  by (intro pres upd_counts postproc_ok sys_ioctl_ok) (simp add: out_ok_def)

lemma out_ok_opening: "out_ok base s \<Longrightarrow> o_standby (the (mOutput s)) \<Longrightarrow> out_opening base s"
  by (auto simp: out_ok_def out_opening_def)

text \<open>Opening ends with a usable stream or with the descriptor, if any, still to be closed.\<close>

lemma out72_open_ok:
  assumes "out_ok base s" "o_standby (the (mOutput s))"
  shows "if result (out72_open E) s < 0 then out_opening base (exec (out72_open E) s)
         else out_ok base (exec (out72_open E) s)"
proof -
  obtain st where st: "mOutput s = Some st" "o_standby st" "o_fd st < 0"
    using assms by (auto simp: out_ok_def)
  have l: "live (k_log s) = base" using assms(1) st by (simp add: out_ok_def out_owned_def)
  define fd where "fd = e_ret E (k_log s) (Open ''/dev/msm_pcm_out'')"
  show ?thesis
  proof (cases "fd < 0")
    case True
    then show ?thesis using st l
      by (simp add: out72_open_def fd_def out_opening_def out_owned_def)
  next
    case False
    then show ?thesis using st l
      by (simp add: out72_open_def fd_def [symmetric] out_opening_def out_owned_def out_ok_def Let_def)
  qed
qed

lemma opening_abort:
  assumes "out_opening base s"
  shows "out_ok base (exec (do {
           fd \<leftarrow> out_get o_fd;
           whenM (fd \<ge> 0) (do { sys_close E fd; upd_out (\<lambda>st. st\<lparr>o_fd := -1\<rparr>) });
           kcall E (Usleep n);
           ret r }) s)"
  using assms by (auto simp: out_opening_def out_ok_def out_owned_def)

lemma out72_write_ok: "preserves (out_ok base) (out72_write E fuel bytes)"
proof (rule preservesI)
  fix s assume s: "out_ok base s"
  define t where "t = exec (if o_standby (the (mOutput s)) then out72_open E else ret 0) s"
  define err where "err = result (if o_standby (the (mOutput s)) then out72_open E else ret 0) s"
  have "if err < 0 then out_opening base t else out_ok base t"
    using out72_open_ok [OF s, of E] s by (auto simp: t_def err_def)
  moreover have "out_ok base t \<Longrightarrow> out_ok base (exec (do {
         l \<leftarrow> out72_write_loop E fuel bytes;
         (case l of
            OutOfFuel \<Rightarrow> ret None
          | Failed w \<Rightarrow> ret (Some w)
          | Finished \<Rightarrow> do { out72_start E; ret (Some (int bytes)) }) }) t)"
    by (erule preservesD [rotated])
       (intro pres out72_write_loop_ok, auto split: loop_end.split intro!: pres out72_start_ok)
  ultimately show "out_ok base (exec (out72_write E fuel bytes) s)"
    using opening_abort [of base t E "out72_sleep E bytes" "Some err"]
    by (simp add: out72_write_def t_def err_def split: if_splits)
qed

lemma out72_standby_ok: "preserves (out_ok base) (out72_standby E)"
proof (rule preservesI)
  fix s assume s: "out_ok base s"
  have *: "out_ok base (exec (upd_out (\<lambda>st. st\<lparr>o_standby := True\<rparr>)) (exec (upd_out (\<lambda>st. st\<lparr>o_fd := -1\<rparr>))
             (exec (sys_close E (o_fd (the (mOutput t)))) t)))"
    if "out_ok base t" "0 \<le> o_fd (the (mOutput t))" for t
    using that by (auto simp: out_ok_def out_owned_def)
  have h: "out_ok base (s\<lparr>hpcm_playback_in_progress := False\<rparr>)"
    using s by (simp add: out_ok_def)
  show "out_ok base (exec (out72_standby E) s)"
  proof (cases "\<not> o_standby (the (mOutput s)) \<and> o_fd (the (mOutput s)) \<ge> 0")
    case True
    with h * [of "s\<lparr>hpcm_playback_in_progress := False\<rparr>"]
      * [of "exec (msm72xx_enable_postproc E False) (s\<lparr>hpcm_playback_in_progress := False\<rparr>)"]
    show ?thesis by (simp add: out72_standby_def)
  next
    case False
    with s show ?thesis by (auto simp: out72_standby_def out_ok_def out_owned_def)
  qed
qed

lemma out72_delete_live:
  "out_ok base s \<Longrightarrow> live (k_log (exec (out72_delete E) s)) = base"
  by (auto simp: out72_delete_def out_ok_def out_owned_def)

section \<open>The stream among the control calls, as a machine\<close>

datatype out_event = OWrite nat nat | OStandby | OControl ctl_event

fun out_step :: "env \<Rightarrow> out_event \<Rightarrow> hw \<Rightarrow> hw" where
  "out_step E (OWrite fuel bytes) s = exec (out72_write E fuel bytes) s"
| "out_step E OStandby s = exec (out72_standby E) s"
| "out_step E (OControl e) s = (if is_fm_event e then s else ctl_step E e s)"

interpretation playback: machine "out_step E" "out_ok base" for E base
proof
  fix s e assume s: "out_ok base s"
  show "out_ok base (out_step E e s)"
  proof (cases e)
    case (OControl c)
    have "mOutput (ctl_step E c s) = mOutput s"
      using control_frame.step_view [of E c s] by (simp add: fixed_def)
    with OControl s ctl_step_live [of c E s] show ?thesis
      by (auto simp: out_ok_def out_owned_def)
  qed (use s in \<open>simp_all add: preservesD [OF out72_write_ok] preservesD [OF out72_standby_ok]\<close>)
qed

section \<open>The write loop\<close>


fun taken_step :: "nat \<Rightarrow> kcall \<times> int \<Rightarrow> nat" where
  "taken_step k (Fwrite fd n, r) = (if r < 0 then k else k + nat r)"
| "taken_step k _ = k"

text \<open>How many bytes the drivers have taken.\<close>

definition taken :: "klog \<Rightarrow> nat" where
  "taken l = foldl taken_step 0 l"

lemma taken_append [simp]: "taken (l @ xs) = foldl taken_step (taken l) xs"
  by (simp add: taken_def)




lemma out72_open_taken: "preserves (\<lambda>s. taken (k_log s) = v) (out72_open E)"
  unfolding out72_open_def upd_out_def Let_def by (intro pres) simp_all

section \<open>Properties\<close>

text \<open>
  C12. Through any sequence of writes, standbys and control calls, and whatever the drivers
  answer, the playback stream is in standby exactly when its driver is closed, and deleting
  the stream afterwards leaves the open descriptors there were without it.
\<close>

theorem playback_descriptor_owned:
  assumes "out_ok base s"
  shows "let t = fold (out_step E) es s
         in (\<exists>st. mOutput t = Some st \<and> (o_standby st \<longleftrightarrow> o_fd st < 0))
          \<and> live (k_log (exec (out72_delete E) t)) = base"
  using playback.run_good [OF assms, of E es] out72_delete_live [OF playback.run_good [OF assms, of E es], of E]
  by (simp add: Let_def out_ok_def)

lemma playback_descriptor_witness:
  "live (k_log (exec (out72_delete env0) (fold (out_step env0) [OWrite 1 4800, OWrite 1 4800] speaker_hw))) = {#}"
proof -
  have "out_ok {#} speaker_hw" by (simp add: out_ok_def out_owned_def speaker_hw_def hw_init_def)
  from playback_descriptor_owned [OF this, of env0 "[OWrite 1 4800, OWrite 1 4800]"]
  show ?thesis by (simp only: Let_def)
qed



text \<open>
  Opening the playback stream always answers with the one configuration it supports, and
  asking again with that answer is accepted; but a request that had to be corrected leaves
  the stream without its devices although the status is \<open>NO_ERROR\<close>.
\<close>

theorem playback_format_negotiated:
  "let (st, o', f, c, r) = out72_set E dev fmt ch rate out72_new
   in st = NO_ERROR \<and> f = PCM_16_BIT \<and> c = out72_channels E \<and> r = out72_sampleRate E
    \<and> o_devices (fst (snd (out72_set E dev f c r o'))) = dev
    \<and> (o_devices o' = (if fmt \<in> {FMT_NONE, f} \<and> ch \<in> {0, c} \<and> rate \<in> {0, r} then dev else 0))"
  by (auto simp: out72_set_def Let_def out72_new_def out72_format_def)

text \<open>
  The pause that stands for a write that failed has the length of the sound only up to
  4294 bytes. For the 4800 bytes of a full buffer the 32-bit product wraps, and instead of 27
  milliseconds the stream waits less than 3.
\<close>

theorem error_pause_wraps:
  assumes "e_frameSize E = 4" "\<not> out72_high_quality E"
  shows "(\<forall>n \<le> 4294. out72_sleep E n = n * 1000000 div 4 div 44100)
    \<and> out72_sleep E (out72_bufferSize E) = 2862
    \<and> out72_bufferSize E * 1000000 div 4 div 44100 = 27210"
proof -
  have "out72_sleep E n = n * 1000000 div 4 div 44100" if "n \<le> 4294" for n
  proof -
    have "n * 1000000 < 2 ^ 32" using that by simp
    then have "unat (of_nat n * 1000000 :: u32) = n * 1000000"
      using that by (simp add: unat_word_ariths unat_of_nat)
    then show ?thesis using assms by (simp add: out72_sleep_def out72_sampleRate_def unat_div)
  qed
  moreover have "out72_sleep E (out72_bufferSize E) = 2862"
    using assms by (simp add: out72_sleep_def out72_sampleRate_def out72_bufferSize_def)
  ultimately show ?thesis using assms(2) by (simp add: out72_bufferSize_def)
qed

lemma error_pause_witness: "out72_sleep env0 4800 = 2862"
proof -
  have "e_frameSize env0 = 4" "\<not> out72_high_quality env0"
    by (simp_all add: env0_def out72_high_quality_def)
  from error_pause_wraps [OF this] show ?thesis
    by (simp add: out72_bufferSize_def out72_high_quality_def env0_def)
qed

end
