(* ===== verification/VoipStreams.thy ===== *)
theory VoipStreams
  imports OutStream AudioTables
begin

text \<open>
  The two streams of a voice over IP call, \<open>AudioStreamOutDirect\<close> and \<open>AudioStreamInVoip\<close>. They
  share the vocoder driver through \<open>AudioHardware::mVoipFd\<close>: whichever starts first opens it,
  whichever stops last is meant to close it. The output stream is the object \<open>mDirectOutput\<close>
  points to, an input stream is passed to its operations and returned.
\<close>

section \<open>The vocoder driver\<close>

text \<open>
  Configuration and start of a freshly opened driver, the same in both streams; negative when
  a step fails.
\<close>

definition mvs_start :: "env \<Rightarrow> int \<Rightarrow> format \<Rightarrow> u32 \<Rightarrow> (hw, int) state" where
  "mvs_start E fd fmt rate = do {
     r1 \<leftarrow> sys_ioctl E fd AUDIO_GET_MVS_CONFIG;
     if r1 < 0 then ret r1
     else do {
       br \<leftarrow> gets mVoipBitRate;
       let mode = getMvsMode fmt rate;
       let (ok, rt) = getMvsRateType (e_voc E) br mode RATE_DRIVER;
       if \<not> ok then ret (-22)
       else do {
         r2 \<leftarrow> sys_ioctl E fd (AUDIO_SET_MVS_CONFIG mode rt);
         if r2 < 0 then ret r2
         else sys_ioctl E fd AUDIO_START
       }
     }
   }"

section \<open>AudioStreamOutDirect\<close>

definition outdirect_new :: "env \<Rightarrow> outdirect" where
  "outdirect_new E = \<lparr>d_fd = -1, d_retryCount = 0, d_standby = True, d_devices = 0,
     d_channels = e_chan E CH_OUT_MONO, d_rate = 8000, d_bufsz = 320, d_format = PCM_16_BIT\<rparr>"

text \<open>
  \<open>set\<close>: status, stream, and the format, channels and rate written back. An object whose
  \<open>set\<close> fails never gets its \<open>mHardware\<close>.
\<close>

definition outdirect_set ::
  "env \<Rightarrow> u32 \<Rightarrow> format \<Rightarrow> u32 \<Rightarrow> u32 \<Rightarrow> outdirect
     \<Rightarrow> (hw, status \<times> outdirect \<times> format \<times> u32 \<times> u32) state"
where
  "outdirect_set E devices fmt ch rate st =
     (if getMvsMode fmt rate = BAD_INDEX then ret (BAD_VALUE, st, fmt, ch, rate)
      else let lc = (if fmt = PCM_16_BIT \<and> ch = 0 then d_channels st else ch);
               lr = (if fmt = PCM_16_BIT \<and> rate = 0 then 8000 else rate)
           in if fmt = PCM_16_BIT \<and> lc \<noteq> d_channels st
              then ret (BAD_VALUE, st, PCM_16_BIT, d_channels st, rate)
              else if fmt = PCM_16_BIT \<and> lr \<noteq> 8000 \<and> lr \<noteq> 16000
              then ret (BAD_VALUE, st, fmt, lc, lr)
              else do {
                modify (\<lambda>s. s\<lparr>mVoipOutActive := True\<rparr>);
                ret (NO_ERROR,
                  st\<lparr>d_bufsz := (if fmt = PCM_16_BIT then (if lr = 8000 then 320 else 640)
                                 else d_bufsz st),
                     d_format := fmt, d_channels := lc, d_rate := lr, d_devices := devices\<rparr>,
                  fmt, lc, lr)
              })"

definition upd_direct :: "(outdirect \<Rightarrow> outdirect) \<Rightarrow> (hw, unit) state" where
  "upd_direct f = modify (\<lambda>s. s\<lparr>mDirectOutput := map_option f (mDirectOutput s)\<rparr>)"

definition direct_get :: "(outdirect \<Rightarrow> 'a) \<Rightarrow> (hw, 'a) state" where
  "direct_get f = gets (\<lambda>s. f (the (mDirectOutput s)))"

text \<open>
  The PCM loop: each round copies a whole buffer from the caller's data, also when less is
  left, and counts with \<open>size_t\<close>. The driver's success is 0; any other result is taken for an
  error.
\<close>

fun outdirect_loop :: "env \<Rightarrow> nat \<Rightarrow> u32 \<Rightarrow> (hw, loop_end) state" where
  "outdirect_loop E fuel cnt =
     (if cnt = 0 then ret Finished
      else case fuel of
        0 \<Rightarrow> ret OutOfFuel
      | Suc n \<Rightarrow> do {
          sz \<leftarrow> direct_get d_bufsz;
          fd \<leftarrow> direct_get d_fd;
          whenM (unat cnt < sz) (raise_fault OutOfBounds);
          w \<leftarrow> kcall E (Fwrite fd (e_mvs_frame E));
          again \<leftarrow> gets (\<lambda>s. e_again E (k_log s));
          if w = 0 then outdirect_loop E n (cnt - of_nat sz)
          else if \<not> again then ret (Failed w)
          else do {
            upd_direct (\<lambda>st. st\<lparr>d_retryCount := d_retryCount st + 1\<rparr>);
            outdirect_loop E n cnt
          }
        })"

declare outdirect_loop.simps [simp del]

text \<open>Out of standby: share the driver or open it; negative when that fails.\<close>

definition outdirect_join :: "env \<Rightarrow> (hw, unit) state" where
  "outdirect_join E = do {
     modify (\<lambda>s. s\<lparr>mVoipOutActive := True\<rparr>);
     inact \<leftarrow> gets mVoipInActive;
     whenM inact (do { setupDeviceforVoipCall E True; ret () });
     upd_direct (\<lambda>st. st\<lparr>d_standby := False\<rparr>)
   }"

definition outdirect_open :: "env \<Rightarrow> (hw, int) state" where
  "outdirect_open E = do {
     vfd \<leftarrow> gets mVoipFd;
     if vfd \<ge> 0 then do {
       upd_direct (\<lambda>st. st\<lparr>d_fd := vfd\<rparr>);
       outdirect_join E;
       ret 0
     } else do {
       fd \<leftarrow> sys_open E ''/dev/msm_mvs'';
       if fd < 0 then ret fd
       else do {
         upd_direct (\<lambda>st. st\<lparr>d_fd := fd\<rparr>);
         modify (\<lambda>s. s\<lparr>mVoipFd := fd\<rparr>);
         fmt \<leftarrow> direct_get d_format;
         rate \<leftarrow> direct_get d_rate;
         r \<leftarrow> mvs_start E fd fmt rate;
         if r < 0 then ret r
         else do { outdirect_join E; ret 0 }
       }
     }
   }"

text \<open>\<open>Written\<close>: the value returned; \<open>NoStatus\<close>: the status is left from an earlier call.\<close>

datatype direct_ret = Written int | Stuck | NoStatus

definition outdirect_error :: "env \<Rightarrow> (hw, unit) state" where
  "outdirect_error E = do {
     fd \<leftarrow> direct_get d_fd;
     whenM (fd \<ge> 0) (do {
       sys_close E fd;
       upd_direct (\<lambda>st. st\<lparr>d_fd := -1\<rparr>);
       modify (\<lambda>s. s\<lparr>mVoipFd := -1\<rparr>)
     })
   }"

text \<open>\<open>flen\<close> is the length field of the frame in the caller's buffer, for the other formats.\<close>

definition outdirect_send :: "env \<Rightarrow> nat \<Rightarrow> u32 \<Rightarrow> int \<Rightarrow> (hw, direct_ret) state" where
  "outdirect_send E fuel bytes flen = do {
     fmt \<leftarrow> direct_get d_format;
     if fmt = PCM_16_BIT then do {
       l \<leftarrow> outdirect_loop E fuel bytes;
       (case l of
          OutOfFuel \<Rightarrow> ret Stuck
        | Failed w \<Rightarrow> ret (Written w)
        | Finished \<Rightarrow> ret (Written (uint bytes)))
     } else if flen < 0 then do { outdirect_error E; ret NoStatus }
     else do {
       whenM (int (e_voc_pkt E) < flen) (raise_fault OutOfBounds);
       fd \<leftarrow> direct_get d_fd;
       kcall E (Fwrite fd (e_mvs_frame E));
       ret (Written (uint bytes))
     }
   }"

definition outdirect_write :: "env \<Rightarrow> nat \<Rightarrow> u32 \<Rightarrow> int \<Rightarrow> (hw, direct_ret) state" where
  "outdirect_write E fuel bytes flen = do {
     sb \<leftarrow> direct_get d_standby;
     err \<leftarrow> (if sb then outdirect_open E else ret 0);
     if err < 0 then do { outdirect_error E; ret (Written err) }
     else outdirect_send E fuel bytes flen
   }"

definition outdirect_standby :: "env \<Rightarrow> (hw, status) state" where
  "outdirect_standby E = autolock_voip (do {
     modify (\<lambda>s. s\<lparr>mVoipOutActive := False\<rparr>);
     vfd \<leftarrow> gets mVoipFd;
     inact \<leftarrow> gets mVoipInActive;
     whenM (vfd \<ge> 0 \<and> \<not> inact) (do {
       sys_ioctl E vfd AUDIO_STOP;
       fd \<leftarrow> direct_get d_fd;
       sys_close E fd;
       upd_direct (\<lambda>st. st\<lparr>d_fd := -1\<rparr>);
       modify (\<lambda>s. s\<lparr>mVoipFd := -1\<rparr>);
       setupDeviceforVoipCall E False;
       ret ()
     });
     upd_direct (\<lambda>st. st\<lparr>d_standby := True\<rparr>);
     ret NO_ERROR
   })"

text \<open>The destructor of the stream that is open, and of one whose \<open>set\<close> failed.\<close>

definition outdirect_delete :: "env \<Rightarrow> (hw, unit) state" where
  "outdirect_delete E = do {
     modify (\<lambda>s. s\<lparr>mVoipOutActive := False\<rparr>);
     outdirect_standby E;
     modify (\<lambda>s. s\<lparr>mDirectOutput := None\<rparr>)
   }"

definition outdirect_delete_unset :: "(hw, unit) state" where
  "outdirect_delete_unset = raise_fault NullDeref"

definition outdirect_setParameters :: "env \<Rightarrow> params \<Rightarrow> (hw, status) state" where
  "outdirect_setParameters E ps =
     (case par_getInt E ps (e_keyRouting E) of
        None \<Rightarrow> ret (if ps \<noteq> [] then BAD_VALUE else NO_ERROR)
      | Some d \<Rightarrow> do {
          upd_direct (\<lambda>st. st\<lparr>d_devices := word_of_int d\<rparr>);
          st \<leftarrow> doRouting E None (word_of_int d);
          ret (if par_remove (e_keyRouting E) ps \<noteq> [] then BAD_VALUE else st)
        })"

definition voip_getParameters :: "env \<Rightarrow> (u32 \<Rightarrow> string) \<Rightarrow> u32 \<Rightarrow> params \<Rightarrow> params" where
  "voip_getParameters E show_int devices ps =
     (let p1 = (if par_get ps (e_keyRouting E) \<noteq> None
                then par_add (e_keyRouting E) (show_int devices) ps else ps)
      in if par_get p1 ''voip_flag'' \<noteq> None then par_add ''voip_flag'' ''1'' p1 else p1)"

section \<open>AudioStreamInVoip\<close>

text \<open>
  \<open>mFirstread\<close> has no initialiser: \<open>junk\<close> is what the memory held. The constructor of the base
  class counts the object as an instance of \<open>AudioStreamInMSM72xx\<close>.
\<close>

definition voip_new :: "env \<Rightarrow> bool \<Rightarrow> voipin" where
  "voip_new E junk = \<lparr>i_hw = False, i_fd = -1, i_state = IN_CLOSED, i_retryCount = 0,
     i_format = PCM_16_BIT, i_channels = e_chan E CH_IN_MONO, i_rate = 8000, i_bufsz = 320,
     i_devices = 0, i_firstread = junk, v_setup = False\<rparr>"

definition voip_buffer :: "u32 \<Rightarrow> nat option" where
  "voip_buffer rate = (if rate = 8000 then Some 320 else if rate = 16000 then Some 640 else None)"

text \<open>The checks of \<open>set\<close>: a failure with the channels and rate written back, or the buffer size.\<close>

definition voip_check ::
  "env \<Rightarrow> format \<Rightarrow> u32 \<Rightarrow> u32 \<Rightarrow> (status \<times> u32 \<times> u32) + nat" where
  "voip_check E fmt ch rate =
     (if getMvsMode fmt rate = BAD_INDEX then Inl (BAD_VALUE, ch, rate)
      else if fmt \<noteq> PCM_16_BIT then Inr 0
      else if getInputSampleRate rate \<noteq> rate then Inl (BAD_VALUE, ch, getInputSampleRate rate)
      else if ch AND e_chan E CH_IN_MONO = 0 then Inl (BAD_VALUE, e_chan E CH_IN_MONO, rate)
      else case voip_buffer rate of None \<Rightarrow> Inl (Code (-1), ch, rate) | Some b \<Rightarrow> Inr b)"

definition voip_set :: "env \<Rightarrow> format \<Rightarrow> u32 \<Rightarrow> u32 \<Rightarrow> voipin \<Rightarrow> (hw, status \<times> voipin \<times> u32 \<times> u32) state" where
  "voip_set E fmt ch rate v =
     (case voip_check E fmt ch rate of
        Inl (st, ch', rate') \<Rightarrow> ret (st, v, ch', rate')
      | Inr b \<Rightarrow> do {
          let v1 = v\<lparr>i_hw := True, i_bufsz := (if fmt = PCM_16_BIT then b else i_bufsz v)\<rparr>;
          vfd \<leftarrow> gets mVoipFd;
          (fd, err) \<leftarrow> (if vfd \<ge> 0 then ret (vfd, 0)
            else do {
              nfd \<leftarrow> sys_open E ''/dev/msm_mvs'';
              if nfd < 0 then ret (i_fd v, nfd)
              else do {
                modify (\<lambda>s. s\<lparr>mVoipFd := nfd\<rparr>);
                r \<leftarrow> mvs_start E nfd fmt rate;
                ret (nfd, if r < 0 then r else 0)
              }
            });
          if err < 0 then
            (if fd \<ge> 0 then do {
               sys_close E fd;
               modify (\<lambda>s. s\<lparr>mVoipFd := -1\<rparr>);
               ret (Code err, v1\<lparr>i_fd := -1\<rparr>, ch, rate)
             } else ret (Code err, v1\<lparr>i_fd := fd\<rparr>, ch, rate))
          else do {
            let v2 = v1\<lparr>i_fd := fd, i_format := fmt, i_channels := ch, i_rate := rate\<rparr>;
            (case voip_buffer rate of
               None \<Rightarrow> ret (Code (-1), v2, ch, rate)
             | Some bs \<Rightarrow> do {
                 modify (\<lambda>s. s\<lparr>mVoipInActive := True\<rparr>);
                 ret (NO_ERROR, v2\<lparr>i_bufsz := bs, i_state := IN_OPENED\<rparr>, ch, rate)
               })
          }
        })"

definition voip_standby :: "env \<Rightarrow> voipin \<Rightarrow> (hw, status \<times> voipin) state" where
  "voip_standby E v =
     (if \<not> i_hw v then do { raise_fault NullDeref; ret (Code (-1), v) }
      else autolock_voip (do {
        modify (\<lambda>s. s\<lparr>mVoipInActive := False\<rparr>);
        outact \<leftarrow> gets mVoipOutActive;
        vfd \<leftarrow> gets mVoipFd;
        if i_state v \<noteq> IN_CLOSED \<and> \<not> outact then
          (if vfd \<ge> 0 then do {
             sys_ioctl E vfd AUDIO_STOP;
             sys_close E (i_fd v);
             modify (\<lambda>s. s\<lparr>mVoipFd := -1\<rparr>);
             setupDeviceforVoipCall E False;
             ret (NO_ERROR, v\<lparr>i_fd := -1, v_setup := False, i_state := IN_CLOSED\<rparr>)
           } else ret (NO_ERROR, v\<lparr>i_state := IN_CLOSED\<rparr>))
        else ret (NO_ERROR, v)
      }))"

text \<open>The destructor, with that of the base class, whose own members were never set.\<close>

definition voip_delete :: "env \<Rightarrow> voipin \<Rightarrow> (hw, unit) state" where
  "voip_delete E v = do {
     whenM (\<not> i_hw v) (raise_fault NullDeref);
     modify (\<lambda>s. s\<lparr>mVoipInActive := False\<rparr>);
     voip_standby E v;
     modify (\<lambda>s. s\<lparr>instanceCount := instanceCount s - 1\<rparr>)
   }"

datatype read_end = ReadDone nat bool nat | ReadFailed int nat | ReadFuel

text \<open>The PCM loop of \<open>read\<close>: bytes left, the flag \<open>mFirstread\<close> and the retries, or the
  failed result and the retries.\<close>

fun voip_read_loop :: "env \<Rightarrow> nat \<Rightarrow> int \<Rightarrow> nat \<Rightarrow> bool \<Rightarrow> nat \<Rightarrow> nat \<Rightarrow> (hw, read_end) state" where
  "voip_read_loop E fuel fd sz firstread retries cnt =
     (if cnt < sz then ret (ReadDone cnt firstread retries)
      else case fuel of
        0 \<Rightarrow> ret ReadFuel
      | Suc n \<Rightarrow> do {
          r \<leftarrow> kcall E (Fread fd (e_mvs_frame E));
          again \<leftarrow> gets (\<lambda>s. e_again E (k_log s));
          if r > 0 then
            (if \<not> firstread then ret (ReadDone (cnt - sz) True retries)
             else voip_read_loop E n fd sz firstread retries (cnt - sz))
          else if \<not> again then ret (ReadFailed r retries)
          else voip_read_loop E n fd sz firstread (retries + 1) cnt
        })"

declare voip_read_loop.simps [simp del]

text \<open>A stream that is closed, or whose driver is, is set up again under \<open>mLock\<close>.\<close>

definition voip_reopen :: "env \<Rightarrow> voipin \<Rightarrow> (hw, bool \<times> voipin) state" where
  "voip_reopen E v = do {
     lock_mLock;
     (st, v', c', r') \<leftarrow> voip_set E (i_format v) (i_channels v) (i_rate v) v;
     unlock_mLock;
     let v'' = v'\<lparr>i_channels := c', i_rate := r'\<rparr>;
     ret (st = NO_ERROR, if st = NO_ERROR then v''\<lparr>i_state := IN_STARTED\<rparr> else v'')
   }"

text \<open>\<open>res\<close> is the value a successful read returns.\<close>

definition voip_deliver :: "env \<Rightarrow> nat \<Rightarrow> nat \<Rightarrow> int \<Rightarrow> voipin \<Rightarrow> (hw, int option \<times> voipin) state" where
  "voip_deliver E fuel bytes res v1 =
     (if bytes < i_bufsz v1 then ret (Some 0, v1)
      else do {
        whenM (\<not> v_setup v1) (do { setupDeviceforVoipCall E True; ret () });
        let v2 = v1\<lparr>v_setup := True\<rparr>;
        if i_format v2 = PCM_16_BIT then do {
          l \<leftarrow> voip_read_loop E fuel (i_fd v2) (i_bufsz v2) (i_firstread v2) (i_retryCount v2) bytes;
          (case l of
             ReadFuel \<Rightarrow> ret (None, v2)
           | ReadFailed r k \<Rightarrow> ret (Some r, v2\<lparr>i_retryCount := k\<rparr>)
           | ReadDone _ f k \<Rightarrow> ret (Some res, v2\<lparr>i_firstread := f, i_retryCount := k\<rparr>))
        } else do {
          kcall E (Fread (i_fd v2) (e_mvs_frame E));
          ret (Some res, v2)
        }
      })"

definition voip_read :: "env \<Rightarrow> nat \<Rightarrow> voipin \<Rightarrow> nat \<Rightarrow> (hw, int option \<times> voipin) state" where
  "voip_read E fuel v bytes =
     (if \<not> i_hw v then ret (Some (-1), v)
      else do {
        vfd \<leftarrow> gets mVoipFd;
        let reopen = (i_state v = IN_CLOSED \<or> vfd = -1);
        (ok, v1) \<leftarrow> (if reopen then voip_reopen E v else ret (True, v));
        if \<not> ok then ret (Some (-1), v1)
        else voip_deliver E fuel bytes (if reopen then 0 else int bytes) v1
      })"

text \<open>
  \<open>doRouting\<close> takes an \<open>AudioStreamInMSM72xx\<close> and its \<open>devices\<close> is not virtual: it reads the
  member of the base class, which stays 0, and not the one assigned here.
\<close>

definition voip_setParameters :: "env \<Rightarrow> params \<Rightarrow> voipin \<Rightarrow> (hw, status \<times> voipin) state" where
  "voip_setParameters E ps v =
     (case par_getInt E ps (e_keyRouting E) of
        None \<Rightarrow> ret (if ps \<noteq> [] then BAD_VALUE else NO_ERROR, v)
      | Some d \<Rightarrow> do {
          let w = (word_of_int d :: u32);
          let bad = (w AND (w - 1) \<noteq> 0);
          st \<leftarrow> (if bad then ret BAD_VALUE else doRouting E (Some 0) 0);
          ret (if par_remove (e_keyRouting E) ps \<noteq> [] then BAD_VALUE else st,
               if bad then v else v\<lparr>i_devices := w\<rparr>)
        })"

text \<open>\<open>getActiveVoipInput_l\<close> and \<open>getActiveInput_l\<close>: the first stream that is not closed.\<close>

definition getActiveVoipInput_l :: "hw \<Rightarrow> (nat \<times> voipin) option" where
  "getActiveVoipInput_l s = find (\<lambda>(_, v). i_state v \<noteq> IN_CLOSED) (mVoipInputs s)"

definition getActiveInput_l :: "hw \<Rightarrow> (nat \<times> instream) option" where
  "getActiveInput_l s = find (\<lambda>(_, i). i_state i \<noteq> IN_CLOSED) (mInputs s)"

end
