(* ===== verification/VoipProps.thy ===== *)
theory VoipProps
  imports VoipStreams
begin

text \<open>
  Properties of the two streams of a call: who owns the descriptor of the vocoder driver, what
  opening it does, and what the PCM loop of the output stream reads and writes.
\<close>


section \<open>What the mode switch of a call leaves alone\<close>

lemma voip_setup_frame [simp]:
  "live (k_log (exec (setupDeviceforVoipCall E b) s)) = live (k_log s)"
  "mDirectOutput (exec (setupDeviceforVoipCall E b) s) = mDirectOutput s"
  "mVoipFd (exec (setupDeviceforVoipCall E b) s) = mVoipFd s"
  "mVoipInActive (exec (setupDeviceforVoipCall E b) s) = mVoipInActive s"
  "mVoipOutActive (exec (setupDeviceforVoipCall E b) s) = mVoipOutActive s"
  using preservesD [OF keeps_live.voip_setup refl, of E b s]
    preservesD [OF keeps_fixed.voip_setup refl, of E b s]
  by (simp_all add: fixed_def)

lemma upd_direct_simps [simp]:
  "exec (upd_direct f) s = s\<lparr>mDirectOutput := map_option f (mDirectOutput s)\<rparr>"
  "result (direct_get g) s = g (the (mDirectOutput s))"
  "exec (direct_get g) s = s"
  by (simp_all add: upd_direct_def direct_get_def)

lemma exec_autolock_voip:
  "exec (autolock_voip m) s =
     (exec m ((if mVoipLock s then exec (raise_fault SelfDeadlock) s else s)\<lparr>mVoipLock := True\<rparr>))
       \<lparr>mVoipLock := False\<rparr>"
  by (simp add: autolock_voip_def)

lemma outdirect_standby_shared:
  assumes "mVoipInActive s"
  shows "k_log (exec (outdirect_standby E) s) = k_log s
    \<and> mVoipFd (exec (outdirect_standby E) s) = mVoipFd s"
  using assms by (simp add: outdirect_standby_def exec_autolock_voip)

lemma voip_standby_shared:
  assumes "mVoipOutActive s" "i_hw v"
  shows "k_log (exec (voip_standby E v) s) = k_log s \<and> mVoipFd (exec (voip_standby E v) s) = mVoipFd s"
  using assms by (simp add: voip_standby_def exec_autolock_voip)

lemma outdirect_standby_closes:
  assumes "mDirectOutput s = Some st" "0 \<le> mVoipFd s" "\<not> mVoipInActive s"
  shows "live (k_log (exec (outdirect_standby E) s)) = live (k_log s) - {#d_fd st#}
    \<and> mVoipFd (exec (outdirect_standby E) s) = -1"
  using assms by (simp add: outdirect_standby_def exec_autolock_voip)

lemma voip_standby_closes:
  assumes "i_hw v" "i_state v \<noteq> IN_CLOSED" "0 \<le> mVoipFd s" "\<not> mVoipOutActive s"
  shows "live (k_log (exec (voip_standby E v) s)) = live (k_log s) - {#i_fd v#}
    \<and> mVoipFd (exec (voip_standby E v) s) = -1"
  using assms by (simp add: voip_standby_def exec_autolock_voip)

section \<open>The PCM loop of the output stream\<close>

definition frames_taken :: "env \<Rightarrow> bool" where
  "frames_taken E \<longleftrightarrow> (\<forall>l fd n. e_ret E l (Fwrite fd n) = 0)"

lemma outdirect_loop_whole:
  assumes "frames_taken E" "0 < sz" "k * sz < 2 ^ 32" "k \<le> fuel"
    and "mDirectOutput s = Some st" "d_bufsz st = sz" "k_fault s = None"
  shows "result (outdirect_loop E fuel (of_nat (k * sz))) s = Finished
    \<and> k_fault (exec (outdirect_loop E fuel (of_nat (k * sz))) s) = None
    \<and> k_log (exec (outdirect_loop E fuel (of_nat (k * sz))) s) =
        k_log s @ replicate k (Fwrite (d_fd st) (e_mvs_frame E), 0)"
  using assms(3-)
proof (induction k arbitrary: fuel s)
  case 0
  then show ?case by (simp add: outdirect_loop.simps)
next
  case (Suc k)
  obtain n where n: "fuel = Suc n" "k \<le> n" using Suc.prems by (cases fuel) auto
  have lt: "sz + k * sz < 2 ^ 32" using Suc.prems by simp
  then have un: "unat (of_nat (sz + k * sz) :: u32) = sz + k * sz"
    by (simp add: unat_of_nat del: of_nat_add)
  then have nz: "(of_nat (sz + k * sz) :: u32) \<noteq> 0" using assms(2) by (metis unat_0 add_is_0 less_not_refl)
  have sub: "(of_nat (sz + k * sz) :: u32) - of_nat sz = of_nat (k * sz)" by simp
  let ?s = "s\<lparr>k_log := k_log s @ [(Fwrite (d_fd st) (e_mvs_frame E), 0)]\<rparr>"
  have IH: "result (outdirect_loop E n (of_nat (k * sz))) ?s = Finished
    \<and> k_fault (exec (outdirect_loop E n (of_nat (k * sz))) ?s) = None
    \<and> k_log (exec (outdirect_loop E n (of_nat (k * sz))) ?s) =
        k_log ?s @ replicate k (Fwrite (d_fd st) (e_mvs_frame E), 0)"
    using Suc.IH [OF _ n(2), of ?s] Suc.prems lt by simp
  have w: "e_ret E (k_log s) (Fwrite (d_fd st) (e_mvs_frame E)) = 0"
    using assms(1) by (simp add: frames_taken_def)
  show ?case
    using IH nz un sub w Suc.prems(3-5) n(1) assms(2)
    by (subst (1 2 3) outdirect_loop.simps) (simp del: of_nat_add of_nat_mult)
qed

lemma outdirect_loop_fault_kept:
  "k_fault s \<noteq> None \<Longrightarrow> k_fault (exec (outdirect_loop E fuel cnt) s) \<noteq> None"
proof (induction fuel arbitrary: cnt s)
  case 0
  then show ?case by (simp add: outdirect_loop.simps)
next
  case (Suc n)
  then show ?case by (subst outdirect_loop.simps) (auto split: option.splits)
qed

lemma outdirect_loop_rest:
  assumes "frames_taken E" "0 < r" "r < sz" "k * sz + r < 2 ^ 32" "k < fuel"
    and "mDirectOutput s = Some st" "d_bufsz st = sz" "k_fault s = None"
  shows "k_fault (exec (outdirect_loop E fuel (of_nat (k * sz + r))) s) \<noteq> None"
  using assms(4-)
proof (induction k arbitrary: fuel s)
  case 0
  obtain n where n: "fuel = Suc n" using 0 by (cases fuel) auto
  have un: "unat (of_nat r :: u32) = r" using 0 by (simp add: unat_of_nat)
  then have nz: "(of_nat r :: u32) \<noteq> 0" using assms(2) by (metis unat_0 less_not_refl)
  show ?case
    using un nz 0 n assms(3)
    by (simp del: not_None_eq, subst outdirect_loop.simps) (auto simp del: not_None_eq intro!: outdirect_loop_fault_kept)
next
  case (Suc k)
  obtain n where n: "fuel = Suc n" "k < n" using Suc.prems by (cases fuel) auto
  have lt: "sz + k * sz + r < 2 ^ 32" using Suc.prems by simp
  then have un: "unat (of_nat (sz + k * sz + r) :: u32) = sz + k * sz + r"
    by (simp add: unat_of_nat del: of_nat_add)
  then have nz: "(of_nat (sz + k * sz + r) :: u32) \<noteq> 0" using assms(2) by (metis unat_0 add_is_0 less_not_refl)
  have sub: "(of_nat (sz + k * sz + r) :: u32) - of_nat sz = of_nat (k * sz + r)" by simp
  let ?s = "s\<lparr>k_log := k_log s @ [(Fwrite (d_fd st) (e_mvs_frame E), 0)]\<rparr>"
  have IH: "k_fault (exec (outdirect_loop E n (of_nat (k * sz + r))) ?s) \<noteq> None"
    using Suc.IH [OF _ n(2), of ?s] Suc.prems lt by simp
  have w: "e_ret E (k_log s) (Fwrite (d_fd st) (e_mvs_frame E)) = 0"
    using assms(1) by (simp add: frames_taken_def)
  show ?case
    using IH nz un sub w Suc.prems(3-5) n(1)
    by (subst outdirect_loop.simps) (simp del: of_nat_add of_nat_mult)
qed

section \<open>Opening the driver\<close>

lemma live_ioctls [simp]: "foldl live_step fds [(Ioctl fd q, r)] = fds"
  by simp

lemma mvs_start_frame:
  "live (k_log (exec (mvs_start E fd fmt rate) s)) = live (k_log s)"
  "mDirectOutput (exec (mvs_start E fd fmt rate) s) = mDirectOutput s"
  "mVoipFd (exec (mvs_start E fd fmt rate) s) = mVoipFd s"
  "mVoipInActive (exec (mvs_start E fd fmt rate) s) = mVoipInActive s"
  "mVoipOutActive (exec (mvs_start E fd fmt rate) s) = mVoipOutActive s"
  by (simp_all add: mvs_start_def Let_def split: prod.split)

lemma mvs_start_log:
  assumes "0 \<le> result (mvs_start E fd fmt rate) s"
  shows "\<exists>rt r1 r2 r3. getMvsRateType (e_voc E) (mVoipBitRate s) (getMvsMode fmt rate) RATE_DRIVER = (True, rt)
    \<and> k_log (exec (mvs_start E fd fmt rate) s) = k_log s @
        [(Ioctl fd AUDIO_GET_MVS_CONFIG, r1), (Ioctl fd (AUDIO_SET_MVS_CONFIG (getMvsMode fmt rate) rt), r2),
         (Ioctl fd AUDIO_START, r3)] \<and> 0 \<le> r1 \<and> 0 \<le> r2 \<and> 0 \<le> r3"
  using assms by (auto simp: mvs_start_def Let_def split: prod.splits if_splits)

section \<open>Who owns the driver\<close>





























text \<open>Two streams of a call that has just begun.\<close>

definition call_hw :: hw where
  "call_hw = speaker_hw\<lparr>mDirectOutput := Some (outdirect_new env0)\<rparr>"

definition call_in :: voipin where
  "call_in = (voip_new env0 False)\<lparr>i_hw := True\<rparr>"


section \<open>Properties\<close>



text \<open>
  Opening the input of a call either succeeds, with the driver shared or else opened,
  configured for the format and rate of the stream, and started, in this order; or it fails
  and then the driver it opened is closed again and nobody is left with a descriptor.
\<close>

theorem call_input_opened:
  assumes "rate \<in> {8000, 16000}" "i_fd v = -1" "-1 \<notin># live (k_log s)" "mVoipFd s < 0 \<Longrightarrow> mVoipFd s = -1"
    and "result (voip_set E fmt ch rate v) s = (st, w, ch', rate')"
  shows "let t = exec (voip_set E fmt ch rate v) s; fd = mVoipFd t
         in if i_state w = IN_CLOSED \<or> st \<noteq> NO_ERROR
            then live (k_log t) = live (k_log s) \<and> mVoipFd t = mVoipFd s \<and> st \<noteq> NO_ERROR
            else i_fd w = fd \<and> 0 \<le> fd \<and> mVoipInActive t \<and> i_rate w = rate \<and> i_format w = fmt
             \<and> (if 0 \<le> mVoipFd s then k_log t = k_log s
                else \<exists>rt r1 r2 r3. k_log t = k_log s @
                  [(Open ''/dev/msm_mvs'', fd), (Ioctl fd AUDIO_GET_MVS_CONFIG, r1),
                   (Ioctl fd (AUDIO_SET_MVS_CONFIG (getMvsMode fmt rate) rt), r2),
                   (Ioctl fd AUDIO_START, r3)] \<and> 0 \<le> r1 \<and> 0 \<le> r2 \<and> 0 \<le> r3)"
proof (cases "voip_check E fmt ch rate")
  case (Inl e)
  then have "st \<noteq> NO_ERROR" using assms(5)
    by (cases e) (auto simp: voip_set_def voip_check_def split: if_splits option.splits)
  then show ?thesis using Inl assms(5) by (cases e) (simp add: voip_set_def Let_def)
next
  case (Inr b)
  obtain bs where bs: "voip_buffer rate = Some bs" using assms(1) by (auto simp: voip_buffer_def)
  show ?thesis
  proof (cases "0 \<le> mVoipFd s")
    case True
    then show ?thesis using assms(5) Inr bs by (auto simp: voip_set_def Let_def)
  next
    case neg: False
    define fd where "fd = e_ret E (k_log s) (Open ''/dev/msm_mvs'')"
    let ?s = "s\<lparr>k_log := k_log s @ [(Open ''/dev/msm_mvs'', fd)], mVoipFd := fd\<rparr>"
    let ?m = "mvs_start E fd fmt rate"
    consider "fd < 0" | "0 \<le> fd" "result ?m ?s < 0" | "0 \<le> fd" "0 \<le> result ?m ?s" by linarith
    then show ?thesis
    proof cases
      case 1
      then show ?thesis using assms(2-5) Inr neg
        by (auto simp: voip_set_def Let_def fd_def [symmetric])
    next
      case 2
      then show ?thesis using assms(4,5) Inr neg
        by (auto simp: voip_set_def Let_def fd_def [symmetric] mvs_start_frame)
    next
      case 3
      have e: "exec (voip_set E fmt ch rate v) s = (exec ?m ?s)\<lparr>mVoipInActive := True\<rparr>"
        using 3 Inr neg bs by (simp add: voip_set_def Let_def fd_def [symmetric])
      have r: "st = NO_ERROR" "i_state w = IN_OPENED" "i_fd w = fd" "i_rate w = rate" "i_format w = fmt"
        using 3 Inr neg bs assms(5) by (auto simp: voip_set_def Let_def fd_def [symmetric])
      obtain rt r1 r2 r3 where "k_log (exec ?m ?s) = k_log s @
          [(Open ''/dev/msm_mvs'', fd), (Ioctl fd AUDIO_GET_MVS_CONFIG, r1),
           (Ioctl fd (AUDIO_SET_MVS_CONFIG (getMvsMode fmt rate) rt), r2),
           (Ioctl fd AUDIO_START, r3)]" "0 \<le> r1" "0 \<le> r2" "0 \<le> r3"
        using mvs_start_log [OF 3(2)] by auto
      then show ?thesis unfolding Let_def e using 3(1) neg r by (simp add: mvs_start_frame)
    qed
  qed
qed

lemma call_input_witness:
  "let w = fst (snd (result (voip_set env0 PCM_16_BIT 0x10 8000 call_in) call_hw))
   in i_state w = IN_OPENED \<and> i_fd w = mVoipFd (exec (voip_set env0 PCM_16_BIT 0x10 8000 call_in) call_hw)"
proof -
  have "i_fd call_in = -1" "mVoipFd call_hw = -1" "k_log call_hw = []"
    by (simp_all add: call_in_def voip_new_def call_hw_def speaker_hw_def hw_init_def)
  moreover have "fst (result (voip_set env0 PCM_16_BIT 0x10 8000 call_in) call_hw) = NO_ERROR"
    "i_state (fst (snd (result (voip_set env0 PCM_16_BIT 0x10 8000 call_in) call_hw))) = IN_OPENED"
    by code_simp+
  moreover obtain st w c r where r: "result (voip_set env0 PCM_16_BIT 0x10 8000 call_in) call_hw = (st, w, c, r)"
    by (cases "result (voip_set env0 PCM_16_BIT 0x10 8000 call_in) call_hw")
  ultimately have st: "i_state w = IN_OPENED" "st = NO_ERROR" and h: "i_fd call_in = -1" "mVoipFd call_hw = -1"
    and l: "-1 \<notin># live (k_log call_hw)"
    by simp_all
  have "let t = exec (voip_set env0 PCM_16_BIT 0x10 8000 call_in) call_hw in i_fd w = mVoipFd t"
    using call_input_opened [OF _ h(1) l h(2) r] st unfolding Let_def by simp
  then show ?thesis using r st by (simp add: Let_def)
qed

text \<open>
  With a driver that takes every frame, a PCM write to an output that runs sends the data
  in frames of a whole buffer and returns its size when that is a multiple of the buffer;
  otherwise the last frame is filled from beyond the caller's data.
\<close>

theorem call_write_whole_frames:
  assumes "frames_taken E" "mDirectOutput s = Some st" "\<not> d_standby st" "d_format st = PCM_16_BIT"
    "0 < d_bufsz st" "k_fault s = None" "n < 2 ^ 32" "n < fuel"
  shows "if d_bufsz st dvd n
         then result (outdirect_write E fuel (of_nat n) flen) s = Written (int n)
          \<and> k_fault (exec (outdirect_write E fuel (of_nat n) flen) s) = None
          \<and> k_log (exec (outdirect_write E fuel (of_nat n) flen) s) =
              k_log s @ replicate (n div d_bufsz st) (Fwrite (d_fd st) (e_mvs_frame E), 0)
         else k_fault (exec (outdirect_write E fuel (of_nat n) flen) s) \<noteq> None"
proof -
  let ?sz = "d_bufsz st"
  let ?k = "n div ?sz"
  have k: "?k \<le> n" by simp
  have un: "uint (of_nat n :: u32) = int n" using assms(7) by (simp add: uint_nat unat_of_nat)
  have w: "exec (outdirect_write E fuel (of_nat n) flen) s = exec (outdirect_loop E fuel (of_nat n)) s"
    "result (outdirect_loop E fuel (of_nat n)) s = Finished \<Longrightarrow>
       result (outdirect_write E fuel (of_nat n) flen) s = Written (int n)"
    using assms(2-4) un
    by (auto simp: outdirect_write_def outdirect_send_def split: loop_end.splits)
  show ?thesis
  proof (cases "?sz dvd n")
    case True
    then have "n = ?k * ?sz" by simp
    then show ?thesis
      using outdirect_loop_whole [of E ?sz ?k fuel s st] assms k w True by simp
  next
    case False
    then have "0 < n mod ?sz" "n mod ?sz < ?sz" using assms(5) by (simp_all add: mod_greater_zero_iff_not_dvd)
    then show ?thesis
      using outdirect_loop_rest [of E "n mod ?sz" ?sz ?k fuel s st] assms k w False
      by (simp del: not_None_eq)
  qed
qed

lemma call_write_witness:
  "k_fault (exec (outdirect_write (env0\<lparr>e_ret := \<lambda>_ _. 0\<rparr>) 400 321 0)
     (call_hw\<lparr>mDirectOutput := Some ((outdirect_new env0)\<lparr>d_fd := 5, d_standby := False\<rparr>)\<rparr>)) \<noteq> None"
proof -
  have "frames_taken (env0\<lparr>e_ret := \<lambda>_ _. 0\<rparr>)" by (simp add: frames_taken_def)
  from call_write_whole_frames [OF this, of "call_hw\<lparr>mDirectOutput := Some ((outdirect_new env0)\<lparr>d_fd := 5, d_standby := False\<rparr>)\<rparr>" _ 321 400 0]
  show ?thesis by (simp add: outdirect_new_def call_hw_def speaker_hw_def hw_init_def del: not_None_eq)
qed

lemma outdirect_set_exec:
  "exec (outdirect_set E dev fmt ch rate x) s =
     (if fst (result (outdirect_set E dev fmt ch rate x) s) = NO_ERROR then s\<lparr>mVoipOutActive := True\<rparr> else s)"
  by (simp add: outdirect_set_def Let_def)

lemma voip_standby_other:
  assumes "mVoipOutActive s" "i_hw v"
  shows "mDirectOutput (exec (voip_standby E v) s) = mDirectOutput s" "mVoipFd (exec (voip_standby E v) s) = mVoipFd s"
    "\<not> mVoipInActive (exec (voip_standby E v) s)" "k_log (exec (voip_standby E v) s) = k_log s"
  using assms by (simp_all add: voip_standby_def exec_autolock_voip)

text \<open>
  An output that is opened while the input of a call runs and closed without a write
  takes the driver with it: after both streams have stopped nobody knows the driver's
  descriptor and it is still open.
\<close>

theorem unwritten_output_leaks_driver:
  assumes "0 \<le> mVoipFd s" "-1 \<notin># live (k_log s)" "i_hw v"
    and "result (outdirect_set E dev fmt ch rate (outdirect_new E)) s = (NO_ERROR, st, f, c, r)"
  shows "let s1 = (exec (outdirect_set E dev fmt ch rate (outdirect_new E)) s)\<lparr>mDirectOutput := Some st\<rparr>;
             t = exec (outdirect_standby E) (exec (voip_standby E v) s1)
         in mVoipFd t = -1 \<and> live (k_log t) = live (k_log s)"
proof -
  have "d_fd (fst (snd (result (outdirect_set E dev fmt ch rate x) s))) = d_fd x" for x
    by (simp add: outdirect_set_def Let_def)
  from this [of "outdirect_new E"] have st: "d_fd st = -1"
    unfolding assms(4) by (simp add: outdirect_new_def)
  have s1: "exec (outdirect_set E dev fmt ch rate (outdirect_new E)) s = s\<lparr>mVoipOutActive := True\<rparr>"
    unfolding outdirect_set_exec assms(4) by simp
  let ?s1 = "s\<lparr>mVoipOutActive := True, mDirectOutput := Some st\<rparr>"
  let ?s2 = "exec (voip_standby E v) ?s1"
  have s2: "mDirectOutput ?s2 = Some st" "mVoipFd ?s2 = mVoipFd s" "\<not> mVoipInActive ?s2" "k_log ?s2 = k_log s"
    using voip_standby_other [of ?s1 v E, OF _ assms(3)] by simp_all
  have "mVoipFd (exec (outdirect_standby E) ?s2) = -1 \<and> live (k_log (exec (outdirect_standby E) ?s2)) = live (k_log s)"
    using outdirect_standby_closes [OF s2(1), of E] s2(2-4) assms(1,2) st
    by (metis diff_single_trivial)
  then show ?thesis
    unfolding s1 Let_def by simp
qed

lemma unwritten_output_witness:
  "let s = call_hw\<lparr>mVoipFd := 4, mVoipInActive := True, k_log := [(Open ''/dev/msm_mvs'', 4)]\<rparr>;
       m = outdirect_set env0 0 PCM_16_BIT 1 8000 (outdirect_new env0);
       s1 = (exec m s)\<lparr>mDirectOutput := Some (fst (snd (result m s)))\<rparr>;
       t = exec (outdirect_standby env0) (exec (voip_standby env0 call_in) s1)
   in mVoipFd t = -1 \<and> 4 \<in># live (k_log t)"
proof -
  let ?s = "call_hw\<lparr>mVoipFd := 4, mVoipInActive := True, k_log := [(Open ''/dev/msm_mvs'', 4)]\<rparr>"
  let ?st = "(outdirect_new env0)\<lparr>d_bufsz := 320\<rparr>"
  have "result (outdirect_set env0 0 PCM_16_BIT 1 8000 (outdirect_new env0)) ?s
      = (NO_ERROR, ?st, PCM_16_BIT, 1, 8000)"
    by (simp add: outdirect_set_def getMvsMode_def outdirect_new_def env0_def Let_def)
  note r = this and unwritten_output_leaks_driver [OF _ _ _ this, of call_in]
  then show ?thesis by (simp add: Let_def live_def call_in_def voip_new_def)
qed

text \<open>
  The input device asked for during a call has no effect on the route: any two requests
  for a single device do the same to the machine.
\<close>

theorem call_input_routing_ignored:
  assumes "e_int E a = Some d" "e_int E b = Some d'"
    "(word_of_int d :: u32) AND (word_of_int d - 1) = 0" "(word_of_int d' :: u32) AND (word_of_int d' - 1) = 0"
  shows "exec (voip_setParameters E [(e_keyRouting E, a)] v) s = exec (voip_setParameters E [(e_keyRouting E, b)] v) s"
  using assms by (simp add: voip_setParameters_def par_getInt_def par_get_def)

lemma call_input_routing_witness:
  "exec (voip_setParameters env0 [(''routing'', ''2'')] call_in) call_hw
   = exec (voip_setParameters env0 [(''routing'', ''0'')] call_in) call_hw"
  using call_input_routing_ignored [of env0 "''2''" 2 "''0''" 0 call_in call_hw] by (simp add: env0_def)

definition call_state :: "hw \<Rightarrow> int \<times> bool \<times> bool \<times> outdirect option \<times> int multiset" where
  "call_state s = (mVoipFd s, mVoipInActive s, mVoipOutActive s, mDirectOutput s, live (k_log s))"

lemma call_state_fread [simp]: "call_state (s\<lparr>k_log := k_log s @ [(Fread fd m, r)]\<rparr>) = call_state s"
  by (simp add: call_state_def)

lemma voip_read_loop_state: "preserves (\<lambda>s. call_state s = x) (voip_read_loop E fuel fd sz fr k cnt)"
proof (induction fuel arbitrary: cnt fr k)
  case 0
  then show ?case by (simp add: voip_read_loop.simps pres)
next
  case (Suc n)
  then show ?case by (subst voip_read_loop.simps) (simp, intro pres impI conjI, simp_all)
qed

lemma voip_deliver_state: "preserves (\<lambda>s. call_state s = x) (voip_deliver E fuel bytes res v)"
proof -
  have "preserves (\<lambda>s. call_state s = x) (setupDeviceforVoipCall E b)" for b
    by (rule preservesI) (simp add: call_state_def)
  then show ?thesis unfolding voip_deliver_def Let_def
    by (intro pres voip_read_loop_state, auto split: read_end.split intro!: pres)
qed

lemma voip_deliver_stream:
  "i_fd (snd (result (voip_deliver E fuel bytes res v) s)) = i_fd v
    \<and> i_state (snd (result (voip_deliver E fuel bytes res v) s)) = i_state v"
  by (auto simp: voip_deliver_def Let_def split: read_end.split)

text \<open>
  An input that was put in standby while the output of the call runs, and is read again,
  does not count as active: when the output stops, it closes the driver the input is reading
  from, and the input keeps a descriptor that is no longer open.
\<close>

theorem resumed_input_loses_driver:
  assumes "mVoipOutActive s" "0 \<le> mVoipFd s" "mDirectOutput s = Some st" "d_fd st = mVoipFd s"
    and "i_hw v" "i_state v \<noteq> IN_CLOSED" "i_fd v = mVoipFd s"
  shows "let s1 = exec (voip_standby E v) s; v1 = snd (result (voip_standby E v) s);
             s2 = exec (voip_read E fuel v1 n) s1; v2 = snd (result (voip_read E fuel v1 n) s1);
             t = exec (outdirect_standby E) s2
         in mVoipFd t = -1 \<and> i_fd v2 = mVoipFd s \<and> i_state v2 \<noteq> IN_CLOSED
          \<and> live (k_log t) = live (k_log s) - {#i_fd v2#}"
proof -
  let ?s1 = "exec (voip_standby E v) s"
  note s1 = voip_standby_other [OF assms(1,5), of E]
  have v1: "snd (result (voip_standby E v) s) = v"
    using assms by (simp add: voip_standby_def autolock_voip_def)
  have r: "exec (voip_read E fuel v n) ?s1 = exec (voip_deliver E fuel n (int n) v) ?s1"
    "result (voip_read E fuel v n) ?s1 = result (voip_deliver E fuel n (int n) v) ?s1"
    using assms s1 by (simp_all add: voip_read_def Let_def)
  let ?s2 = "exec (voip_deliver E fuel n (int n) v) ?s1"
  have "call_state ?s2 = call_state ?s1"
    using preservesD [OF voip_deliver_state refl] .
  then have s2: "mDirectOutput ?s2 = Some st" "0 \<le> mVoipFd ?s2" "\<not> mVoipInActive ?s2"
    "live (k_log ?s2) = live (k_log s)"
    using s1 assms by (simp_all add: call_state_def)
  show ?thesis
    unfolding Let_def v1 r
    using outdirect_standby_closes [OF s2(1-3), of E] s2 voip_deliver_stream [of E fuel n "int n" v ?s1] assms
    by simp
qed

lemma resumed_input_witness:
  "let s = call_hw\<lparr>mVoipFd := 4, mVoipInActive := True, mVoipOutActive := True,
             mDirectOutput := Some ((outdirect_new env0)\<lparr>d_fd := 4\<rparr>), k_log := [(Open ''/dev/msm_mvs'', 4)]\<rparr>;
       v = call_in\<lparr>i_fd := 4, i_state := IN_STARTED\<rparr>;
       s1 = exec (voip_standby env0 v) s; v1 = snd (result (voip_standby env0 v) s);
       s2 = exec (voip_read env0 1 v1 320) s1; v2 = snd (result (voip_read env0 1 v1 320) s1)
   in i_fd v2 = 4 \<and> 4 \<notin># live (k_log (exec (outdirect_standby env0) s2))"
proof -
  define s where "s = call_hw\<lparr>mVoipFd := 4, mVoipInActive := True, mVoipOutActive := True,
             mDirectOutput := Some ((outdirect_new env0)\<lparr>d_fd := 4\<rparr>), k_log := [(Open ''/dev/msm_mvs'', 4)]\<rparr>"
  define v where "v = call_in\<lparr>i_fd := 4, i_state := IN_STARTED\<rparr>"
  have "mVoipOutActive s" "0 \<le> mVoipFd s" "mDirectOutput s = Some ((outdirect_new env0)\<lparr>d_fd := 4\<rparr>)"
    "d_fd ((outdirect_new env0)\<lparr>d_fd := 4\<rparr>) = mVoipFd s" "i_hw v" "i_state v \<noteq> IN_CLOSED" "i_fd v = mVoipFd s"
    and 4: "mVoipFd s = 4" "live (k_log s) = {#4#}"
    by (simp_all add: s_def v_def call_in_def live_def)
  from resumed_input_loses_driver [OF this(1-7), of env0 1 320]
  show ?thesis unfolding s_def [symmetric] v_def [symmetric] Let_def 4 by simp
qed

end
