(* ===== verification/InStream.thy ===== *)
theory InStream
  imports VoipStreams
begin

text \<open>
  \<open>AudioStreamInMSM72xx\<close>, the recording stream. \<open>set\<close> opens one of three encoders by the
  format asked for, \<open>read\<close> starts it and packs AAC frames behind a header, \<open>standby\<close> closes
  it. The stream is passed to its operations and returned.
\<close>

section \<open>Opening\<close>

definition in_new :: "env \<Rightarrow> instream" where
  "in_new E = \<lparr>i_hw = False, i_fd = -1, i_state = IN_CLOSED, i_retryCount = 0, i_format = PCM_16_BIT,
     i_channels = e_chan E CH_IN_MONO, i_rate = 8000, i_bufsz = 2048, i_devices = 0, i_firstread = False\<rparr>"

text \<open>The constructor: \<open>mFirstread\<close> keeps what the memory held.\<close>

definition in_construct :: "env \<Rightarrow> bool \<Rightarrow> (hw, instream) state" where
  "in_construct E junk = do {
     modify (\<lambda>s. s\<lparr>instanceCount := instanceCount s + 1\<rparr>);
     ret ((in_new E)\<lparr>i_firstread := junk\<rparr>)
   }"

text \<open>What \<open>set\<close> hands back: status, stream, and the format, channels and rate written back.\<close>

type_synonym set_result = "status \<times> instream \<times> format \<times> u32 \<times> u32"

text \<open>\<open>Error:\<close> closes the driver; the status is the one the failing step left.\<close>

definition in_fail :: "env \<Rightarrow> int \<Rightarrow> instream \<Rightarrow> format \<Rightarrow> u32 \<Rightarrow> u32 \<Rightarrow> (hw, set_result) state" where
  "in_fail E status v fmt ch rate = do {
     whenM (i_fd v \<ge> 0) (do { sys_close E (i_fd v); ret () });
     ret (of_rc status, if i_fd v \<ge> 0 then v\<lparr>i_fd := -1\<rparr> else v, fmt, ch, rate)
   }"

text \<open>The row of the pre-processing tables; a rate without one fails after the state was set.\<close>

definition in_opened :: "env \<Rightarrow> instream \<Rightarrow> format \<Rightarrow> u32 \<Rightarrow> u32 \<Rightarrow> (hw, set_result) state" where
  "in_opened E v fmt ch rate = do {
     let v1 = v\<lparr>i_state := IN_OPENED\<rparr>;
     let ix = calculate_audpre_table_index (i_rate v1);
     modify (\<lambda>s. s\<lparr>audpre_index := ix\<rparr>);
     if ix < 0 then in_fail E (-22) v1 fmt ch rate
     else ret (NO_ERROR, v1, fmt, ch, rate)
   }"

definition in_set_pcm :: "env \<Rightarrow> u32 \<Rightarrow> u32 \<Rightarrow> u32 \<Rightarrow> instream \<Rightarrow> (hw, set_result) state" where
  "in_set_pcm E devices ch rate v = do {
     fd \<leftarrow> sys_open E ''/dev/msm_pcm_in'';
     if fd < 0 then in_fail E fd v PCM_16_BIT ch rate
     else do {
       let v1 = v\<lparr>i_fd := fd\<rparr>;
       r1 \<leftarrow> sys_ioctl E fd AUDIO_GET_CONFIG;
       if r1 < 0 then in_fail E r1 v1 PCM_16_BIT ch rate
       else do {
         c \<leftarrow> gets (\<lambda>s. e_cfg E (k_log s));
         r2 \<leftarrow> sys_ioctl E fd (AUDIO_SET_CONFIG (c\<lparr>c_channel_count := e_popcount E ch, c_sample_rate := rate,
                 c_buffer_size := of_nat (i_bufsz v1), c_buffer_count := 2, c_type := 0\<rparr>));
         if r2 < 0 then do {
           r3 \<leftarrow> sys_ioctl E fd AUDIO_GET_CONFIG;
           d \<leftarrow> gets (\<lambda>s. e_cfg E (k_log s));
           in_fail E r2 v1 PCM_16_BIT
             (if r3 = 0 then e_chan E (if c_channel_count d = 1 then CH_IN_MONO else CH_IN_STEREO) else ch)
             (if r3 = 0 then c_sample_rate d else rate)
         } else do {
           r4 \<leftarrow> sys_ioctl E fd AUDIO_GET_CONFIG;
           if r4 < 0 then in_fail E r4 v1 PCM_16_BIT ch rate
           else do {
             d \<leftarrow> gets (\<lambda>s. e_cfg E (k_log s));
             in_opened E (v1\<lparr>i_devices := devices, i_format := PCM_16_BIT, i_channels := ch,
                 i_rate := c_sample_rate d, i_bufsz := unat (c_buffer_size d)\<rparr>) PCM_16_BIT ch rate
           }
         }
       }
     }
   }"

text \<open>Which part of a call the voice memo driver records.\<close>

definition memo_source :: "env \<Rightarrow> u32 \<Rightarrow> u32 \<Rightarrow> nat" where
  "memo_source E devices ch =
     (if devices = e_dev E IN_VOICE_CALL then
        (if holds ch (e_chan E CH_IN_DNLINK) \<and> holds ch (e_chan E CH_IN_UPLINK) then 3
         else if holds ch (e_chan E CH_IN_DNLINK) then 1
         else if holds ch (e_chan E CH_IN_UPLINK) then 2
         else 0)
      else 2)"

text \<open>The request to the driver and the buffer of each format.\<close>

definition memo_config :: "nat \<Rightarrow> format \<Rightarrow> voicememo" where
  "memo_config src fmt =
     (let c = \<lparr>vm_rec_type = src, vm_capability = 0, vm_max_rate = 0, vm_min_rate = 0, vm_frame_format = 0,
               vm_dtx_enable = 0, vm_data_req_ms = 20\<rparr>
      in case fmt of
           AMR_NB \<Rightarrow> c\<lparr>vm_capability := 64, vm_max_rate := 7, vm_min_rate := 7, vm_frame_format := 4\<rparr>
         | EVRC \<Rightarrow> c\<lparr>vm_capability := 8, vm_max_rate := 4, vm_min_rate := 4, vm_frame_format := 3\<rparr>
         | QCELP \<Rightarrow> c\<lparr>vm_capability := 4, vm_max_rate := 4, vm_min_rate := 4, vm_frame_format := 3\<rparr>
         | _ \<Rightarrow> c)"

definition memo_buffer :: "format \<Rightarrow> nat \<Rightarrow> nat" where
  "memo_buffer fmt old = (case fmt of AMR_NB \<Rightarrow> 320 | EVRC \<Rightarrow> 230 | QCELP \<Rightarrow> 350 | _ \<Rightarrow> old)"

text \<open>The failures of the calls below leave the descriptor in the status.\<close>

definition in_set_memo ::
  "env \<Rightarrow> u32 \<Rightarrow> format \<Rightarrow> u32 \<Rightarrow> u32 \<Rightarrow> instream \<Rightarrow> (hw, set_result) state" where
  "in_set_memo E devices fmt ch rate v = do {
     fd \<leftarrow> sys_open E ''/dev/msm_voicememo'';
     if fd < 0 then in_fail E fd v fmt ch rate
     else do {
       let v1 = v\<lparr>i_fd := fd\<rparr>;
       r1 \<leftarrow> sys_ioctl E fd AUDIO_GET_CONFIG;
       if r1 \<noteq> 0 then in_fail E fd v1 fmt ch rate
       else do {
         c \<leftarrow> gets (\<lambda>s. e_cfg E (k_log s));
         let v2 = v1\<lparr>i_devices := devices, i_channels := ch, i_rate := c_sample_rate c,
                     i_format := fmt, i_bufsz := memo_buffer fmt (i_bufsz v1)\<rparr>;
         r2 \<leftarrow> sys_ioctl E fd (AUDIO_SET_VOICEMEMO_CONFIG (memo_config (memo_source E devices ch) fmt));
         if r2 \<noteq> 0 then in_fail E fd v2 fmt ch rate
         else do {
           r3 \<leftarrow> sys_ioctl E fd AUDIO_GET_VOICEMEMO_CONFIG;
           if r3 \<noteq> 0 then in_fail E fd v2 fmt ch rate
           else in_opened E v2 fmt ch rate
         }
       }
     }
   }"

definition in_set_aac :: "env \<Rightarrow> u32 \<Rightarrow> u32 \<Rightarrow> u32 \<Rightarrow> instream \<Rightarrow> (hw, set_result) state" where
  "in_set_aac E devices ch rate v = do {
     fd \<leftarrow> sys_open E ''/dev/msm_pcm_in'';
     if fd < 0 then in_fail E fd v AAC ch rate
     else do {
       let v1 = v\<lparr>i_fd := fd\<rparr>;
       r1 \<leftarrow> sys_ioctl E fd AUDIO_GET_CONFIG;
       if r1 \<noteq> 0 then in_fail E fd v1 AAC ch rate
       else do {
         c \<leftarrow> gets (\<lambda>s. e_cfg E (k_log s));
         let v2 = v1\<lparr>i_devices := devices, i_channels := ch, i_rate := rate, i_bufsz := 2048, i_format := AAC\<rparr>;
         r2 \<leftarrow> sys_ioctl E fd (AUDIO_SET_CONFIG (c\<lparr>c_channel_count := e_popcount E ch, c_sample_rate := rate,
                 c_type := 1\<rparr>));
         if r2 \<noteq> 0 then in_fail E fd v2 AAC ch rate
         else in_opened E v2 AAC ch rate
       }
     }
   }"

definition recordable :: "format \<Rightarrow> bool" where
  "recordable fmt \<longleftrightarrow> fmt \<in> set [PCM_16_BIT, AMR_NB, EVRC, QCELP, AAC]"

definition in_set :: "env \<Rightarrow> u32 \<Rightarrow> format \<Rightarrow> u32 \<Rightarrow> u32 \<Rightarrow> instream \<Rightarrow> (hw, set_result) state" where
  "in_set E devices fmt ch rate v = do {
     n \<leftarrow> gets instanceCount;
     if n > 1 then ret (E_BUSY, v, fmt, ch, rate)
     else if \<not> recordable fmt then ret (BAD_VALUE, v, PCM_16_BIT, ch, rate)
     else if getInputSampleRate rate \<noteq> rate then ret (BAD_VALUE, v, fmt, ch, getInputSampleRate rate)
     else if ch AND (e_chan E CH_IN_MONO OR e_chan E CH_IN_STEREO) = 0
     then ret (BAD_VALUE, v, fmt, e_chan E CH_IN_MONO, rate)
     else do {
       let v1 = v\<lparr>i_hw := True\<rparr>;
       if i_fd v1 \<ge> 0 then ret (E_PERM, v1, fmt, ch, rate)
       else if fmt = PCM_16_BIT then in_set_pcm E devices ch rate v1
       else if fmt = AAC then in_set_aac E devices ch rate v1
       else in_set_memo E devices fmt ch rate v1
     }
   }"

section \<open>Closing\<close>

text \<open>Only a status is returned by \<open>doRouting\<close>, and ignored here.\<close>

definition in_standby :: "env \<Rightarrow> instream \<Rightarrow> (hw, status \<times> instream) state" where
  "in_standby E v = do {
     let open_now = (i_state v \<noteq> IN_CLOSED);
     whenM open_now (do {
       msm72xx_enable_preproc E False;
       whenM (i_fd v \<ge> 0) (do { sys_close E (i_fd v); ret () })
     });
     let v1 = (if open_now then v\<lparr>i_fd := (if i_fd v \<ge> 0 then -1 else i_fd v), i_state := IN_CLOSED\<rparr> else v);
     if \<not> i_hw v1 then ret (Code (-1), v1)
     else do {
       fm \<leftarrow> gets IsFmon;
       whenM (\<not> isFMAnalog E \<and> \<not> fm) (do {
         clearCurDevice;
         doRouting E (Some (i_devices v1)) 0;
         ret ()
       });
       a2dp \<leftarrow> gets fmA2dp;
       whenM (a2dp \<noteq> 0) (modify (\<lambda>s. s\<lparr>fmA2dp := 0\<rparr>));
       ret (NO_ERROR, v1)
     }
   }"

definition in_delete :: "env \<Rightarrow> instream \<Rightarrow> (hw, unit) state" where
  "in_delete E v = do {
     modify (\<lambda>s. s\<lparr>instanceCount := instanceCount s - 1\<rparr>);
     in_standby E v;
     ret ()
   }"

section \<open>Reading\<close>

text \<open>
  The read loop counts with \<open>size_t\<close>. For AAC each round reserves two bytes for the size of the
  frame, \<open>a_frames\<close> holds the offset of this field and the size stored there; the offsets
  count from the start of the caller's buffer.
\<close>

record in_acc =
  a_off :: nat
  a_bytes :: nat
  a_frames :: "(nat \<times> nat) list"
  a_first :: bool
  a_retries :: nat

datatype in_end = InDone in_acc | InFailed int in_acc | InFuel

fun in_read_loop :: "env \<Rightarrow> nat \<Rightarrow> int \<Rightarrow> bool \<Rightarrow> u32 \<Rightarrow> in_acc \<Rightarrow> (hw, in_end) state" where
  "in_read_loop E fuel fd aac cnt a =
     (if cnt = 0 then ret (InDone a)
      else if aac \<and> \<not> cnt > 2 then ret (InDone a)
      else case fuel of
        0 \<Rightarrow> ret InFuel
      | Suc n \<Rightarrow> do {
          let c = (if aac then cnt - 2 else cnt);
          let b = (if aac then a\<lparr>a_off := a_off a + 2\<rparr> else a);
          r \<leftarrow> kcall E (Fread fd (unat c));
          again \<leftarrow> gets (\<lambda>s. e_again E (k_log s));
          if r > 0 then do {
            let d = b\<lparr>a_off := a_off b + nat r, a_bytes := a_bytes b + nat r,
                      a_frames := (if aac then a_frames b @ [(a_off a, nat r)] else a_frames b)\<rparr>;
            if \<not> a_first d then ret (InDone (d\<lparr>a_first := True\<rparr>))
            else in_read_loop E n fd aac (c - word_of_int r) d
          }
          else if r = 0 then ret (InDone b)
          else if \<not> again then ret (InFailed r b)
          else in_read_loop E n fd aac c (b\<lparr>a_retries := a_retries b + 1\<rparr>)
        })"

declare in_read_loop.simps [simp del]

text \<open>
  A closed stream is set up again with its own members: a value written back is the member's.
\<close>

definition in_reopen :: "env \<Rightarrow> instream \<Rightarrow> (hw, bool \<times> instream) state" where
  "in_reopen E v = do {
     lock_mLock;
     (st, w, f, c, r) \<leftarrow> in_set E (i_devices v) (i_format v) (i_channels v) (i_rate v) v;
     unlock_mLock;
     let w1 = w\<lparr>i_format := (if f = i_format v then i_format w else f),
                i_channels := (if c = i_channels v then i_channels w else c),
                i_rate := (if r = i_rate v then i_rate w else r)\<rparr>;
     ret (st = NO_ERROR, if st = NO_ERROR then w1\<lparr>i_firstread := False\<rparr> else w1)
   }"

text \<open>Routing to the input and the start of the driver; false when it does not start.\<close>

definition in_start :: "env \<Rightarrow> instream \<Rightarrow> (hw, bool \<times> instream) state" where
  "in_start E v = do {
     let v1 = v\<lparr>i_state := IN_STARTED\<rparr>;
     whenM (i_devices v1 \<noteq> e_dev E IN_FM_RX) (do {
       clearCurDevice;
       doRouting E (Some (i_devices v1)) 0;
       ret ()
     });
     r \<leftarrow> sys_ioctl E (i_fd v1) AUDIO_START;
     if r \<noteq> 0 then do {
       (st, w) \<leftarrow> in_standby E v1;
       ret (False, w)
     } else do {
       msm72xx_enable_preproc E True;
       ret (True, v1)
     }
   }"

text \<open>
  The bytes returned, with the frames and their count that \<open>read\<close> left in the buffer; \<open>None\<close> when it has not
  returned. An AAC read writes a header of six bytes first and always reports a full buffer.
\<close>

definition in_deliver ::
  "env \<Rightarrow> nat \<Rightarrow> instream \<Rightarrow> u32 \<Rightarrow> (hw, (int \<times> (nat \<times> nat) list) option \<times> instream) state" where
  "in_deliver E fuel v bytes = do {
     let aac = (i_format v = AAC);
     whenM (aac \<and> bytes < 6) (raise_fault OutOfBounds);
     l \<leftarrow> in_read_loop E fuel (i_fd v) aac (if aac then bytes - 6 else bytes)
            \<lparr>a_off = (if aac then 6 else 0), a_bytes = 0, a_frames = [], a_first = i_firstread v,
             a_retries = i_retryCount v\<rparr>;
     (case l of
        InFuel \<Rightarrow> ret (None, v)
      | InFailed r a \<Rightarrow> ret (Some (r, a_frames a), v\<lparr>i_retryCount := a_retries a\<rparr>)
      | InDone a \<Rightarrow>
          ret (Some (if aac then sint bytes else int (a_bytes a), a_frames a),
               v\<lparr>i_firstread := a_first a, i_retryCount := a_retries a\<rparr>))
   }"

definition in_read ::
  "env \<Rightarrow> nat \<Rightarrow> instream \<Rightarrow> u32 \<Rightarrow> (hw, (int \<times> (nat \<times> nat) list) option \<times> instream) state" where
  "in_read E fuel v bytes =
     (if \<not> i_hw v then ret (Some (-1, []), v)
      else do {
        (ok, v1) \<leftarrow> (if i_state v = IN_CLOSED then in_reopen E v else ret (True, v));
        if \<not> ok then ret (Some (-1, []), v1)
        else do {
          (ok2, v2) \<leftarrow> (if i_state v1 \<noteq> IN_STARTED then in_start E v1 else ret (True, v1));
          if \<not> ok2 then ret (Some (-1, []), v2)
          else in_deliver E fuel v2 bytes
        }
      })"

definition in_setParameters :: "env \<Rightarrow> params \<Rightarrow> instream \<Rightarrow> (hw, status \<times> instream) state" where
  "in_setParameters E ps v =
     (case par_getInt E ps (e_keyRouting E) of
        None \<Rightarrow> ret (if ps \<noteq> [] then BAD_VALUE else NO_ERROR, v)
      | Some d \<Rightarrow> do {
          let w = (word_of_int d :: u32);
          let bad = (w AND (w - 1) \<noteq> 0);
          let v1 = (if bad then v else v\<lparr>i_devices := w\<rparr>);
          st \<leftarrow> (if bad then ret BAD_VALUE else doRouting E (Some (i_devices v1)) 0);
          ret (if par_remove (e_keyRouting E) ps \<noteq> [] then BAD_VALUE else st, v1)
        })"

end
