(* ===== verification/InProps.thy ===== *)
theory InProps
  imports InStream VoipProps
begin

text \<open>
  Properties of the recording stream: what \<open>set\<close> leaves behind on every path, who owns the
  descriptor of the encoder, and the layout of the AAC frames in the caller's buffer.
\<close>

section \<open>Opening\<close>

text \<open>Descriptor 0 is taken as long as the process runs.\<close>

definition no_stdin :: "env \<Rightarrow> bool" where
  "no_stdin E \<longleftrightarrow> (\<forall>l p. e_ret E l (Open p) \<noteq> 0)"

lemma of_rc_error: "of_rc r = NO_ERROR \<longleftrightarrow> r = 0"
  by (simp add: of_rc_def)

definition in_outcome :: "hw \<Rightarrow> hw \<Rightarrow> instream \<Rightarrow> format \<Rightarrow> set_result \<Rightarrow> bool" where
  "in_outcome s t v fmt = (\<lambda>(st, w, f, c, r).
     i_hw w = i_hw v \<and>
     (if st = NO_ERROR
      then 0 < i_fd w \<and> i_state w = IN_OPENED \<and> i_format w = fmt
         \<and> audpre_index t = calculate_audpre_table_index (i_rate w) \<and> 0 \<le> audpre_index t
         \<and> live (k_log t) = add_mset (i_fd w) (live (k_log s))
      else i_fd w < 0 \<and> live (k_log t) = live (k_log s)
         \<and> (i_state w = i_state v
            \<or> i_state w = IN_OPENED \<and> audpre_index t = -1 \<and> calculate_audpre_table_index (i_rate w) = -1)))"

lemma calculate_negative: "calculate_audpre_table_index r < 0 \<longleftrightarrow> calculate_audpre_table_index r = -1"
  by (simp add: calculate_audpre_table_index_def)

lemma in_fail_outcome:
  assumes "live (k_log s') = live (k_log s) + (if 0 \<le> i_fd v' then {#i_fd v'#} else {#})"
    and "rc \<noteq> 0" "i_hw v' = i_hw v" "i_state v' = i_state v"
  shows "in_outcome s (exec (in_fail E rc v' f c r) s') v fmt (result (in_fail E rc v' f c r) s')"
  using assms by (simp add: in_fail_def in_outcome_def of_rc_error)

lemma in_opened_outcome:
  assumes "live (k_log s') = add_mset (i_fd v') (live (k_log s))" "0 < i_fd v'" "i_hw v' = i_hw v"
    "i_format v' = fmt"
  shows "in_outcome s (exec (in_opened E v' f c r) s') v fmt (result (in_opened E v' f c r) s')"
  using assms
  by (simp add: in_opened_def in_fail_def in_outcome_def of_rc_error Let_def) (simp add: calculate_negative)

lemma in_set_pcm_outcome:
  assumes "no_stdin E" "i_fd v < 0"
  shows "in_outcome s (exec (in_set_pcm E dev c r v) s) v PCM_16_BIT (result (in_set_pcm E dev c r v) s)"
proof -
  define fd where "fd = e_ret E (k_log s) (Open ''/dev/msm_pcm_in'')"
  have "fd \<noteq> 0" using assms(1) by (simp add: no_stdin_def fd_def)
  then show ?thesis using assms(2)
    by (auto simp: in_set_pcm_def Let_def fd_def [symmetric] intro!: in_fail_outcome in_opened_outcome)
qed

lemma in_set_memo_outcome:
  assumes "no_stdin E" "i_fd v < 0"
  shows "in_outcome s (exec (in_set_memo E dev fmt c r v) s) v fmt (result (in_set_memo E dev fmt c r v) s)"
proof -
  define fd where "fd = e_ret E (k_log s) (Open ''/dev/msm_voicememo'')"
  have "fd \<noteq> 0" using assms(1) by (simp add: no_stdin_def fd_def)
  then show ?thesis using assms(2)
    by (auto simp: in_set_memo_def Let_def fd_def [symmetric] intro!: in_fail_outcome in_opened_outcome)
qed

lemma in_set_aac_outcome:
  assumes "no_stdin E" "i_fd v < 0"
  shows "in_outcome s (exec (in_set_aac E dev c r v) s) v AAC (result (in_set_aac E dev c r v) s)"
proof -
  define fd where "fd = e_ret E (k_log s) (Open ''/dev/msm_pcm_in'')"
  have "fd \<noteq> 0" using assms(1) by (simp add: no_stdin_def fd_def)
  then show ?thesis using assms(2)
    by (auto simp: in_set_aac_def Let_def fd_def [symmetric] intro!: in_fail_outcome in_opened_outcome)
qed

lemma in_set_outcome:
  assumes "no_stdin E" "i_fd v < 0"
  shows "in_outcome s (exec (in_set E dev fmt c r v) s) (v\<lparr>i_hw := i_hw (fst (snd (result (in_set E dev fmt c r v) s)))\<rparr>) fmt
     (result (in_set E dev fmt c r v) s)
   \<and> (i_hw v \<longrightarrow> i_hw (fst (snd (result (in_set E dev fmt c r v) s))))"
proof -
  let ?m = "in_set E dev fmt c r v"
  let ?v = "v\<lparr>i_hw := True\<rparr>"
  have fd: "i_fd ?v < 0" using assms(2) by simp
  note outs = in_set_pcm_outcome [OF assms(1) fd, of s dev c r] in_set_memo_outcome [OF assms(1) fd, of s dev fmt c r]
    in_set_aac_outcome [OF assms(1) fd, of s dev c r]
  have "exec ?m s = s \<and> (\<exists>st f c' r'. result ?m s = (st, v, f, c', r') \<and> st \<noteq> NO_ERROR)
    \<or> in_outcome s (exec ?m s) ?v fmt (result ?m s)"
  proof (cases "1 < instanceCount s \<or> \<not> recordable fmt \<or> getInputSampleRate r \<noteq> r
      \<or> c AND (e_chan E CH_IN_MONO OR e_chan E CH_IN_STEREO) = 0")
    case True
    then show ?thesis by (intro disjI1) (elim disjE; simp add: in_set_def Let_def)
  next
    case False
    then show ?thesis using outs assms(2) by (intro disjI2) (simp add: in_set_def Let_def)
  qed
  then consider "exec ?m s = s" "\<exists>st f c' r'. result ?m s = (st, v, f, c', r') \<and> st \<noteq> NO_ERROR"
    | "in_outcome s (exec ?m s) ?v fmt (result ?m s)" by blast
  then show ?thesis
  proof cases
    case 1
    then show ?thesis using assms(2) by (auto simp: in_outcome_def)
  next
    case 2
    obtain st w f c' r' where w: "result ?m s = (st, w, f, c', r')" by (cases "result ?m s")
    have "i_hw w" using 2 by (simp add: w in_outcome_def)
    then show ?thesis using 2 by (simp add: w)
  qed
qed

section \<open>Who owns the encoder\<close>

definition in_owned :: "instream \<Rightarrow> int multiset" where
  "in_owned v = (if 0 \<le> i_fd v then {#i_fd v#} else {#})"

text \<open>A stream that is closed owns no descriptor, any other at most the one it reads from.\<close>

definition rec_ok :: "int multiset \<Rightarrow> hw \<times> instream \<Rightarrow> bool" where
  "rec_ok base = (\<lambda>(s, v).
     live (k_log s) = base + in_owned v \<and> (i_state v = IN_CLOSED \<longrightarrow> i_fd v < 0))"

datatype rec_event = RRead nat u32 | RStandby | RSetParameters params | RControl ctl_event

fun rec_step :: "env \<Rightarrow> rec_event \<Rightarrow> hw \<times> instream \<Rightarrow> hw \<times> instream" where
  "rec_step E (RRead fuel n) (s, v) = (exec (in_read E fuel v n) s, snd (result (in_read E fuel v n) s))"
| "rec_step E RStandby (s, v) = (exec (in_standby E v) s, snd (result (in_standby E v) s))"
| "rec_step E (RSetParameters ps) (s, v) =
     (exec (in_setParameters E ps v) s, snd (result (in_setParameters E ps v) s))"
| "rec_step E (RControl e) (s, v) = (if is_fm_event e then (s, v) else (ctl_step E e s, v))"

lemma routing_live [simp]: "live (k_log (exec (doRouting E i d) s)) = live (k_log s)"
  using preservesD [OF keeps_live.routing refl] .

lemma clear_live [simp]: "k_log (exec clearCurDevice s) = k_log s"
  by (simp add: clearCurDevice_def)

lemma in_standby_effect:
  "live (k_log (exec (in_standby E v) s)) =
     live (k_log s) - (if i_state v = IN_CLOSED then {#} else in_owned v)"
  "i_state (snd (result (in_standby E v) s)) = IN_CLOSED"
  "i_fd (snd (result (in_standby E v) s)) = (if i_state v \<noteq> IN_CLOSED \<and> 0 \<le> i_fd v then -1 else i_fd v)"
  by (simp_all add: in_standby_def Let_def preproc_live in_owned_def)

lemma in_standby_ok:
  "rec_ok base (s, v) \<Longrightarrow> rec_ok base (exec (in_standby E v) s, snd (result (in_standby E v) s))"
  by (auto simp: rec_ok_def in_standby_effect in_owned_def)

lemma in_start_ok:
  assumes "rec_ok base (s, v)"
  shows "rec_ok base (exec (in_start E v) s, snd (result (in_start E v) s))"
proof -
  let ?v = "v\<lparr>i_state := IN_STARTED\<rparr>"
  let ?r = "whenM (i_devices ?v \<noteq> e_dev E IN_FM_RX)
      (do { clearCurDevice; doRouting E (Some (i_devices ?v)) 0; ret () })"
  define s1 where "s1 = exec ?r s"
  define t where "t = exec (sys_ioctl E (i_fd v) AUDIO_START) s1"
  have "live (k_log s1) = live (k_log s)" by (simp add: s1_def)
  then have t: "rec_ok base (t, ?v)" using assms by (auto simp: rec_ok_def in_owned_def t_def)
  then have "rec_ok base (exec (msm72xx_enable_preproc E True) t, ?v)"
    by (simp add: rec_ok_def preproc_live)
  with in_standby_ok [OF t, of E] show ?thesis
    unfolding in_start_def Let_def exec_bind result_bind s1_def [symmetric]
    by (auto simp: t_def [symmetric, simplified] split: prod.split)
qed

lemma in_reopen_ok:
  assumes "no_stdin E" "rec_ok base (s, v)" "i_state v = IN_CLOSED"
  shows "rec_ok base (exec (in_reopen E v) s, snd (result (in_reopen E v) s))"
proof -
  define s1 where "s1 = exec lock_mLock s"
  define m where "m = in_set E (i_devices v) (i_format v) (i_channels v) (i_rate v) v"
  obtain st w f c r where m: "result m s1 = (st, w, f, c, r)" by (cases "result m s1")
  have fd: "i_fd v < 0" and l: "live (k_log s1) = base"
    using assms(2,3) by (simp_all add: rec_ok_def in_owned_def s1_def)
  have "in_outcome s1 (exec m s1) (v\<lparr>i_hw := i_hw w\<rparr>) (i_format v) (st, w, f, c, r)"
    using in_set_outcome [OF assms(1) fd, of s1 "i_devices v" "i_format v" "i_channels v" "i_rate v"] m
    unfolding m_def by simp
  then have "rec_ok base (exec m s1, w)"
    using l fd assms(3) by (auto simp: in_outcome_def rec_ok_def in_owned_def split: if_splits)
  moreover have "k_log (exec (in_reopen E v) s) = k_log (exec m s1)"
    "i_fd (snd (result (in_reopen E v) s)) = i_fd w" "i_state (snd (result (in_reopen E v) s)) = i_state w"
    unfolding in_reopen_def m_def [symmetric] s1_def using m [unfolded s1_def]
    by (simp_all add: Let_def del: exec_lock)
  ultimately show ?thesis by (simp add: rec_ok_def in_owned_def)
qed

lemma in_read_loop_live: "preserves (\<lambda>s. live (k_log s) = x) (in_read_loop E fuel fd aac cnt a)"
proof (induction fuel arbitrary: cnt a)
  case 0
  then show ?case by (simp add: in_read_loop.simps pres)
next
  case (Suc n)
  then show ?case
    by (subst in_read_loop.simps) (simp add: Let_def, intro pres impI conjI, simp_all)
qed

lemma in_deliver_live: "live (k_log (exec (in_deliver E fuel v n) s)) = live (k_log s)"
proof -
  have "preserves (\<lambda>t. live (k_log t) = live (k_log s)) (in_deliver E fuel v n)"
    unfolding in_deliver_def Let_def
    by (intro pres in_read_loop_live; auto split: in_end.split intro!: pres)
  then show ?thesis by (rule preservesD) simp
qed

lemma in_deliver_stream:
  "i_fd (snd (result (in_deliver E fuel v n) s)) = i_fd v
    \<and> i_state (snd (result (in_deliver E fuel v n) s)) = i_state v"
  by (auto simp: in_deliver_def Let_def split: in_end.split)

lemma in_deliver_ok:
  "rec_ok base (s, v) \<Longrightarrow> rec_ok base (exec (in_deliver E fuel v n) s, snd (result (in_deliver E fuel v n) s))"
  using in_deliver_stream [of E fuel v n s] by (simp add: rec_ok_def in_owned_def in_deliver_live)

lemma in_read_ok:
  assumes "no_stdin E" "rec_ok base (s, v)"
  shows "rec_ok base (exec (in_read E fuel v n) s, snd (result (in_read E fuel v n) s))"
proof (cases "i_hw v")
  case False
  then show ?thesis using assms(2) by (simp add: in_read_def)
next
  case True
  let ?m = "if i_state v = IN_CLOSED then in_reopen E v else ret (True, v)"
  obtain b v1 where m: "result ?m s = (b, v1)" by (cases "result ?m s")
  have 1: "rec_ok base (exec ?m s, v1)"
    using in_reopen_ok [OF assms] assms(2) m by (auto split: if_splits)
  let ?k = "if i_state v1 \<noteq> IN_STARTED then in_start E v1 else ret (True, v1)"
  obtain b2 v2 where k: "result ?k (exec ?m s) = (b2, v2)" by (cases "result ?k (exec ?m s)")
  have 2: "rec_ok base (exec ?k (exec ?m s), v2)"
    using in_start_ok [OF 1, of E] 1 k by (auto split: if_splits)
  have "exec (in_read E fuel v n) s = (if \<not> b then exec ?m s else if \<not> b2 then exec ?k (exec ?m s)
        else exec (in_deliver E fuel v2 n) (exec ?k (exec ?m s)))"
    "snd (result (in_read E fuel v n) s) = (if \<not> b then v1 else if \<not> b2 then v2
        else snd (result (in_deliver E fuel v2 n) (exec ?k (exec ?m s))))"
    unfolding in_read_def using True m k by (simp_all del: exec_if result_if)
  then show ?thesis using 1 2 in_deliver_ok [OF 2] by simp
qed

lemma in_setParameters_ok:
  "rec_ok base (s, v) \<Longrightarrow>
     rec_ok base (exec (in_setParameters E ps v) s, snd (result (in_setParameters E ps v) s))"
  by (cases "par_getInt E ps (e_keyRouting E)") (auto simp: in_setParameters_def Let_def rec_ok_def in_owned_def)

interpretation recording: machine "\<lambda>e sv. if no_stdin E then rec_step E e sv else sv" "rec_ok base" for E base
proof
  fix sv e assume "rec_ok base sv"
  moreover obtain s v where sv: "sv = (s, v)" by (cases sv)
  ultimately have ok: "rec_ok base (s, v)" by simp
  show "rec_ok base (if no_stdin E then rec_step E e sv else sv)"
  proof (cases "no_stdin E")
    case True
    show ?thesis
    proof (cases e)
      case (RControl c)
      then show ?thesis using ok True ctl_step_live [of c E s] by (auto simp: sv rec_ok_def)
    qed (use ok True in \<open>simp_all add: sv in_read_ok in_standby_ok in_setParameters_ok\<close>)
  qed (use ok sv in simp)
qed

lemma in_delete_live: "rec_ok base (s, v) \<Longrightarrow> live (k_log (exec (in_delete E v) s)) = base"
  by (auto simp: in_delete_def in_standby_effect rec_ok_def in_owned_def)

section \<open>The layout of an AAC read\<close>

text \<open>
  \<open>packed off fs fin\<close>: the frames \<open>fs\<close> follow each other without gaps from \<open>off\<close> to \<open>fin\<close>, each
  behind the two bytes of its size.
\<close>

fun packed :: "nat \<Rightarrow> (nat \<times> nat) list \<Rightarrow> nat \<Rightarrow> bool" where
  "packed off [] fin \<longleftrightarrow> off = fin"
| "packed off ((o', n) # fs) fin \<longleftrightarrow> o' = off \<and> 0 < n \<and> packed (off + 2 + n) fs fin"


text \<open>What \<open>read\<close> documents: no more bytes than asked for; and a driver that blocks.\<close>

definition reading :: "env \<Rightarrow> bool" where
  "reading E \<longleftrightarrow> (\<forall>l fd n. e_ret E l (Fread fd n) \<le> int n \<and> (e_ret E l (Fread fd n) < 0 \<longrightarrow>
     \<not> e_again E (l @ [(Fread fd n, e_ret E l (Fread fd n))])))"



section \<open>Properties\<close>

text \<open>
  C13. Whatever the drivers answer, and through any sequence of reads, standbys, routing requests
  and control calls, the recording stream owns at most the descriptor it reads from, none while
  it is closed, and deleting it leaves the descriptors that were open without it.
\<close>

theorem recording_descriptor_owned:
  assumes "no_stdin E" "rec_ok base (s, v)"
  shows "let (t, w) = fold (rec_step E) es (s, v)
         in live (k_log t) = base + (if 0 \<le> i_fd w then {#i_fd w#} else {#})
          \<and> \<not> (i_state w = IN_CLOSED \<and> 0 \<le> i_fd w)
          \<and> live (k_log (exec (in_delete E w) t)) = base"
proof -
  obtain t w where r: "fold (rec_step E) es (s, v) = (t, w)" by (cases "fold (rec_step E) es (s, v)")
  have "rec_ok base (t, w)"
    using recording.run_good [OF assms(2), of E es] assms(1) r by simp
  then show ?thesis using in_delete_live [of base t w E] unfolding r Let_def by (auto simp: rec_ok_def in_owned_def)
qed

text \<open>An environment whose kernel never returns 0 from \<open>open\<close>.\<close>

definition env_nz :: env where
  "env_nz = env0\<lparr>e_ret := \<lambda>l c. case c of Open p \<Rightarrow> 3 | Fread fd n \<Rightarrow> int (min n 10) | _ \<Rightarrow> 0\<rparr>"

lemma env_nz: "no_stdin env_nz" "reading env_nz"
  by (simp_all add: no_stdin_def reading_def env_nz_def)

lemma recording_descriptor_witness:
  "let (t, w) = fold (rec_step env_nz) [RRead 5 320, RStandby, RRead 5 320] (speaker_hw, in_new env0)
   in live (k_log (exec (in_delete env_nz w) t)) = {#}"
proof -
  have "rec_ok {#} (speaker_hw, in_new env0)"
    by (simp add: rec_ok_def in_owned_def in_new_def speaker_hw_def hw_init_def)
  from recording_descriptor_owned [OF env_nz(1) this, of "[RRead 5 320, RStandby, RRead 5 320]"]
  show ?thesis unfolding Let_def split_beta by (rule conjunct2 [THEN conjunct2])
qed

text \<open>
  C27. Setting up a closed recording stream ends in one of three ways: it is open on a new
  descriptor, in the format asked for, with the pre-processing row of its rate; it is closed
  as before; or, when the driver's rate has no row, it counts as open although its driver was
  closed again. Nothing else is left open.
\<close>

theorem recording_opened:
  assumes "no_stdin E" "i_fd v < 0" "i_state v = IN_CLOSED"
    and "result (in_set E dev fmt ch rate v) s = (st, w, fmt', ch', rate')"
  shows "let t = exec (in_set E dev fmt ch rate v) s
         in if st = NO_ERROR
            then 0 < i_fd w \<and> i_state w = IN_OPENED \<and> i_format w = fmt
               \<and> 0 \<le> audpre_index t \<and> audpre_index t = calculate_audpre_table_index (i_rate w)
               \<and> live (k_log t) = add_mset (i_fd w) (live (k_log s))
            else i_fd w < 0 \<and> live (k_log t) = live (k_log s)
               \<and> (i_state w = IN_OPENED \<longrightarrow> audpre_index t = -1)
               \<and> (audpre_index t \<noteq> -1 \<longrightarrow> i_state w = IN_CLOSED)"
  using in_set_outcome [OF assms(1,2), of s dev fmt ch rate] assms(3)
  unfolding assms(4) in_outcome_def Let_def by (auto split: if_splits)

lemma recording_opened_witness:
  "let m = in_set env_nz 0 PCM_16_BIT 0x10 8000 (in_new env0)
   in i_fd (fst (snd (result m speaker_hw))) = 3 \<and> live (k_log (exec m speaker_hw)) = {#3#}"
proof -
  let ?m = "in_set env_nz 0 PCM_16_BIT 0x10 8000 (in_new env0)"
  obtain st w f c r where m: "result ?m speaker_hw = (st, w, f, c, r)" by (cases "result ?m speaker_hw")
  have "fst (result ?m speaker_hw) = NO_ERROR" "i_fd (fst (snd (result ?m speaker_hw))) = 3" by code_simp+
  moreover have "i_fd (in_new env0) < 0" "i_state (in_new env0) = IN_CLOSED" by (simp_all add: in_new_def)
  ultimately show ?thesis
    using recording_opened [OF env_nz(1) _ _ m] m by (simp add: Let_def speaker_hw_def hw_init_def)
qed



text \<open>
  A driver that answers \<open>EAGAIN\<close> before the first frame makes the frame end up two bytes
  behind the place where its reader expects it: the size field reserved for the failed read
  stays in the buffer.
\<close>

theorem aac_retry_leaves_gap:
  assumes "i_format v = AAC" "\<not> i_firstread v" "10 < bytes" "0 < r"
    and "e_ret E (k_log s) (Fread (i_fd v) (unat (bytes - 8))) = -1"
    and "e_again E (k_log s @ [(Fread (i_fd v) (unat (bytes - 8)), -1)])"
    and "e_ret E (k_log s @ [(Fread (i_fd v) (unat (bytes - 8)), -1)]) (Fread (i_fd v) (unat (bytes - 10))) = r"
  shows "fst (result (in_deliver E 2 v bytes) s) = Some (sint bytes, [(8, nat r)])
    \<and> \<not> (\<exists>fin. packed 6 [(8, nat r)] fin)"
proof -
  have b: "\<not> bytes < 6" "bytes - 6 \<noteq> 0" "2 < bytes - 6" "bytes - 8 \<noteq> 0" "2 < bytes - 8"
    "bytes - 6 - 2 = bytes - 8" "bytes - 8 - 2 = bytes - 10"
    using assms(3) by unat_arith+
  show ?thesis
    using assms b unfolding in_deliver_def numeral_2_eq_2
    by (subst in_read_loop.simps, simp add: Let_def, subst in_read_loop.simps, simp add: Let_def)
qed

definition env_slow :: env where
  "env_slow = env0\<lparr>e_ret := \<lambda>l c. if l = [] then -1 else 10, e_again := \<lambda>_. True\<rparr>"

lemma aac_retry_witness:
  "fst (result (in_deliver env_slow 2 ((in_new env0)\<lparr>i_format := AAC\<rparr>) 64) speaker_hw) = Some (64, [(8, 10)])"
  using aac_retry_leaves_gap [of "(in_new env0)\<lparr>i_format := AAC\<rparr>" 64 10 env_slow speaker_hw]
  by (simp add: in_new_def env_slow_def speaker_hw_def hw_init_def)

end
