(* ===== verification/LpaSession.thy ===== *)
theory LpaSession
  imports Routing
begin

text \<open>
  \<open>AudioSessionOutLPA\<close>, playback of compressed length through the low power decoder. Buffers of
  shared memory travel between the session (\<open>mEmptyQueue\<close>) and the driver (\<open>mFilledQueue\<close>);
  \<open>mBufPool\<close> remembers all of them. The client thread writes, the event thread takes the
  driver's events; each operation below is what runs under \<open>mLock\<close>. The state extends the
  kernel log, \<open>l_playing\<close> is the static variable \<open>lpa_playback_in_progress\<close>.
\<close>

section \<open>State\<close>

definition LPA_BUFFER_SIZE :: nat where "LPA_BUFFER_SIZE = 512 * 1024"
definition BUFFER_COUNT :: nat where "BUFFER_COUNT = 2"

record ionbuf =
  b_mem :: int
  b_fd :: int
  b_bytes :: nat

record lpa = kern +
  l_format :: format
  l_rate :: u32
  l_channels :: u32
  l_vol :: int
  l_paused :: bool
  l_started :: bool
  l_genEOS :: bool
  l_reachedEOS :: bool
  l_skip :: bool
  l_eosReceived :: bool
  l_observer :: bool
  l_posted :: nat
  l_signals :: nat
  l_devices :: u32
  l_kill :: bool
  l_alive :: bool
  l_timeStarted :: int
  l_timePlayed :: int
  l_empty :: "ionbuf list"
  l_filled :: "ionbuf list"
  l_pool :: "ionbuf list"
  l_afd :: int
  l_ionfd :: int
  l_playing :: bool

text \<open>\<open>l_posted\<close> counts the calls of \<open>postEOS\<close>, \<open>l_signals\<close> those of \<open>mWriteCv.signal\<close>.\<close>

definition post_eos :: "(lpa, unit) state" where
  "post_eos = do {
     modify (\<lambda>s. s\<lparr>l_eosReceived := True\<rparr>);
     obs \<leftarrow> gets l_observer;
     whenM obs (modify (\<lambda>s. s\<lparr>l_posted := l_posted s + 1\<rparr>))
   }"

definition signal_write :: "(lpa, unit) state" where
  "signal_write = modify (\<lambda>s. s\<lparr>l_signals := l_signals s + 1\<rparr>)"

section \<open>Opening\<close>

text \<open>\<open>start\<close>: resume when paused, else configure and start; a failing configuration closes the driver.\<close>

definition lpa_start :: "env \<Rightarrow> (lpa, status) state" where
  "lpa_start E = do {
     paused \<leftarrow> gets l_paused;
     started \<leftarrow> gets l_started;
     modify (\<lambda>s. s\<lparr>l_paused := False\<rparr>);
     fd \<leftarrow> gets l_afd;
     if paused \<and> started then do {
       r \<leftarrow> sys_ioctl E fd (AUDIO_PAUSE False);
       ret (if r < 0 then UNKNOWN_ERROR else NO_ERROR)
     } else do {
       ok \<leftarrow> (if fd \<ge> 0 then do {
           r1 \<leftarrow> sys_ioctl E fd AUDIO_GET_CONFIG;
           c \<leftarrow> gets (\<lambda>s. e_cfg E (k_log s));
           rate \<leftarrow> gets l_rate;
           ch \<leftarrow> gets l_channels;
           r2 \<leftarrow> (if r1 < 0 then ret r1
                  else sys_ioctl E fd (AUDIO_SET_CONFIG (c\<lparr>c_sample_rate := rate, c_channel_count := ch\<rparr>)));
           if r2 < 0 then do {
             sys_close E fd;
             modify (\<lambda>s. s\<lparr>l_afd := -1\<rparr>);
             ret False
           } else ret True
         } else ret True);
       if \<not> ok then ret BAD_VALUE
       else do {
         r \<leftarrow> sys_ioctl E fd AUDIO_START;
         if r < 0 then ret BAD_VALUE
         else do {
           modify (\<lambda>s. s\<lparr>l_started := True,
             l_timeStarted := (if l_timeStarted s = 0 then e_time E (k_log s) else l_timeStarted s)\<rparr>);
           ret NO_ERROR
         }
       }
     }
   }"

text \<open>
  One buffer: allocated, shared, mapped and paired with a local one of the same size. The
  result is the mapped address (0 for \<open>NULL\<close>, -1 for \<open>MAP_FAILED\<close>) and the descriptor written back.
\<close>

definition memBufferAlloc :: "env \<Rightarrow> (lpa, int \<times> int option) state" where
  "memBufferAlloc E = do {
     ion \<leftarrow> gets l_ionfd;
     r1 \<leftarrow> sys_ioctl E ion ION_IOC_ALLOC;
     if r1 \<noteq> 0 then ret (0, None)
     else do {
       fd \<leftarrow> kcall E (Share ion);
       if fd < 0 then do { sys_ioctl E ion ION_IOC_FREE; ret (0, None) }
       else do {
         p \<leftarrow> kcall E (Mmap fd);
         if p = -1 then do { sys_close E fd; sys_ioctl E ion ION_IOC_FREE; ret (-1, None) }
         else do {
           got \<leftarrow> gets (\<lambda>s. e_malloc E (k_log s));
           if \<not> got then do {
             kcall E (Munmap p);
             sys_close E fd;
             sys_ioctl E ion ION_IOC_FREE;
             ret (0, None)
           } else do {
             let b = \<lparr>b_mem = p, b_fd = fd, b_bytes = 0\<rparr>;
             modify (\<lambda>s. s\<lparr>l_empty := l_empty s @ [b], l_pool := l_pool s @ [b]\<rparr>);
             ret (p, Some fd)
           }
         }
       }
     }
   }"

text \<open>
  The loop of \<open>bufferAlloc\<close>: a buffer that was not allocated is registered as well, with the
  descriptor of the one before, \<open>None\<close> standing for a variable that was never written.
\<close>

fun lpa_alloc_loop :: "env \<Rightarrow> nat \<Rightarrow> int option \<Rightarrow> (lpa, unit) state" where
  "lpa_alloc_loop E 0 fd = ret ()"
| "lpa_alloc_loop E (Suc n) fd = do {
     (p, w) \<leftarrow> memBufferAlloc E;
     let fd' = (case w of None \<Rightarrow> fd | Some x \<Rightarrow> Some x);
     afd \<leftarrow> gets l_afd;
     sys_ioctl E afd (AUDIO_REGISTER_ION fd' p);
     lpa_alloc_loop E n fd'
   }"

definition bufferAlloc :: "env \<Rightarrow> (lpa, unit) state" where
  "bufferAlloc E = do {
     fd \<leftarrow> sys_open E ''/dev/ion'';
     modify (\<lambda>s. s\<lparr>l_ionfd := fd\<rparr>);
     whenM (fd \<ge> 0) (lpa_alloc_loop E BUFFER_COUNT None)
   }"

definition openAudioSessionDevice :: "env \<Rightarrow> (lpa, status) state" where
  "openAudioSessionDevice E = do {
     fd \<leftarrow> sys_open E ''/dev/msm_pcm_lp_dec'';
     modify (\<lambda>s. s\<lparr>l_afd := fd\<rparr>);
     if fd < 0 then ret UNKNOWN_ERROR
     else do {
       modify (\<lambda>s. s\<lparr>l_playing := True\<rparr>);
       lpa_start E;
       bufferAlloc E;
       ret NO_ERROR
     }
   }"

text \<open>
  The constructor, on memory that holds the state: members without an assignment here
  (\<open>afd\<close>, \<open>ionfd\<close>, \<open>mDevices\<close>) keep what the memory held, the argument \<open>devices\<close> is not used.
\<close>

definition lpa_construct :: "env \<Rightarrow> format \<Rightarrow> u32 \<Rightarrow> u32 \<Rightarrow> (lpa, status) state" where
  "lpa_construct E fmt channels rate = do {
     modify (\<lambda>s. s\<lparr>l_format := fmt, l_rate := rate, l_channels := e_popcount E channels,
       l_paused := False, l_started := False, l_genEOS := True, l_reachedEOS := False, l_skip := False,
       l_eosReceived := False, l_observer := False, l_posted := 0, l_signals := 0, l_kill := False,
       l_alive := False, l_timeStarted := 0, l_timePlayed := 0, l_empty := [], l_filled := [], l_pool := []\<rparr>);
     ch \<leftarrow> gets l_channels;
     if fmt = PCM_16_BIT \<and> (ch = 0 \<or> ch > 2) then ret BAD_VALUE
     else do {
       st \<leftarrow> openAudioSessionDevice E;
       whenM (st = NO_ERROR) (modify (\<lambda>s. s\<lparr>l_kill := False, l_alive := True\<rparr>));
       ret st
     }
   }"

section \<open>Writing\<close>

text \<open>
  \<open>write\<close>. The first buffer of the empty queue is taken without looking whether there is one; a
  call with no data returns it and may report the end of the stream.
\<close>

definition lpa_enqueue :: "env \<Rightarrow> nat \<Rightarrow> ionbuf \<Rightarrow> (lpa, unit) state" where
  "lpa_enqueue E bytes b = do {
     modify (\<lambda>s. s\<lparr>l_timeStarted := (if l_timeStarted s = 0 then e_time E (k_log s) else l_timeStarted s)\<rparr>);
     modify (\<lambda>s. s\<lparr>l_filled := l_filled s @ [b]\<rparr>);
     started \<leftarrow> gets l_started;
     fd \<leftarrow> gets l_afd;
     whenM started (do {
       sys_ioctl E fd (AUDIO_ASYNC_WRITE (b_mem b) (if odd bytes then bytes + 1 else bytes));
       ret ()
     });
     whenM (bytes < LPA_BUFFER_SIZE) (modify (\<lambda>s. s\<lparr>l_reachedEOS := True\<rparr>))
   }"

definition lpa_end_of_data :: "ionbuf \<Rightarrow> (lpa, unit) state" where
  "lpa_end_of_data b = do {
     modify (\<lambda>s. s\<lparr>l_empty := l_empty s @ [b], l_reachedEOS := True\<rparr>);
     drained \<leftarrow> gets (\<lambda>s. l_filled s = [] \<and> \<not> l_eosReceived s);
     whenM drained post_eos
   }"

definition lpa_write :: "env \<Rightarrow> nat \<Rightarrow> (lpa, status) state" where
  "lpa_write E bytes = do {
     skip \<leftarrow> gets l_skip;
     modify (\<lambda>s. s\<lparr>l_skip := False\<rparr>);
     if skip \<and> \<not> bytes < LPA_BUFFER_SIZE then ret UNKNOWN_ERROR
     else do {
       let n = (if skip then 0 else bytes);
       empty \<leftarrow> gets l_empty;
       (case empty of
          [] \<Rightarrow> do { raise_fault BadPointer; ret NO_ERROR }
        | b0 # rest \<Rightarrow> do {
            modify (\<lambda>s. s\<lparr>l_empty := rest\<rparr>);
            whenM (n > LPA_BUFFER_SIZE) (raise_fault OutOfBounds);
            let b = b0\<lparr>b_bytes := n\<rparr>;
            (if n > 0 then lpa_enqueue E n b else lpa_end_of_data b);
            ret NO_ERROR
          })
     }
   }"

text \<open>
  \<open>isBufferAvailable\<close>: the answer when a buffer is there, \<open>None\<close> when the caller waits; and what
  it answers once it is woken.
\<close>

definition isBufferAvailable :: "(lpa, bool option) state" where
  "isBufferAvailable = gets (\<lambda>s. if l_empty s = [] then None else Some True)"

definition isBufferAvailable_woken :: "(lpa, bool) state" where
  "isBufferAvailable_woken = do {
     skip \<leftarrow> gets l_skip;
     whenM skip (modify (\<lambda>s. s\<lparr>l_skip := False\<rparr>));
     ret (\<not> skip)
   }"

definition lpa_volume :: "env \<Rightarrow> rat \<Rightarrow> rat \<Rightarrow> int" where
  "lpa_volume E left right = \<lfloor>e_f32 E (clamp01 (e_f32 E (e_f32 E (left + right) / 2)) * 10000)\<rfloor>"

definition lpa_setVolume :: "env \<Rightarrow> rat \<Rightarrow> rat \<Rightarrow> (lpa, status) state" where
  "lpa_setVolume E left right = do {
     fd \<leftarrow> gets l_afd;
     sys_ioctl E fd (AUDIO_SET_VOLUME (lpa_volume E left right));
     ret NO_ERROR
   }"

section \<open>Events of the driver\<close>

datatype lpa_event = WriteDone int | Suspend | Resume | OtherEvent

text \<open>
  A finished buffer goes back to the empty queue, the first one with the address the driver
  names. The first element of the filled queue is read before the search. The end of the stream
  is reported when this was the last buffer; the lock is given up around \<open>fsync\<close>.
\<close>

fun take_mem :: "int \<Rightarrow> ionbuf list \<Rightarrow> (ionbuf \<times> ionbuf list) option" where
  "take_mem a [] = None"
| "take_mem a (b # bs) =
     (if b_mem b = a then Some (b, bs)
      else case take_mem a bs of None \<Rightarrow> None | Some (c, cs) \<Rightarrow> Some (c, b # cs))"

definition lpa_write_done :: "env \<Rightarrow> int \<Rightarrow> (lpa, unit) state" where
  "lpa_write_done E a = do {
     filled \<leftarrow> gets l_filled;
     whenM (filled = []) (raise_fault BadPointer);
     (case take_mem a filled of
        None \<Rightarrow> ret ()
      | Some (b, rest) \<Rightarrow> do {
          modify (\<lambda>s. s\<lparr>l_filled := rest, l_empty := l_empty s @ [b]\<rparr>);
          last_one \<leftarrow> gets (\<lambda>s. l_filled s = [] \<and> l_reachedEOS s \<and> l_genEOS s);
          whenM last_one (do {
            obs \<leftarrow> gets l_observer;
            fd \<leftarrow> gets l_afd;
            whenM obs (do { kcall E (Fsync fd); ret () });
            post_eos
          })
        });
     signal_write
   }"

definition lpa_suspend :: "env \<Rightarrow> (lpa, unit) state" where
  "lpa_suspend E = do {
     paused \<leftarrow> gets l_paused;
     whenM paused (do {
       fd \<leftarrow> gets l_afd;
       sys_ioctl E fd AUDIO_GET_STATS;
       modify (\<lambda>s. s\<lparr>l_reachedEOS := False\<rparr>);
       sys_ioctl E fd AUDIO_STOP;
       modify (\<lambda>s. s\<lparr>l_started := False\<rparr>)
     })
   }"

fun lpa_on_event :: "env \<Rightarrow> lpa_event \<Rightarrow> (lpa, unit) state" where
  "lpa_on_event E (WriteDone a) = lpa_write_done E a"
| "lpa_on_event E Suspend = lpa_suspend E"
| "lpa_on_event E Resume = ret ()"
| "lpa_on_event E OtherEvent = ret ()"

section \<open>Transport\<close>

definition lpa_pause :: "env \<Rightarrow> (lpa, status) state" where
  "lpa_pause E = do {
     fd \<leftarrow> gets l_afd;
     sys_ioctl E fd (AUDIO_PAUSE True);
     modify (\<lambda>s. s\<lparr>l_paused := True,
       l_timePlayed := l_timePlayed s + (e_time E (k_log s) - l_timeStarted s)\<rparr>);
     ret NO_ERROR
   }"

definition lpa_reclaim :: "(lpa, unit) state" where
  "lpa_reclaim = modify (\<lambda>s. s\<lparr>l_empty := l_pool s, l_filled := [], l_reachedEOS := False\<rparr>)"

definition lpa_flush :: "env \<Rightarrow> (lpa, status) state" where
  "lpa_flush E = do {
     lpa_reclaim;
     paused \<leftarrow> gets l_paused;
     eos \<leftarrow> gets l_eosReceived;
     fd \<leftarrow> gets l_afd;
     ok \<leftarrow> (if \<not> paused then
         (if \<not> eos then do {
            r \<leftarrow> sys_ioctl E fd (AUDIO_PAUSE True);
            if r < 0 then ret False
            else do {
              modify (\<lambda>s. s\<lparr>l_skip := True\<rparr>);
              r2 \<leftarrow> sys_ioctl E fd AUDIO_FLUSH;
              ret (\<not> r2 < 0)
            }
          } else ret True)
       else do {
         modify (\<lambda>s. s\<lparr>l_timeStarted := 0, l_skip := True\<rparr>);
         r \<leftarrow> sys_ioctl E fd AUDIO_FLUSH;
         if r < 0 then ret False
         else do {
           r2 \<leftarrow> sys_ioctl E fd (AUDIO_PAUSE True);
           ret (\<not> r2 < 0)
         }
       });
     if \<not> ok then ret UNKNOWN_ERROR
     else do {
       modify (\<lambda>s. s\<lparr>l_eosReceived := False\<rparr>);
       signal_write;
       ret NO_ERROR
     }
   }"

definition lpa_stop :: "(lpa, status) state" where
  "lpa_stop = do {
     modify (\<lambda>s. s\<lparr>l_skip := True\<rparr>);
     signal_write;
     ret NO_ERROR
   }"

definition lpa_setObserver :: "bool \<Rightarrow> (lpa, status) state" where
  "lpa_setObserver given = do {
     modify (\<lambda>s. s\<lparr>l_observer := given\<rparr>);
     ret NO_ERROR
   }"

definition lpa_getNextWriteTimestamp :: "env \<Rightarrow> lpa \<Rightarrow> int" where
  "lpa_getNextWriteTimestamp E s = e_time E (k_log s) - l_timeStarted s + l_timePlayed s"

text \<open>\<open>getBufferInfo\<close>: the addresses of the pool; reading beyond it is \<open>None\<close>.\<close>

definition lpa_getBufferInfo :: "lpa \<Rightarrow> int list option" where
  "lpa_getBufferInfo s =
     (if length (l_pool s) < BUFFER_COUNT then None else Some (map b_mem (take BUFFER_COUNT (l_pool s))))"

definition lpa_standby :: status where "lpa_standby = NO_ERROR"
definition lpa_drain :: status where "lpa_drain = NO_ERROR"
definition lpa_latency :: nat where "lpa_latency = 54"
definition lpa_getRenderPosition :: status where "lpa_getRenderPosition = INVALID_OPERATION"

text \<open>\<open>setParameters\<close> works on the HAL; the devices are those the session remembers afterwards.\<close>

definition lpa_setParameters :: "env \<Rightarrow> params \<Rightarrow> u32 \<Rightarrow> (hw, status \<times> u32) state" where
  "lpa_setParameters E ps devices =
     (case par_getInt E ps (e_keyRouting E) of
        None \<Rightarrow> ret (if ps \<noteq> [] then BAD_VALUE else NO_ERROR, devices)
      | Some d \<Rightarrow> do {
          st \<leftarrow> doRouting E None (word_of_int d);
          ret (if par_remove (e_keyRouting E) ps \<noteq> [] then BAD_VALUE else st, word_of_int d)
        })"

section \<open>Closing\<close>

fun lpa_free :: "env \<Rightarrow> ionbuf list \<Rightarrow> (lpa, unit) state" where
  "lpa_free E [] = ret ()"
| "lpa_free E (b # bs) = do {
     afd \<leftarrow> gets l_afd;
     ion \<leftarrow> gets l_ionfd;
     sys_ioctl E afd (AUDIO_DEREGISTER_ION (b_fd b) (b_mem b));
     kcall E (Munmap (b_mem b));
     sys_close E (b_fd b);
     sys_ioctl E ion ION_IOC_FREE;
     lpa_free E bs
   }"

definition bufferDeAlloc :: "env \<Rightarrow> (lpa, unit) state" where
  "bufferDeAlloc E = do {
     empty \<leftarrow> gets l_empty;
     lpa_free E empty;
     modify (\<lambda>s. s\<lparr>l_empty := []\<rparr>);
     filled \<leftarrow> gets l_filled;
     lpa_free E filled;
     modify (\<lambda>s. s\<lparr>l_filled := [], l_pool := []\<rparr>);
     ion \<leftarrow> gets l_ionfd;
     whenM (ion \<ge> 0) (do {
       sys_close E ion;
       modify (\<lambda>s. s\<lparr>l_ionfd := -1\<rparr>)
     })
   }"

text \<open>The driver fails the pending and every later wait of the event thread, which then ends.\<close>

definition requestAndWaitForEventThreadExit :: "env \<Rightarrow> (lpa, unit) state" where
  "requestAndWaitForEventThreadExit E = do {
     alive \<leftarrow> gets l_alive;
     fd \<leftarrow> gets l_afd;
     whenM alive (do {
       modify (\<lambda>s. s\<lparr>l_kill := True\<rparr>);
       sys_ioctl E fd AUDIO_ABORT_GET_EVENT;
       modify (\<lambda>s. s\<lparr>l_alive := False\<rparr>)
     })
   }"

definition lpa_reset :: "env \<Rightarrow> (lpa, unit) state" where
  "lpa_reset E = do {
     modify (\<lambda>s. s\<lparr>l_genEOS := False\<rparr>);
     fd \<leftarrow> gets l_afd;
     sys_ioctl E fd AUDIO_STOP;
     modify (\<lambda>s. s\<lparr>l_started := False\<rparr>);
     requestAndWaitForEventThreadExit E;
     bufferDeAlloc E;
     sys_close E fd;
     modify (\<lambda>s. s\<lparr>l_playing := False\<rparr>)
   }"

definition lpa_delete :: "env \<Rightarrow> (lpa, unit) state" where
  "lpa_delete E = do {
     modify (\<lambda>s. s\<lparr>l_skip := True\<rparr>);
     signal_write;
     lpa_reset E
   }"

end
