(* ===== verification/LpaProps.thy ===== *)
theory LpaProps
  imports LpaSession
begin

text \<open>
  Properties of the low power session. An abstract exchange of buffers between two owners is the
  specification of its queues; the descriptors it opened; the report of the end of the stream.
\<close>

section \<open>An exchange of buffers\<close>

text \<open>
  The specification: a fixed pool \<open>P\<close> of buffers, each idle or busy. One buffer is given to the
  driver, one comes back, or all are taken back at once.
\<close>

inductive xfer ::
  "'b multiset \<Rightarrow> 'b multiset \<times> 'b multiset \<Rightarrow> 'b multiset \<times> 'b multiset \<Rightarrow> bool" for P where
  stay: "xfer P p p"
| give: "a \<in># I \<Longrightarrow> xfer P (I, B) (I - {#a#}, add_mset a B)"
| settle: "a \<in># B \<Longrightarrow> xfer P (I, B) (add_mset a I, B - {#a#})"
| reclaim: "xfer P (I, B) (P, {#})"

inductive_cases xferE: "xfer P p q"

lemma xfer_conserves: "xfer P p q \<Longrightarrow> fst p + snd p = P \<Longrightarrow> fst q + snd q = P"
  by (induction rule: xfer.induct) auto

lemma xfers_conserve: "(xfer P)\<^sup>*\<^sup>* p q \<Longrightarrow> fst p + snd p = P \<Longrightarrow> fst q + snd q = P"
  by (induction rule: rtranclp_induct) (auto dest: xfer_conserves)

text \<open>
  What a session with such queues promises: every step keeps its invariant, leaves the pool alone
  and is one of the moves above.
\<close>

locale exchange = machine +
  fixes pool idle busy :: "'a \<Rightarrow> 'b multiset"
  assumes pool_kept: "good s \<Longrightarrow> pool (step e s) = pool s"
    and moves: "good s \<Longrightarrow> xfer (pool s) (idle s, busy s) (idle (step e s), busy (step e s))"
begin

lemma run_pool: "good s \<Longrightarrow> pool (fold step es s) = pool s"
  by (induction es arbitrary: s) (simp_all add: step_good pool_kept)

lemma run_moves:
  "good s \<Longrightarrow> (xfer (pool s))\<^sup>*\<^sup>* (idle s, busy s) (idle (fold step es s), busy (fold step es s))"
proof (induction es arbitrary: s)
  case (Cons e es)
  then show ?case
    using Cons.IH [OF step_good [OF Cons.prems], of e] moves [OF Cons.prems, of e]
    by (auto simp: pool_kept intro: converse_rtranclp_into_rtranclp)
qed simp

lemma run_conserves:
  assumes "good s" "idle s + busy s = pool s"
  shows "idle (fold step es s) + busy (fold step es s) = pool s"
  using xfers_conserve [OF run_moves [OF assms(1)], of es] assms(2) by simp

end

section \<open>The session as a machine\<close>

abbreviation key :: "ionbuf \<Rightarrow> int \<times> int" where
  "key b \<equiv> (b_mem b, b_fd b)"

definition l_idle :: "lpa \<Rightarrow> (int \<times> int) multiset" where
  "l_idle s = mset (map key (l_empty s))"

definition l_busy :: "lpa \<Rightarrow> (int \<times> int) multiset" where
  "l_busy s = mset (map key (l_filled s))"

definition l_all :: "lpa \<Rightarrow> (int \<times> int) multiset" where
  "l_all s = mset (map key (l_pool s))"

definition owned :: "int \<Rightarrow> int multiset" where
  "owned fd = (if 0 \<le> fd then {#fd#} else {#})"

text \<open>
  All buffers are in one of the queues, and the open descriptors are those of \<open>base\<close>, of the two
  drivers and of the buffers.
\<close>

definition lpa_ok :: "int multiset \<Rightarrow> lpa \<Rightarrow> bool" where
  "lpa_ok base s \<longleftrightarrow> l_idle s + l_busy s = l_all s
     \<and> live (k_log s) = base + owned (l_afd s) + owned (l_ionfd s) + image_mset snd (l_all s)
     \<and> list_all (\<lambda>b. 0 \<le> b_fd b) (l_pool s)"

datatype lpa_ev =
    LWrite nat | LWoken | LEvent lpa_event | LStart | LPause | LFlush | LStop | LVolume rat rat | LObserve bool

fun lpa_run :: "env \<Rightarrow> lpa_ev \<Rightarrow> lpa \<Rightarrow> lpa" where
  "lpa_run E (LWrite n) s = exec (lpa_write E n) s"
| "lpa_run E LWoken s = exec isBufferAvailable_woken s"
| "lpa_run E (LEvent e) s = exec (lpa_on_event E e) s"
| "lpa_run E LStart s = exec (lpa_start E) s"
| "lpa_run E LPause s = exec (lpa_pause E) s"
| "lpa_run E LFlush s = exec (lpa_flush E) s"
| "lpa_run E LStop s = exec lpa_stop s"
| "lpa_run E (LVolume l r) s = exec (lpa_setVolume E l r) s"
| "lpa_run E (LObserve b) s = exec (lpa_setObserver b) s"

text \<open>The queues and the descriptors after each operation.\<close>

definition bufs :: "lpa \<Rightarrow> ionbuf list \<times> ionbuf list \<times> ionbuf list" where
  "bufs s = (l_empty s, l_filled s, l_pool s)"

lemma take_mem_Some:
  "take_mem a bs = Some (b, rest) \<Longrightarrow> mset bs = add_mset b (mset rest) \<and> b_mem b = a \<and> b \<in> set bs"
  by (induction bs arbitrary: rest) (auto split: if_splits option.splits)

lemma take_mem_found: "a \<in> b_mem ` set bs \<Longrightarrow> \<exists>b rest. take_mem a bs = Some (b, rest)"
  by (induction bs) (auto split: option.splits)

lemma lpa_write_bufs:
  "bufs (exec (lpa_write E n) s) =
     (if l_skip s \<and> \<not> n < LPA_BUFFER_SIZE then bufs s
      else case l_empty s of [] \<Rightarrow> bufs s
        | b # bs \<Rightarrow> if n = 0 \<or> l_skip s then (bs @ [b\<lparr>b_bytes := 0\<rparr>], l_filled s, l_pool s)
                  else (bs, l_filled s @ [b\<lparr>b_bytes := n\<rparr>], l_pool s))"
  by (simp add: bufs_def lpa_write_def lpa_enqueue_def lpa_end_of_data_def post_eos_def Let_def
      split: list.split)

lemma lpa_write_fds:
  "l_afd (exec (lpa_write E n) s) = l_afd s"
  "l_ionfd (exec (lpa_write E n) s) = l_ionfd s"
  "live (k_log (exec (lpa_write E n) s)) = live (k_log s)"
  by (simp_all add: lpa_write_def lpa_enqueue_def lpa_end_of_data_def post_eos_def Let_def split: list.split)

lemma lpa_event_bufs:
  "bufs (exec (lpa_on_event E e) s) =
     (case e of WriteDone a \<Rightarrow>
        (case take_mem a (l_filled s) of None \<Rightarrow> bufs s
         | Some (b, rest) \<Rightarrow> (l_empty s @ [b], rest, l_pool s))
      | _ \<Rightarrow> bufs s)"
  by (cases e)
    (simp_all add: bufs_def lpa_write_done_def lpa_suspend_def post_eos_def signal_write_def split: option.split)

lemma lpa_event_fds:
  "l_afd (exec (lpa_on_event E e) s) = l_afd s"
  "l_ionfd (exec (lpa_on_event E e) s) = l_ionfd s"
  "live (k_log (exec (lpa_on_event E e) s)) = live (k_log s)"
  by (cases e;
    simp add: lpa_write_done_def lpa_suspend_def post_eos_def signal_write_def split: option.split)+

lemma lpa_flush_bufs: "bufs (exec (lpa_flush E) s) = (l_pool s, [], l_pool s)"
  by (simp add: bufs_def lpa_flush_def lpa_reclaim_def signal_write_def)

lemma lpa_flush_fds:
  "l_afd (exec (lpa_flush E) s) = l_afd s"
  "l_ionfd (exec (lpa_flush E) s) = l_ionfd s"
  "live (k_log (exec (lpa_flush E) s)) = live (k_log s)"
  by (simp_all add: lpa_flush_def lpa_reclaim_def signal_write_def)

lemma lpa_start_bufs: "bufs (exec (lpa_start E) s) = bufs s"
  by (simp add: bufs_def lpa_start_def)

lemma lpa_start_fds:
  "l_ionfd (exec (lpa_start E) s) = l_ionfd s"
  "(l_afd (exec (lpa_start E) s) = l_afd s \<and> live (k_log (exec (lpa_start E) s)) = live (k_log s))
   \<or> (0 \<le> l_afd s \<and> l_afd (exec (lpa_start E) s) = -1
      \<and> live (k_log (exec (lpa_start E) s)) = live (k_log s) - {#l_afd s#})"
  by (simp_all add: lpa_start_def)

lemma lpa_other_frame:
  "bufs (lpa_run E e s) = bufs s \<and> l_afd (lpa_run E e s) = l_afd s \<and> l_ionfd (lpa_run E e s) = l_ionfd s
   \<and> live (k_log (lpa_run E e s)) = live (k_log s)"
  if "e \<in> {LWoken, LPause, LStop} \<or> (\<exists>l r. e = LVolume l r) \<or> (\<exists>b. e = LObserve b)"
  using that
  by (auto simp: bufs_def isBufferAvailable_woken_def lpa_pause_def lpa_stop_def signal_write_def
      lpa_setVolume_def lpa_setObserver_def)

text \<open>What a step means for the two owners, from what it does to the lists.\<close>

lemma bufs_views:
  "bufs s = (e, f, p) \<Longrightarrow> l_idle s = mset (map key e) \<and> l_busy s = mset (map key f) \<and> l_all s = mset (map key p)"
  by (simp add: bufs_def l_idle_def l_busy_def l_all_def)

lemma bufs_same: "bufs t = bufs s \<Longrightarrow> l_idle t = l_idle s \<and> l_busy t = l_busy s \<and> l_all t = l_all s"
  using bufs_views [of s] bufs_views [of t] by (cases "bufs s") simp

lemma xfer_same:
  "bufs t = bufs s \<Longrightarrow> xfer (l_all s) (l_idle s, l_busy s) (l_idle t, l_busy t) \<and> l_all t = l_all s"
  using bufs_same [of t s] by (simp add: xfer.stay)

lemma lpa_write_moves:
  "xfer (l_all s) (l_idle s, l_busy s) (l_idle (exec (lpa_write E n) s), l_busy (exec (lpa_write E n) s))
   \<and> l_all (exec (lpa_write E n) s) = l_all s"
proof (cases "l_empty s")
  case Nil
  then have "bufs (exec (lpa_write E n) s) = bufs s" by (simp add: lpa_write_bufs)
  then show ?thesis by (rule xfer_same)
next
  case (Cons b bs)
  have "bufs (exec (lpa_write E n) s) = bufs s
    \<or> bufs (exec (lpa_write E n) s) = (bs @ [b\<lparr>b_bytes := 0\<rparr>], l_filled s, l_pool s)
    \<or> bufs (exec (lpa_write E n) s) = (bs, l_filled s @ [b\<lparr>b_bytes := n\<rparr>], l_pool s)"
    by (simp add: lpa_write_bufs Cons)
  then consider "bufs (exec (lpa_write E n) s) = bufs s"
    | "bufs (exec (lpa_write E n) s) = (bs @ [b\<lparr>b_bytes := 0\<rparr>], l_filled s, l_pool s)"
    | "bufs (exec (lpa_write E n) s) = (bs, l_filled s @ [b\<lparr>b_bytes := n\<rparr>], l_pool s)"
    by blast
  then show ?thesis
  proof cases
    case 1
    then show ?thesis by (rule xfer_same)
  next
    case 2
    from bufs_views [OF 2] show ?thesis
      by (auto simp: l_idle_def l_busy_def l_all_def Cons intro: xfer.stay)
  next
    case 3
    have "key b \<in># l_idle s" by (simp add: l_idle_def Cons)
    from xfer.give [OF this, of "l_all s" "l_busy s"] bufs_views [OF 3] show ?thesis
      by (simp add: l_idle_def l_busy_def l_all_def Cons)
  qed
qed

lemma lpa_event_moves:
  "xfer (l_all s) (l_idle s, l_busy s) (l_idle (exec (lpa_on_event E e) s), l_busy (exec (lpa_on_event E e) s))
   \<and> l_all (exec (lpa_on_event E e) s) = l_all s"
proof (cases "\<exists>a b rest. e = WriteDone a \<and> take_mem a (l_filled s) = Some (b, rest)")
  case True
  then obtain a b rest where e: "e = WriteDone a" "take_mem a (l_filled s) = Some (b, rest)" by blast
  have m: "mset (l_filled s) = add_mset b (mset rest)" using take_mem_Some [OF e(2)] by blast
  then have bs: "l_busy s = add_mset (key b) (mset (map key rest))"
    by (simp add: l_busy_def)
  have "bufs (exec (lpa_on_event E e) s) = (l_empty s @ [b], rest, l_pool s)"
    using e by (simp add: lpa_event_bufs del: lpa_on_event.simps)
  from bufs_views [OF this] xfer.settle [of "key b" "l_busy s" "l_all s" "l_idle s"] bs show ?thesis
    by (simp add: l_idle_def l_all_def)
next
  case False
  then have "bufs (exec (lpa_on_event E e) s) = bufs s"
    by (auto simp: lpa_event_bufs simp del: lpa_on_event.simps split: lpa_event.split option.split)
  then show ?thesis by (rule xfer_same)
qed

lemma lpa_run_moves:
  "xfer (l_all s) (l_idle s, l_busy s) (l_idle (lpa_run E e s), l_busy (lpa_run E e s))
   \<and> l_all (lpa_run E e s) = l_all s"
proof (cases e)
  case (LWrite n)
  then show ?thesis using lpa_write_moves by simp
next
  case (LEvent x)
  then show ?thesis using lpa_event_moves by simp
next
  case LFlush
  then show ?thesis using bufs_views [OF lpa_flush_bufs, of E s]
    by (simp add: l_all_def xfer.reclaim)
next
  case LStart
  then show ?thesis using bufs_same [OF lpa_start_bufs, of E s] by (simp add: xfer.stay)
qed (use lpa_other_frame [of e E s] bufs_same [of "lpa_run E e s" s] in \<open>auto intro: xfer.stay\<close>)

lemma lpa_run_pool: "l_pool (lpa_run E e s) = l_pool s"
proof -
  have p: "l_pool t = snd (snd (bufs t))" for t by (simp add: bufs_def)
  show ?thesis
  proof (cases e)
    case (LWrite n)
    then show ?thesis by (simp add: p lpa_write_bufs) (simp add: bufs_def split: list.split)
  next
    case (LEvent x)
    then show ?thesis
      by (simp add: p lpa_event_bufs del: lpa_on_event.simps) (simp add: bufs_def split: lpa_event.split option.split)
  next
    case LFlush
    then show ?thesis by (simp add: p lpa_flush_bufs)
  next
    case LStart
    then show ?thesis by (simp add: p lpa_start_bufs)
  qed (use lpa_other_frame [of e E s] in \<open>auto simp: p\<close>)
qed

lemma lpa_run_ok:
  assumes "lpa_ok base s"
  shows "lpa_ok base (lpa_run E e s)"
proof -
  have all: "l_all (lpa_run E e s) = l_all s" using lpa_run_moves by blast
  have keep: "l_idle (lpa_run E e s) + l_busy (lpa_run E e s) = l_all (lpa_run E e s)"
    using xfer_conserves [OF lpa_run_moves [THEN conjunct1, of s E e]] assms all
    by (simp add: lpa_ok_def)
  consider (same) "l_afd (lpa_run E e s) = l_afd s" "l_ionfd (lpa_run E e s) = l_ionfd s"
      "live (k_log (lpa_run E e s)) = live (k_log s)"
    | (closed) "0 \<le> l_afd s" "l_afd (lpa_run E e s) = -1" "l_ionfd (lpa_run E e s) = l_ionfd s"
      "live (k_log (lpa_run E e s)) = live (k_log s) - {#l_afd s#}"
  proof (cases e)
    case (LWrite n)
    then show ?thesis using that lpa_write_fds by simp
  next
    case (LEvent x)
    then show ?thesis using that lpa_event_fds by (simp del: lpa_on_event.simps)
  next
    case LFlush
    then show ?thesis using that lpa_flush_fds by simp
  next
    case LStart
    then show ?thesis using that lpa_start_fds [of E s] by auto
  qed (use that(1) lpa_other_frame [of e E s] in auto)
  then show ?thesis
  proof cases
    case same
    then show ?thesis using assms keep unfolding lpa_ok_def all same lpa_run_pool by blast
  next
    case closed
    then show ?thesis using assms keep by (simp add: lpa_ok_def owned_def all lpa_run_pool)
  qed
qed

interpretation session: exchange "lpa_run E" "lpa_ok base" l_all l_idle l_busy for E base
  using lpa_run_ok lpa_run_moves by unfold_locales blast+

section \<open>From the constructor to the destructor\<close>

lemma view_simps [simp]:
  "l_idle (s\<lparr>k_log := l\<rparr>) = l_idle s" "l_busy (s\<lparr>k_log := l\<rparr>) = l_busy s" "l_all (s\<lparr>k_log := l\<rparr>) = l_all s"
  "l_idle (s\<lparr>l_ionfd := x\<rparr>) = l_idle s" "l_busy (s\<lparr>l_ionfd := x\<rparr>) = l_busy s" "l_all (s\<lparr>l_ionfd := x\<rparr>) = l_all s"
  "l_idle (s\<lparr>l_kill := c\<rparr>) = l_idle s" "l_busy (s\<lparr>l_kill := c\<rparr>) = l_busy s" "l_all (s\<lparr>l_kill := c\<rparr>) = l_all s"
  "l_idle (s\<lparr>l_alive := c\<rparr>) = l_idle s" "l_busy (s\<lparr>l_alive := c\<rparr>) = l_busy s" "l_all (s\<lparr>l_alive := c\<rparr>) = l_all s"
  by (simp_all add: l_idle_def l_busy_def l_all_def)

lemma memBufferAlloc_effect:
  "l_afd (exec (memBufferAlloc E) s) = l_afd s \<and> l_ionfd (exec (memBufferAlloc E) s) = l_ionfd s
   \<and> (bufs (exec (memBufferAlloc E) s) = bufs s \<and> live (k_log (exec (memBufferAlloc E) s)) = live (k_log s)
      \<or> (\<exists>b. 0 \<le> b_fd b \<and> bufs (exec (memBufferAlloc E) s) = (l_empty s @ [b], l_filled s, l_pool s @ [b])
           \<and> live (k_log (exec (memBufferAlloc E) s)) = add_mset (b_fd b) (live (k_log s))))"
proof -
  define fd where "fd = e_ret E (k_log s @ [(Ioctl (l_ionfd s) ION_IOC_ALLOC, 0)]) (Share (l_ionfd s))"
  show ?thesis
    by (cases "fd < 0") (simp_all add: memBufferAlloc_def Let_def fd_def [symmetric] bufs_def)
qed

lemma memBufferAlloc_ok:
  assumes "lpa_ok base s"
  shows "lpa_ok base (exec (memBufferAlloc E) s)"
proof -
  let ?t = "exec (memBufferAlloc E) s"
  have fds: "l_afd ?t = l_afd s" "l_ionfd ?t = l_ionfd s" using memBufferAlloc_effect by blast+
  consider "bufs ?t = bufs s" "live (k_log ?t) = live (k_log s)"
    | b where "0 \<le> b_fd b" "bufs ?t = (l_empty s @ [b], l_filled s, l_pool s @ [b])"
        "live (k_log ?t) = add_mset (b_fd b) (live (k_log s))"
    using memBufferAlloc_effect by blast
  then show ?thesis
  proof cases
    case 1
    then have "l_pool ?t = l_pool s" by (simp add: bufs_def)
    with 1 show ?thesis using assms bufs_same [OF 1(1)] unfolding lpa_ok_def fds 1(2) by simp
  next
    case 2
    have v: "l_idle ?t = add_mset (key b) (l_idle s)" "l_busy ?t = l_busy s" "l_all ?t = add_mset (key b) (l_all s)"
      using bufs_views [OF 2(2)] by (simp_all add: l_idle_def l_busy_def l_all_def)
    have p: "l_pool ?t = l_pool s @ [b]" using 2(2) by (simp add: bufs_def)
    show ?thesis using assms 2(1) unfolding lpa_ok_def fds 2(3) v p by simp
  qed
qed

lemma ioctl_session [simp]:
  "lpa_ok base (s\<lparr>k_log := k_log s @ [(Ioctl fd q, r)]\<rparr>) = lpa_ok base s"
  by (simp add: lpa_ok_def)

lemma lpa_alloc_loop_ok: "lpa_ok base s \<Longrightarrow> lpa_ok base (exec (lpa_alloc_loop E n fd) s)"
proof (induction n arbitrary: s fd)
  case (Suc n)
  then show ?case
    by (simp add: Let_def memBufferAlloc_ok split: prod.split)
qed simp

lemma lpa_start_ok: "lpa_ok base s \<Longrightarrow> lpa_ok base (exec (lpa_start E) s)"
  using lpa_run_ok [of base s E LStart] by simp

lemma bufferAlloc_ok:
  assumes "lpa_ok base s" "l_ionfd s = -1"
  shows "lpa_ok base (exec (bufferAlloc E) s)"
proof -
  define fd where "fd = e_ret E (k_log s) (Open ''/dev/ion'')"
  let ?s = "s\<lparr>k_log := k_log s @ [(Open ''/dev/ion'', fd)], l_ionfd := fd\<rparr>"
  have "lpa_ok base ?s" using assms by (simp add: lpa_ok_def owned_def)
  then show ?thesis
    by (simp add: bufferAlloc_def fd_def [symmetric] lpa_alloc_loop_ok)
qed

lemma start_ionfd: "l_ionfd (exec (lpa_start E) s) = l_ionfd s"
  by (rule lpa_start_fds)

text \<open>\<open>bufferAlloc\<close> overwrites \<open>ionfd\<close>, so what was in memory does not matter here.\<close>

lemma bufferAlloc_junk: "exec (bufferAlloc E) (s\<lparr>l_ionfd := x\<rparr>) = exec (bufferAlloc E) s"
  by (simp add: bufferAlloc_def)

lemma lpa_start_junk:
  "exec (lpa_start E) (s\<lparr>l_ionfd := x\<rparr>) = (exec (lpa_start E) s)\<lparr>l_ionfd := x\<rparr>"
  by (simp add: lpa_start_def)

lemma openAudioSessionDevice_ok:
  assumes "live (k_log s) = base" "l_empty s = []" "l_filled s = []" "l_pool s = []"
    and "result (openAudioSessionDevice E) s = NO_ERROR"
  shows "lpa_ok base (exec (openAudioSessionDevice E) s)"
proof -
  define fd where "fd = e_ret E (k_log s) (Open ''/dev/msm_pcm_lp_dec'')"
  have fd: "0 \<le> fd" using assms(5) by (simp add: openAudioSessionDevice_def fd_def split: if_splits)
  let ?s = "s\<lparr>k_log := k_log s @ [(Open ''/dev/msm_pcm_lp_dec'', fd)], l_afd := fd, l_playing := True\<rparr>"
  have "lpa_ok base (?s\<lparr>l_ionfd := -1\<rparr>)"
    using assms(1-4) fd by (simp add: lpa_ok_def l_idle_def l_busy_def l_all_def owned_def)
  then have "lpa_ok base ((exec (lpa_start E) ?s)\<lparr>l_ionfd := -1\<rparr>)"
    using lpa_start_ok lpa_start_junk by metis
  then have "lpa_ok base (exec (bufferAlloc E) ((exec (lpa_start E) ?s)\<lparr>l_ionfd := -1\<rparr>))"
    by (rule bufferAlloc_ok) simp
  then show ?thesis using fd
    by (simp add: openAudioSessionDevice_def fd_def [symmetric] bufferAlloc_junk)
qed

lemma lpa_construct_ok:
  assumes "live (k_log s) = base" "result (lpa_construct E fmt ch rate) s = NO_ERROR"
  shows "lpa_ok base (exec (lpa_construct E fmt ch rate) s)"
proof -
  let ?s = "s\<lparr>l_format := fmt, l_rate := rate, l_channels := e_popcount E ch,
       l_paused := False, l_started := False, l_genEOS := True, l_reachedEOS := False, l_skip := False,
       l_eosReceived := False, l_observer := False, l_posted := 0, l_signals := 0, l_kill := False,
       l_alive := False, l_timeStarted := 0, l_timePlayed := 0, l_empty := [], l_filled := [], l_pool := []\<rparr>"
  have r: "result (openAudioSessionDevice E) ?s = NO_ERROR"
    using assms(2) by (simp add: lpa_construct_def split: if_splits)
  have "lpa_ok base (exec (openAudioSessionDevice E) ?s)"
    using openAudioSessionDevice_ok [OF _ _ _ _ r] assms(1) by simp
  then show ?thesis using r assms(2)
    by (auto simp: lpa_construct_def lpa_ok_def l_idle_def l_busy_def l_all_def split: if_splits)
qed

lemma lpa_free_live:
  "live (k_log (exec (lpa_free E bs) s)) = live (k_log s) - mset (map b_fd bs)"
  "l_ionfd (exec (lpa_free E bs) s) = l_ionfd s"
  "l_filled (exec (lpa_free E bs) s) = l_filled s"
  by (induction bs arbitrary: s) (simp_all add: diff_diff_add_mset)

lemma lpa_delete_live:
  assumes "lpa_ok base s" "\<forall>x \<in># base. 0 \<le> x"
  shows "live (k_log (exec (lpa_delete E) s)) = base"
proof -
  have "mset (map b_fd (l_empty s)) + mset (map b_fd (l_filled s)) = image_mset snd (l_idle s + l_busy s)"
    by (simp add: l_idle_def l_busy_def multiset.map_comp comp_def)
  then have fds: "mset (map b_fd (l_empty s)) + mset (map b_fd (l_filled s)) = image_mset snd (l_all s)"
    using assms unfolding lpa_ok_def by metis
  have l: "live (k_log s) = base + owned (l_afd s) + owned (l_ionfd s)
      + (mset (map b_fd (l_empty s)) + mset (map b_fd (l_filled s)))" and neg: "l_afd s < 0 \<Longrightarrow> l_afd s \<notin># base"
    using assms unfolding fds by (simp_all add: lpa_ok_def) force
  have "live (k_log (exec (lpa_delete E) s)) =
      live (k_log s) - mset (map b_fd (l_empty s)) - mset (map b_fd (l_filled s)) - owned (l_ionfd s) - {#l_afd s#}"
    by (simp add: lpa_delete_def lpa_reset_def requestAndWaitForEventThreadExit_def bufferDeAlloc_def
        signal_write_def lpa_free_live owned_def)
  also have "\<dots> = base"
    unfolding l by (cases "0 \<le> l_afd s") (simp_all add: owned_def neg diff_single_trivial)
  finally show ?thesis .
qed

section \<open>The end of the stream\<close>

lemma lpa_write_done_found:
  assumes "take_mem a (l_filled s) = Some (b, rest)"
  shows "l_filled (exec (lpa_write_done E a) s) = rest
    \<and> l_reachedEOS (exec (lpa_write_done E a) s) = l_reachedEOS s
    \<and> l_genEOS (exec (lpa_write_done E a) s) = l_genEOS s
    \<and> l_observer (exec (lpa_write_done E a) s) = l_observer s
    \<and> l_posted (exec (lpa_write_done E a) s) =
        l_posted s + (if rest = [] \<and> l_reachedEOS s \<and> l_genEOS s \<and> l_observer s then 1 else 0)"
  using assms by (simp add: lpa_write_done_def post_eos_def signal_write_def)

lemma drained_posts_once:
  assumes "mset as = mset (map b_mem (l_filled s))" "l_reachedEOS s" "l_genEOS s" "l_observer s" "as \<noteq> []"
  shows "l_filled (fold (\<lambda>a. exec (lpa_write_done E a)) as s) = []
    \<and> l_posted (fold (\<lambda>a. exec (lpa_write_done E a)) as s) = l_posted s + 1"
  using assms
proof (induction as arbitrary: s)
  case (Cons a as)
  then have "a \<in># mset (map b_mem (l_filled s))" by (metis list.set_intros(1) set_mset_mset)
  then obtain b rest where t: "take_mem a (l_filled s) = Some (b, rest)"
    using take_mem_found by fastforce
  let ?t = "exec (lpa_write_done E a) s"
  note f = lpa_write_done_found [OF t, of E]
  have m: "mset as = mset (map b_mem rest)"
    using take_mem_Some [OF t] Cons.prems(1) by simp
  show ?case
  proof (cases "as = []")
    case True
    with m have "rest = []" by simp
    then show ?thesis using f Cons.prems True by simp
  next
    case False
    then have "rest \<noteq> []" using m by auto
    then show ?thesis using Cons.IH [of ?t] f m Cons.prems False by simp
  qed
qed simp

lemma posted_when_drained:
  "l_posted (lpa_run E e s) = l_posted s
   \<or> l_posted (lpa_run E e s) = l_posted s + 1 \<and> l_filled (lpa_run E e s) = [] \<and> l_reachedEOS (lpa_run E e s)"
proof (cases e)
  case (LWrite n)
  then show ?thesis
    by (simp add: lpa_write_def lpa_enqueue_def lpa_end_of_data_def post_eos_def Let_def split: list.split)
next
  case (LEvent x)
  then show ?thesis
    by (cases x) (simp_all add: lpa_write_done_def lpa_suspend_def post_eos_def signal_write_def split: option.split)
qed (simp_all add: isBufferAvailable_woken_def lpa_pause_def lpa_stop_def signal_write_def lpa_setVolume_def
    lpa_setObserver_def lpa_start_def lpa_flush_def lpa_reclaim_def)

section \<open>Properties\<close>

text \<open>
  C5. The queues of the session refine the exchange of buffers between two owners: whatever the
  client calls and the driver reports, each step of the session gives one buffer to the
  driver, takes one back, takes all back or moves none, and no buffer is lost or doubled.
\<close>

theorem buffers_exchanged:
  assumes "lpa_ok base s"
  shows "(xfer (l_all s))\<^sup>*\<^sup>* (l_idle s, l_busy s) (l_idle (fold (lpa_run E) es s), l_busy (fold (lpa_run E) es s))
    \<and> l_idle (fold (lpa_run E) es s) + l_busy (fold (lpa_run E) es s) = l_all s"
  using session.run_moves [OF assms, of E es] session.run_conserves [OF assms, of E es] assms
  by (simp add: lpa_ok_def)

text \<open>Memory before a session is constructed on it.\<close>

definition lpa_memory :: lpa where
  "lpa_memory = \<lparr>k_log = [], k_fault = None, l_format = FMT_NONE, l_rate = 0, l_channels = 0, l_vol = 0,
     l_paused = True, l_started = True, l_genEOS = False, l_reachedEOS = True, l_skip = True,
     l_eosReceived = True, l_observer = True, l_posted = 7, l_signals = 7, l_devices = 5, l_kill = True,
     l_alive = True, l_timeStarted = 9, l_timePlayed = 9, l_empty = [], l_filled = [], l_pool = [],
     l_afd = 8, l_ionfd = 9, l_playing = False\<rparr>"

definition lpa_new :: lpa where
  "lpa_new = exec (lpa_construct env0 PCM_16_BIT 3 44100) lpa_memory"

lemma lpa_new_status: "result (lpa_construct env0 PCM_16_BIT 3 44100) lpa_memory = NO_ERROR"
  by code_simp

lemma lpa_new_ok: "lpa_ok {#} lpa_new"
  unfolding lpa_new_def by (rule lpa_construct_ok [OF _ lpa_new_status]) (simp add: lpa_memory_def)

lemma buffers_exchanged_witness:
  "l_idle (fold (lpa_run env0) [LWrite 4096, LEvent (WriteDone 0), LWrite 10, LFlush] lpa_new)
   + l_busy (fold (lpa_run env0) [LWrite 4096, LEvent (WriteDone 0), LWrite 10, LFlush] lpa_new) = l_all lpa_new"
  using buffers_exchanged [OF lpa_new_ok] by blast

text \<open>
  C17. A session that was opened successfully returns everything it opened: after any calls and
  events, deleting it closes the decoder, the memory device and the descriptor of every
  buffer, and leaves the descriptors there were before.
\<close>

theorem session_descriptors_returned:
  assumes "result (lpa_construct E fmt ch rate) s = NO_ERROR" "\<forall>x \<in># live (k_log s). 0 \<le> x"
  shows "live (k_log (exec (lpa_delete E) (fold (lpa_run E) es (exec (lpa_construct E fmt ch rate) s))))
    = live (k_log s)"
  using lpa_delete_live [OF session.run_good [OF lpa_construct_ok [OF refl assms(1)]] assms(2)] .

lemma session_descriptors_witness:
  "live (k_log (exec (lpa_delete env0) (fold (lpa_run env0) [LWrite 4096, LEvent (WriteDone 0), LPause] lpa_new))) = {#}"
  using session_descriptors_returned [OF lpa_new_status, of "[LWrite 4096, LEvent (WriteDone 0), LPause]"]
  unfolding lpa_new_def by (simp add: lpa_memory_def)

text \<open>
  A session that refuses its number of channels never sets its descriptors; deleting it
  closes whatever descriptors the numbers found in memory denote.
\<close>

theorem refused_session_closes_foreign:
  assumes "e_popcount E ch > 2" "0 \<le> l_ionfd s"
  shows "result (lpa_construct E PCM_16_BIT ch rate) s = BAD_VALUE
    \<and> live (k_log (exec (lpa_delete E) (exec (lpa_construct E PCM_16_BIT ch rate) s)))
        = live (k_log s) - {#l_ionfd s#} - {#l_afd s#}"
  using assms
  by (simp add: lpa_construct_def lpa_delete_def lpa_reset_def requestAndWaitForEventThreadExit_def
      bufferDeAlloc_def signal_write_def)

lemma refused_session_witness:
  "live (k_log (exec (lpa_delete (env0\<lparr>e_popcount := \<lambda>_. 6\<rparr>))
     (exec (lpa_construct (env0\<lparr>e_popcount := \<lambda>_. 6\<rparr>) PCM_16_BIT 63 44100)
       (lpa_memory\<lparr>k_log := [(Open ''x'', 8), (Open ''y'', 9)]\<rparr>)))) = {#}"
  using refused_session_closes_foreign [of "env0\<lparr>e_popcount := \<lambda>_. 6\<rparr>" 63
      "lpa_memory\<lparr>k_log := [(Open ''x'', 8), (Open ''y'', 9)]\<rparr>" 44100]
  by (simp add: lpa_memory_def live_def)

text \<open>
  C19. Once the last data are written and the driver has finished every buffer it was given, in
  any order, the observer has been told the end of the stream exactly once more.
\<close>

theorem end_of_stream_reported:
  assumes "mset as = mset (map b_mem (l_filled s))" "l_filled s \<noteq> []"
    and "l_reachedEOS s" "l_genEOS s" "l_observer s"
  shows "l_filled (fold (\<lambda>a. exec (lpa_write_done E a)) as s) = []
    \<and> l_posted (fold (\<lambda>a. exec (lpa_write_done E a)) as s) = l_posted s + 1"
proof -
  have "as \<noteq> []" using assms(1,2) by auto
  then show ?thesis using drained_posts_once assms by blast
qed

lemma end_of_stream_witness:
  "l_posted (fold (\<lambda>a. exec (lpa_write_done env0 a)) [5, 4]
     (lpa_memory\<lparr>l_genEOS := True,
        l_filled := [\<lparr>b_mem = 4, b_fd = 1, b_bytes = 9\<rparr>, \<lparr>b_mem = 5, b_fd = 2, b_bytes = 9\<rparr>]\<rparr>)) = 8"
  using end_of_stream_reported [of "[5, 4]" "lpa_memory\<lparr>l_genEOS := True,
        l_filled := [\<lparr>b_mem = 4, b_fd = 1, b_bytes = 9\<rparr>, \<lparr>b_mem = 5, b_fd = 2, b_bytes = 9\<rparr>]\<rparr>" env0]
  by (simp add: lpa_memory_def)

text \<open>
  C37. The end of the stream is never reported early: each call and each event reports it at
  most once, and only when the last data were written and the driver holds no buffer.
\<close>

theorem end_of_stream_not_early:
  "l_posted (lpa_run E e s) = l_posted s
   \<or> l_posted (lpa_run E e s) = l_posted s + 1 \<and> l_filled (lpa_run E e s) = [] \<and> l_reachedEOS (lpa_run E e s)"
  by (rule posted_when_drained)

text \<open>
  A write of at most a buffer after \<open>isBufferAvailable\<close> found one is free of faults. A caller
  that had to wait is told that there is a buffer without a second look: when it was woken by
  a completion that matched none, its write takes a buffer from an empty queue.
\<close>

theorem availability_of_buffers:
  assumes "k_fault s = None" "n \<le> LPA_BUFFER_SIZE" "\<not> l_skip s"
  shows "(result isBufferAvailable s = Some True \<longrightarrow> k_fault (exec (lpa_write E n) s) = None)
    \<and> (result isBufferAvailable s = None \<longrightarrow>
        (let t = exec (lpa_write_done E a) (s\<lparr>l_filled := f # fs\<rparr>)
         in a \<notin> b_mem ` set (f # fs) \<longrightarrow>
            l_signals t = l_signals s + 1 \<and> result isBufferAvailable_woken t
            \<and> k_fault (exec (lpa_write E n) (exec isBufferAvailable_woken t)) = Some BadPointer))"
proof -
  have none: "take_mem a bs = None" if "a \<notin> b_mem ` set bs" for bs
    using that by (induction bs) auto
  show ?thesis using assms
    by (auto simp: isBufferAvailable_def isBufferAvailable_woken_def lpa_write_def lpa_enqueue_def
        lpa_end_of_data_def post_eos_def lpa_write_done_def signal_write_def Let_def none
        split: list.splits)
qed

lemma availability_witness:
  "k_fault (exec (lpa_write env0 64) (lpa_memory\<lparr>l_skip := False, l_empty := [\<lparr>b_mem = 4, b_fd = 1, b_bytes = 0\<rparr>]\<rparr>)) = None"
  using availability_of_buffers [of "lpa_memory\<lparr>l_skip := False, l_empty := [\<lparr>b_mem = 4, b_fd = 1, b_bytes = 0\<rparr>]\<rparr>" 64 env0]
  by (simp add: lpa_memory_def isBufferAvailable_def LPA_BUFFER_SIZE_def)

end
