(* ===== verification/LpaLocks.thy ===== *)
theory LpaLocks
  imports LpaProps
begin

text \<open>
  The three mutexes of \<open>AudioSessionOutLPA\<close> and the orders in which its operations take them. Each
  operation is the sequence of its lock and unlock calls; threads run such sequences, a
  mutex has at most one holder and taking one that is held waits.
\<close>

section \<open>Lock programs\<close>

datatype mutex = MLock | EmptyQueueMutex | FilledQueueMutex

datatype lock_op = Acq mutex | Rel mutex

definition locks_write :: "lock_op list" where
  "locks_write = [Acq MLock, Acq EmptyQueueMutex, Rel EmptyQueueMutex,
     Acq FilledQueueMutex, Rel FilledQueueMutex, Rel MLock]"

definition locks_write_end :: "lock_op list" where
  "locks_write_end = [Acq MLock, Acq EmptyQueueMutex, Rel EmptyQueueMutex,
     Acq EmptyQueueMutex, Rel EmptyQueueMutex, Acq FilledQueueMutex, Rel FilledQueueMutex, Rel MLock]"

definition locks_flush :: "lock_op list" where
  "locks_flush = [Acq MLock, Acq FilledQueueMutex, Acq EmptyQueueMutex,
     Rel EmptyQueueMutex, Rel FilledQueueMutex, Rel MLock]"

definition locks_stop :: "lock_op list" where
  "locks_stop = [Acq MLock, Rel MLock]"

definition locks_available :: "lock_op list" where
  "locks_available = [Acq MLock, Acq EmptyQueueMutex, Rel EmptyQueueMutex, Rel MLock]"

text \<open>
  The same when the caller waits: \<open>mLock\<close> is given up first, waiting gives up the queue's mutex and
  takes it again.
\<close>

definition locks_available_wait :: "lock_op list" where
  "locks_available_wait = [Acq MLock, Acq EmptyQueueMutex, Rel MLock, Rel EmptyQueueMutex,
     Acq EmptyQueueMutex, Rel EmptyQueueMutex, Acq MLock, Rel MLock]"

text \<open>A completion, and one that reports the end of the stream to an observer around \<open>fsync\<close>.\<close>

definition locks_write_done :: "lock_op list" where
  "locks_write_done = [Acq MLock, Acq FilledQueueMutex, Acq EmptyQueueMutex,
     Rel EmptyQueueMutex, Rel FilledQueueMutex, Rel MLock]"

definition locks_write_done_eos :: "lock_op list" where
  "locks_write_done_eos = [Acq MLock, Acq FilledQueueMutex, Acq EmptyQueueMutex,
     Rel EmptyQueueMutex, Rel MLock, Acq MLock, Rel FilledQueueMutex, Rel MLock]"

section \<open>Threads\<close>

text \<open>What each thread has still to do, and which mutexes it holds.\<close>

type_synonym 't threads = "'t \<Rightarrow> lock_op list \<times> mutex set"

inductive lstep :: "'t threads \<Rightarrow> 't threads \<Rightarrow> bool" where
  acquire: "T t = (Acq m # p, H) \<Longrightarrow> (\<And>u. m \<notin> snd (T u)) \<Longrightarrow> lstep T (T(t := (p, insert m H)))"
| release: "T t = (Rel m # p, H) \<Longrightarrow> lstep T (T(t := (p, H - {m})))"

inductive_cases lstepE: "lstep T T'"

definition finished :: "'t threads \<Rightarrow> bool" where
  "finished T \<longleftrightarrow> (\<forall>t. fst (T t) = [])"

definition starting :: "('t \<Rightarrow> lock_op list) \<Rightarrow> 't threads" where
  "starting P = (\<lambda>t. (P t, {}))"

text \<open>
  The order of the mutexes: a program is ordered when it takes a mutex only if it is later than
  all it holds, gives up only what it holds, and ends with none.
\<close>

instantiation mutex :: linorder
begin

fun rank :: "mutex \<Rightarrow> nat" where
  "rank MLock = 0"
| "rank FilledQueueMutex = 1"
| "rank EmptyQueueMutex = 2"

definition less_eq_mutex :: "mutex \<Rightarrow> mutex \<Rightarrow> bool" where
  "less_eq_mutex m k \<longleftrightarrow> rank m \<le> rank k"

definition less_mutex :: "mutex \<Rightarrow> mutex \<Rightarrow> bool" where
  "less_mutex m k \<longleftrightarrow> rank m < rank k"

lemma rank_eq: "rank m = rank k \<Longrightarrow> m = k"
  by (cases m; cases k) simp_all

instance
  by intro_classes (auto simp: less_eq_mutex_def less_mutex_def intro: rank_eq)

end

lemma mutex_order [simp]: "MLock < FilledQueueMutex" "FilledQueueMutex < EmptyQueueMutex" "MLock < EmptyQueueMutex"
  by (simp_all add: less_mutex_def)

lemma finite_mutexes [simp]: "finite (M :: mutex set)"
proof (rule finite_subset)
  show "M \<subseteq> {MLock, FilledQueueMutex, EmptyQueueMutex}" using mutex.exhaust by blast
qed simp

fun ordered :: "mutex set \<Rightarrow> lock_op list \<Rightarrow> bool" where
  "ordered H [] \<longleftrightarrow> H = {}"
| "ordered H (Acq m # p) \<longleftrightarrow> (\<forall>h \<in> H. h < m) \<and> ordered (insert m H) p"
| "ordered H (Rel m # p) \<longleftrightarrow> m \<in> H \<and> ordered (H - {m}) p"

lemma ordered_append: "ordered H p \<Longrightarrow> ordered {} q \<Longrightarrow> ordered H (p @ q)"
  by (induction H p rule: ordered.induct) auto

lemma ordered_concat: "list_all (ordered {}) ps \<Longrightarrow> ordered {} (concat ps)"
  by (induction ps) (auto intro: ordered_append)

text \<open>Every thread is at an ordered rest of its program, and no mutex has two holders.\<close>

definition disciplined :: "'t threads \<Rightarrow> bool" where
  "disciplined T \<longleftrightarrow>
     (\<forall>t. ordered (snd (T t)) (fst (T t))) \<and> (\<forall>t u m. m \<in> snd (T t) \<longrightarrow> m \<in> snd (T u) \<longrightarrow> t = u)"

lemma disciplined_step:
  assumes "lstep T T'" "disciplined T"
  shows "disciplined T'"
  using assms
proof (induction rule: lstep.induct)
  case (acquire T t m p H)
  then have "ordered H (Acq m # p)" unfolding disciplined_def by (metis fst_conv snd_conv)
  with acquire show ?case by (auto simp: disciplined_def)
next
  case (release T t m p H)
  then have "ordered H (Rel m # p)" unfolding disciplined_def by (metis fst_conv snd_conv)
  with release show ?case by (auto simp: disciplined_def)
qed

lemma disciplined_run: "lstep\<^sup>*\<^sup>* T T' \<Longrightarrow> disciplined T \<Longrightarrow> disciplined T'"
  by (induction rule: rtranclp_induct) (auto intro: disciplined_step)

text \<open>The holder of the latest mutex that is held can always go on.\<close>

lemma disciplined_progress:
  assumes "disciplined T" "\<not> finished T"
  shows "\<exists>T'. lstep T T'"
proof -
  have ord: "ordered H q" if "T t = (q, H)" for t q H
    using assms(1) that unfolding disciplined_def by (metis fst_conv snd_conv)
  show ?thesis
  proof (cases "\<exists>t m. m \<in> snd (T t)")
    case True
    let ?M = "{m. \<exists>t. m \<in> snd (T t)}"
    have "Max ?M \<in> ?M" by (rule Max_in) (use True in auto)
    then obtain t m where m: "m \<in> snd (T t)" "Max ?M = m" by blast
    have top: "k \<le> m" if "k \<in> snd (T u)" for u k
      unfolding m(2) [symmetric] by (rule Max_ge) (use that in auto)
    obtain q H where T: "T t = (q, H)" by (cases "T t")
    show ?thesis
    proof (cases q)
      case Nil
      then show ?thesis using ord [OF T] m T by simp
    next
      case (Cons x p)
      show ?thesis
      proof (cases x)
        case (Acq k)
        have "m < k" using ord [OF T] Cons Acq m T by simp
        then have "k \<notin> snd (T u)" for u using top [of k u] by auto
        then show ?thesis using lstep.acquire [of T t k p H] T Cons Acq by blast
      next
        case (Rel k)
        then show ?thesis using lstep.release [of T t k p H] T Cons by blast
      qed
    qed
  next
    case False
    then have none: "snd (T t) = {}" for t by blast
    obtain t x p where T: "T t = (x # p, {})"
      using assms(2) none unfolding finished_def by (metis list.exhaust prod.collapse)
    show ?thesis using ord [OF T] T none by (cases x) (auto intro: lstep.acquire)
  qed
qed

text \<open>Two threads, the client and the one that takes the driver's events.\<close>

definition two :: "lock_op list \<times> mutex set \<Rightarrow> lock_op list \<times> mutex set \<Rightarrow> bool threads" where
  "two a b = (\<lambda>client. if client then a else b)"

lemma two_upd [simp]: "(two a b)(True := c) = two c b" "(two a b)(False := c) = two a c"
  by (auto simp: two_def)

lemma two_at [simp]: "two a b True = a" "two a b False = b"
  by (simp_all add: two_def)

lemma two_steps:
  "m \<notin> H \<Longrightarrow> m \<notin> K \<Longrightarrow> lstep (two (Acq m # p, H) (q, K)) (two (p, insert m H) (q, K))"
  "m \<notin> H \<Longrightarrow> m \<notin> K \<Longrightarrow> lstep (two (p, H) (Acq m # q, K)) (two (p, H) (q, insert m K))"
  "lstep (two (Rel m # p, H) (q, K)) (two (p, H - {m}) (q, K))"
  "lstep (two (p, H) (Rel m # q, K)) (two (p, H) (q, K - {m}))"
proof -
  have free: "m \<notin> snd (two (p', H) (q', K) u)" if "m \<notin> H" "m \<notin> K" for p' q' u
    using that by (cases u) simp_all
  show "m \<notin> H \<Longrightarrow> m \<notin> K \<Longrightarrow> lstep (two (Acq m # p, H) (q, K)) (two (p, insert m H) (q, K))"
    using lstep.acquire [of "two (Acq m # p, H) (q, K)" True m p H] free by simp
  show "m \<notin> H \<Longrightarrow> m \<notin> K \<Longrightarrow> lstep (two (p, H) (Acq m # q, K)) (two (p, H) (q, insert m K))"
    using lstep.acquire [of "two (p, H) (Acq m # q, K)" False m q K] free by simp
  show "lstep (two (Rel m # p, H) (q, K)) (two (p, H - {m}) (q, K))"
    using lstep.release [of "two (Rel m # p, H) (q, K)" True m p H] by simp
  show "lstep (two (p, H) (Rel m # q, K)) (two (p, H) (q, K - {m}))"
    using lstep.release [of "two (p, H) (Rel m # q, K)" False m q K] by simp
qed

lemma two_stuck:
  assumes "m \<in> K" "k \<in> H"
  shows "\<not> lstep (two (Acq m # p, H) (Acq k # q, K)) T"
proof
  assume "lstep (two (Acq m # p, H) (Acq k # q, K)) T"
  then obtain t n r J where
    t: "two (Acq m # p, H) (Acq k # q, K) t = (Acq n # r, J) \<and> (\<forall>u. n \<notin> snd (two (Acq m # p, H) (Acq k # q, K) u))
      \<or> two (Acq m # p, H) (Acq k # q, K) t = (Rel n # r, J)"
    by (cases rule: lstep.cases) blast+
  then have "n \<notin> H \<and> n \<notin> K" by (cases t) (auto dest: spec [of _ True] spec [of _ False])
  then show False using t assms by (cases t) auto
qed

lemmas lock_programs = locks_write_def locks_write_end_def locks_flush_def locks_stop_def
  locks_available_def locks_available_wait_def locks_write_done_def

section \<open>Properties\<close>

text \<open>The operations that do not report the end of the stream, and what all of them promise.\<close>

definition session_ops :: "lock_op list set" where
  "session_ops = {locks_write, locks_write_end, locks_flush, locks_stop, locks_available, locks_available_wait,
     locks_write_done}"

lemma session_ops_disciplined:
  assumes "\<And>t. \<exists>ps. P t = concat ps \<and> set ps \<subseteq> session_ops"
  shows "disciplined (starting P)"
proof -
  have "ordered {} (P t)" for t
  proof -
    obtain ps where ps: "P t = concat ps" "set ps \<subseteq> session_ops" using assms by blast
    have "list_all (ordered {}) ps" using ps(2) by (auto simp: list_all_iff session_ops_def lock_programs)
    then show ?thesis using ps(1) ordered_concat by simp
  qed
  then show ?thesis by (simp add: disciplined_def starting_def)
qed





text \<open>
  As long as no completion reports the end of the stream to an observer, the threads of a
  session never block each other for good: any number of threads may run any sequences of
  its other operations, and in every reachable state that is not finished one of them can
  go on.
\<close>

lemma ordered_operations_never_deadlock:
  assumes "\<And>t. \<exists>ps. P t = concat ps \<and> set ps \<subseteq> session_ops"
    and "lstep\<^sup>*\<^sup>* (starting P) T" "\<not> finished T"
  shows "\<exists>T'. lstep T T'"
  using disciplined_run [OF assms(2) session_ops_disciplined [OF assms(1)]] disciplined_progress assms(3) by blast



text \<open>
  C38. A completion that reports the end of the stream gives up \<open>mLock\<close> for \<open>fsync\<close> and takes it
  again while it holds the mutex of the filled queue. When the client writes in between, both
  threads wait for each other for good.
\<close>

theorem end_report_deadlocks:
  "\<exists>T. lstep\<^sup>*\<^sup>* (starting (\<lambda>client. if client then locks_write else locks_write_done_eos)) T
     \<and> \<not> finished T \<and> \<not> (\<exists>T'. lstep T T')"
proof -
  let ?T = "two ([Acq FilledQueueMutex, Rel FilledQueueMutex, Rel MLock], {MLock})
     ([Acq MLock, Rel FilledQueueMutex, Rel MLock], {FilledQueueMutex})"
  note go = converse_rtranclp_into_rtranclp [where r = lstep]
  have init: "starting (\<lambda>client. if client then locks_write else locks_write_done_eos)
      = two (locks_write, {}) (locks_write_done_eos, {})"
    by (auto simp: starting_def two_def)
  have event: "lstep\<^sup>*\<^sup>* (two (locks_write, {}) (locks_write_done_eos, {}))
      (two (locks_write, {}) ([Acq MLock, Rel FilledQueueMutex, Rel MLock], {FilledQueueMutex}))"
    unfolding locks_write_done_eos_def
    by (rule go, rule two_steps(2), simp, simp, rule go, rule two_steps(2), simp, simp,
        rule go, rule two_steps(2), simp, simp, rule go, rule two_steps(4), rule go, rule two_steps(4))
      (simp add: insert_Diff_if)
  have client: "lstep\<^sup>*\<^sup>* (two (locks_write, {}) ([Acq MLock, Rel FilledQueueMutex, Rel MLock], {FilledQueueMutex})) ?T"
    unfolding locks_write_def
    by (rule go, rule two_steps(1), simp, simp, rule go, rule two_steps(1), simp, simp,
        rule go, rule two_steps(3)) (simp add: insert_Diff_if)
  have "\<not> finished ?T" unfolding finished_def by (metis fst_conv list.distinct(1) two_at(1))
  moreover have "\<not> lstep ?T T'" for T' by (rule two_stuck) simp_all
  ultimately show ?thesis using rtranclp_trans [OF event client] unfolding init by blast
qed

end
