(* ===== verification/EventThread.thy ===== *)
theory EventThread
  imports LpaProps
begin

text \<open>
  The thread of a low power session that waits for the events of its driver. A wait ends with an
  event, with the error that the driver is gone, or with another error, after which the structure
  holds what the wait before left in it.
\<close>

datatype event_answer = Got lpa_event | Gone | Interrupted

text \<open>
  The loop, on what its waits return; \<open>cur\<close> is the event the structure holds. The result says
  whether the thread has ended or still waits.
\<close>

fun event_loop :: "env \<Rightarrow> lpa_event \<Rightarrow> event_answer list \<Rightarrow> (lpa, bool) state" where
  "event_loop E cur [] = ret False"
| "event_loop E cur (Gone # as) = do { modify (\<lambda>s. s\<lparr>l_alive := False\<rparr>); ret True }"
| "event_loop E cur (Got e # as) = do { lpa_on_event E e; event_loop E e as }"
| "event_loop E cur (Interrupted # as) = do { lpa_on_event E cur; event_loop E cur as }"

text \<open>\<open>junk\<close> is what the structure held before the first wait.\<close>

definition eventThreadEntry :: "env \<Rightarrow> lpa_event \<Rightarrow> event_answer list \<Rightarrow> (lpa, bool) state" where
  "eventThreadEntry E junk as = do {
     modify (\<lambda>s. s\<lparr>l_alive := True\<rparr>);
     kill \<leftarrow> gets l_kill;
     if kill then do { modify (\<lambda>s. s\<lparr>l_alive := False\<rparr>); ret True }
     else event_loop E junk as
   }"

lemma event_loop_cases:
  "a = Gone \<or> exec (event_loop E cur (a # as)) s
     = (let e = (case a of Got e \<Rightarrow> e | _ \<Rightarrow> cur) in exec (event_loop E e as) (lpa_run E (LEvent e) s))"
  by (cases a) (simp_all del: lpa_on_event.simps)

lemma on_event_alive: "preserves (\<lambda>s. l_alive s = v) (lpa_on_event E e)"
  by (cases e) (simp_all only: lpa_on_event.simps lpa_write_done_def lpa_suspend_def post_eos_def signal_write_def,
    (intro pres; simp)+)

lemma event_loop_ok:
  "lpa_ok base s \<Longrightarrow> lpa_ok base (exec (event_loop E cur as) s)
     \<and> l_all (exec (event_loop E cur as) s) = l_all s
     \<and> (result (event_loop E cur as) s \<longleftrightarrow> Gone \<in> set as)
     \<and> (l_alive s \<longrightarrow> (l_alive (exec (event_loop E cur as) s) \<longleftrightarrow> Gone \<notin> set as))"
proof (induction E cur as arbitrary: s rule: event_loop.induct)
  case (2 E cur as)
  then show ?case by (simp add: lpa_ok_def)
next
  case (3 E cur e as)
  have "l_alive (exec (lpa_on_event E e) s) = l_alive s" by (rule preservesD [OF on_event_alive refl])
  with 3(1) [of "exec (lpa_on_event E e) s"] lpa_run_ok [OF 3(2), of E "LEvent e"] lpa_run_moves [of s E "LEvent e"]
  show ?case by (simp del: lpa_on_event.simps)
next
  case (4 E cur as)
  have "l_alive (exec (lpa_on_event E cur) s) = l_alive s" by (rule preservesD [OF on_event_alive refl])
  with 4(1) [of "exec (lpa_on_event E cur) s"] lpa_run_ok [OF 4(2), of E "LEvent cur"] lpa_run_moves [of s E "LEvent cur"]
  show ?case by (simp del: lpa_on_event.simps)
qed simp

text \<open>
  C20. Whatever the waits return and whatever the structure held at first, the thread loses no buffer
  and no descriptor of the session. It ends exactly when it is to be killed or the driver is gone,
  and says so.
\<close>

theorem event_thread_keeps_session:
  fixes E junk as
  assumes "lpa_ok base s"
  defines "t \<equiv> exec (eventThreadEntry E junk as) s"
  shows "lpa_ok base t \<and> l_all t = l_all s
    \<and> (result (eventThreadEntry E junk as) s \<longleftrightarrow> l_kill s \<or> Gone \<in> set as)
    \<and> (l_alive t \<longleftrightarrow> \<not> (l_kill s \<or> Gone \<in> set as))"
proof -
  have "lpa_ok base (s\<lparr>l_alive := True\<rparr>)" using assms(1) by (simp add: lpa_ok_def)
  from event_loop_ok [OF this, of E junk as] show ?thesis
    using assms(1) by (simp add: t_def eventThreadEntry_def lpa_ok_def)
qed

lemma event_thread_witness:
  "l_alive (exec (eventThreadEntry env0 OtherEvent [Got Suspend, Gone]) lpa_new) = False"
proof -
  have "lpa_ok {#} lpa_new" by (rule lpa_new_ok)
  from event_thread_keeps_session [OF this, of env0 OtherEvent "[Got Suspend, Gone]"] show ?thesis by simp
qed

text \<open>
  A wait that is interrupted handles the event before it a second time: after the completion of the
  last buffer the first element of the empty queue of filled buffers is read.
\<close>

theorem interrupted_wait_repeats:
  assumes "l_filled s = [b]" "k_fault s = None" "\<not> l_kill s"
  shows "k_fault (exec (eventThreadEntry E junk [Got (WriteDone (b_mem b)), Interrupted]) s) = Some BadPointer
    \<and> k_fault (exec (eventThreadEntry E junk [Got (WriteDone (b_mem b))]) s) = None"
  using assms by (simp add: eventThreadEntry_def lpa_write_done_def post_eos_def signal_write_def)

lemma interrupted_wait_witness:
  "k_fault (exec (eventThreadEntry env0 OtherEvent [Got (WriteDone 4), Interrupted])
     (lpa_memory\<lparr>l_kill := False, l_filled := [\<lparr>b_mem = 4, b_fd = 1, b_bytes = 0\<rparr>]\<rparr>)) = Some BadPointer"
  using interrupted_wait_repeats [of "lpa_memory\<lparr>l_kill := False, l_filled := [\<lparr>b_mem = 4, b_fd = 1, b_bytes = 0\<rparr>]\<rparr>"
      "\<lparr>b_mem = 4, b_fd = 1, b_bytes = 0\<rparr>" env0 OtherEvent]
  by (simp add: lpa_memory_def)

end
