(* ===== verification/Lifecycle.thy ===== *)
theory Lifecycle
  imports InStream LpaSession AudppParser
begin

text \<open>
  The life cycle of the HAL: construction of \<open>AudioHardware\<close> (calibration file, endpoints of the
  sound driver, automatic volume), opening and closing of the streams, and destruction. \<open>hal\<close>
  adds to the object the pointers a client sees: 0 is \<open>NULL\<close>, the address of a new object is an
  argument of the operation that creates it. Low power sessions are kept by address, also those
  no pointer leads to any more.
\<close>

section \<open>Construction\<close>

text \<open>
  The text a scan of the calibration file ends at, and whether the scan goes on behind the last
  byte: the file is mapped in whole pages, zeros fill the last one unless it is full.
\<close>

function file_rest :: "string \<Rightarrow> string" where
  "file_rest cs =
     (if cs \<noteq> [] \<and> hd cs = CHR 0xFF then cs
      else case split_line cs of None \<Rightarrow> cs | Some (_, rest) \<Rightarrow> file_rest rest)"
  by pat_completeness auto
termination
  by (relation "measure length") (auto dest: split_line_shrinks)

declare file_rest.simps [simp del]

definition scans_past_mapping :: "string \<Rightarrow> bool" where
  "scans_past_mapping cs \<longleftrightarrow>
     length cs mod 4096 = 0
     \<and> (let r = file_rest cs in CHR 0x00 \<notin> set r \<and> (r = [] \<or> hd r \<noteq> CHR 0xFF))"

definition get_audpp_filter :: "env \<Rightarrow> eq_cal option \<Rightarrow> (hw, int) state" where
  "get_audpp_filter E eqlib = do {
     fd \<leftarrow> sys_open E ''/system/etc/AudioFilter.csv'';
     if fd < 0 then ret (-1)
     else do {
       r \<leftarrow> kcall E (Fstat fd);
       if r < 0 then do { sys_close E fd; ret (-1) }
       else do {
         p \<leftarrow> kcall E (Mmap fd);
         if p = -1 then do { sys_close E fd; ret (-1) }
         else do {
           c \<leftarrow> gets tables;
           let (v, c') = parse_lines eqlib (e_csv E) c;
           modify (\<lambda>s. s\<lparr>tables := c'\<rparr>);
           whenM (v = Clobbered) (raise_fault OutOfBounds);
           whenM (v = Parsed \<and> scans_past_mapping (e_csv E)) (raise_fault BadPointer);
           kcall E (Munmap p);
           sys_close E fd;
           ret (if v = Parsed then 0 else -1)
         }
       }
     }
   }"

text \<open>\<open>CHECK_FOR\<close>: the endpoints looked for, by the name the driver gives them.\<close>

definition endpoint_names :: "(string \<times> snd_name) list" where
  "endpoint_names =
     [(''CURRENT'', S_CURRENT), (''HANDSET'', S_HANDSET), (''SPEAKER'', S_SPEAKER), (''BT'', S_BT),
      (''BT_EC_OFF'', S_BT_EC_OFF), (''HEADSET'', S_HEADSET),
      (''STEREO_HEADSET_AND_SPEAKER'', S_STEREO_HEADSET_AND_SPEAKER),
      (''IN_S_SADC_OUT_HANDSET'', S_IN_S_SADC_OUT_HANDSET),
      (''IN_S_SADC_OUT_SPEAKER_PHONE'', S_IN_S_SADC_OUT_SPEAKER_PHONE),
      (''TTY_HEADSET'', S_TTY_HEADSET), (''TTY_HCO'', S_TTY_HCO), (''TTY_VCO'', S_TTY_VCO),
      (''FM_DIGITAL_STEREO_HEADSET'', S_FM_DIGITAL_STEREO_HEADSET),
      (''FM_DIGITAL_SPEAKER_PHONE'', S_FM_DIGITAL_SPEAKER_PHONE),
      (''FM_DIGITAL_BT_A2DP_HEADSET'', S_FM_DIGITAL_BT_A2DP_HEADSET),
      (''FM_ANALOG_STEREO_HEADSET'', S_FM_ANALOG_STEREO_HEADSET),
      (''FM_ANALOG_STEREO_HEADSET_CODEC'', S_FM_ANALOG_STEREO_HEADSET_CODEC)]"

definition check_for :: "string \<times> u32 \<Rightarrow> (snd_name \<Rightarrow> u32) \<Rightarrow> snd_name \<Rightarrow> u32" where
  "check_for ept dev =
     (case map_of endpoint_names (fst ept) of None \<Rightarrow> dev | Some n \<Rightarrow> dev(n := snd ept))"

text \<open>The loop over the endpoints: the driver fills in each, its result is not looked at.\<close>

fun read_endpoints :: "env \<Rightarrow> int \<Rightarrow> nat list \<Rightarrow> (hw, unit) state" where
  "read_endpoints E fd [] = ret ()"
| "read_endpoints E fd (i # is) = do {
     sys_ioctl E fd (SND_GET_ENDPOINT i);
     modify (\<lambda>s. s\<lparr>mSndEndpoints := mSndEndpoints s @ [e_ept E i],
                   SND_DEVICE := check_for (e_ept E i) (SND_DEVICE s)\<rparr>);
     read_endpoints E fd is
   }"

text \<open>
  \<open>AutoVolumeControl.txt\<close>: a failed \<open>fstat\<close> or \<open>mmap\<close> closes the file and goes on; the first
  character is then read through \<open>MAP_FAILED\<close>.
\<close>

definition auto_volume :: "env \<Rightarrow> (hw, bool) state" where
  "auto_volume E = do {
     fd \<leftarrow> sys_open E ''/system/etc/AutoVolumeControl.txt'';
     if fd < 0 then ret False
     else do {
       r \<leftarrow> kcall E (Fstat fd);
       whenM (r < 0) (do { sys_close E fd; ret () });
       p \<leftarrow> kcall E (Mmap fd);
       whenM (p = -1) (do { sys_close E fd; raise_fault BadPointer });
       kcall E (Munmap p);
       sys_close E fd;
       ret (e_avc E \<noteq> [] \<and> hd (e_avc E) = CHR ''1'')
     }
   }"

definition hw_construct :: "env \<Rightarrow> eq_cal option \<Rightarrow> (hw, unit) state" where
  "hw_construct E eqlib = do {
     r \<leftarrow> get_audpp_filter E eqlib;
     whenM (r = 0) (modify (\<lambda>s. s\<lparr>audpp_filter_inited := True\<rparr>));
     fd \<leftarrow> sys_open E ''/dev/msm_snd'';
     modify (\<lambda>s. s\<lparr>m7xsnddriverfd := fd\<rparr>);
     whenM (fd \<ge> 0) (do {
       rc \<leftarrow> sys_ioctl E fd SND_GET_NUM_ENDPOINTS;
       whenM (rc \<ge> 0) (do {
         modify (\<lambda>s. s\<lparr>mInit := True\<rparr>);
         read_endpoints E fd [0..<e_numept E]
       });
       on \<leftarrow> auto_volume E;
       sys_ioctl E fd (SND_AVC_CTL on);
       sys_ioctl E fd (SND_AGC_CTL on);
       ret ()
     })
   }"

section \<open>Input streams\<close>

text \<open>A vector sorted by address.\<close>

definition insert_at :: "nat \<Rightarrow> 'v \<Rightarrow> (nat \<times> 'v) list \<Rightarrow> (nat \<times> 'v) list" where
  "insert_at a v xs = takeWhile (\<lambda>(b, _). b < a) xs @ (a, v) # dropWhile (\<lambda>(b, _). b < a) xs"

definition remove_at :: "nat \<Rightarrow> (nat \<times> 'v) list \<Rightarrow> (nat \<times> 'v) list" where
  "remove_at a xs = filter (\<lambda>(b, _). b \<noteq> a) xs"

text \<open>
  \<open>openInputStream\<close>: the address of the stream (0 for none), the status if one is written, and
  the format, channels and rate written back. \<open>junk\<close> is what the new object's memory held.
\<close>

definition open_voip_input ::
  "env \<Rightarrow> nat \<Rightarrow> bool \<Rightarrow> format \<Rightarrow> u32 \<Rightarrow> u32 \<Rightarrow> (hw, nat \<times> status option \<times> format \<times> u32 \<times> u32) state"
where
  "open_voip_input E a junk fmt ch rate = do {
     modify (\<lambda>s. s\<lparr>instanceCount := instanceCount s + 1\<rparr>);
     (st, v, ch', rate') \<leftarrow> voip_set E fmt ch rate (voip_new E junk);
     if st \<noteq> NO_ERROR then do {
       unlock_mLock;
       voip_delete E v;
       ret (0, Some st, fmt, ch', rate')
     } else do {
       modify (\<lambda>s. s\<lparr>mVoipInputs := insert_at a v (mVoipInputs s)\<rparr>);
       unlock_mLock;
       outact \<leftarrow> gets mVoipOutActive;
       whenM outact (do {
         modify (\<lambda>s. s\<lparr>mVoipInputs := map (\<lambda>(b, w). (b, if b = a then w\<lparr>v_setup := True\<rparr> else w)) (mVoipInputs s)\<rparr>);
         setupDeviceforVoipCall E True;
         ret ()
       });
       ret (a, Some NO_ERROR, fmt, ch', rate')
     }
   }"

definition open_recording ::
  "env \<Rightarrow> nat \<Rightarrow> bool \<Rightarrow> u32 \<Rightarrow> format \<Rightarrow> u32 \<Rightarrow> u32 \<Rightarrow> (hw, nat \<times> status option \<times> format \<times> u32 \<times> u32) state"
where
  "open_recording E a junk devices fmt ch rate = do {
     v \<leftarrow> in_construct E junk;
     (st, w, fmt', ch', rate') \<leftarrow> in_set E devices fmt ch rate v;
     if st \<noteq> NO_ERROR then do {
       unlock_mLock;
       in_delete E w;
       ret (0, Some st, fmt', ch', rate')
     } else do {
       modify (\<lambda>s. s\<lparr>mInputs := insert_at a w (mInputs s)\<rparr>);
       unlock_mLock;
       ret (a, Some NO_ERROR, fmt', ch', rate')
     }
   }"

definition openInputStream ::
  "env \<Rightarrow> nat \<Rightarrow> bool \<Rightarrow> u32 \<Rightarrow> format \<Rightarrow> u32 \<Rightarrow> u32 \<Rightarrow> (hw, nat \<times> status option \<times> format \<times> u32 \<times> u32) state"
where
  "openInputStream E a junk devices fmt ch rate =
     (if \<not> e_isInput E devices then ret (0, None, fmt, ch, rate)
      else do {
        lock_mLock;
        mode \<leftarrow> gets mMode;
        if devices = e_dev E IN_COMMUNICATION \<and> rate = 8000 then open_voip_input E a junk fmt ch rate
        else if mode = MODE_IN_CALL \<and> getInputSampleRate rate > 8000 \<and> fmt = PCM_16_BIT
        then do { unlock_mLock; ret (0, Some E_INVAL, fmt, ch, 8000) }
        else open_recording E a junk devices fmt ch rate
      })"

text \<open>\<open>closeInputStream\<close>: the stream is deleted with the lock given up.\<close>

definition closeInputStream :: "env \<Rightarrow> nat \<Rightarrow> (hw, unit) state" where
  "closeInputStream E a = autolock (do {
     ins \<leftarrow> gets (\<lambda>s. map_of (mInputs s) a);
     vins \<leftarrow> gets (\<lambda>s. map_of (mVoipInputs s) a);
     (case ins of
        Some v \<Rightarrow> do {
          unlock_mLock;
          in_delete E v;
          lock_mLock;
          modify (\<lambda>s. s\<lparr>mInputs := remove_at a (mInputs s)\<rparr>)
        }
      | None \<Rightarrow> (case vins of
          Some v \<Rightarrow> do {
            unlock_mLock;
            voip_delete E v;
            lock_mLock;
            modify (\<lambda>s. s\<lparr>mVoipInputs := remove_at a (mVoipInputs s)\<rparr>)
          }
        | None \<Rightarrow> ret ()))
   })"

section \<open>Output streams\<close>

record hal =
  hal_hw :: hw
  hal_out :: nat
  hal_direct :: nat
  hal_lpa :: nat
  hal_sessions :: "(nat \<times> lpa) list"

definition on_hw :: "(hw, 'a) state \<Rightarrow> (hal, 'a) state" where
  "on_hw m = State (\<lambda>s. (result m (hal_hw s), s\<lparr>hal_hw := exec m (hal_hw s)\<rparr>))"

lemma on_hw_simps [simp]:
  "exec (on_hw m) s = s\<lparr>hal_hw := exec m (hal_hw s)\<rparr>" "result (on_hw m) s = result m (hal_hw s)"
  by (simp_all add: on_hw_def exec_def result_def)

text \<open>
  A call on the session \<open>a\<close>: it runs on the kernel log and the static variable of the object. An
  address where no session is, is a bad pointer.
\<close>

definition session_view :: "hw \<Rightarrow> lpa \<Rightarrow> lpa" where
  "session_view h l = l\<lparr>k_log := k_log h, k_fault := k_fault h, l_playing := lpa_playback_in_progress h\<rparr>"

definition session_back :: "lpa \<Rightarrow> hw \<Rightarrow> hw" where
  "session_back l h = h\<lparr>k_log := k_log l, k_fault := k_fault l, lpa_playback_in_progress := l_playing l\<rparr>"

definition on_session :: "nat \<Rightarrow> (lpa, unit) state \<Rightarrow> (hal, unit) state" where
  "on_session a m = do {
     l \<leftarrow> gets (\<lambda>s. map_of (hal_sessions s) a);
     (case l of
        None \<Rightarrow> on_hw (raise_fault BadPointer)
      | Some l \<Rightarrow> modify (\<lambda>s. let t = exec m (session_view (hal_hw s) l)
                            in s\<lparr>hal_hw := session_back t (hal_hw s),
                                 hal_sessions := map (\<lambda>(b, k). (b, if b = a then t else k)) (hal_sessions s)\<rparr>))
   }"

text \<open>The bits of the flags passed in \<open>*status\<close> the code looks at.\<close>

record out_flags =
  f_direct :: bool
  f_voip_rx :: bool
  f_lpa :: bool

type_synonym open_result = "nat \<times> status option \<times> format \<times> u32 \<times> u32"

text \<open>
  \<open>openOutputStream\<close>: the pointer, the status written (\<open>None\<close>: the flags stay in \<open>*status\<close>), and
  the format, channels and rate written back. \<open>mem\<close> is what the memory of a new session held.
\<close>

definition open_direct :: "env \<Rightarrow> nat \<Rightarrow> u32 \<Rightarrow> format \<Rightarrow> u32 \<Rightarrow> u32 \<Rightarrow> (hal, open_result) state" where
  "open_direct E a devices fmt ch rate = do {
     d \<leftarrow> gets hal_direct;
     if d = 0 then do {
       (st, v, fmt', ch', rate') \<leftarrow> on_hw (outdirect_set E devices fmt ch rate (outdirect_new E));
       (if st = NO_ERROR then do {
          on_hw (modify (\<lambda>s. s\<lparr>mDirectOutput := Some v, mDirectOutrefCnt := mDirectOutrefCnt s + 1\<rparr>));
          modify (\<lambda>s. s\<lparr>hal_direct := a\<rparr>);
          on_hw unlock_mLock;
          inact \<leftarrow> gets (\<lambda>s. mVoipInActive (hal_hw s));
          whenM inact (on_hw (do { setupDeviceforVoipCall E True; ret () }));
          on_hw lock_mLock
        } else on_hw outdirect_delete_unset);
       d' \<leftarrow> gets hal_direct;
       ret (d', Some st, fmt', ch', rate')
     } else do {
       on_hw (modify (\<lambda>s. s\<lparr>mDirectOutrefCnt := mDirectOutrefCnt s + 1\<rparr>));
       ret (d, None, fmt, ch, rate)
     }
   }"

definition open_session :: "env \<Rightarrow> nat \<Rightarrow> lpa \<Rightarrow> format \<Rightarrow> u32 \<Rightarrow> u32 \<Rightarrow> (hal, open_result) state" where
  "open_session E a mem fmt ch rate = do {
     st \<leftarrow> gets (\<lambda>s. result (lpa_construct E fmt ch rate) (session_view (hal_hw s) mem));
     modify (\<lambda>s. s\<lparr>hal_sessions := hal_sessions s @ [(a, mem)]\<rparr>);
     on_session a (do { lpa_construct E fmt ch rate; ret () });
     (if st \<noteq> NO_ERROR then do {
        on_session a (lpa_delete E);
        modify (\<lambda>s. s\<lparr>hal_sessions := remove_at a (hal_sessions s), hal_lpa := 0\<rparr>)
      } else modify (\<lambda>s. s\<lparr>hal_lpa := a\<rparr>));
     p \<leftarrow> gets hal_lpa;
     ret (p, Some st, fmt, ch, rate)
   }"

definition open_playback :: "env \<Rightarrow> nat \<Rightarrow> u32 \<Rightarrow> format \<Rightarrow> u32 \<Rightarrow> u32 \<Rightarrow> (hal, open_result) state" where
  "open_playback E a devices fmt ch rate = do {
     let (st, v, fmt', ch', rate') = out72_set E devices fmt ch rate out72_new;
     whenM (st = NO_ERROR) (do {
       on_hw (modify (\<lambda>s. s\<lparr>mOutput := Some v\<rparr>));
       modify (\<lambda>s. s\<lparr>hal_out := a\<rparr>)
     });
     p \<leftarrow> gets hal_out;
     ret (p, Some st, fmt', ch', rate')
   }"

definition openOutputStream ::
  "env \<Rightarrow> nat \<Rightarrow> lpa \<Rightarrow> out_flags \<Rightarrow> u32 \<Rightarrow> format \<Rightarrow> u32 \<Rightarrow> u32 \<Rightarrow> (hal, open_result) state"
where
  "openOutputStream E a mem fl devices fmt ch rate = do {
     on_hw lock_mLock;
     out \<leftarrow> gets hal_out;
     r \<leftarrow> (if out \<noteq> 0 \<and> \<not> (f_direct fl \<and> f_voip_rx fl) \<and> \<not> f_lpa fl
           then ret (0, Some INVALID_OPERATION, fmt, ch, rate)
           else if f_direct fl \<and> f_voip_rx fl then open_direct E a devices fmt ch rate
           else if f_lpa fl then open_session E a mem fmt ch rate
           else open_playback E a devices fmt ch rate);
     on_hw unlock_mLock;
     ret r
   }"

text \<open>\<open>closeOutputStream\<close> deletes the stream under the lock; deleting \<open>NULL\<close> does nothing.\<close>

definition closeOutputStream :: "env \<Rightarrow> nat \<Rightarrow> (hal, unit) state" where
  "closeOutputStream E p = do {
     on_hw lock_mLock;
     out \<leftarrow> gets hal_out;
     dir \<leftarrow> gets hal_direct;
     lp \<leftarrow> gets hal_lpa;
     (if (out = 0 \<and> dir = 0 \<and> lp = 0) \<or> (out \<noteq> p \<and> dir \<noteq> p \<and> lp \<noteq> p) then ret ()
      else if out = p then do {
        whenM (out \<noteq> 0) (on_hw (out72_delete E));
        modify (\<lambda>s. s\<lparr>hal_out := 0\<rparr>)
      } else if dir = p then do {
        on_hw (modify (\<lambda>s. s\<lparr>mDirectOutrefCnt := mDirectOutrefCnt s - 1\<rparr>));
        n \<leftarrow> gets (\<lambda>s. mDirectOutrefCnt (hal_hw s));
        whenM (n \<le> 0) (do {
          whenM (dir \<noteq> 0) (on_hw (outdirect_delete E));
          modify (\<lambda>s. s\<lparr>hal_direct := 0\<rparr>)
        })
      } else do {
        whenM (lp \<noteq> 0) (do {
          on_session lp (lpa_delete E);
          modify (\<lambda>s. s\<lparr>hal_sessions := remove_at lp (hal_sessions s)\<rparr>)
        });
        modify (\<lambda>s. s\<lparr>hal_lpa := 0\<rparr>)
      });
     on_hw unlock_mLock
   }"

section \<open>Destruction\<close>

text \<open>
  The loop of the destructor: the index goes up while \<open>closeInputStream\<close> takes the stream out of
  the vector. Each round raises the index, so \<open>n\<close> rounds from a vector of \<open>n\<close> are all.
\<close>

fun close_inputs :: "env \<Rightarrow> nat \<Rightarrow> nat \<Rightarrow> (hw, unit) state" where
  "close_inputs E 0 i = ret ()"
| "close_inputs E (Suc n) i = do {
     ins \<leftarrow> gets mInputs;
     whenM (i < length ins) (do {
       closeInputStream E (fst (ins ! i));
       close_inputs E n (Suc i)
     })
   }"

definition hw_destroy :: "env \<Rightarrow> (hal, unit) state" where
  "hw_destroy E = do {
     n \<leftarrow> gets (\<lambda>s. length (mInputs (hal_hw s)));
     on_hw (close_inputs E n 0);
     on_hw (modify (\<lambda>s. s\<lparr>mInputs := [], mVoipInputs := []\<rparr>));
     p \<leftarrow> gets hal_out;
     closeOutputStream E p;
     on_hw (do {
       modify (\<lambda>s. s\<lparr>mSndEndpoints := []\<rparr>);
       fd \<leftarrow> gets m7xsnddriverfd;
       whenM (fd > 0) (do {
         sys_close E fd;
         modify (\<lambda>s. s\<lparr>m7xsnddriverfd := -1\<rparr>)
       });
       modify (\<lambda>s. s\<lparr>tables := (tables s)\<lparr>enable_preproc_mask := replicate 9 0\<rparr>, mInit := False\<rparr>)
     })
   }"

end
