(* ===== verification/LifeProps.thy ===== *)
theory LifeProps
  imports Lifecycle InProps LpaProps
begin

text \<open>
  Properties of the life cycle: what construction leaves open and which endpoints it finds, the
  streams a client of playback and recording can hold, and where closing and destroying fails.
\<close>

section \<open>Construction\<close>

lemma get_audpp_filter_live: "live (k_log (exec (get_audpp_filter E eqlib) s)) = live (k_log s)"
  by (auto simp: get_audpp_filter_def Let_def split: prod.split)

lemma get_audpp_filter_frame:
  "m7xsnddriverfd (exec (get_audpp_filter E eqlib) s) = m7xsnddriverfd s"
  "mSndEndpoints (exec (get_audpp_filter E eqlib) s) = mSndEndpoints s"
  "SND_DEVICE (exec (get_audpp_filter E eqlib) s) = SND_DEVICE s"
  "mInit (exec (get_audpp_filter E eqlib) s) = mInit s"
  by (auto simp: get_audpp_filter_def Let_def split: prod.split)

lemma read_endpoints_effect:
  "live (k_log (exec (read_endpoints E fd is) s)) = live (k_log s)"
  "k_fault (exec (read_endpoints E fd is) s) = k_fault s"
  "m7xsnddriverfd (exec (read_endpoints E fd is) s) = m7xsnddriverfd s"
  "mInit (exec (read_endpoints E fd is) s) = mInit s"
  "mSndEndpoints (exec (read_endpoints E fd is) s) = mSndEndpoints s @ map (e_ept E) is"
  "SND_DEVICE (exec (read_endpoints E fd is) s) = foldl (\<lambda>d e. check_for e d) (SND_DEVICE s) (map (e_ept E) is)"
  by (induction "is" arbitrary: s) simp_all

lemma auto_volume_frame:
  "m7xsnddriverfd (exec (auto_volume E) s) = m7xsnddriverfd s"
  "mSndEndpoints (exec (auto_volume E) s) = mSndEndpoints s"
  "SND_DEVICE (exec (auto_volume E) s) = SND_DEVICE s"
  "mInit (exec (auto_volume E) s) = mInit s"
  by (simp_all add: auto_volume_def)

text \<open>A kernel that gives out descriptors not in use and maps no file that is not open.\<close>

definition posix :: "env \<Rightarrow> bool" where
  "posix E \<longleftrightarrow>
     (\<forall>l p. 0 \<le> e_ret E l (Open p) \<longrightarrow> e_ret E l (Open p) \<notin># live l)
     \<and> (\<forall>l fd. fd \<notin># live l \<longrightarrow> e_ret E l (Mmap fd) = -1)"

text \<open>Without a fault the volume file was statted, mapped and closed once.\<close>

lemma auto_volume_live:
  assumes "posix E" "k_fault (exec (auto_volume E) s) = None"
  shows "live (k_log (exec (auto_volume E) s)) = live (k_log s)"
proof -
  let ?fd = "e_ret E (k_log s) (Open ''/system/etc/AutoVolumeControl.txt'')"
  have fresh: "0 \<le> ?fd \<Longrightarrow> ?fd \<notin># live (k_log s)" using assms(1) by (simp add: posix_def)
  have unmapped: "fd \<notin># live l \<Longrightarrow> e_ret E l (Mmap fd) = -1" for l fd
    using assms(1) by (simp add: posix_def)
  show ?thesis
    using assms(2) fresh
    by (auto simp: auto_volume_def unmapped split: if_splits option.splits)
qed

lemma raised: "k_fault (exec (raise_fault f) s) \<noteq> None"
  by (simp split: option.split)

text \<open>The last endpoint of a name is the one remembered.\<close>

definition endpoint_of :: "(string \<times> u32) list \<Rightarrow> snd_name \<Rightarrow> u32" where
  "endpoint_of es n =
     (case find (\<lambda>e. map_of endpoint_names (fst e) = Some n) (rev es) of None \<Rightarrow> NO_DEVICE | Some e \<Rightarrow> snd e)"

lemma endpoints_folded: "foldl (\<lambda>d e. check_for e d) (\<lambda>_. NO_DEVICE) es = endpoint_of es"
proof (induction es rule: rev_induct)
  case Nil
  then show ?case by (simp add: endpoint_of_def fun_eq_iff)
next
  case (snoc e es)
  then show ?case by (auto simp: endpoint_of_def fun_eq_iff check_for_def split: option.split)
qed

text \<open>
  Construction finds the endpoints of the sound driver: when the driver tells their number,
  each is remembered, and each name the HAL knows denotes the last endpoint that has it, the
  names the driver does not report none; otherwise the object is not usable and knows none.
\<close>

theorem construction_finds_endpoints:
  "let t = exec (hw_construct E eqlib) hw_init; es = map (e_ept E) [0..<e_numept E]
   in if mInit t then mSndEndpoints t = es \<and> SND_DEVICE t = endpoint_of es \<and> 0 \<le> m7xsnddriverfd t
      else mSndEndpoints t = [] \<and> SND_DEVICE t = (\<lambda>_. NO_DEVICE)"
  by (simp add: hw_construct_def Let_def get_audpp_filter_frame read_endpoints_effect auto_volume_frame
      endpoints_folded hw_init_def)

text \<open>
  Whatever the drivers answer, construction without a fault leaves one descriptor open, that
  of the sound driver, or none: the files it reads are closed on every path.
\<close>

theorem construction_descriptors:
  assumes "posix E" "k_fault (exec (hw_construct E eqlib) s) = None"
  shows "let t = exec (hw_construct E eqlib) s
         in live (k_log t) = live (k_log s) + (if 0 \<le> m7xsnddriverfd t then {#m7xsnddriverfd t#} else {#})"
proof -
  define s1 where "s1 = exec (do {
     r \<leftarrow> get_audpp_filter E eqlib;
     whenM (r = 0) (modify (\<lambda>s. s\<lparr>audpp_filter_inited := True\<rparr>))}) s"
  define fd where "fd = e_ret E (k_log s1) (Open ''/dev/msm_snd'')"
  define s2 where "s2 = exec (do {
         rc \<leftarrow> sys_ioctl E fd SND_GET_NUM_ENDPOINTS;
         whenM (rc \<ge> 0) (do {
           modify (\<lambda>s. s\<lparr>mInit := True\<rparr>);
           read_endpoints E fd [0..<e_numept E]})}) (s1\<lparr>k_log := k_log s1 @ [(Open ''/dev/msm_snd'', fd)], m7xsnddriverfd := fd\<rparr>)"
  have l1: "live (k_log s1) = live (k_log s)" by (simp add: s1_def get_audpp_filter_live)
  have l2: "live (k_log s2) = live (k_log s) + (if 0 \<le> fd then {#fd#} else {#})" "m7xsnddriverfd s2 = fd"
    by (simp_all add: s2_def read_endpoints_effect l1)
  have eq: "exec (hw_construct E eqlib) s =
      (if 0 \<le> fd then exec (do { on \<leftarrow> auto_volume E; sys_ioctl E fd (SND_AVC_CTL on); sys_ioctl E fd (SND_AGC_CTL on); ret () }) s2
       else s1\<lparr>k_log := k_log s1 @ [(Open ''/dev/msm_snd'', fd)], m7xsnddriverfd := fd\<rparr>)"
    by (simp add: hw_construct_def s1_def fd_def s2_def)
  show ?thesis
  proof (cases "0 \<le> fd")
    case True
    then have "k_fault (exec (auto_volume E) s2) = None" using assms(2) by (simp add: eq)
    from auto_volume_live [OF assms(1) this] show ?thesis
      using True l2 by (simp add: eq auto_volume_frame Let_def)
  next
    case False
    then show ?thesis using l1 by (simp add: eq Let_def)
  qed
qed

text \<open>
  A kernel as above, in which the sound driver and both files exist. Descriptors are the sum of
  those in use and three, so that they are new.
\<close>

definition env_posix :: env where
  "env_posix = env0\<lparr>e_csv := ''A'', e_ret := (\<lambda>l c. case c of
       Open p \<Rightarrow> 3 + (\<Sum>x\<in>#live l. \<bar>x\<bar>)
     | Mmap fd \<Rightarrow> if fd \<in># live l then 4096 else -1
     | _ \<Rightarrow> 0)\<rparr>"

lemma sum_of_abs: "0 \<le> (\<Sum>y\<in>#M. \<bar>y\<bar>) \<and> (x \<in># M \<longrightarrow> x \<le> (\<Sum>y\<in>#M. \<bar>y\<bar>))" for x :: int and M
  by (induction M) auto

lemma posix_env: "posix env_posix"
  using sum_of_abs by (force simp: posix_def env_posix_def)

lemma construction_witness:
  "live (k_log (exec (hw_construct env_posix None) hw_init)) = {#3#}"
proof -
  have "k_fault (exec (hw_construct env_posix None) hw_init) = None" by code_simp
  moreover have "m7xsnddriverfd (exec (hw_construct env_posix None) hw_init) = 3" by code_simp
  ultimately show ?thesis
    using construction_descriptors [OF posix_env, of None hw_init] by (simp add: Let_def hw_init_def)
qed

text \<open>
  A volume file that can be opened but not statted makes construction read through
  \<open>MAP_FAILED\<close>: the error branch closes the file and goes on.
\<close>

theorem unreadable_volume_file_crashes:
  assumes "posix E" "\<And>l. 0 \<le> e_ret E l (Open ''/dev/msm_snd'')"
    and "\<And>l. 0 \<le> e_ret E l (Open ''/system/etc/AutoVolumeControl.txt'')"
    and "\<And>l fd. e_ret E l (Fstat fd) < 0"
  shows "k_fault (exec (hw_construct E eqlib) s) \<noteq> None"
proof -
  have "k_fault (exec (auto_volume E) t) \<noteq> None" for t
  proof -
    let ?fd = "e_ret E (k_log t) (Open ''/system/etc/AutoVolumeControl.txt'')"
    have "?fd \<notin># live (k_log t)" using assms(1,3) by (simp add: posix_def)
    moreover have "fd \<notin># live l \<Longrightarrow> e_ret E l (Mmap fd) = -1" for l fd
      using assms(1) by (simp add: posix_def)
    ultimately show ?thesis
      using assms(3) [of "k_log t"] assms(4) by (simp add: auto_volume_def not_less split: option.split)
  qed
  then show ?thesis using assms(2) by (simp add: hw_construct_def)
qed

lemma unreadable_volume_witness:
  "k_fault (exec (hw_construct (env_posix\<lparr>e_ret := (\<lambda>l c. case c of Fstat fd \<Rightarrow> -1 | _ \<Rightarrow> e_ret env_posix l c)\<rparr>) None) hw_init)
     \<noteq> None"
proof (rule unreadable_volume_file_crashes)
  show "posix (env_posix\<lparr>e_ret := (\<lambda>l c. case c of Fstat fd \<Rightarrow> -1 | _ \<Rightarrow> e_ret env_posix l c)\<rparr>)"
    using posix_env by (simp add: posix_def)
qed (use sum_of_abs in \<open>force simp: env_posix_def\<close>)+

section \<open>Frames\<close>

text \<open>What the object knows of its streams.\<close>

definition streams :: "hw \<Rightarrow> out72 option \<times> outdirect option \<times> (nat \<times> instream) list \<times> (nat \<times> voipin) list \<times> int \<times> int" where
  "streams s = (mOutput s, mDirectOutput s, mInputs s, mVoipInputs s, instanceCount s, m7xsnddriverfd s)"

interpretation keeps_streams: ctl_frame E "\<lambda>s. streams s = v" for E v
proof unfold_locales
  show "preserves (\<lambda>s. streams s = v) (switch_mode E fm)" for fm
    by (rule switch_mode_pres) (simp add: streams_def)
  show "preserves (\<lambda>s. streams s = v) (msm72xx_enable_postproc E en)" for en
    by (rule postproc_pres) (simp_all add: streams_def)
qed (simp_all add: streams_def)

lemma streams_log [simp]:
  "streams (s\<lparr>k_log := l\<rparr>) = streams s" "streams (s\<lparr>audpre_index := i\<rparr>) = streams s"
  by (simp_all add: streams_def)

text \<open>
  The contract of a predicate that survives what the recording stream does: it is kept by
  routing, and by every call and assignment of the stream's own.
\<close>

locale record_frame =
  fixes E :: env and I J :: "hw \<Rightarrow> bool"
  assumes routing: "preserves I (doRouting E i od)"
    and own [simp]: "I s \<Longrightarrow> \<not> is_route c \<Longrightarrow> I (s\<lparr>k_log := k_log s @ [(c, r)]\<rparr>)"
      "J s \<Longrightarrow> \<not> is_route c \<Longrightarrow> J (s\<lparr>k_log := k_log s @ [(c, r)]\<rparr>)"
      "I s \<Longrightarrow> I (s\<lparr>mCurSndDevice := NO_DEVICE\<rparr>)"
      "I (s\<lparr>fmA2dp := a\<rparr>) = I s" "J (s\<lparr>audpre_index := x\<rparr>) = J s"
      "I s \<Longrightarrow> I (s\<lparr>k_fault := (case k_fault s of None \<Rightarrow> Some OutOfBounds | Some g \<Rightarrow> Some g)\<rparr>)"
    and locked: "I s \<Longrightarrow> J (exec lock_mLock s)"
    and unlocked [simp]: "J s \<Longrightarrow> I (s\<lparr>mLock := False\<rparr>)"
begin

lemma preproc: "preserves I (msm72xx_enable_preproc E en)"
  unfolding msm72xx_enable_preproc_def Let_def by (intro pres) simp_all

lemma in_fail: "preserves J (in_fail E st v f c r)"
  unfolding in_fail_def by (intro pres) simp_all

lemma in_opened: "preserves J (in_opened E v f c r)"
  unfolding in_opened_def Let_def by (intro pres in_fail) simp_all

lemma in_set: "preserves J (in_set E d f c r v)"
  unfolding in_set_def in_set_pcm_def in_set_memo_def in_set_aac_def Let_def
  by (intro pres in_fail in_opened) simp_all

lemma in_standby: "preserves I (in_standby E v)"
  unfolding in_standby_def clearCurDevice_def Let_def by (intro pres routing preproc) simp_all

lemma in_start: "preserves I (in_start E v)"
  unfolding in_start_def clearCurDevice_def Let_def
  by (intro pres routing preproc in_standby) simp_all

lemma in_reopen: "preserves I (in_reopen E v)"
proof (rule preservesI)
  fix s assume "I s"
  then have "J (exec lock_mLock s)" by (rule locked)
  from preservesD [OF in_set this] show "I (exec (in_reopen E v) s)"
    unfolding in_reopen_def exec_bind result_bind
    by (simp only: exec_bind exec_unlock unlocked exec_let exec_return split_beta Let_def)
qed

lemma in_read_loop: "preserves I (in_read_loop E fuel fd aac cnt a)"
proof (induction fuel arbitrary: cnt a)
  case 0
  then show ?case by (simp add: in_read_loop.simps pres)
next
  case (Suc n)
  then show ?case
    by (subst in_read_loop.simps) (simp add: Let_def, intro pres impI conjI, simp_all)
qed

lemma in_deliver: "preserves I (in_deliver E fuel v n)"
  unfolding in_deliver_def Let_def
  by (intro pres in_read_loop; simp split: in_end.split add: pres)

lemma in_read: "preserves I (in_read E fuel v n)"
  unfolding in_read_def by (simp, intro pres impI conjI in_reopen in_start in_deliver)

lemma in_setParameters: "preserves I (in_setParameters E ps v)"
  unfolding in_setParameters_def Let_def by (intro pres routing)

end

interpretation streams_kept: record_frame E "\<lambda>s. streams s = v" "\<lambda>s. streams s = v" for E v
  by unfold_locales (use keeps_streams.routing in \<open>simp_all add: streams_def\<close>)

lemma free_own [simp]:
  "free (s\<lparr>fmA2dp := a\<rparr>) = free s"
  "free (s\<lparr>post_proc_feature_mask := m\<rparr>) = free s"
  "free (s\<lparr>new_post_proc_feature_mask := m\<rparr>) = free s"
  "free (s\<lparr>hpcm_playback_in_progress := b\<rparr>) = free s"
  "free (s\<lparr>mOutput := st\<rparr>) = free s"
  "free (s\<lparr>mInputs := is\<rparr>) = free s"
  "free (s\<lparr>instanceCount := n\<rparr>) = free s"
  "busy (s\<lparr>audpre_index := x\<rparr>) = busy s"
  "busy (s\<lparr>instanceCount := n\<rparr>) = busy s"
  "busy (s\<lparr>mInputs := is\<rparr>) = busy s"
  "busy (s\<lparr>mOutput := st\<rparr>) = busy s"
  "busy (s\<lparr>hpcm_playback_in_progress := b\<rparr>) = busy s"
  "busy (s\<lparr>mDirectOutrefCnt := n\<rparr>) = busy s"
  by (simp_all add: free_def busy_def routed_def)

lemma free_fault [simp]:
  "f \<noteq> SelfDeadlock \<Longrightarrow> free (s\<lparr>k_fault := (case k_fault s of None \<Rightarrow> Some f | Some g \<Rightarrow> Some g)\<rparr>) = free s"
  "f \<noteq> SelfDeadlock \<Longrightarrow> busy (s\<lparr>k_fault := (case k_fault s of None \<Rightarrow> Some f | Some g \<Rightarrow> Some g)\<rparr>) = busy s"
  by (auto simp: free_def busy_def routed_def split: option.split)

lemma lock_busy [simp]: "free s \<Longrightarrow> busy (exec lock_mLock s)" "free s \<Longrightarrow> busy (s\<lparr>mLock := True\<rparr>)"
  by (simp_all add: free_def busy_def)

lemma unlock_free [simp]: "busy s \<Longrightarrow> free (s\<lparr>mLock := False\<rparr>)"
  by (simp add: free_def busy_def)

interpretation free_kept: record_frame E free busy for E
proof unfold_locales
  show "preserves free (doRouting E i od)" for i od by (rule doRouting_free)
qed (simp_all del: exec_lock)

text \<open>The same for the playback stream.\<close>

locale playback_frame =
  fixes E :: env and I :: "hw \<Rightarrow> bool"
  assumes postproc: "preserves I (msm72xx_enable_postproc E en)"
    and own [simp]: "I s \<Longrightarrow> \<not> is_route c \<Longrightarrow> I (s\<lparr>k_log := k_log s @ [(c, r)]\<rparr>)"
      "I (s\<lparr>mOutput := st\<rparr>) = I s" "I (s\<lparr>hpcm_playback_in_progress := b\<rparr>) = I s"
      "I (s\<lparr>post_proc_feature_mask := m\<rparr>) = I s"
begin

lemma upd: "preserves I (upd_out f)"
  unfolding upd_out_def by (intro pres) simp

lemma start: "preserves I (out72_start E)"
  unfolding out72_start_def by (intro pres upd postproc) simp_all

lemma opened: "preserves I (out72_open E)"
  unfolding out72_open_def by (intro pres upd) simp_all

lemma loop: "preserves I (out72_write_loop E fuel cnt)"
proof (induction fuel arbitrary: cnt)
  case 0
  then show ?case by (simp add: out72_write_loop.simps pres)
next
  case (Suc n)
  then show ?case
    by (subst out72_write_loop.simps) (simp, intro pres impI conjI upd, simp_all)
qed

lemma out72_write: "preserves I (out72_write E fuel n)"
  unfolding out72_write_def
  by (intro pres upd opened loop; simp split: loop_end.split add: pres start)

lemma out72_standby: "preserves I (out72_standby E)"
  unfolding out72_standby_def by (intro pres upd postproc) simp_all

lemma out72_delete: "preserves I (out72_delete E)"
  unfolding out72_delete_def by (intro pres) simp_all

end

definition others :: "hw \<Rightarrow> outdirect option \<times> (nat \<times> instream) list \<times> (nat \<times> voipin) list \<times> int \<times> int" where
  "others s = (mDirectOutput s, mInputs s, mVoipInputs s, instanceCount s, m7xsnddriverfd s)"

interpretation others_played: playback_frame E "\<lambda>s. others s = v" for E v
proof unfold_locales
  show "preserves (\<lambda>s. others s = v) (msm72xx_enable_postproc E en)" for en
    by (rule postproc_pres) (simp_all add: others_def)
qed (simp_all add: others_def)

interpretation free_played: playback_frame E free for E
proof unfold_locales
  show "preserves free (msm72xx_enable_postproc E en)" for en
    by (rule postproc_pres) simp_all
qed simp_all

interpretation busy_played: playback_frame E busy for E
proof unfold_locales
  show "preserves busy (msm72xx_enable_postproc E en)" for en
    by (rule postproc_pres) simp_all
qed simp_all

text \<open>
  Parameters for the playback stream that say nothing on the FM radio: a volume, a route, and the
  stream's own note of its devices.
\<close>

lemma removed_None: "par_get ps k = None \<Longrightarrow> par_getInt E (if b then par_remove j ps else ps) k = None"
proof -
  assume "par_get ps k = None"
  then have "k \<notin> fst ` set ps" by (simp add: par_get_def map_of_eq_None_iff)
  then have "map_of (filter f ps) k = None" "map_of ps k = None" for f
    by (auto simp: map_of_eq_None_iff)
  then show ?thesis by (simp add: par_getInt_def par_get_def par_remove_def)
qed

lemma out72_params_frame:
  assumes "par_get ps (e_keyHandleFm E) = None" "\<And>v. preserves I (setFmVolume E v)"
    "preserves I (doRouting E None 0)" "\<And>d. preserves I (upd_out (\<lambda>st. st\<lparr>o_devices := d\<rparr>))"
  shows "preserves I (out72_setParameters E ps)"
  unfolding out72_setParameters_def Let_def removed_None [OF assms(1)] by (intro pres assms(2-4); simp)

lemma out_ok_same:
  "mOutput t = mOutput s \<Longrightarrow> live (k_log t) = live (k_log s) \<Longrightarrow> out_ok b t = out_ok b s"
  by (simp add: out_ok_def out_owned_def)

lemma out_ok_control:
  "preserves (out_ok b) (doRouting E i d)" "preserves (out_ok b) (setFmVolume E v)"
proof -
  have f: "mOutput (exec (doRouting E i d) s) = mOutput s" "mOutput (exec (setFmVolume E v) s) = mOutput s" for s
    using preservesD [OF keeps_fixed.routing refl, of E i d s] preservesD [OF keeps_fixed.volumes(2) refl, of E v s]
    by (simp_all add: fixed_def)
  have l: "live (k_log (exec (doRouting E i d) s)) = live (k_log s)"
    "live (k_log (exec (setFmVolume E v) s)) = live (k_log s)" for s
    using preservesD [OF keeps_live.routing refl, of E i d s] preservesD [OF keeps_live.volumes(2) refl, of E v s]
    by simp_all
  show "preserves (out_ok b) (doRouting E i d)" "preserves (out_ok b) (setFmVolume E v)"
    using out_ok_same [OF f(1) l(1)] out_ok_same [OF f(2) l(2)] by (simp_all add: preserves_def)
qed

lemma out_ok_devices: "preserves (out_ok b) (upd_out (\<lambda>st. st\<lparr>o_devices := d\<rparr>))"
  by (rule preservesI) (auto simp: out_ok_def out_owned_def)

lemma streams_others: "streams t = streams s \<Longrightarrow> others t = others s"
  by (simp add: streams_def others_def)

lemma others_control:
  "preserves (\<lambda>s. others s = v) (doRouting E i d)" "preserves (\<lambda>s. others s = v) (setFmVolume E x)"
  using streams_others [OF preservesD [OF keeps_streams.routing refl, of E i d]]
    streams_others [OF preservesD [OF keeps_streams.volumes(2) refl, of E x]]
  by (simp_all add: preserves_def)

lemma out72_params_ok:
  assumes "par_get ps (e_keyHandleFm E) = None"
  shows "preserves (out_ok b) (out72_setParameters E ps)" "preserves free (out72_setParameters E ps)"
    "preserves (\<lambda>s. others s = v) (out72_setParameters E ps)"
proof -
  show "preserves (out_ok b) (out72_setParameters E ps)"
    by (rule out72_params_frame [where I = "out_ok b", OF assms]) (fact out_ok_control out_ok_devices)+
  show "preserves free (out72_setParameters E ps)"
    by (rule out72_params_frame [where I = free, OF assms]) (fact volume_free doRouting_free free_played.upd)+
  show "preserves (\<lambda>s. others s = v) (out72_setParameters E ps)"
    by (rule out72_params_frame [where I = "\<lambda>s. others s = v", OF assms]) (fact others_control others_played.upd)+
qed

section \<open>Clients of playback and recording\<close>

text \<open>An operation on the recording stream at an address, which stays the same object.\<close>

definition on_input :: "nat \<Rightarrow> (instream \<Rightarrow> (hw, 'r \<times> instream) state) \<Rightarrow> (hw, unit) state" where
  "on_input a m = do {
     iv \<leftarrow> gets (\<lambda>s. map_of (mInputs s) a);
     (case iv of
        None \<Rightarrow> ret ()
      | Some v \<Rightarrow> do {
          (r, w) \<leftarrow> m v;
          modify (\<lambda>s. s\<lparr>mInputs := map (\<lambda>(b, u). (b, if b = a then w else u)) (mInputs s)\<rparr>)
        })
   }"

text \<open>The calls of such clients, in any order and interleaved with control calls.\<close>

inductive media :: "env \<Rightarrow> hal \<Rightarrow> hal \<Rightarrow> bool" for E where
  open_out: "a \<noteq> 0 \<Longrightarrow> \<not> (f_direct fl \<and> f_voip_rx fl) \<Longrightarrow> \<not> f_lpa fl \<Longrightarrow>
     media E s (exec (openOutputStream E a mem fl dev fmt ch rate) s)"
| close_out: "media E s (exec (closeOutputStream E p) s)"
| out_write: "hal_out s \<noteq> 0 \<Longrightarrow> media E s (exec (on_hw (out72_write E fuel n)) s)"
| out_standby: "hal_out s \<noteq> 0 \<Longrightarrow> media E s (exec (on_hw (out72_standby E)) s)"
| out_params: "hal_out s \<noteq> 0 \<Longrightarrow> par_get ps (e_keyHandleFm E) = None \<Longrightarrow>
     media E s (exec (on_hw (out72_setParameters E ps)) s)"
| open_in: "a \<noteq> 0 \<Longrightarrow> a \<notin> fst ` set (mInputs (hal_hw s)) \<Longrightarrow> dev \<noteq> e_dev E IN_COMMUNICATION \<Longrightarrow>
     media E s (exec (on_hw (openInputStream E a junk dev fmt ch rate)) s)"
| close_in: "media E s (exec (on_hw (closeInputStream E a)) s)"
| in_read: "media E s (exec (on_hw (on_input a (\<lambda>v. in_read E fuel v m))) s)"
| in_standby: "media E s (exec (on_hw (on_input a (in_standby E))) s)"
| in_params: "media E s (exec (on_hw (on_input a (in_setParameters E ps))) s)"
| control: "\<not> is_fm_event e \<Longrightarrow> media E s (s\<lparr>hal_hw := ctl_step E e (hal_hw s)\<rparr>)"

text \<open>
  The invariant: the lock is free and never taken twice, there are at most one playback and one
  recording stream, and besides \<open>base\<close> they own all descriptors.
\<close>

definition in_part :: "hw \<Rightarrow> int multiset" where
  "in_part h = (case mInputs h of [] \<Rightarrow> {#} | (a, v) # _ \<Rightarrow> in_owned v)"

definition recordings_ok :: "hw \<Rightarrow> bool" where
  "recordings_ok h \<longleftrightarrow>
     instanceCount h = int (length (mInputs h)) \<and> mDirectOutput h = None \<and> mVoipInputs h = []
     \<and> (mInputs h = [] \<or> (\<exists>a v. mInputs h = [(a, v)] \<and> (i_state v = IN_CLOSED \<longrightarrow> i_fd v < 0)))"

definition playback_ok :: "hw \<Rightarrow> bool" where
  "playback_ok h \<longleftrightarrow> (\<forall>st. mOutput h = Some st \<longrightarrow> (o_standby st \<longleftrightarrow> o_fd st < 0))"

definition media_hw :: "int multiset \<Rightarrow> hw \<Rightarrow> bool" where
  "media_hw base h \<longleftrightarrow> free h \<and> recordings_ok h \<and> playback_ok h
     \<and> live (k_log h) = base + out_owned h + in_part h"

definition media_ok :: "int multiset \<Rightarrow> hal \<Rightarrow> bool" where
  "media_ok base s \<longleftrightarrow> media_hw base (hal_hw s) \<and> (hal_out s = 0 \<longleftrightarrow> mOutput (hal_hw s) = None)
     \<and> hal_direct s = 0 \<and> hal_sessions s = []"

lemma parts_frame:
  "streams t = streams s \<Longrightarrow> recordings_ok t = recordings_ok s"
  "streams t = streams s \<Longrightarrow> playback_ok t = playback_ok s"
  "streams t = streams s \<Longrightarrow> out_owned t = out_owned s"
  "streams t = streams s \<Longrightarrow> in_part t = in_part s"
  "others t = others s \<Longrightarrow> recordings_ok t = recordings_ok s"
  "others t = others s \<Longrightarrow> in_part t = in_part s"
  by (simp_all add: streams_def others_def recordings_ok_def playback_ok_def out_owned_def in_part_def)

text \<open>Playback: the recording part of the descriptors is what others hold.\<close>

lemma playback_step:
  assumes "media_hw base s" "mOutput s \<noteq> None" "preserves (out_ok (base + in_part s)) m"
    "preserves free m" "\<And>v. preserves (\<lambda>s. others s = v) m"
  shows "media_hw base (exec m s) \<and> mOutput (exec m s) \<noteq> None"
proof -
  have "out_ok (base + in_part s) s"
    using assms(1,2) by (auto simp: media_hw_def out_ok_def playback_ok_def)
  from preservesD [OF assms(3) this] have ok: "out_ok (base + in_part s) (exec m s)" .
  have o: "others (exec m s) = others s" using preservesD [OF assms(5)] by blast
  have "free (exec m s)" using preservesD [OF assms(4)] assms(1) by (simp add: media_hw_def)
  with ok assms(1) show ?thesis
    by (auto simp: media_hw_def out_ok_def playback_ok_def parts_frame(5,6) [OF o] ac_simps)
qed

text \<open>Recording: likewise with the playback part, for an operation on the stream itself.\<close>

lemma recording_step:
  assumes "media_hw base s"
    and "\<And>b v. rec_ok b (s, v) \<Longrightarrow> rec_ok b (exec (m v) s, snd (result (m v) s))"
    and "\<And>v. preserves free (m v)" "\<And>v x. preserves (\<lambda>s. streams s = x) (m v)"
  shows "media_hw base (exec (on_input a m) s) \<and> mOutput (exec (on_input a m) s) = mOutput s"
proof (cases "map_of (mInputs s) a")
  case None
  then show ?thesis using assms(1) by (simp add: on_input_def)
next
  case (Some v)
  then have ins: "mInputs s = [(a, v)]" "i_state v = IN_CLOSED \<longrightarrow> i_fd v < 0"
    using assms(1) by (auto simp: media_hw_def recordings_ok_def split: if_splits)
  define t w where "t = exec (m v) s" and "w = snd (result (m v) s)"
  have "rec_ok (base + out_owned s) (s, v)"
    using assms(1) ins by (simp add: media_hw_def rec_ok_def in_part_def)
  from assms(2) [OF this] have ok: "rec_ok (base + out_owned s) (t, w)" by (simp add: t_def w_def)
  have st: "streams t = streams s" using preservesD [OF assms(4)] by (simp add: t_def)
  have fr: "free t" using preservesD [OF assms(3)] assms(1) by (simp add: t_def media_hw_def)
  have ex: "exec (on_input a m) s = t\<lparr>mInputs := [(a, w)]\<rparr>"
    using ins st by (cases "result (m v) s") (simp add: on_input_def t_def w_def streams_def)
  show ?thesis
    using assms(1) ok st fr ins
    by (auto simp: ex media_hw_def rec_ok_def recordings_ok_def playback_ok_def streams_def in_part_def out_owned_def
        ac_simps)
qed

lemma in_set_busy: "1 < instanceCount s \<Longrightarrow> in_set E d f c r v = in_set E d f c r v \<and>
    exec (in_set E d f c r v) s = s \<and> fst (result (in_set E d f c r v) s) = E_BUSY"
  by (simp add: in_set_def)

lemma in_delete_frame:
  "streams (exec (in_delete E v) s) = streams (s\<lparr>instanceCount := instanceCount s - 1\<rparr>)"
  "free s \<Longrightarrow> free (exec (in_delete E v) s)"
  using preservesD [OF streams_kept.in_standby refl, of E v "s\<lparr>instanceCount := instanceCount s - 1\<rparr>"]
    preservesD [OF free_kept.in_standby, of "s\<lparr>instanceCount := instanceCount s - 1\<rparr>" E v]
  by (simp_all add: in_delete_def)

text \<open>What a failed \<open>set\<close> leaves is released by the destructor, what a successful one leaves is new.\<close>

lemma open_recording_step:
  assumes "no_stdin E" "media_hw base s"
  shows "media_hw base (exec (do { lock_mLock; open_recording E a junk dev fmt ch rate }) s)
    \<and> mOutput (exec (do { lock_mLock; open_recording E a junk dev fmt ch rate }) s) = mOutput s"
proof -
  let ?v = "(in_new E)\<lparr>i_firstread := junk\<rparr>"
  define s1 where "s1 = s\<lparr>mLock := True, instanceCount := instanceCount s + 1\<rparr>"
  have nl: "\<not> mLock s" using assms(2) by (simp add: media_hw_def free_def)
  obtain st w f c r where m: "result (in_set E dev fmt ch rate ?v) s1 = (st, w, f, c, r)"
    by (cases "result (in_set E dev fmt ch rate ?v) s1")
  define t where "t = exec (in_set E dev fmt ch rate ?v) s1"
  have b1: "busy s1" using assms(2) by (simp add: s1_def media_hw_def)
  then have b: "busy t" using preservesD [OF free_kept.in_set] by (simp add: t_def)
  have str: "streams t = (mOutput s, None, mInputs s, [], instanceCount s + 1, m7xsnddriverfd s)"
    using preservesD [OF streams_kept.in_set refl, of E dev fmt ch rate ?v s1] assms(2)
    by (simp add: t_def s1_def streams_def media_hw_def recordings_ok_def)
  have l1: "live (k_log s1) = live (k_log s)" by (simp add: s1_def)
  have ex: "exec (do { lock_mLock; open_recording E a junk dev fmt ch rate }) s =
     (if st \<noteq> NO_ERROR then exec (in_delete E w) (t\<lparr>mLock := False\<rparr>)
      else t\<lparr>mInputs := insert_at a w (mInputs t), mLock := False\<rparr>)"
    using m nl by (simp add: open_recording_def in_construct_def s1_def t_def)
  have out: "in_outcome s1 t (?v\<lparr>i_hw := i_hw w\<rparr>) fmt (st, w, f, c, r)"
    using in_set_outcome [OF assms(1), of ?v s1 dev fmt ch rate] m by (simp add: in_new_def t_def)
  show ?thesis
  proof (cases "st = NO_ERROR")
    case True
    have "mInputs s = []"
    proof (rule ccontr)
      assume "mInputs s \<noteq> []"
      then have "1 < instanceCount s1"
        using assms(2) by (auto simp: s1_def media_hw_def recordings_ok_def)
      then show False using in_set_busy [of s1 E dev fmt ch rate ?v] m True by simp
    qed
    then show ?thesis
      unfolding ex using True out l1 b str assms(2)
      by (auto simp: in_outcome_def media_hw_def recordings_ok_def playback_ok_def streams_def in_part_def
          out_owned_def insert_at_def in_owned_def)
  next
    case False
    then have fd: "i_fd w < 0" and l: "live (k_log t) = live (k_log s)"
      using out l1 by (simp_all add: in_outcome_def)
    let ?t = "exec (in_delete E w) (t\<lparr>mLock := False\<rparr>)"
    have "streams ?t = streams s"
      using str assms(2) by (simp add: in_delete_frame) (simp add: streams_def media_hw_def recordings_ok_def)
    moreover have "free ?t" using b by (intro in_delete_frame) simp
    moreover have "live (k_log ?t) = live (k_log s)"
      using l fd by (simp add: in_delete_def in_standby_effect in_owned_def)
    ultimately show ?thesis
      unfolding ex using False assms(2) by (auto simp: media_hw_def parts_frame(1-4) [of ?t s]) (simp add: streams_def)
  qed
qed

lemma unlocked_same: "\<not> mLock s \<Longrightarrow> s\<lparr>mLock := False\<rparr> = s"
  by simp

lemma openInputStream_step:
  assumes "no_stdin E" "media_hw base s" "dev \<noteq> e_dev E IN_COMMUNICATION"
  shows "media_hw base (exec (openInputStream E a junk dev fmt ch rate) s)
    \<and> mOutput (exec (openInputStream E a junk dev fmt ch rate) s) = mOutput s"
proof -
  have nl: "\<not> mLock s" using assms(2) by (simp add: media_hw_def free_def)
  have "exec (openInputStream E a junk dev fmt ch rate) s = (if \<not> e_isInput E dev then s
      else if mMode s = MODE_IN_CALL \<and> getInputSampleRate rate > 8000 \<and> fmt = PCM_16_BIT then s\<lparr>mLock := False\<rparr>
      else exec (do { lock_mLock; open_recording E a junk dev fmt ch rate }) s)"
    using assms(3) nl by (simp add: openInputStream_def)
  moreover have "s\<lparr>mLock := False\<rparr> = s" using nl by simp
  ultimately show ?thesis using open_recording_step [OF assms(1,2)] assms(2) by (simp del: exec_bind)
qed

lemma closeInputStream_step:
  assumes "media_hw base s"
  shows "media_hw base (exec (closeInputStream E a) s) \<and> mOutput (exec (closeInputStream E a) s) = mOutput s
    \<and> (a \<in> fst ` set (mInputs s) \<longrightarrow> mInputs (exec (closeInputStream E a) s) = [])
    \<and> m7xsnddriverfd (exec (closeInputStream E a) s) = m7xsnddriverfd s"
proof -
  have f: "free s" and nl: "\<not> mLock s" using assms by (simp_all add: media_hw_def free_def)
  have v: "mVoipInputs s = []" using assms by (simp add: media_hw_def recordings_ok_def)
  show ?thesis
  proof (cases "map_of (mInputs s) a")
    case None
    then have "exec (closeInputStream E a) s = s\<lparr>mLock := False\<rparr>"
      using nl v by (simp add: closeInputStream_def autolock_def)
    then show ?thesis using assms unlocked_same [OF nl] None by (simp add: map_of_eq_None_iff)
  next
    case (Some u)
    then have ins: "mInputs s = [(a, u)]" "i_state u = IN_CLOSED \<longrightarrow> i_fd u < 0"
      using assms by (auto simp: media_hw_def recordings_ok_def split: if_splits)
    define t where "t = exec (in_delete E u) s"
    have s0: "s\<lparr>mLock := True\<rparr>\<lparr>mLock := False\<rparr> = s" using nl by simp
    have ft: "free t" and st: "streams t = streams (s\<lparr>instanceCount := instanceCount s - 1\<rparr>)"
      using in_delete_frame f by (simp_all add: t_def)
    have "rec_ok (base + out_owned s) (s, u)"
      using assms ins by (simp add: media_hw_def rec_ok_def in_part_def)
    then have l: "live (k_log t) = base + out_owned s" unfolding t_def by (rule in_delete_live)
    have nt: "\<not> mLock t" using ft by (simp add: free_def)
    have ex: "exec (closeInputStream E a) s = t\<lparr>mInputs := [], mLock := False\<rparr>"
      using nl ins(1) st nt unfolding closeInputStream_def autolock_def
      by (simp add: t_def streams_def remove_at_def unlocked_same [OF nl])
    show ?thesis
      unfolding ex using assms ins l ft st nt
      by (auto simp: media_hw_def recordings_ok_def playback_ok_def streams_def in_part_def out_owned_def free_def
          routed_def)
  qed
qed

lemma out72_set_shape:
  "\<exists>v f c r. out72_set E dev fmt ch rate out72_new = (NO_ERROR, v, f, c, r) \<and> o_fd v = -1 \<and> o_standby v"
  by (auto simp: out72_set_def Let_def out72_new_def)

lemma openOutputStream_step:
  assumes "media_ok base s" "a \<noteq> 0" "\<not> (f_direct fl \<and> f_voip_rx fl)" "\<not> f_lpa fl"
  shows "media_ok base (exec (openOutputStream E a mem fl dev fmt ch rate) s)"
proof -
  have f: "free (hal_hw s)" and nl: "\<not> mLock (hal_hw s)"
    using assms(1) by (simp_all add: media_ok_def media_hw_def free_def)
  obtain v f' c r where v: "out72_set E dev fmt ch rate out72_new = (NO_ERROR, v, f', c, r)"
      "o_fd v = -1" "o_standby v"
    using out72_set_shape by blast
  have ex: "exec (openOutputStream E a mem fl dev fmt ch rate) s =
      (if hal_out s \<noteq> 0 then s\<lparr>hal_hw := (hal_hw s)\<lparr>mLock := False\<rparr>\<rparr>
       else s\<lparr>hal_hw := (hal_hw s)\<lparr>mLock := False, mOutput := Some v\<rparr>, hal_out := a\<rparr>)"
    using assms(3,4) nl v(1) by (auto simp: openOutputStream_def open_playback_def)
  show ?thesis
    unfolding ex using assms(1,2) f v(2,3) nl
    by (auto simp: media_ok_def media_hw_def recordings_ok_def playback_ok_def out_owned_def in_part_def free_def
        routed_def)
qed

lemma closeOutputStream_step:
  assumes "media_ok base s"
  shows "media_ok base (exec (closeOutputStream E p) s)
    \<and> (p = hal_out s \<longrightarrow> hal_out (exec (closeOutputStream E p) s) = 0)
    \<and> mInputs (hal_hw (exec (closeOutputStream E p) s)) = mInputs (hal_hw s)
    \<and> m7xsnddriverfd (hal_hw (exec (closeOutputStream E p) s)) = m7xsnddriverfd (hal_hw s)"
proof -
  let ?h = "hal_hw s"
  have nl: "\<not> mLock ?h" and f: "free ?h" using assms by (simp_all add: media_ok_def media_hw_def free_def)
  have d: "hal_direct s = 0" "hal_sessions s = []" using assms by (simp_all add: media_ok_def)
  consider (play) "hal_out s = p" "p \<noteq> 0" | (no) "hal_out s \<noteq> p \<or> p = 0" by blast
  then show ?thesis
  proof cases
    case play
    let ?b = "base + in_part ?h"
    have "out_ok ?b (?h\<lparr>mLock := True\<rparr>)"
      using assms play by (auto simp: media_ok_def media_hw_def out_ok_def playback_ok_def out_owned_def ac_simps)
    then have l: "live (k_log (exec (out72_delete E) (?h\<lparr>mLock := True\<rparr>))) = ?b" by (rule out72_delete_live)
    define t where "t = exec (out72_delete E) (?h\<lparr>mLock := True\<rparr>)"
    have "busy t" using preservesD [OF busy_played.out72_delete, of "?h\<lparr>mLock := True\<rparr>" E] f by (simp add: t_def)
    moreover have o: "others t = others ?h"
      using preservesD [OF others_played.out72_delete refl, of E "?h\<lparr>mLock := True\<rparr>"]
      by (simp add: t_def others_def)
    moreover have "mOutput t = None" by (simp add: t_def out72_delete_def)
    moreover have "exec (closeOutputStream E p) s = s\<lparr>hal_hw := t\<lparr>mLock := False\<rparr>, hal_out := 0\<rparr>"
      using play nl by (simp add: closeOutputStream_def t_def)
    ultimately show ?thesis
      using assms l parts_frame(5,6) [OF o]
      by (auto simp: media_ok_def media_hw_def playback_ok_def out_owned_def t_def [symmetric] others_def
          recordings_ok_def in_part_def)
  next
    case no
    show ?thesis
      using assms no nl d
      by (auto simp: closeOutputStream_def on_session_def remove_at_def media_ok_def media_hw_def recordings_ok_def
          playback_ok_def out_owned_def in_part_def free_def routed_def split: option.splits if_splits)
  qed
qed

lemma ctl_step_streams: "\<not> is_fm_event e \<Longrightarrow> streams (ctl_step E e s) = streams s"
  by (cases e) (use keeps_streams.mode [THEN preservesD, OF refl] keeps_streams.mic [THEN preservesD, OF refl]
      keeps_streams.volumes [THEN preservesD, OF refl] keeps_streams.routing [THEN preservesD, OF refl]
      keeps_streams.parameters [THEN preservesD, OF refl] keeps_streams.voip_setup [THEN preservesD, OF refl] in auto)

lemma media_hw_control: "\<not> is_fm_event e \<Longrightarrow> media_hw base s \<Longrightarrow> media_hw base (ctl_step E e s)"
  using parts_frame(1-4) [OF ctl_step_streams, of e E s] control.step_good [of s E e]
  by (simp add: media_hw_def ctl_step_live)

inductive_cases mediaE: "media E s t"

lemma media_step:
  assumes "media E s t" "no_stdin E" "media_ok base s"
  shows "media_ok base t"
  using assms(1)
proof cases
  case (open_out a fl mem dev fmt ch rate)
  then show ?thesis using openOutputStream_step [OF assms(3)] by simp
next
  case (close_out p)
  then show ?thesis using closeOutputStream_step [OF assms(3)] by simp
next
  case (out_write fuel n)
  then show ?thesis
    using playback_step [OF _ _ out72_write_ok free_played.out72_write others_played.out72_write,
        of base "hal_hw s" E fuel n] assms(3)
    by (simp add: media_ok_def)
next
  case out_standby
  then show ?thesis
    using playback_step [OF _ _ out72_standby_ok free_played.out72_standby others_played.out72_standby,
        of base "hal_hw s" E] assms(3)
    by (simp add: media_ok_def)
next
  case (out_params ps)
  then show ?thesis
    using playback_step [OF _ _ out72_params_ok [OF out_params(3)], of base "hal_hw s"] assms(3)
    by (simp add: media_ok_def)
next
  case (open_in a dev junk fmt ch rate)
  then show ?thesis
    using openInputStream_step [OF assms(2), of base "hal_hw s" dev] assms(3) by (simp add: media_ok_def)
next
  case (close_in a)
  then show ?thesis using closeInputStream_step [of base "hal_hw s"] assms(3) by (simp add: media_ok_def)
next
  case (in_read a fuel m)
  then show ?thesis
    using recording_step [OF _ in_read_ok [OF assms(2)] free_kept.in_read streams_kept.in_read, of base "hal_hw s"]
      assms(3) by (simp add: media_ok_def)
next
  case (in_standby a)
  then show ?thesis
    using recording_step [OF _ in_standby_ok free_kept.in_standby streams_kept.in_standby, of base "hal_hw s"]
      assms(3) by (simp add: media_ok_def)
next
  case (in_params a ps)
  then show ?thesis
    using recording_step [OF _ in_setParameters_ok free_kept.in_setParameters streams_kept.in_setParameters,
        of base "hal_hw s"] assms(3) by (simp add: media_ok_def)
next
  case (control e)
  then show ?thesis
    using media_hw_control [of e base "hal_hw s" E] ctl_step_streams [of e E "hal_hw s"] assms(3)
    by (simp add: media_ok_def streams_def)
qed

lemma media_reachable:
  assumes "(media E)\<^sup>*\<^sup>* s t" "no_stdin E" "media_ok base s"
  shows "media_ok base t"
  using assms(1,3) by (induction rule: rtranclp_induct) (auto intro: media_step assms(2))


section \<open>Properties of the streams together\<close>

text \<open>
  Clients of playback and recording, in any order and interleaved with control calls,
  whatever the drivers answer, cannot block themselves: the lock is free between calls and
  never taken twice. There is at most one recording, and the two streams own every descriptor
  that was opened and not closed.
\<close>

theorem media_clients_safe:
  assumes "no_stdin E" "media_ok base s" "(media E)\<^sup>*\<^sup>* s t"
  shows "let h = hal_hw t
    in \<not> mLock h \<and> k_fault h \<noteq> Some SelfDeadlock \<and> length (mInputs h) \<le> 1
     \<and> live (k_log h) = base + out_owned h + in_part h"
  using media_reachable [OF assms(3,1,2)]
  by (auto simp: media_ok_def media_hw_def free_def recordings_ok_def Let_def)

text \<open>A HAL just constructed, with the sound driver on descriptor 3.\<close>

definition hal_new :: hal where
  "hal_new = \<lparr>hal_hw = hw_init\<lparr>m7xsnddriverfd := 3, k_log := [(Open ''/dev/msm_snd'', 3)]\<rparr>,
     hal_out = 0, hal_direct = 0, hal_lpa = 77, hal_sessions = []\<rparr>"

definition plain_flags :: out_flags where
  "plain_flags = \<lparr>f_direct = False, f_voip_rx = False, f_lpa = False\<rparr>"

lemma hal_new_ok: "media_ok {#3#} hal_new"
  by (simp add: media_ok_def media_hw_def hal_new_def recordings_ok_def playback_ok_def out_owned_def in_part_def
      free_def routed_def hw_init_def live_def)

lemma no_stdin_env: "no_stdin env_posix"
proof -
  have "3 + (\<Sum>x\<in>#live l. \<bar>x\<bar>) \<noteq> 0" for l
    using sum_of_abs [of "live l", THEN conjunct1] by linarith
  then show ?thesis by (simp add: no_stdin_def env_posix_def)
qed

lemma media_clients_witness:
  "length (mInputs (hal_hw (exec (on_hw (openInputStream env_posix 9 False 4 PCM_16_BIT 0x10 8000)) hal_new))) \<le> 1"
proof -
  have "media env_posix hal_new (exec (on_hw (openInputStream env_posix 9 False 4 PCM_16_BIT 0x10 8000)) hal_new)"
    by (rule media.open_in) (simp_all add: hal_new_def hw_init_def env_posix_def env0_def)
  from media_clients_safe [OF no_stdin_env hal_new_ok r_into_rtranclp [where r = "media env_posix", OF this]] show ?thesis
    by (simp only: Let_def)
qed



lemma nosync_fault: "preserves (\<lambda>s. k_fault s = x) (setMicMute_nosync E b)"
  unfolding setMicMute_nosync_def doAudioRouteOrMute_def do_route_audio_rpc_def Let_def
  by (intro pres switch_mode_pres) simp_all

lemma locked_mic_blocks:
  "mLock s \<Longrightarrow> k_fault s = None \<Longrightarrow> k_fault (exec (setMicMute E b) s) = Some SelfDeadlock"
  using preservesD [OF nosync_fault, of "s\<lparr>k_fault := Some SelfDeadlock, mLock := True\<rparr>" "Some SelfDeadlock" E b]
  by (simp add: setMicMute_def autolock_def)

text \<open>
  Closing the output of a call that still runs blocks for good: \<open>closeOutputStream\<close> holds
  \<open>mLock\<close> while the destructor puts the stream in standby, which unmutes the microphone under
  the same lock.
\<close>

theorem closing_running_call_blocks:
  assumes "hal_direct s = p" "p \<noteq> 0" "hal_out s \<noteq> p" "mDirectOutrefCnt (hal_hw s) \<le> 1"
    and "mDirectOutput (hal_hw s) \<noteq> None" "0 \<le> mVoipFd (hal_hw s)" "\<not> mVoipInActive (hal_hw s)"
    and "mMode (hal_hw s) \<noteq> MODE_IN_CALL" "fst (e_setMode E (mMode (hal_hw s)) MODE_NORMAL) \<noteq> BAD_VALUE"
    and "\<not> mLock (hal_hw s)" "\<not> mVoipLock (hal_hw s)" "k_fault (hal_hw s) = None"
  shows "k_fault (hal_hw (exec (closeOutputStream E p) s)) = Some SelfDeadlock"
proof -
  have voip: "k_fault (exec (setupDeviceforVoipCall E False) u) = Some SelfDeadlock"
    if "mLock u" "k_fault u = None" "mMode u = mMode (hal_hw s)" for u
    using that assms(8,9) locked_mic_blocks
    by (auto simp: setupDeviceforVoipCall_def setMode_def clearCurDevice_def split: prod.split)
  obtain d where d: "mDirectOutput (hal_hw s) = Some d" using assms(5) by auto
  have "k_fault (exec (outdirect_delete E) u) = Some SelfDeadlock"
    if "mLock u" "k_fault u = None" "mMode u = mMode (hal_hw s)" "0 \<le> mVoipFd u" "\<not> mVoipInActive u"
      "\<not> mVoipLock u" for u
    using that by (simp add: outdirect_delete_def outdirect_standby_def autolock_voip_def voip)
  then show ?thesis
    using assms by (simp add: closeOutputStream_def)
qed

text \<open>An output that runs alone, in communication mode.\<close>

definition hal_call :: hal where
  "hal_call = \<lparr>hal_hw = call_hw\<lparr>mVoipFd := 5, mVoipOutActive := True, mMode := MODE_IN_COMMUNICATION,
       mDirectOutrefCnt := 1\<rparr>,
     hal_out = 0, hal_direct = 8, hal_lpa = 0, hal_sessions = []\<rparr>"

lemma closing_call_witness: "k_fault (hal_hw (exec (closeOutputStream env0 8) hal_call)) = Some SelfDeadlock"
  by (rule closing_running_call_blocks)
    (simp_all add: hal_call_def call_hw_def speaker_hw_def hw_init_def env0_def)

lemma map_of_updated: "p \<noteq> a \<Longrightarrow> map_of (map (\<lambda>(b, k). (b, if b = a then t else k)) xs) p = map_of xs p"
  by (induction xs) auto

lemma map_of_removed: "p \<noteq> a \<Longrightarrow> map_of (remove_at a xs) p = map_of xs p"
  by (induction xs) (auto simp: remove_at_def)

lemma on_session_frame:
  "hal_lpa (exec (on_session a m) s) = hal_lpa s" "hal_out (exec (on_session a m) s) = hal_out s"
  "hal_direct (exec (on_session a m) s) = hal_direct s"
  "mLock (hal_hw (exec (on_session a m) s)) = mLock (hal_hw s)"
  "p \<noteq> a \<Longrightarrow> map_of (hal_sessions (exec (on_session a m) s)) p = map_of (hal_sessions s) p"
  by (auto simp: on_session_def session_back_def map_of_updated Let_def split: option.split)

lemma open_session_frame:
  assumes "p \<noteq> a"
  shows "hal_lpa (exec (open_session E a mem fmt ch rate) s) \<in> {0, a}"
    "hal_out (exec (open_session E a mem fmt ch rate) s) = hal_out s"
    "hal_direct (exec (open_session E a mem fmt ch rate) s) = hal_direct s"
    "map_of (hal_sessions s) p = Some l \<Longrightarrow>
       map_of (hal_sessions (exec (open_session E a mem fmt ch rate) s)) p = Some l"
  using assms by (simp_all add: open_session_def on_session_frame map_of_removed)

text \<open>
  A second low power session makes the HAL forget the first: closing the first is then
  refused, no other call reaches it, and what it opened stays open for as long as the process
  runs.
\<close>

theorem second_session_forgets_first:
  assumes "hal_lpa s = p" "map_of (hal_sessions s) p = Some l" "p \<noteq> 0" "a \<noteq> p"
    and "hal_out s \<noteq> p" "hal_direct s \<noteq> p" "f_lpa fl" "\<not> f_direct fl" "\<not> mLock (hal_hw s)"
  shows "let t = exec (openOutputStream E a mem fl dev fmt ch rate) s; u = exec (closeOutputStream E p) t
    in map_of (hal_sessions u) p = Some l \<and> k_log (hal_hw u) = k_log (hal_hw t)
     \<and> hal_lpa u \<noteq> p \<and> hal_out u \<noteq> p \<and> hal_direct u \<noteq> p"
proof -
  let ?t = "exec (openOutputStream E a mem fl dev fmt ch rate) s"
  have t: "hal_lpa ?t \<in> {0, a}" "map_of (hal_sessions ?t) p = Some l" "hal_out ?t = hal_out s"
    "hal_direct ?t = hal_direct s" "\<not> mLock (hal_hw ?t)"
    using assms open_session_frame [OF assms(4) [symmetric]] by (simp_all add: openOutputStream_def)
  have "exec (closeOutputStream E p) ?t = ?t"
    using t assms(3-6) by (auto simp: closeOutputStream_def)
  then show ?thesis using t assms(3-6) by (auto simp: Let_def)
qed

lemma second_session_witness:
  "map_of (hal_sessions (exec (closeOutputStream env0 8)
      (exec (openOutputStream env0 9 lpa_memory (plain_flags\<lparr>f_lpa := True\<rparr>) 2 PCM_16_BIT 3 44100)
        (hal_new\<lparr>hal_lpa := 8, hal_sessions := [(8, lpa_new)]\<rparr>)))) 8 = Some lpa_new"
  using second_session_forgets_first [of "hal_new\<lparr>hal_lpa := 8, hal_sessions := [(8, lpa_new)]\<rparr>" 8 lpa_new 9
      "plain_flags\<lparr>f_lpa := True\<rparr>" env0 lpa_memory 2 PCM_16_BIT 3 44100]
  by (simp add: hal_new_def plain_flags_def hw_init_def Let_def)

end
