(* ===== verification/PolicyTypes.thy ===== *)
theory PolicyTypes
  imports HwTypes
begin

text \<open>
  The state of the audio policy manager and what it stands on. \<open>AudioPolicyManager\<close> derives from
  \<open>AudioPolicyManagerBase\<close>, which is not in the repository: its methods are the fields of
  \<open>pbase\<close>, arbitrary functions and state changes, and so are the constants of
  \<open>system/audio.h\<close>. The calls to the client interface are a log.
\<close>

section \<open>Constants\<close>

text \<open>\<open>AUDIO_DEVICE_OUT_*\<close> and \<open>AUDIO_DEVICE_IN_*\<close>\<close>

datatype adev =
    O_EARPIECE | O_SPEAKER | O_WIRED_HEADSET | O_WIRED_HEADPHONE | O_SCO | O_SCO_HEADSET
  | O_SCO_CARKIT | O_A2DP | O_A2DP_HEADPHONES | O_A2DP_SPEAKER | O_AUX_DIGITAL | O_ANLG_DOCK
  | O_DGTL_DOCK | O_USB_ACCESSORY | O_USB_DEVICE | O_REMOTE_SUBMIX | O_FM | O_ALL_A2DP
  | I_COMMUNICATION | I_BUILTIN_MIC | I_SCO_HEADSET | I_WIRED_HEADSET | I_VOICE_CALL | I_BACK_MIC
  | I_REMOTE_SUBMIX | I_FM_RX | I_FM_RX_A2DP | BIT_IN

datatype strategy =
    STRATEGY_MEDIA | STRATEGY_PHONE | STRATEGY_SONIFICATION | STRATEGY_SONIFICATION_RESPECTFUL
  | STRATEGY_DTMF | STRATEGY_ENFORCED_AUDIBLE | STRATEGY_OTHER nat

datatype stream =
    VOICE_CALL | SYSTEM_STREAM | RING | MUSIC | ALARM | NOTIFICATION | BLUETOOTH_SCO
  | ENFORCED_AUDIBLE | DTMF | STREAM_OTHER nat

datatype force_use = FOR_COMMUNICATION | FOR_MEDIA | FOR_RECORD | FOR_DOCK | FOR_SYSTEM | USE_OTHER int

datatype forced_config =
    FORCE_NONE | FORCE_SPEAKER | FORCE_HEADPHONES | FORCE_BT_SCO | FORCE_BT_A2DP
  | FORCE_WIRED_ACCESSORY | FORCE_BT_CAR_DOCK | FORCE_BT_DESK_DOCK | FORCE_ANALOG_DOCK
  | FORCE_DIGITAL_DOCK | FORCE_NO_BT_A2DP | FORCE_SYSTEM_ENFORCED | FORCE_OTHER int

datatype connection = AVAILABLE | UNAVAILABLE | CONNECTION_OTHER int

datatype source =
    SRC_DEFAULT | SRC_MIC | SRC_UPLINK | SRC_DOWNLINK | SRC_VOICE_CALL | SRC_CAMCORDER
  | SRC_RECOGNITION | SRC_COMMUNICATION | SRC_SUBMIX | SRC_HOTWORD | SRC_FM_RX | SRC_FM_RX_A2DP
  | SRC_OTHER int

datatype fm_modes = FM_DIGITAL | FM_ANALOG | FM_NONE

section \<open>State\<close>

text \<open>
  The flags of an output or a profile, as a set: \<open>FL_OTHER\<close> stands for any bit the manager does
  not look at.
\<close>

datatype out_flag = FL_DIRECT | FL_LPA | FL_TUNNEL | FL_VOIP_RX | FL_OFFLOAD | FL_OTHER nat

type_synonym flags = "out_flag list"

definition has_flag :: "flags \<Rightarrow> out_flag \<Rightarrow> bool" where
  "has_flag fs f \<longleftrightarrow> f \<in> set fs"

text \<open>An output profile of a hardware module, and the module; handle 0 is a module not loaded.\<close>

record profile =
  pr_devices :: u32
  pr_flags :: flags
  pr_rates :: "u32 list"
  pr_formats :: "u32 list"
  pr_channels :: "u32 list"

record hw_module =
  m_handle :: nat
  m_profiles :: "profile list"

text \<open>
  \<open>AudioOutputDescriptor\<close>. A duplicated output names the two it feeds and has no profile; a
  profile is referred to by the indices of its module and of itself.
\<close>

record outdesc =
  q_dup :: "(nat \<times> nat) option"
  q_profile :: "(nat \<times> nat) option"
  q_device :: u32
  q_rate :: u32
  q_format :: u32
  q_channels :: u32
  q_latency :: nat
  q_flags :: flags
  q_refs :: "stream \<Rightarrow> int"
  q_stops :: "stream \<Rightarrow> int"
  q_opens :: int
  q_muted_by :: "strategy \<Rightarrow> bool"
  q_vol :: "stream \<Rightarrow> rat"

record indesc =
  n_source :: source
  n_device :: u32
  n_refs :: int

text \<open>
  Calls of the manager to \<open>AudioPolicyClientInterface\<close>, its pauses, and the calls of base class
  methods that act on volumes and mute counts, which this class does not keep. The last argument
  of a call is its delay; \<open>OpenOutput\<close> carries the module, the device, the rate, format and channels,
  and the flags; \<open>SetStrategyMute\<close> and \<open>SetStreamMute\<close> carry the device passed, if any.
\<close>

datatype pcall =
    SetRouting nat u32 nat | SetHandleFm nat u32 | SetFmVolume nat rat int
  | SetAddress nat string | SetStreamVolume stream rat nat int | SetVoiceVolume rat int
  | OpenOutput nat u32 "u32 \<times> u32 \<times> u32" flags | OpenDuplicate nat nat | CloseOutput nat | MoveEffects nat nat | Sleep nat
  | SetStrategyMute strategy bool nat nat "u32 option" | SetStreamMute stream bool nat nat
  | ApplyVolumes nat u32 nat bool | Sonification stream bool bool

record pol =
  mPhoneState :: amode
  mForceUse :: "force_use \<Rightarrow> forced_config"
  mAvailableOutputDevices :: u32
  mAvailableInputDevices :: u32
  mDefaultOutputDevice :: u32
  mHasA2dp :: bool
  mHasUsb :: bool
  mHasRemoteSubmix :: bool
  mA2dpSuspended :: bool
  mA2dpDeviceAddress :: string
  mScoDeviceAddress :: string
  mUsbCardAndDevice :: string
  fmMode :: fm_modes
  pendingForceNone :: bool
  enforcedCanBeMuted :: bool
  mDeviceForStrategy :: "strategy \<Rightarrow> u32"
  mModules :: "hw_module list"
  mOutputs :: "(nat \<times> outdesc) list"
  mPreviousOutputs :: "(nat \<times> outdesc) list"
  mPolInputs :: "(nat \<times> indesc) list"
  mPrimaryOutput :: nat
  mLimitRingtoneVolume :: bool
  mLastVoiceVolume :: rat
  dtmfCurve :: stream
  p_log :: "pcall list"
  p_fault :: bool

text \<open>\<open>dtmfCurve\<close> names the stream whose volume profile the DTMF stream has; \<open>p_fault\<close> records a look-up of
  an output that does not exist, which has no defined result.\<close>

section \<open>What the manager is built on\<close>

text \<open>
  Constants and functions of the system headers (\<open>b_dev\<close>, \<open>b_popcount\<close>, \<open>b_is_*\<close>), and the
  methods of the base class: queries, and changes of the state. \<open>b_musicActive\<close> and
  \<open>b_musicRemote\<close> are \<open>isStreamActive\<close> and \<open>isStreamActiveRemotely\<close> for music with the delays the
  code passes, \<open>b_musicRecent\<close> the query with the delay of \<open>setPhoneState\<close>; \<open>b_device\<close> to \<open>b_latency\<close>
  are methods of the descriptor of an output; \<open>b_lpa\<close> is \<open>AUDIO_OUTPUT_FLAG_LPA\<close>; \<open>b_profile_ok\<close> is \<open>IOProfile::isCompatibleProfile\<close>; \<open>b_open\<close> what \<open>openOutput\<close> of
  the client interface returns, with the configuration it writes back; \<open>b_string8\<close> the string
  built from an address and the length \<open>MAX_DEVICE_ADDRESS_LEN\<close>; \<open>b_newDesc\<close> the constructor
  of a descriptor; \<open>b_loadRates\<close> and the two after it the profile with what the output of a handle
  reports; \<open>b_sortProfiles\<close> the order of the profiles' addresses.
\<close>

record pbase =
  b_dev :: "adev \<Rightarrow> u32"
  b_popcount :: "u32 \<Rightarrow> nat"
  b_is_output :: "u32 \<Rightarrow> bool"
  b_is_input :: "u32 \<Rightarrow> bool"
  b_is_a2dp :: "u32 \<Rightarrow> bool"
  b_is_a2dp_legacy :: "u32 \<Rightarrow> bool"
  b_is_usb :: "u32 \<Rightarrow> bool"
  b_is_submix :: "u32 \<Rightarrow> bool"
  b_is_sco :: "u32 \<Rightarrow> bool"
  b_analog_fm :: bool
  b_lpa :: u32
  b_is_pcm :: "u32 \<Rightarrow> bool"
  b_max_address :: nat
  b_string8 :: "string \<Rightarrow> string"
  b_submix_address :: string
  b_mute_ms :: nat
  b_now :: "pol \<Rightarrow> int"
  b_in_call_state :: "amode \<Rightarrow> bool"
  b_valid_state :: "amode \<Rightarrow> bool"
  b_musicActive :: "pol \<Rightarrow> bool"
  b_musicRemote :: "pol \<Rightarrow> bool"
  b_musicRecent :: "pol \<Rightarrow> bool"
  b_a2dpOutput :: "pol \<Rightarrow> nat"
  b_strategy :: "stream \<Rightarrow> strategy"
  b_streams :: "stream list"
  b_profile_ok :: "profile \<Rightarrow> u32 \<Rightarrow> u32 \<Rightarrow> u32 \<Rightarrow> u32 \<Rightarrow> flags \<Rightarrow> bool"
  b_newDevice :: "pol \<Rightarrow> nat \<Rightarrow> bool \<Rightarrow> u32"
  b_activeInput :: "pol \<Rightarrow> nat"
  b_outputForEffect :: "pol \<Rightarrow> nat"
  b_outputsForDevice :: "pol \<Rightarrow> u32 \<Rightarrow> nat list"
  b_selectOutput :: "pol \<Rightarrow> nat list \<Rightarrow> flags \<Rightarrow> nat"
  b_active :: "pol \<Rightarrow> nat \<Rightarrow> nat \<Rightarrow> bool"
  b_device :: "pol \<Rightarrow> nat \<Rightarrow> u32"
  b_supported :: "pol \<Rightarrow> nat \<Rightarrow> u32"
  b_latency :: "pol \<Rightarrow> nat \<Rightarrow> nat"
  b_muteCount :: "pol \<Rightarrow> nat \<Rightarrow> stream \<Rightarrow> nat"
  b_strategyActive :: "pol \<Rightarrow> nat \<Rightarrow> strategy \<Rightarrow> bool"
  b_sharesModule :: "pol \<Rightarrow> nat \<Rightarrow> nat \<Rightarrow> bool"
  b_volumeIndex :: "pol \<Rightarrow> stream \<Rightarrow> u32 \<Rightarrow> int"
  b_indexMax :: "stream \<Rightarrow> int"
  b_computeVolume :: "pol \<Rightarrow> stream \<Rightarrow> int \<Rightarrow> nat \<Rightarrow> u32 \<Rightarrow> rat"
  b_float :: "rat \<Rightarrow> rat"
  b_newDesc :: "pol \<Rightarrow> (nat \<times> nat) option \<Rightarrow> outdesc"
  b_openDup :: "pol \<Rightarrow> nat \<Rightarrow> nat"
  b_loadRates :: "pol \<Rightarrow> nat \<Rightarrow> profile \<Rightarrow> profile"
  b_loadFormats :: "pol \<Rightarrow> nat \<Rightarrow> profile \<Rightarrow> profile"
  b_loadChannels :: "pol \<Rightarrow> nat \<Rightarrow> profile \<Rightarrow> profile"
  b_sortProfiles :: "(nat \<times> nat) list \<Rightarrow> (nat \<times> nat) list"
  b_open :: "pol \<Rightarrow> nat \<times> u32 \<times> u32 \<times> u32 \<times> u32 \<times> nat"
  b_changeRef :: "nat \<Rightarrow> stream \<Rightarrow> int \<Rightarrow> pol \<Rightarrow> pol"
  b_checkA2dpSuspend :: "pol \<Rightarrow> pol"
  b_checkOutputs :: "pol \<Rightarrow> pol"
  b_checkOutput :: "strategy \<Rightarrow> pol \<Rightarrow> pol"
  b_updateDevices :: "pol \<Rightarrow> pol"
  b_closeOutput :: "nat \<Rightarrow> pol \<Rightarrow> pol"
  b_addOutput :: "nat \<Rightarrow> outdesc \<Rightarrow> pol \<Rightarrow> pol"

definition p_call :: "pcall \<Rightarrow> (pol, unit) state" where
  "p_call c = modify (\<lambda>s. s\<lparr>p_log := p_log s @ [c]\<rparr>)"

definition out_at :: "pol \<Rightarrow> nat \<Rightarrow> outdesc option" where
  "out_at s k = map_of (mOutputs s) k"

definition upd_output :: "nat \<Rightarrow> (outdesc \<Rightarrow> outdesc) \<Rightarrow> (pol, unit) state" where
  "upd_output k f = modify (\<lambda>s. s\<lparr>mOutputs := map (\<lambda>(j, d). (j, if j = k then f d else d)) (mOutputs s)\<rparr>)"

definition no_output :: "(pol, unit) state" where
  "no_output = modify (\<lambda>s. s\<lparr>p_fault := True\<rparr>)"

definition isInCall :: "pbase \<Rightarrow> pol \<Rightarrow> bool" where
  "isInCall B s = b_in_call_state B (mPhoneState s)"

lemma p_call_simps [simp]:
  "exec (p_call c) s = s\<lparr>p_log := p_log s @ [c]\<rparr>" "result (p_call c) s = ()"
  by (simp_all add: p_call_def result_def)

lemma preserves_p_call [pres]:
  "(\<And>s. I s \<Longrightarrow> I (s\<lparr>p_log := p_log s @ [c]\<rparr>)) \<Longrightarrow> preserves I (p_call c)"
  by (simp add: preserves_def)

end
