(* ===== verification/PolicyDevices.thy ===== *)
theory PolicyDevices
  imports PolicyTypes
begin

text \<open>
  The decisions of the audio policy manager that only read its state: the device of a strategy,
  of an input source and for volume, and the profile of a direct output.
\<close>

section \<open>Devices of a strategy\<close>

text \<open>A chain of \<open>device = mAvailableOutputDevices & D; if (device) break;\<close>.\<close>

definition first_of :: "pbase \<Rightarrow> pol \<Rightarrow> adev list \<Rightarrow> u32" where
  "first_of B s ds =
     (case find (\<lambda>d. holds (mAvailableOutputDevices s) (b_dev B d)) ds of
        None \<Rightarrow> 0
      | Some d \<Rightarrow> mAvailableOutputDevices s AND b_dev B d)"

definition or_else :: "u32 \<Rightarrow> u32 \<Rightarrow> u32" where
  "or_else a b = (if a \<noteq> 0 then a else b)"

definition a2dp_usable :: "pbase \<Rightarrow> pol \<Rightarrow> bool" where
  "a2dp_usable B s \<longleftrightarrow>
     mHasA2dp s \<and> mForceUse s FOR_MEDIA \<noteq> FORCE_NO_BT_A2DP \<and> b_a2dpOutput B s \<noteq> 0 \<and> \<not> mA2dpSuspended s"

definition phone_wired :: "adev list" where
  "phone_wired = [O_WIRED_HEADPHONE, O_WIRED_HEADSET, O_USB_DEVICE, O_DGTL_DOCK, O_AUX_DIGITAL,
                  O_ANLG_DOCK, O_EARPIECE]"

definition phone_normal :: "pbase \<Rightarrow> pol \<Rightarrow> u32" where
  "phone_normal B s =
     or_else (if a2dp_usable B s \<and> \<not> isInCall B s then first_of B s [O_A2DP, O_A2DP_HEADPHONES] else 0)
       (or_else (first_of B s phone_wired) (mDefaultOutputDevice s))"

definition phone_sco :: "pbase \<Rightarrow> strategy \<Rightarrow> pol \<Rightarrow> u32" where
  "phone_sco B st s =
     (if \<not> isInCall B s \<or> st \<noteq> STRATEGY_DTMF then first_of B s [O_SCO_CARKIT, O_SCO_HEADSET, O_SCO]
      else first_of B s [O_SCO_HEADSET, O_SCO])"

definition phone_speaker :: "pbase \<Rightarrow> pol \<Rightarrow> u32" where
  "phone_speaker B s =
     or_else (if a2dp_usable B s \<and> \<not> isInCall B s then first_of B s [O_A2DP_SPEAKER] else 0)
       (or_else (first_of B s [O_USB_DEVICE, O_DGTL_DOCK, O_AUX_DIGITAL, O_ANLG_DOCK, O_SPEAKER])
          (mDefaultOutputDevice s))"

text \<open>\<open>case STRATEGY_PHONE\<close>, reached by the DTMF strategy during a call too.\<close>

definition phone_device :: "pbase \<Rightarrow> strategy \<Rightarrow> pol \<Rightarrow> u32" where
  "phone_device B st s =
     (let device = (case mForceUse s FOR_COMMUNICATION of
                      FORCE_BT_SCO \<Rightarrow> or_else (phone_sco B st s) (phone_normal B s)
                    | FORCE_SPEAKER \<Rightarrow> phone_speaker B s
                    | _ \<Rightarrow> phone_normal B s)
      in if holds (mAvailableOutputDevices s) (b_dev B O_FM) \<and> mForceUse s FOR_MEDIA = FORCE_SPEAKER
         then b_dev B O_SPEAKER else device)"

definition media_list :: "adev list" where
  "media_list = [O_WIRED_HEADPHONE, O_WIRED_HEADSET, O_USB_ACCESSORY, O_USB_DEVICE, O_DGTL_DOCK,
                 O_AUX_DIGITAL, O_ANLG_DOCK, O_SPEAKER]"

text \<open>
  The inner switch of \<open>case STRATEGY_MEDIA\<close>: where no device was found the default device is
  assigned, and the next case assigns the loudspeaker in its place.
\<close>

definition media_select :: "pbase \<Rightarrow> u32 \<Rightarrow> pol \<Rightarrow> u32" where
  "media_select B device s =
     (let speaker = mAvailableOutputDevices s AND b_dev B O_SPEAKER in
      if mForceUse s FOR_MEDIA = FORCE_SPEAKER then speaker
      else let device2 = or_else (if a2dp_usable B s \<and> fmMode s \<noteq> FM_ANALOG
                                  then first_of B s [O_A2DP, O_A2DP_HEADPHONES, O_A2DP_SPEAKER] else 0)
                           (first_of B s media_list);
               d = device OR device2
           in if d \<noteq> 0 then d else speaker)"

definition media_fm :: "pbase \<Rightarrow> u32 \<Rightarrow> pol \<Rightarrow> u32" where
  "media_fm B device s =
     (if holds (mAvailableOutputDevices s) (b_dev B O_FM) then
        let d = device OR b_dev B O_FM in
        if fmMode s = FM_ANALOG then
          (if d = b_dev B O_SPEAKER OR b_dev B O_WIRED_HEADSET OR b_dev B O_FM then b_dev B O_SPEAKER
           else if holds d (b_dev B O_WIRED_HEADSET) then d AND NOT (d AND b_dev B O_WIRED_HEADSET)
           else d)
        else d
      else device)"

definition media_in_call :: "pbase \<Rightarrow> strategy \<Rightarrow> u32 \<Rightarrow> pol \<Rightarrow> u32" where
  "media_in_call B st device s =
     (if mPhoneState s = MODE_IN_CALL \<and> \<not> b_is_a2dp_legacy B device
         \<and> device \<noteq> mDeviceForStrategy s STRATEGY_PHONE \<and> st = STRATEGY_ENFORCED_AUDIBLE
         \<and> enforcedCanBeMuted s
      then mDeviceForStrategy s STRATEGY_PHONE else device)"

definition media_device :: "pbase \<Rightarrow> strategy \<Rightarrow> u32 \<Rightarrow> pol \<Rightarrow> u32" where
  "media_device B st device s = media_in_call B st (media_fm B (media_select B device s) s) s"

text \<open>\<open>case STRATEGY_ENFORCED_AUDIBLE\<close>, into which sonification outside calls falls.\<close>

definition audible_device :: "pbase \<Rightarrow> strategy \<Rightarrow> pol \<Rightarrow> u32" where
  "audible_device B st s =
     (let device = (if st = STRATEGY_SONIFICATION \<or> \<not> enforcedCanBeMuted s
                    then mAvailableOutputDevices s AND b_dev B O_SPEAKER else 0)
      in if fmMode s = FM_ANALOG then device else media_device B st device s)"

definition sonification_device :: "pbase \<Rightarrow> pol \<Rightarrow> u32" where
  "sonification_device B s =
     (if isInCall B s then phone_device B STRATEGY_PHONE s else audible_device B STRATEGY_SONIFICATION s)"

definition getDeviceForStrategy :: "pbase \<Rightarrow> strategy \<Rightarrow> bool \<Rightarrow> pol \<Rightarrow> u32" where
  "getDeviceForStrategy B st fromCache s =
     (if fromCache then mDeviceForStrategy s st
      else case st of
        STRATEGY_SONIFICATION_RESPECTFUL \<Rightarrow>
          (if isInCall B s then sonification_device B s
           else if b_musicRemote B s then sonification_device B s
           else if b_musicActive B s then media_device B STRATEGY_MEDIA 0 s
           else sonification_device B s)
      | STRATEGY_DTMF \<Rightarrow>
          (if \<not> isInCall B s then media_device B STRATEGY_MEDIA 0 s else phone_device B STRATEGY_DTMF s)
      | STRATEGY_PHONE \<Rightarrow> phone_device B STRATEGY_PHONE s
      | STRATEGY_SONIFICATION \<Rightarrow> sonification_device B s
      | STRATEGY_ENFORCED_AUDIBLE \<Rightarrow> audible_device B STRATEGY_ENFORCED_AUDIBLE s
      | STRATEGY_MEDIA \<Rightarrow> media_device B STRATEGY_MEDIA 0 s
      | STRATEGY_OTHER n \<Rightarrow> 0)"

section \<open>Devices of an input source, and for volume\<close>

definition mic_device :: "pbase \<Rightarrow> pol \<Rightarrow> u32" where
  "mic_device B s =
     (let av = (\<lambda>d. holds (mAvailableInputDevices s) (b_dev B d)) in
      if mForceUse s FOR_RECORD = FORCE_BT_SCO \<and> av I_SCO_HEADSET then b_dev B I_SCO_HEADSET
      else if av I_WIRED_HEADSET then b_dev B I_WIRED_HEADSET
      else if av I_BUILTIN_MIC then b_dev B I_BUILTIN_MIC
      else 0)"

definition getDeviceForInputSource :: "pbase \<Rightarrow> source \<Rightarrow> pol \<Rightarrow> u32" where
  "getDeviceForInputSource B src s =
     (let av = (\<lambda>d. holds (mAvailableInputDevices s) (b_dev B d));
          only = (\<lambda>d. if av d then b_dev B d else 0)
      in case src of
           SRC_UPLINK \<Rightarrow> if av I_VOICE_CALL then b_dev B I_VOICE_CALL else mic_device B s
         | SRC_DEFAULT \<Rightarrow> mic_device B s
         | SRC_MIC \<Rightarrow> mic_device B s
         | SRC_RECOGNITION \<Rightarrow> mic_device B s
         | SRC_HOTWORD \<Rightarrow> mic_device B s
         | SRC_COMMUNICATION \<Rightarrow> b_dev B I_COMMUNICATION
         | SRC_CAMCORDER \<Rightarrow> if av I_BACK_MIC then b_dev B I_BACK_MIC else only I_BUILTIN_MIC
         | SRC_DOWNLINK \<Rightarrow> only I_VOICE_CALL
         | SRC_VOICE_CALL \<Rightarrow> only I_VOICE_CALL
         | SRC_SUBMIX \<Rightarrow> only I_REMOTE_SUBMIX
         | SRC_FM_RX \<Rightarrow> b_dev B I_FM_RX
         | SRC_FM_RX_A2DP \<Rightarrow> b_dev B I_FM_RX_A2DP
         | SRC_OTHER n \<Rightarrow> 0)"

definition getDeviceForVolume :: "pbase \<Rightarrow> u32 \<Rightarrow> u32" where
  "getDeviceForVolume B device =
     (if device = 0 then b_dev B O_SPEAKER
      else if b_popcount B device > 1 then
        (if holds device (b_dev B O_SPEAKER) then b_dev B O_SPEAKER
         else if holds device (b_dev B O_FM) then b_dev B O_FM
         else if holds device (b_dev B O_WIRED_HEADSET) then b_dev B O_WIRED_HEADSET
         else device AND b_dev B O_ALL_A2DP)
      else device)"

section \<open>Profiles\<close>

text \<open>The method of this class, which the class itself never calls.\<close>

definition isCompatibleProfile :: "profile \<Rightarrow> u32 \<Rightarrow> u32 \<Rightarrow> u32 \<Rightarrow> u32 \<Rightarrow> flags \<Rightarrow> bool" where
  "isCompatibleProfile p device rate fmt ch fl \<longleftrightarrow>
     pr_devices p AND device = device \<and> set (pr_flags p) = set fl
     \<and> (rate \<noteq> 0 \<longrightarrow> rate \<in> set (pr_rates p))
     \<and> (fmt \<noteq> 0 \<longrightarrow> fmt \<in> set (pr_formats p))
     \<and> (ch \<noteq> 0 \<longrightarrow> ch \<in> set (pr_channels p))"

text \<open>The flags a direct profile is looked up with: plain ones become \<open>DIRECT\<close>.\<close>

definition lookup_flags :: "flags \<Rightarrow> flags" where
  "lookup_flags fl =
     (let fl' = (if has_flag fl FL_LPA \<or> has_flag fl FL_TUNNEL \<or> has_flag fl FL_VOIP_RX then fl
                 else [FL_DIRECT])
      in if has_flag fl' FL_OFFLOAD then [FL_OFFLOAD] else fl')"

fun find_profile :: "(profile \<Rightarrow> bool) \<Rightarrow> nat \<Rightarrow> nat \<Rightarrow> profile list \<Rightarrow> (nat \<times> nat) option" where
  "find_profile ok i j [] = None"
| "find_profile ok i j (p # ps) = (if ok p then Some (i, j) else find_profile ok i (Suc j) ps)"

fun find_in_modules :: "(profile \<Rightarrow> bool) \<Rightarrow> nat \<Rightarrow> hw_module list \<Rightarrow> (nat \<times> nat) option" where
  "find_in_modules ok i [] = None"
| "find_in_modules ok i (m # ms) =
     (if m_handle m = 0 then find_in_modules ok (Suc i) ms
      else case find_profile ok i 0 (m_profiles m) of
             None \<Rightarrow> find_in_modules ok (Suc i) ms
           | Some r \<Rightarrow> Some r)"

definition getProfileForDirectOutput ::
  "pbase \<Rightarrow> u32 \<Rightarrow> u32 \<Rightarrow> u32 \<Rightarrow> u32 \<Rightarrow> flags \<Rightarrow> pol \<Rightarrow> (nat \<times> nat) option" where
  "getProfileForDirectOutput B device rate fmt ch fl s =
     find_in_modules
       (\<lambda>p. b_profile_ok B p device rate fmt ch (lookup_flags fl)
            \<and> holds (mAvailableOutputDevices s) (pr_devices p)) 0 (mModules s)"

end
