(* ===== verification/PolicyOutputs.thy ===== *)
theory PolicyOutputs
  imports PolicyDevices
begin

text \<open>
  The operations of the audio policy manager on its outputs and inputs: the device of an output
  and the muting that goes with a change, volume, starting and stopping of streams, opening and
  releasing of direct outputs.
\<close>

section \<open>Changing the device of an output\<close>

text \<open>The strategies in the order of their numbers, up to \<open>NUM_STRATEGIES\<close>.\<close>

definition strategies :: "strategy list" where
  "strategies = [STRATEGY_MEDIA, STRATEGY_PHONE, STRATEGY_SONIFICATION,
     STRATEGY_SONIFICATION_RESPECTFUL, STRATEGY_DTMF, STRATEGY_ENFORCED_AUDIBLE]"

text \<open>\<open>desc->latency() * (desc->mFlags & AUDIO_OUTPUT_FLAG_LPA) ? 4 : 2\<close>, as C groups it.\<close>

definition unmute_delay :: "pbase \<Rightarrow> nat \<Rightarrow> flags \<Rightarrow> nat" where
  "unmute_delay B lat fl =
     (if (of_nat lat * (if has_flag fl FL_LPA then b_lpa B else 0) :: u32) \<noteq> 0 then 4 else 2)"

text \<open>The inner loop over the outputs; the time to wait is passed on.\<close>

fun mute_outputs ::
  "pbase \<Rightarrow> nat \<Rightarrow> strategy \<Rightarrow> bool \<Rightarrow> bool \<Rightarrow> u32 \<Rightarrow> nat \<Rightarrow> (nat \<times> outdesc) list \<Rightarrow> nat \<Rightarrow> (pol, nat) state"
where
  "mute_outputs B out st mute tempMute device delayMs [] w = ret w"
| "mute_outputs B out st mute tempMute device delayMs ((k, d) # ds) w = do {
     shared \<leftarrow> gets (\<lambda>s. b_supported B s k AND b_supported B s out);
     if shared = 0 then mute_outputs B out st mute tempMute device delayMs ds w
     else do {
       p_call (SetStrategyMute st mute k (if mute then 0 else delayMs * 4) None);
       act \<leftarrow> gets (\<lambda>s. b_strategyActive B s k st);
       lat \<leftarrow> gets (\<lambda>s. b_latency B s k);
       whenM (act \<and> tempMute \<and> k = out) (do {
         p_call (SetStrategyMute st True k 0 None);
         p_call (SetStrategyMute st False k (unmute_delay B lat (q_flags d)) (Some device))
       });
       mute_outputs B out st mute tempMute device delayMs ds
         (if act \<and> (tempMute \<and> k = out \<or> mute) \<and> w < lat then lat else w)
     }
   }"

fun mute_strategies ::
  "pbase \<Rightarrow> nat \<Rightarrow> bool \<Rightarrow> bool \<Rightarrow> u32 \<Rightarrow> nat \<Rightarrow> strategy list \<Rightarrow> nat \<Rightarrow> (pol, nat) state"
where
  "mute_strategies B out shouldMute tempMute device delayMs [] w = ret w"
| "mute_strategies B out shouldMute tempMute device delayMs (st # sts) w = do {
     cur \<leftarrow> gets (getDeviceForStrategy B st False);
     was \<leftarrow> gets (\<lambda>s. case out_at s out of None \<Rightarrow> False | Some d \<Rightarrow> q_muted_by d st);
     let mute = (shouldMute \<and> holds cur device \<and> cur \<noteq> device);
     whenM (mute \<noteq> was) (upd_output out (\<lambda>d. d\<lparr>q_muted_by := (q_muted_by d)(st := mute)\<rparr>));
     outs \<leftarrow> gets mOutputs;
     w' \<leftarrow> (if mute \<noteq> was \<or> tempMute
            then mute_outputs B out st mute tempMute device delayMs outs w else ret w);
     mute_strategies B out shouldMute tempMute device delayMs sts w'
   }"

definition checkDeviceMuteStrategies :: "pbase \<Rightarrow> nat \<Rightarrow> u32 \<Rightarrow> nat \<Rightarrow> (pol, nat) state" where
  "checkDeviceMuteStrategies B out prevDevice delayMs = do {
     desc \<leftarrow> gets (\<lambda>s. out_at s out);
     (case desc of
        None \<Rightarrow> do { no_output; ret 0 }
      | Some d \<Rightarrow>
          if q_dup d \<noteq> None then ret 0
          else do {
            device \<leftarrow> gets (\<lambda>s. b_device B s out);
            active \<leftarrow> gets (\<lambda>s. b_active B s out 0);
            let shouldMute = (active \<and> b_popcount B device \<ge> (if holds device (b_dev B O_FM) then 3 else 2));
            let tempMute = (active \<and> getDeviceForVolume B device \<noteq> getDeviceForVolume B prevDevice);
            w \<leftarrow> mute_strategies B out shouldMute tempMute device delayMs strategies 0;
            if 2 * w > delayMs then do {
              p_call (Sleep ((2 * w - delayMs) * 1000));
              ret (2 * w - delayMs)
            } else ret 0
          })
   }"

definition profile_at :: "pol \<Rightarrow> nat \<times> nat \<Rightarrow> profile option" where
  "profile_at s = (\<lambda>(i, j).
     if i < length (mModules s) \<and> j < length (m_profiles (mModules s ! i))
     then Some (m_profiles (mModules s ! i) ! j) else None)"

definition supported_by :: "pol \<Rightarrow> outdesc \<Rightarrow> u32" where
  "supported_by s d =
     (case Option.bind (q_profile d) (profile_at s) of None \<Rightarrow> 0 | Some p \<Rightarrow> pr_devices p)"

text \<open>An output that is no duplication: the part of the device it supports, if any, is sent.\<close>

definition set_plain_device :: "pbase \<Rightarrow> nat \<Rightarrow> outdesc \<Rightarrow> u32 \<Rightarrow> nat \<Rightarrow> (pol, nat) state" where
  "set_plain_device B out d device delayMs = do {
     sup \<leftarrow> gets (\<lambda>s. supported_by s d);
     if device \<noteq> 0 \<and> device AND sup = 0 then ret 0
     else do {
       let dev = device AND sup;
       whenM (dev \<noteq> 0) (upd_output out (\<lambda>e. e\<lparr>q_device := dev\<rparr>));
       w \<leftarrow> checkDeviceMuteStrategies B out (q_device d) delayMs;
       let delay' = (if dev = q_device d then 0 else delayMs);
       whenM (dev \<noteq> 0) (do {
         p_call (SetRouting out dev delay');
         p_call (ApplyVolumes out dev delay' False)
       });
       ret w
     }
   }"

text \<open>
  \<open>setOutputDevice\<close>. A duplicated output passes the device to the two it feeds; \<open>fuel\<close> bounds
  the nesting of duplications.
\<close>

fun setOutputDevice :: "pbase \<Rightarrow> nat \<Rightarrow> nat \<Rightarrow> u32 \<Rightarrow> bool \<Rightarrow> nat \<Rightarrow> (pol, nat) state" where
  "setOutputDevice B 0 out device force delayMs = do { no_output; ret 0 }"
| "setOutputDevice B (Suc fuel) out device force delayMs = do {
     desc \<leftarrow> gets (\<lambda>s. out_at s out);
     (case desc of
        None \<Rightarrow> do { no_output; ret 0 }
      | Some d \<Rightarrow> (case q_dup d of
          Some (o1, o2) \<Rightarrow> do {
            w1 \<leftarrow> setOutputDevice B fuel o1 device force delayMs;
            w2 \<leftarrow> setOutputDevice B fuel o2 device force delayMs;
            ret (w1 + w2)
          }
        | None \<Rightarrow> set_plain_device B out d device delayMs))
   }"

section \<open>Volume\<close>

text \<open>
  Levels are rational numbers; \<open>flt\<close> is the rounding to \<open>float\<close> where the code computes one.
\<close>

definition is_voice :: "stream \<Rightarrow> bool" where
  "is_voice st \<longleftrightarrow> st \<in> {VOICE_CALL, DTMF, BLUETOOTH_SCO}"

definition send_volume :: "stream \<Rightarrow> rat \<Rightarrow> nat \<Rightarrow> int \<Rightarrow> (rat \<Rightarrow> rat) \<Rightarrow> (pol, unit) state" where
  "send_volume st vol out delayMs flt = do {
     let v = (if is_voice st then flt (1 / 100 + 99 / 100 * vol) else vol);
     whenM (st = BLUETOOTH_SCO) (p_call (SetStreamVolume VOICE_CALL v out delayMs));
     p_call (SetStreamVolume st v out delayMs)
   }"

definition checkAndSetVolume ::
  "pbase \<Rightarrow> stream \<Rightarrow> int \<Rightarrow> nat \<Rightarrow> u32 \<Rightarrow> int \<Rightarrow> bool \<Rightarrow> (pol, status) state" where
  "checkAndSetVolume B st index out device delayMs force = do {
     muted \<leftarrow> gets (\<lambda>s. b_muteCount B s out st);
     desc \<leftarrow> gets (\<lambda>s. out_at s out);
     whenM (desc = None) no_output;
     if muted \<noteq> 0 then ret NO_ERROR
     else do {
       comm \<leftarrow> gets (\<lambda>s. mForceUse s FOR_COMMUNICATION);
       if (st = VOICE_CALL \<and> comm = FORCE_BT_SCO) \<or> (st = BLUETOOTH_SCO \<and> comm \<noteq> FORCE_BT_SCO)
       then ret INVALID_OPERATION
       else do {
         vol \<leftarrow> gets (\<lambda>s. b_computeVolume B s st index out device);
         let changed = (case desc of None \<Rightarrow> False | Some d \<Rightarrow> vol \<noteq> q_vol d st);
         whenM (changed \<or> force) (do {
           upd_output out (\<lambda>d. d\<lparr>q_vol := (q_vol d)(st := vol)\<rparr>);
           send_volume st vol out delayMs (b_float B)
         });
         primary \<leftarrow> gets mPrimaryOutput;
         last \<leftarrow> gets mLastVoiceVolume;
         fm \<leftarrow> gets (\<lambda>s. holds (mAvailableOutputDevices s) (b_dev B O_FM));
         let level = b_float B (of_int index / of_int (b_indexMax B st));
         (if st = VOICE_CALL \<or> st = BLUETOOTH_SCO then do {
            let v = (if st = VOICE_CALL then level else 1);
            whenM (v \<noteq> last \<and> out = primary \<and> \<not> fm) (do {
              p_call (SetVoiceVolume v delayMs);
              modify (\<lambda>s. s\<lparr>mLastVoiceVolume := v\<rparr>)
            })
          } else whenM (st = MUSIC \<and> fm \<and> level \<ge> 0 \<and> out = primary) (do {
            p_call (SetFmVolume out level (delayMs * 2));
            modify (\<lambda>s. s\<lparr>mLastVoiceVolume := level\<rparr>)
          }));
         ret NO_ERROR
       }
     }
   }"

section \<open>Starting and stopping\<close>

text \<open>A duplication feeds outputs that are no duplications.\<close>

definition dup_depth :: nat where "dup_depth = 2"

definition handleNotificationRoutingForStream :: "pbase \<Rightarrow> stream \<Rightarrow> (pol, unit) state" where
  "handleNotificationRoutingForStream B st = whenM (st = MUSIC) (do {
     modify (b_checkOutput B STRATEGY_SONIFICATION_RESPECTFUL);
     modify (b_checkOutput B STRATEGY_MEDIA);
     modify (b_updateDevices B)
   })"

text \<open>What the loop over the other outputs finds: whether to force the route, and the time to wait.\<close>

definition others_differ :: "pbase \<Rightarrow> nat \<Rightarrow> u32 \<Rightarrow> pol \<Rightarrow> bool" where
  "others_differ B out newDevice s =
     list_ex (\<lambda>(k, _). k \<noteq> out \<and> b_sharesModule B s out k \<and> b_device B s k \<noteq> newDevice) (mOutputs s)"

definition others_wait :: "pbase \<Rightarrow> nat \<Rightarrow> bool \<Rightarrow> pol \<Rightarrow> nat" where
  "others_wait B out shouldWait s =
     fold (\<lambda>(k, _) w. let lat = b_latency B s k in
             if k \<noteq> out \<and> shouldWait \<and> b_active B s k (lat * 2) \<and> w < lat then lat else w) (mOutputs s) 0"

definition start_routing :: "pbase \<Rightarrow> nat \<Rightarrow> stream \<Rightarrow> (pol, unit) state" where
  "start_routing B out st = do {
     newDevice \<leftarrow> gets (\<lambda>s. b_newDevice B s out False);
     let shouldWait = b_strategy B st \<in> {STRATEGY_SONIFICATION, STRATEGY_SONIFICATION_RESPECTFUL};
     force \<leftarrow> gets (others_differ B out newDevice);
     waitMs \<leftarrow> gets (others_wait B out shouldWait);
     fm \<leftarrow> gets fmMode;
     let analog = (st = SYSTEM_STREAM \<and> fm = FM_ANALOG \<and> newDevice = b_dev B O_FM);
     let device = (if analog then newDevice OR b_dev B O_WIRED_HEADSET else newDevice);
     muteWaitMs \<leftarrow> setOutputDevice B dup_depth out device (analog \<or> force) 0;
     inCall \<leftarrow> gets (isInCall B);
     whenM inCall (p_call (Sonification st True False));
     index \<leftarrow> gets (\<lambda>s. b_volumeIndex B s st device);
     checkAndSetVolume B st index out device 0 False;
     handleNotificationRoutingForStream B st;
     whenM (waitMs > muteWaitMs) (p_call (Sleep ((waitMs - muteWaitMs) * 2 * 1000)))
   }"

definition startOutput :: "pbase \<Rightarrow> nat \<Rightarrow> stream \<Rightarrow> (pol, status) state" where
  "startOutput B out st = do {
     desc \<leftarrow> gets (\<lambda>s. out_at s out);
     if desc = None then ret BAD_VALUE
     else do {
       modify (b_changeRef B out st 1);
       refs \<leftarrow> gets (\<lambda>s. map_option (\<lambda>d. q_refs d st) (out_at s out));
       whenM (refs = Some 1) (start_routing B out st);
       ret NO_ERROR
     }
   }"

text \<open>Other active outputs of the module get their own device again.\<close>

fun restore_others :: "pbase \<Rightarrow> nat \<Rightarrow> u32 \<Rightarrow> nat \<Rightarrow> nat list \<Rightarrow> (pol, unit) state" where
  "restore_others B out newDevice delayMs [] = ret ()"
| "restore_others B out newDevice delayMs (k # ks) = do {
     due \<leftarrow> gets (\<lambda>s. k \<noteq> out \<and> b_active B s k 0 \<and> b_sharesModule B s out k \<and> newDevice \<noteq> b_device B s k);
     dev \<leftarrow> gets (\<lambda>s. b_newDevice B s k False);
     whenM due (do { setOutputDevice B dup_depth k dev True delayMs; ret () });
     restore_others B out newDevice delayMs ks
   }"

definition stop_routing :: "pbase \<Rightarrow> nat \<Rightarrow> stream \<Rightarrow> nat \<Rightarrow> (pol, unit) state" where
  "stop_routing B out st latency = do {
     now \<leftarrow> gets (b_now B);
     upd_output out (\<lambda>d. d\<lparr>q_stops := (q_stops d)(st := now)\<rparr>);
     newDevice \<leftarrow> gets (\<lambda>s. b_newDevice B s out False);
     fm \<leftarrow> gets fmMode;
     (if fm = FM_ANALOG then setOutputDevice B dup_depth out newDevice True 0
      else setOutputDevice B dup_depth out newDevice False (latency * 2));
     keys \<leftarrow> gets (\<lambda>s. map fst (mOutputs s));
     restore_others B out newDevice (latency * 2) keys;
     handleNotificationRoutingForStream B st
   }"

definition stopOutput :: "pbase \<Rightarrow> nat \<Rightarrow> stream \<Rightarrow> (pol, status) state" where
  "stopOutput B out st = do {
     desc \<leftarrow> gets (\<lambda>s. out_at s out);
     (case desc of
        None \<Rightarrow> ret BAD_VALUE
      | Some d \<Rightarrow> do {
          inCall \<leftarrow> gets (isInCall B);
          whenM inCall (p_call (Sonification st False False));
          refs \<leftarrow> gets (\<lambda>s. case out_at s out of None \<Rightarrow> 0 | Some d \<Rightarrow> q_refs d st);
          if refs > 0 then do {
            modify (b_changeRef B out st (-1));
            refs' \<leftarrow> gets (\<lambda>s. case out_at s out of None \<Rightarrow> 0 | Some d \<Rightarrow> q_refs d st);
            whenM (refs' = 0) (stop_routing B out st (q_latency d));
            ret NO_ERROR
          } else ret INVALID_OPERATION
        })
   }"

section \<open>Direct outputs\<close>

text \<open>The outputs opened for a profile, in the order of their handles.\<close>

definition of_profile :: "pol \<Rightarrow> nat \<times> nat \<Rightarrow> (nat \<times> outdesc) list" where
  "of_profile s p = filter (\<lambda>(_, d). q_dup d = None \<and> q_profile d = Some p) (mOutputs s)"

definition same_config :: "u32 \<Rightarrow> u32 \<Rightarrow> u32 \<Rightarrow> outdesc \<Rightarrow> bool" where
  "same_config rate fmt ch d \<longleftrightarrow> rate = q_rate d \<and> fmt = q_format d \<and> ch = q_channels d"

definition module_handle :: "pol \<Rightarrow> nat \<times> nat \<Rightarrow> nat" where
  "module_handle s p = (if fst p < length (mModules s) then m_handle (mModules s ! fst p) else 0)"

definition open_direct_output ::
  "pbase \<Rightarrow> stream \<Rightarrow> u32 \<Rightarrow> u32 \<Rightarrow> u32 \<Rightarrow> u32 \<Rightarrow> flags \<Rightarrow> nat \<times> nat \<Rightarrow> (pol, nat) state" where
  "open_direct_output B st device rate fmt ch fl p = do {
     d0 \<leftarrow> gets (\<lambda>s. b_newDesc B s (Some p));
     let fl' = q_flags d0 @ fl;
     m \<leftarrow> gets (\<lambda>s. module_handle s p);
     p_call (OpenOutput m device (rate, fmt, ch) fl');
     (out, dev', rate', fmt', ch', lat') \<leftarrow> gets (b_open B);
     let d = d0\<lparr>q_device := dev', q_rate := rate', q_format := fmt', q_channels := ch', q_latency := lat',
                q_flags := fl', q_refs := (q_refs d0)(st := 0), q_stops := (q_stops d0)(st := 0), q_opens := 1\<rparr>;
     if out = 0 \<or> (rate \<noteq> 0 \<and> rate \<noteq> rate') \<or> (fmt \<noteq> 0 \<and> fmt \<noteq> fmt') \<or> (ch \<noteq> 0 \<and> ch \<noteq> ch')
     then do {
       whenM (out \<noteq> 0) (p_call (CloseOutput out));
       ret 0
     } else do {
       src \<leftarrow> gets (b_outputForEffect B);
       modify (b_addOutput B out d);
       dst \<leftarrow> gets (b_outputForEffect B);
       whenM (dst = out) (p_call (MoveEffects src dst));
       modify (\<lambda>s. s\<lparr>mPreviousOutputs := mOutputs s\<rparr>);
       ret out
     }
   }"

definition getOutput ::
  "pbase \<Rightarrow> stream \<Rightarrow> u32 \<Rightarrow> u32 \<Rightarrow> u32 \<Rightarrow> flags \<Rightarrow> (pol, nat) state" where
  "getOutput B st rate fmt ch flags = do {
     device \<leftarrow> gets (getDeviceForStrategy B (b_strategy B st) False);
     let fl = (if has_flag flags FL_OFFLOAD then FL_DIRECT # flags else flags);
     prof \<leftarrow> gets (\<lambda>s. if has_flag fl FL_DIRECT then getProfileForDirectOutput B device rate fmt ch fl s else None);
     (case prof of
        Some p \<Rightarrow> do {
          opened \<leftarrow> gets (\<lambda>s. of_profile s p);
          (case find (\<lambda>(_, d). same_config rate fmt ch d) opened of
             Some (k, d) \<Rightarrow> do {
               upd_output k (\<lambda>d. d\<lparr>q_opens := q_opens d + 1\<rparr>);
               ret k
             }
           | None \<Rightarrow> do {
               whenM (opened \<noteq> []) (modify (b_closeOutput B (fst (last opened))));
               open_direct_output B st device rate fmt ch fl p
             })
        }
      | None \<Rightarrow>
          if b_is_pcm B fmt then gets (\<lambda>s. b_selectOutput B s (b_outputsForDevice B s device) fl)
          else ret 0)
   }"

text \<open>Outputs of these kinds are closed by the first release.\<close>

definition closed_at_once :: "flags \<Rightarrow> bool" where
  "closed_at_once fl \<longleftrightarrow> has_flag fl FL_LPA \<or> has_flag fl FL_TUNNEL \<or> has_flag fl FL_VOIP_RX"

definition releaseOutput :: "pbase \<Rightarrow> nat \<Rightarrow> (pol, unit) state" where
  "releaseOutput B out = do {
     desc \<leftarrow> gets (\<lambda>s. out_at s out);
     (case desc of
        None \<Rightarrow> ret ()
      | Some d \<Rightarrow>
          if \<not> has_flag (q_flags d) FL_DIRECT then ret ()
          else if q_opens d \<le> 0 \<and> \<not> closed_at_once (q_flags d) then ret ()
          else do {
            upd_output out (\<lambda>d. d\<lparr>q_opens := q_opens d - 1\<rparr>);
            whenM (q_opens d = 1 \<or> closed_at_once (q_flags d)) (do {
              modify (b_closeOutput B out);
              dst \<leftarrow> gets (b_outputForEffect B);
              primary \<leftarrow> gets mPrimaryOutput;
              whenM (dst \<noteq> primary) (p_call (MoveEffects primary dst))
            })
          })
   }"

end
