(* ===== verification/PolicyConnect.thy ===== *)
theory PolicyConnect
  imports PolicyOutputs
begin

text \<open>
  The events the audio policy manager reacts to: devices that come and go, the state of the
  phone, and forced configurations; and the outputs it opens and closes for them.
\<close>

section \<open>Forced configurations\<close>

definition comm_config :: "forced_config \<Rightarrow> bool" where
  "comm_config c \<longleftrightarrow> c \<in> {FORCE_SPEAKER, FORCE_BT_SCO, FORCE_NONE}"

definition media_config :: "forced_config \<Rightarrow> bool" where
  "media_config c \<longleftrightarrow> c \<in> {FORCE_HEADPHONES, FORCE_BT_A2DP, FORCE_SPEAKER, FORCE_WIRED_ACCESSORY,
     FORCE_ANALOG_DOCK, FORCE_DIGITAL_DOCK, FORCE_NONE, FORCE_NO_BT_A2DP}"

definition record_config :: "forced_config \<Rightarrow> bool" where
  "record_config c \<longleftrightarrow> c \<in> {FORCE_BT_SCO, FORCE_WIRED_ACCESSORY, FORCE_NONE}"

definition set_force :: "force_use \<Rightarrow> forced_config \<Rightarrow> (pol, unit) state" where
  "set_force u c = modify (\<lambda>s. s\<lparr>mForceUse := (mForceUse s)(u := c)\<rparr>)"

text \<open>
  The switch of \<open>setForceUse\<close>: whether the function goes on, and whether volumes are evaluated
  again. An invalid configuration for a dock or the system is stored all the same.
\<close>

definition take_force :: "force_use \<Rightarrow> forced_config \<Rightarrow> (pol, bool \<times> bool) state" where
  "take_force u c = (case u of
     FOR_COMMUNICATION \<Rightarrow> if comm_config c then do { set_force u c; ret (True, True) } else ret (False, False)
   | FOR_MEDIA \<Rightarrow>
       if \<not> media_config c then ret (False, False)
       else do {
         fm \<leftarrow> gets fmMode;
         if fm = FM_DIGITAL \<and> c = FORCE_NONE then do {
           modify (\<lambda>s. s\<lparr>pendingForceNone := True\<rparr>);
           ret (False, False)
         } else do {
           modify (\<lambda>s. s\<lparr>pendingForceNone := False\<rparr>);
           set_force u c;
           ret (True, False)
         }
       }
   | FOR_RECORD \<Rightarrow> if record_config c then do { set_force u c; ret (True, False) } else ret (False, False)
   | FOR_DOCK \<Rightarrow> do { set_force u c; ret (True, True) }
   | FOR_SYSTEM \<Rightarrow> do { set_force u c; ret (True, True) }
   | USE_OTHER n \<Rightarrow> ret (True, False))"

fun force_outputs :: "pbase \<Rightarrow> bool \<Rightarrow> nat list \<Rightarrow> (pol, unit) state" where
  "force_outputs B volumes [] = ret ()"
| "force_outputs B volumes (k # ks) = do {
     dev \<leftarrow> gets (\<lambda>s. b_newDevice B s k True);
     setOutputDevice B dup_depth k dev (dev \<noteq> 0) 0;
     whenM (volumes \<and> dev \<noteq> 0) (p_call (ApplyVolumes k dev 0 True));
     force_outputs B volumes ks
   }"

text \<open>The active input follows its source.\<close>

definition route_input :: "pbase \<Rightarrow> (pol, unit) state" where
  "route_input B = do {
     k \<leftarrow> gets (b_activeInput B);
     inp \<leftarrow> gets (\<lambda>s. map_of (mPolInputs s) k);
     whenM (k \<noteq> 0) (case inp of
        None \<Rightarrow> no_output
      | Some d \<Rightarrow> do {
          dev \<leftarrow> gets (getDeviceForInputSource B (n_source d));
          whenM (dev \<noteq> 0 \<and> dev \<noteq> n_device d) (do {
            modify (\<lambda>s. s\<lparr>mPolInputs := map (\<lambda>(j, e). (j, if j = k then e\<lparr>n_device := dev\<rparr> else e)) (mPolInputs s)\<rparr>);
            p_call (SetRouting k dev 0)
          })
        })
   }"

definition setForceUse :: "pbase \<Rightarrow> force_use \<Rightarrow> forced_config \<Rightarrow> (pol, unit) state" where
  "setForceUse B u c = do {
     (go, volumes) \<leftarrow> take_force u c;
     whenM go (do {
       modify (b_checkA2dpSuspend B);
       modify (b_checkOutputs B);
       modify (b_updateDevices B);
       keys \<leftarrow> gets (\<lambda>s. map fst (mOutputs s));
       force_outputs B volumes keys;
       route_input B
     })
   }"

section \<open>Outputs for a device\<close>

definition head_zero :: "u32 list \<Rightarrow> bool" where
  "head_zero xs \<longleftrightarrow> xs \<noteq> [] \<and> hd xs = 0"

definition load_if :: "bool \<Rightarrow> (profile \<Rightarrow> profile) \<Rightarrow> profile \<Rightarrow> profile" where
  "load_if b f p = (if b then f p else p)"

definition set_profile :: "nat \<times> nat \<Rightarrow> profile \<Rightarrow> (pol, unit) state" where
  "set_profile p q = modify (\<lambda>s. s\<lparr>mModules := (mModules s)[fst p :=
     (mModules s ! fst p)\<lparr>m_profiles := (m_profiles (mModules s ! fst p))[snd p := q]\<rparr>]\<rparr>)"

text \<open>
  A direct output reports what it supports where the profile leaves it open. The last clause of
  the test looks at the formats where it means the channel masks.
\<close>

definition query_profile :: "pbase \<Rightarrow> pol \<Rightarrow> nat \<Rightarrow> profile \<Rightarrow> profile" where
  "query_profile B s out p =
     (let p1 = load_if (head_zero (pr_rates p)) (b_loadRates B s out) p;
          p2 = load_if (head_zero (pr_formats p1)) (b_loadFormats B s out) p1
      in load_if (head_zero (pr_channels p2)) (b_loadChannels B s out) p2)"

definition missing_param :: "profile \<Rightarrow> bool" where
  "missing_param p \<longleftrightarrow>
     head_zero (pr_rates p) \<and> length (pr_rates p) < 2
     \<or> head_zero (pr_formats p) \<and> length (pr_formats p) < 2
     \<or> head_zero (pr_formats p) \<and> length (pr_channels p) < 2"

definition add_direct :: "pbase \<Rightarrow> nat \<times> nat \<Rightarrow> nat \<Rightarrow> outdesc \<Rightarrow> (pol, nat) state" where
  "add_direct B p out d = do {
     prof \<leftarrow> gets (\<lambda>s. profile_at s p);
     (case prof of
        None \<Rightarrow> do { no_output; ret 0 }
      | Some q \<Rightarrow> do {
          q' \<leftarrow> gets (\<lambda>s. query_profile B s out q);
          set_profile p q';
          if missing_param q' then do { p_call (CloseOutput out); ret 0 }
          else do { modify (b_addOutput B out d); ret out }
        })
   }"

definition add_mixed :: "pbase \<Rightarrow> nat \<Rightarrow> u32 \<Rightarrow> outdesc \<Rightarrow> (pol, nat) state" where
  "add_mixed B out device d = do {
     modify (b_addOutput B out d);
     p_call (ApplyVolumes out device 0 True);
     primary \<leftarrow> gets mPrimaryOutput;
     p_call (OpenDuplicate out primary);
     dup \<leftarrow> gets (\<lambda>s. b_openDup B s out);
     if dup \<noteq> 0 then do {
       d0 \<leftarrow> gets (\<lambda>s. b_newDesc B s None);
       modify (b_addOutput B dup (d0\<lparr>q_dup := Some (primary, out), q_rate := q_rate d, q_format := q_format d,
          q_channels := q_channels d, q_latency := q_latency d\<rparr>));
       p_call (ApplyVolumes dup device 0 True);
       ret out
     } else do {
       p_call (CloseOutput out);
       modify (\<lambda>s. s\<lparr>mOutputs := filter (\<lambda>(k, _). k \<noteq> out) (mOutputs s)\<rparr>);
       ret 0
     }
   }"

text \<open>One profile: the handle of the output opened for it, or 0.\<close>

definition open_profile :: "pbase \<Rightarrow> u32 \<Rightarrow> nat \<times> nat \<Rightarrow> (pol, nat) state" where
  "open_profile B device p = do {
     d0 \<leftarrow> gets (\<lambda>s. b_newDesc B s (Some p));
     m \<leftarrow> gets (\<lambda>s. module_handle s p);
     if closed_at_once (q_flags d0) then ret 0
     else do {
       p_call (OpenOutput m device (q_rate d0, q_format d0, q_channels d0) (q_flags d0));
       (out, dev', rate', fmt', ch', lat') \<leftarrow> gets (b_open B);
       let d = d0\<lparr>q_device := dev', q_rate := rate', q_format := fmt', q_channels := ch', q_latency := lat'\<rparr>;
       if out = 0 then ret 0
       else if has_flag (q_flags d) FL_DIRECT then add_direct B p out d
       else add_mixed B out device d
     }
   }"

definition add_handle :: "nat \<Rightarrow> nat list \<Rightarrow> nat list" where
  "add_handle h hs = (if h \<in> set hs then hs else insort h hs)"

text \<open>The loop over the profiles: those that have an output, and the outputs.\<close>

fun open_profiles :: "pbase \<Rightarrow> u32 \<Rightarrow> (nat \<times> nat) list \<Rightarrow> nat list \<Rightarrow> (pol, nat \<times> nat list) state" where
  "open_profiles B device [] outs = ret (0, outs)"
| "open_profiles B device (p # ps) outs = do {
     opened \<leftarrow> gets (\<lambda>s. of_profile s p);
     if opened \<noteq> [] then do {
       (n, outs') \<leftarrow> open_profiles B device ps outs;
       ret (Suc n, outs')
     } else do {
       out \<leftarrow> open_profile B device p;
       (n, outs') \<leftarrow> open_profiles B device ps (if out = 0 then outs else add_handle out outs);
       ret (if out = 0 then n else Suc n, outs')
     }
   }"

definition profiles_for :: "u32 \<Rightarrow> pol \<Rightarrow> (nat \<times> nat) list" where
  "profiles_for device s =
     concat (map (\<lambda>i. if m_handle (mModules s ! i) = 0 then []
                      else map (Pair i) (filter (\<lambda>j. holds (pr_devices (m_profiles (mModules s ! i) ! j)) device)
                                           [0..<length (m_profiles (mModules s ! i))]))
        [0..<length (mModules s)])"

text \<open>A disconnected device clears what direct profiles learned of it.\<close>

definition clear_zero :: "u32 list \<Rightarrow> u32 list" where
  "clear_zero xs = (if head_zero xs then [0] else xs)"

definition clear_profile :: "u32 \<Rightarrow> profile \<Rightarrow> profile" where
  "clear_profile device p =
     (if holds (pr_devices p) device \<and> has_flag (pr_flags p) FL_DIRECT
      then p\<lparr>pr_rates := clear_zero (pr_rates p), pr_formats := clear_zero (pr_formats p),
             pr_channels := clear_zero (pr_channels p)\<rparr>
      else p)"

definition clear_modules :: "u32 \<Rightarrow> hw_module list \<Rightarrow> hw_module list" where
  "clear_modules device =
     map (\<lambda>m. if m_handle m = 0 then m else m\<lparr>m_profiles := map (clear_profile device) (m_profiles m)\<rparr>)"

definition checkOutputsForDevice :: "pbase \<Rightarrow> u32 \<Rightarrow> connection \<Rightarrow> (pol, status \<times> nat list) state" where
  "checkOutputsForDevice B device st =
     (if st = AVAILABLE then do {
        outs \<leftarrow> gets (\<lambda>s. map fst (filter (\<lambda>(_, d). q_dup d = None \<and> holds (supported_by s d) device) (mOutputs s)));
        profs \<leftarrow> gets (profiles_for device);
        if profs = [] \<and> outs = [] then ret (BAD_VALUE, outs)
        else do {
          (n, outs') \<leftarrow> open_profiles B device (b_sortProfiles B profs) outs;
          ret (if n = 0 then BAD_VALUE else NO_ERROR, outs')
        }
      } else do {
        outs \<leftarrow> gets (\<lambda>s. map fst (filter (\<lambda>(_, d). q_dup d = None
                              \<and> supported_by s d AND mAvailableOutputDevices s = 0) (mOutputs s)));
        modify (\<lambda>s. s\<lparr>mModules := clear_modules device (mModules s)\<rparr>);
        ret (NO_ERROR, outs)
      })"

section \<open>Devices that come and go\<close>

text \<open>FM: the mode is entered before anything that may fail; \<open>None\<close> means that it may go on.\<close>

definition fm_connect :: "pbase \<Rightarrow> (pol, status option) state" where
  "fm_connect B = do {
     old \<leftarrow> gets fmMode;
     let new = (if b_analog_fm B then FM_ANALOG else FM_DIGITAL);
     if new = old then ret (Some INVALID_OPERATION)
     else if old \<noteq> FM_NONE then ret (Some INVALID_OPERATION)
     else do { modify (\<lambda>s. s\<lparr>fmMode := new\<rparr>); ret None }
   }"

definition fm_disconnect :: "pbase \<Rightarrow> (pol, unit) state" where
  "fm_disconnect B = do {
     modify (\<lambda>s. s\<lparr>fmMode := FM_NONE\<rparr>);
     pending \<leftarrow> gets pendingForceNone;
     whenM pending (setForceUse B FOR_MEDIA FORCE_NONE);
     dev \<leftarrow> gets (getDeviceForStrategy B STRATEGY_MEDIA False);
     primary \<leftarrow> gets mPrimaryOutput;
     whenM (holds dev (b_dev B O_A2DP) \<or> holds dev (b_dev B O_A2DP_HEADPHONES) \<or> holds dev (b_dev B O_A2DP_SPEAKER))
       (do { setOutputDevice B dup_depth primary (b_dev B O_WIRED_HEADSET) True 0; ret () })
   }"

text \<open>The outputs of a new device learn its address.\<close>

definition note_address :: "pbase \<Rightarrow> u32 \<Rightarrow> string \<Rightarrow> nat list \<Rightarrow> (pol, unit) state" where
  "note_address B device address outs = do {
     a2dp \<leftarrow> gets mHasA2dp;
     usb \<leftarrow> gets mHasUsb;
     (if a2dp \<and> b_is_a2dp B device then
        modify (\<lambda>s. s\<lparr>mA2dpDeviceAddress := b_string8 B address, mA2dpSuspended := False,
          p_log := p_log s @ map (\<lambda>out. SetAddress out address) outs\<rparr>)
      else if b_is_sco B device then modify (\<lambda>s. s\<lparr>mScoDeviceAddress := b_string8 B address\<rparr>)
      else if usb \<and> b_is_usb B device then
        modify (\<lambda>s. s\<lparr>mUsbCardAndDevice := b_string8 B address,
          p_log := p_log s @ (if b_string8 B address = [] then []
                              else map (\<lambda>out. SetAddress out (b_string8 B address)) outs)\<rparr>)
      else ret ())
   }"

definition forget_address :: "pbase \<Rightarrow> u32 \<Rightarrow> (pol, unit) state" where
  "forget_address B device = do {
     a2dp \<leftarrow> gets mHasA2dp;
     usb \<leftarrow> gets mHasUsb;
     (if a2dp \<and> b_is_a2dp B device then modify (\<lambda>s. s\<lparr>mA2dpDeviceAddress := [], mA2dpSuspended := False\<rparr>)
      else if b_is_sco B device then modify (\<lambda>s. s\<lparr>mScoDeviceAddress := []\<rparr>)
      else if usb \<and> b_is_usb B device then modify (\<lambda>s. s\<lparr>mUsbCardAndDevice := []\<rparr>)
      else ret ())
   }"

text \<open>The two cases of the switch: a status that ends the call, or the outputs concerned.\<close>

definition connect_output :: "pbase \<Rightarrow> u32 \<Rightarrow> string \<Rightarrow> (pol, status + nat list) state" where
  "connect_output B device address = do {
     fm \<leftarrow> (if device = b_dev B O_FM then fm_connect B else ret None);
     (case fm of
        Some st \<Rightarrow> ret (Inl st)
      | None \<Rightarrow> do {
          known \<leftarrow> gets (\<lambda>s. holds (mAvailableOutputDevices s) device);
          if known then ret (Inl INVALID_OPERATION)
          else do {
            (st, outs) \<leftarrow> checkOutputsForDevice B device AVAILABLE;
            if st \<noteq> NO_ERROR then ret (Inl INVALID_OPERATION)
            else do {
              modify (\<lambda>s. s\<lparr>mAvailableOutputDevices := mAvailableOutputDevices s OR device\<rparr>);
              whenM (outs \<noteq> []) (note_address B device address outs);
              ret (Inr outs)
            }
          }
        })
   }"

definition disconnect_output :: "pbase \<Rightarrow> u32 \<Rightarrow> (pol, status + nat list) state" where
  "disconnect_output B device = do {
     whenM (device = b_dev B O_FM) (fm_disconnect B);
     known \<leftarrow> gets (\<lambda>s. holds (mAvailableOutputDevices s) device);
     if \<not> known then ret (Inl INVALID_OPERATION)
     else do {
       modify (\<lambda>s. s\<lparr>mAvailableOutputDevices := mAvailableOutputDevices s AND NOT device\<rparr>);
       (st, outs) \<leftarrow> checkOutputsForDevice B device UNAVAILABLE;
       forget_address B device;
       ret (Inr outs)
     }
   }"

fun close_unused :: "pbase \<Rightarrow> connection \<Rightarrow> nat list \<Rightarrow> (pol, unit) state" where
  "close_unused B st [] = ret ()"
| "close_unused B st (k # ks) = do {
     d \<leftarrow> gets (\<lambda>s. out_at s k);
     whenM (st \<noteq> UNAVAILABLE \<and> d = None) no_output;
     whenM (st = UNAVAILABLE \<or> (case d of None \<Rightarrow> False
                | Some e \<Rightarrow> has_flag (q_flags e) FL_DIRECT \<and> \<not> closed_at_once (q_flags e)))
       (modify (b_closeOutput B k));
     close_unused B st ks
   }"

fun reroute_outputs :: "pbase \<Rightarrow> nat list \<Rightarrow> (pol, unit) state" where
  "reroute_outputs B [] = ret ()"
| "reroute_outputs B (k # ks) = do {
     dev \<leftarrow> gets (\<lambda>s. b_newDevice B s k True);
     dup \<leftarrow> gets (\<lambda>s. case out_at s k of None \<Rightarrow> False | Some d \<Rightarrow> q_dup d \<noteq> None);
     setOutputDevice B dup_depth k dev (\<not> dup) 0;
     reroute_outputs B ks
   }"

text \<open>The handling of FM after the switch: one more user of the primary output, and its device.\<close>

definition fm_device :: "pbase \<Rightarrow> connection \<Rightarrow> u32 \<Rightarrow> (pol, u32) state" where
  "fm_device B st newDevice = do {
     primary \<leftarrow> gets mPrimaryOutput;
     modify (b_changeRef B primary MUSIC (if st = AVAILABLE then 1 else -1));
     dev \<leftarrow> gets (\<lambda>s. if st = AVAILABLE then b_newDevice B s primary False OR b_dev B O_FM else newDevice);
     p_call (SetHandleFm primary dev);
     ret dev
   }"

definition after_output :: "pbase \<Rightarrow> u32 \<Rightarrow> connection \<Rightarrow> nat list \<Rightarrow> (pol, unit) state" where
  "after_output B device st outs = do {
     primary \<leftarrow> gets mPrimaryOutput;
     dev0 \<leftarrow> gets (\<lambda>s. b_newDevice B s primary False);
     dev \<leftarrow> (if device = b_dev B O_FM then fm_device B st dev0 else ret dev0);
     setOutputDevice B dup_depth primary dev False 0;
     modify (b_checkA2dpSuspend B);
     modify (b_checkOutputs B);
     close_unused B st outs;
     modify (b_updateDevices B);
     keys \<leftarrow> gets (\<lambda>s. map fst (mOutputs s));
     reroute_outputs B keys
   }"

definition input_connection :: "pbase \<Rightarrow> u32 \<Rightarrow> connection \<Rightarrow> (pol, status) state" where
  "input_connection B device st = do {
     known \<leftarrow> gets (\<lambda>s. holds (mAvailableInputDevices s) device);
     ok \<leftarrow> (case st of
        AVAILABLE \<Rightarrow> if known then ret INVALID_OPERATION
          else do {
            modify (\<lambda>s. s\<lparr>mAvailableInputDevices := mAvailableInputDevices s OR (device AND NOT (b_dev B BIT_IN))\<rparr>);
            ret NO_ERROR
          }
      | UNAVAILABLE \<Rightarrow> if \<not> known then ret INVALID_OPERATION
          else do {
            modify (\<lambda>s. s\<lparr>mAvailableInputDevices := mAvailableInputDevices s AND NOT device\<rparr>);
            ret NO_ERROR
          }
      | CONNECTION_OTHER n \<Rightarrow> ret BAD_VALUE);
     whenM (ok = NO_ERROR) (route_input B);
     ret ok
   }"

text \<open>The input device that belongs to an output device, 0 for none.\<close>

definition input_of :: "pbase \<Rightarrow> u32 \<Rightarrow> u32" where
  "input_of B device =
     (if device = b_dev B O_WIRED_HEADSET then b_dev B I_WIRED_HEADSET
      else if device = b_dev B O_SCO \<or> device = b_dev B O_SCO_HEADSET \<or> device = b_dev B O_SCO_CARKIT
      then b_dev B I_SCO_HEADSET else 0)"

definition output_connection :: "pbase \<Rightarrow> u32 \<Rightarrow> connection \<Rightarrow> string \<Rightarrow> (pol, status option) state" where
  "output_connection B device st address = do {
     s \<leftarrow> gets (\<lambda>s. s);
     if (\<not> mHasA2dp s \<and> b_is_a2dp B device) \<or> (\<not> mHasUsb s \<and> b_is_usb B device)
        \<or> (\<not> mHasRemoteSubmix s \<and> b_is_submix B device)
     then ret (Some BAD_VALUE)
     else do {
       modify (\<lambda>s. s\<lparr>mPreviousOutputs := mOutputs s\<rparr>);
       r \<leftarrow> (case st of
          AVAILABLE \<Rightarrow> connect_output B device address
        | UNAVAILABLE \<Rightarrow> disconnect_output B device
        | CONNECTION_OTHER n \<Rightarrow> ret (Inl BAD_VALUE));
       (case r of
          Inl e \<Rightarrow> ret (Some e)
        | Inr outs \<Rightarrow> do { after_output B device st outs; ret None })
     }
   }"

definition setDeviceConnectionState :: "pbase \<Rightarrow> u32 \<Rightarrow> connection \<Rightarrow> string \<Rightarrow> (pol, status) state" where
  "setDeviceConnectionState B device st address =
     (if \<not> b_is_output B device \<and> \<not> b_is_input B device then ret BAD_VALUE
      else if length address \<ge> b_max_address B then ret BAD_VALUE
      else if b_is_output B device then do {
        r \<leftarrow> output_connection B device st address;
        (case r of
           Some e \<Rightarrow> ret e
         | None \<Rightarrow>
             if input_of B device = 0 then ret NO_ERROR
             else if b_is_input B (input_of B device) then input_connection B (input_of B device) st
             else ret BAD_VALUE)
      } else input_connection B device st)"

definition stopInput :: "pbase \<Rightarrow> nat \<Rightarrow> (pol, status) state" where
  "stopInput B inp = do {
     desc \<leftarrow> gets (\<lambda>s. map_of (mPolInputs s) inp);
     (case desc of
        None \<Rightarrow> ret BAD_VALUE
      | Some d \<Rightarrow>
          if n_refs d = 0 then ret INVALID_OPERATION
          else do {
            whenM (b_is_submix B (n_device d))
              (do { setDeviceConnectionState B (b_dev B O_REMOTE_SUBMIX) UNAVAILABLE (b_submix_address B); ret () });
            p_call (SetRouting inp 0 0);
            fm \<leftarrow> gets (\<lambda>s. holds (mAvailableOutputDevices s) (b_dev B O_FM));
            mode \<leftarrow> gets fmMode;
            primary \<leftarrow> gets mPrimaryOutput;
            whenM (fm \<and> mode = FM_ANALOG) (p_call (ApplyVolumes primary (b_dev B O_FM) 0 True));
            whenM (fm \<and> mode = FM_DIGITAL) (p_call (ApplyVolumes primary (b_dev B O_SPEAKER) 0 True));
            modify (\<lambda>s. s\<lparr>mPolInputs := map (\<lambda>(j, e). (j, if j = inp then e\<lparr>n_refs := 0\<rparr> else e)) (mPolInputs s)\<rparr>);
            ret NO_ERROR
          })
   }"

section \<open>The state of the phone\<close>

fun mute_media :: "pbase \<Rightarrow> (nat \<times> outdesc) list \<Rightarrow> nat \<Rightarrow> (pol, nat) state" where
  "mute_media B [] delayMs = ret delayMs"
| "mute_media B ((k, d) # ds) delayMs = do {
     act \<leftarrow> gets (\<lambda>s. b_strategyActive B s k STRATEGY_MEDIA);
     dev \<leftarrow> gets (getDeviceForStrategy B STRATEGY_MEDIA True);
     whenM act (do {
       p_call (SetStrategyMute STRATEGY_MEDIA True k 0 None);
       p_call (SetStrategyMute STRATEGY_MEDIA False k (b_mute_ms B) (Some dev))
     });
     mute_media B ds (if delayMs < q_latency d * 2 then q_latency d * 2 else delayMs)
   }"

fun sonification_all :: "bool \<Rightarrow> bool \<Rightarrow> stream list \<Rightarrow> (pol, unit) state" where
  "sonification_all starting change [] = ret ()"
| "sonification_all starting change (st # sts) = do {
     p_call (Sonification st starting change);
     sonification_all starting change sts
   }"

fun restore_active :: "pbase \<Rightarrow> nat \<Rightarrow> bool \<Rightarrow> nat \<Rightarrow> nat list \<Rightarrow> (pol, unit) state" where
  "restore_active B primary force delayMs [] = ret ()"
| "restore_active B primary force delayMs (k # ks) = do {
     due \<leftarrow> gets (\<lambda>s. k \<noteq> primary \<and> b_active B s k 0);
     dev \<leftarrow> gets (\<lambda>s. b_newDevice B s k False);
     whenM due (do { setOutputDevice B dup_depth k dev force delayMs; ret () });
     restore_active B primary force delayMs ks
   }"

definition phone_routing :: "pbase \<Rightarrow> amode \<Rightarrow> amode \<Rightarrow> (pol, unit) state" where
  "phone_routing B old new = do {
     let was = b_in_call_state B old;
     let is = b_in_call_state B new;
     whenM (\<not> was \<and> is) (modify (\<lambda>s. s\<lparr>dtmfCurve := VOICE_CALL\<rparr>));
     whenM (was \<and> \<not> is) (modify (\<lambda>s. s\<lparr>dtmfCurve := DTMF\<rparr>));
     let force = (was \<or> is);
     primary \<leftarrow> gets mPrimaryOutput;
     dev0 \<leftarrow> gets (\<lambda>s. b_newDevice B s primary False);
     modify (b_checkA2dpSuspend B);
     modify (b_checkOutputs B);
     modify (b_updateDevices B);
     desc \<leftarrow> gets (\<lambda>s. out_at s primary);
     whenM (desc = None) no_output;
     current \<leftarrow> gets (\<lambda>s. b_device B s primary);
     let dev = (if was \<and> dev0 = 0 then current else dev0);
     let latency = (case desc of None \<Rightarrow> 0 | Some d \<Rightarrow> q_latency d);
     let delay0 = (if is \<and> old = MODE_RINGTONE then latency * 2 else 0);
     whenM (is \<and> old = MODE_RINGTONE) (p_call (SetStreamMute RING True primary 0));
     outs \<leftarrow> gets mOutputs;
     delayMs \<leftarrow> (if is then mute_media B outs delay0 else ret delay0);
     setOutputDevice B dup_depth primary dev force delayMs;
     whenM is (do {
       whenM (old = MODE_RINGTONE) (p_call (SetStreamMute RING False primary (b_mute_ms B)));
       sonification_all True True (b_streams B)
     });
     keys \<leftarrow> gets (\<lambda>s. map fst (mOutputs s));
     whenM (was \<and> \<not> is) (restore_active B primary force delayMs keys);
     recent \<leftarrow> gets (b_musicRecent B);
     modify (\<lambda>s. s\<lparr>mLimitRingtoneVolume := (new = MODE_RINGTONE \<and> recent)\<rparr>)
   }"

definition setPhoneState :: "pbase \<Rightarrow> amode \<Rightarrow> (pol, unit) state" where
  "setPhoneState B new = do {
     old \<leftarrow> gets mPhoneState;
     whenM (b_valid_state B new \<and> new \<noteq> old) (do {
       inCall \<leftarrow> gets (isInCall B);
       whenM inCall (sonification_all False True (b_streams B));
       modify (\<lambda>s. s\<lparr>mPhoneState := new\<rparr>);
       phone_routing B old new
     })
   }"

end
