(* ===== verification/PolicyExample.thy ===== *)
theory PolicyExample
  imports PolicyConnect
begin

text \<open>
  A concrete instance of what the audio policy manager is built on, and a state of it, to evaluate
  the properties at: the devices have the numbers of \<open>system/audio.h\<close>, a primary output with the
  handle 1 plays on the loudspeaker, and the changes of the base class are those its contract
  needs.
\<close>

fun dev0 :: "adev \<Rightarrow> u32" where
  "dev0 O_EARPIECE = 1"
| "dev0 O_SPEAKER = 2"
| "dev0 O_WIRED_HEADSET = 4"
| "dev0 O_WIRED_HEADPHONE = 8"
| "dev0 O_SCO = 16"
| "dev0 O_SCO_HEADSET = 32"
| "dev0 O_SCO_CARKIT = 64"
| "dev0 O_A2DP = 128"
| "dev0 O_A2DP_HEADPHONES = 256"
| "dev0 O_A2DP_SPEAKER = 512"
| "dev0 O_AUX_DIGITAL = 1024"
| "dev0 O_ANLG_DOCK = 2048"
| "dev0 O_DGTL_DOCK = 4096"
| "dev0 O_USB_ACCESSORY = 8192"
| "dev0 O_USB_DEVICE = 16384"
| "dev0 O_REMOTE_SUBMIX = 32768"
| "dev0 O_FM = 524288"
| "dev0 O_ALL_A2DP = 896"
| "dev0 I_COMMUNICATION = 2147483649"
| "dev0 I_BUILTIN_MIC = 2147483652"
| "dev0 I_SCO_HEADSET = 2147483656"
| "dev0 I_WIRED_HEADSET = 2147483664"
| "dev0 I_VOICE_CALL = 2147483712"
| "dev0 I_BACK_MIC = 2147483776"
| "dev0 I_REMOTE_SUBMIX = 2147483904"
| "dev0 I_FM_RX = 2147491840"
| "dev0 I_FM_RX_A2DP = 2147500032"
| "dev0 BIT_IN = 2147483648"

fun strategy0 :: "stream \<Rightarrow> strategy" where
  "strategy0 VOICE_CALL = STRATEGY_PHONE"
| "strategy0 BLUETOOTH_SCO = STRATEGY_PHONE"
| "strategy0 RING = STRATEGY_SONIFICATION"
| "strategy0 ALARM = STRATEGY_SONIFICATION"
| "strategy0 NOTIFICATION = STRATEGY_SONIFICATION_RESPECTFUL"
| "strategy0 DTMF = STRATEGY_DTMF"
| "strategy0 ENFORCED_AUDIBLE = STRATEGY_ENFORCED_AUDIBLE"
| "strategy0 _ = STRATEGY_MEDIA"

definition desc0 :: outdesc where
  "desc0 = \<lparr>q_dup = None, q_profile = Some (0, 0), q_device = 2, q_rate = 44100, q_format = 1,
     q_channels = 3, q_latency = 50, q_flags = [], q_refs = (\<lambda>_. 0), q_stops = (\<lambda>_. 0), q_opens = 0,
     q_muted_by = (\<lambda>_. False), q_vol = (\<lambda>_. 0)\<rparr>"

definition change0 :: "nat \<Rightarrow> stream \<Rightarrow> int \<Rightarrow> pol \<Rightarrow> pol" where
  "change0 k st n s = s\<lparr>mOutputs := map (\<lambda>(j, d). (j, if j = k then d\<lparr>q_refs := (q_refs d)(st := q_refs d st + n)\<rparr> else d)) (mOutputs s)\<rparr>"

definition close0 :: "nat \<Rightarrow> pol \<Rightarrow> pol" where
  "close0 k s = s\<lparr>mOutputs := filter (\<lambda>(j, _). j \<noteq> k) (mOutputs s)\<rparr>"

definition base0 :: pbase where
  "base0 = \<lparr>b_dev = dev0,
     b_popcount = (\<lambda>d. length (filter (bit d) [0..<32])),
     b_is_output = (\<lambda>d. \<not> holds d 0x80000000),
     b_is_input = (\<lambda>d. holds d 0x80000000),
     b_is_a2dp = (\<lambda>d. holds d 0x380),
     b_is_a2dp_legacy = (\<lambda>d. holds d 0x380),
     b_is_usb = (\<lambda>d. holds d 0x6000),
     b_is_submix = (\<lambda>d. holds d 0x8000),
     b_is_sco = (\<lambda>d. holds d 0x70),
     b_analog_fm = False,
     b_lpa = 0x1000,
     b_is_pcm = (\<lambda>f. f = 1),
     b_max_address = 32,
     b_string8 = (\<lambda>a. a),
     b_submix_address = ''0'',
     b_mute_ms = 2000,
     b_now = (\<lambda>_. 0),
     b_in_call_state = (\<lambda>m. m \<in> {MODE_IN_CALL, MODE_IN_COMMUNICATION}),
     b_valid_state = (\<lambda>m. m \<in> {MODE_NORMAL, MODE_RINGTONE, MODE_IN_CALL, MODE_IN_COMMUNICATION}),
     b_musicActive = (\<lambda>_. False),
     b_musicRemote = (\<lambda>_. False),
     b_musicRecent = (\<lambda>_. False),
     b_a2dpOutput = (\<lambda>_. 0),
     b_strategy = strategy0,
     b_streams = [VOICE_CALL, SYSTEM_STREAM, RING, MUSIC, ALARM, NOTIFICATION, BLUETOOTH_SCO, ENFORCED_AUDIBLE, DTMF],
     b_profile_ok = isCompatibleProfile,
     b_newDevice = (\<lambda>s k c. mAvailableOutputDevices s AND 6),
     b_activeInput = (\<lambda>_. 0),
     b_outputForEffect = (\<lambda>_. 1),
     b_outputsForDevice = (\<lambda>s d. map fst (mOutputs s)),
     b_selectOutput = (\<lambda>s ks fl. if ks = [] then 0 else hd ks),
     b_active = (\<lambda>s k n. True),
     b_device = (\<lambda>s k. case out_at s k of None \<Rightarrow> 0 | Some d \<Rightarrow> q_device d),
     b_supported = (\<lambda>s k. case out_at s k of None \<Rightarrow> 0 | Some d \<Rightarrow> supported_by s d),
     b_latency = (\<lambda>s k. case out_at s k of None \<Rightarrow> 0 | Some d \<Rightarrow> q_latency d),
     b_muteCount = (\<lambda>s k st. 0),
     b_strategyActive = (\<lambda>s k st. st = STRATEGY_MEDIA),
     b_sharesModule = (\<lambda>s j k. True),
     b_volumeIndex = (\<lambda>s st d. 5),
     b_indexMax = (\<lambda>_. 15),
     b_computeVolume = (\<lambda>s st i k d. of_int i / 15),
     b_float = (\<lambda>x. x),
     b_newDesc = (\<lambda>s p. desc0\<lparr>q_profile := p\<rparr>),
     b_openDup = (\<lambda>s k. 9),
     b_loadRates = (\<lambda>s k p. p),
     b_loadFormats = (\<lambda>s k p. p),
     b_loadChannels = (\<lambda>s k p. p),
     b_sortProfiles = (\<lambda>ps. ps),
     b_open = (\<lambda>s. (3, 2, 44100, 1, 3, 20)),
     b_changeRef = change0,
     b_checkA2dpSuspend = (\<lambda>s. s),
     b_checkOutputs = (\<lambda>s. s),
     b_checkOutput = (\<lambda>st s. s),
     b_updateDevices = (\<lambda>s. s),
     b_closeOutput = close0,
     b_addOutput = (\<lambda>k d s. s\<lparr>mOutputs := mOutputs s @ [(k, d)]\<rparr>)\<rparr>"

definition pol0 :: pol where
  "pol0 = \<lparr>mPhoneState = MODE_NORMAL,
     mForceUse = (\<lambda>_. FORCE_NONE),
     mAvailableOutputDevices = 2,
     mAvailableInputDevices = 4,
     mDefaultOutputDevice = 1,
     mHasA2dp = False,
     mHasUsb = False,
     mHasRemoteSubmix = False,
     mA2dpSuspended = False,
     mA2dpDeviceAddress = [],
     mScoDeviceAddress = [],
     mUsbCardAndDevice = [],
     fmMode = FM_NONE,
     pendingForceNone = False,
     enforcedCanBeMuted = True,
     mDeviceForStrategy = (\<lambda>_. 2),
     mModules = [\<lparr>m_handle = 1, m_profiles = [\<lparr>pr_devices = 7, pr_flags = [], pr_rates = [44100], pr_formats = [1], pr_channels = [3]\<rparr>]\<rparr>],
     mOutputs = [(1, desc0)],
     mPreviousOutputs = [],
     mPolInputs = [],
     mPrimaryOutput = 1,
     mLimitRingtoneVolume = False,
     mLastVoiceVolume = 1,
     dtmfCurve = DTMF,
     p_log = [],
     p_fault = False\<rparr>"

lemmas base0_simps = base0_def pol0_def desc0_def change0_def close0_def

text \<open>The wired headset is connected: it needs no new output, the primary one reaches it.\<close>

lemmas connect_simps = setDeviceConnectionState_def output_connection_def connect_output_def
  disconnect_output_def checkOutputsForDevice_def supported_by_def profile_at_def profiles_for_def of_profile_def
  note_address_def forget_address_def after_output_def input_connection_def input_of_def route_input_def

lemma base0_checks:
  "run_state (checkOutputsForDevice base0 4 AVAILABLE) pol0 = ((NO_ERROR, [1]), pol0)"
  by (simp add: base0_simps connect_simps)

lemma out_pol0: "out_at pol0 (Suc 0) = Some desc0" "q_dup desc0 = None" "q_device desc0 = 2" "p_log pol0 = []"
  by (simp_all add: out_at_def pol0_def desc0_def)

lemma dup_depth_Suc: "dup_depth = Suc (Suc 0)"
  by (simp add: dup_depth_def)

lemma supported_pol0: "supported_by pol0 desc0 = 7"
  by (simp add: pol0_def desc0_def supported_by_def profile_at_def)

end
