(* ===== verification/PolicyProps.thy ===== *)
theory PolicyProps
  imports PolicyExample
begin

text \<open>
  Properties of the audio policy manager: which devices it can select, how it follows devices,
  calls and the radio, which calls it makes on its outputs, and where it goes wrong.
\<close>

section \<open>Devices\<close>

lemma masked_in_orI: "masked_in a m \<Longrightarrow> masked_in a (m OR (n :: 'a::len word))"
  "masked_in a n \<Longrightarrow> masked_in a (m OR (n :: 'a::len word))"
  by (auto simp: bit_eq_iff bit_simps)

lemma masked_in_trans: "masked_in a b \<Longrightarrow> masked_in b (c :: 'a::len word) \<Longrightarrow> masked_in a c"
  by (auto simp: bit_eq_iff bit_simps)

lemma first_of_available: "masked_in (first_of B s ds) (mAvailableOutputDevices s)"
  by (auto simp: first_of_def and_masked_in split: option.split)

text \<open>
  What a selected device can consist of: the available devices, the default, the radio and, for
  a radio forced to the loudspeaker, the loudspeaker; during a call what was cached for it.
\<close>

definition selectable :: "pbase \<Rightarrow> pol \<Rightarrow> u32" where
  "selectable B s =
     mAvailableOutputDevices s OR mDefaultOutputDevice s
     OR (if holds (mAvailableOutputDevices s) (b_dev B O_FM) then b_dev B O_FM OR b_dev B O_SPEAKER else 0)
     OR (if mPhoneState s = MODE_IN_CALL then mDeviceForStrategy s STRATEGY_PHONE else 0)"

lemma selectable_parts:
  "masked_in d (mAvailableOutputDevices s) \<Longrightarrow> masked_in d (selectable B s)"
  "masked_in d (mDefaultOutputDevice s) \<Longrightarrow> masked_in d (selectable B s)"
  "holds (mAvailableOutputDevices s) (b_dev B O_FM) \<Longrightarrow> masked_in (b_dev B O_FM) (selectable B s)"
  "holds (mAvailableOutputDevices s) (b_dev B O_FM) \<Longrightarrow> masked_in (b_dev B O_SPEAKER) (selectable B s)"
  "mPhoneState s = MODE_IN_CALL \<Longrightarrow> masked_in (mDeviceForStrategy s STRATEGY_PHONE) (selectable B s)"
  by (auto simp: selectable_def bit_eq_iff bit_simps)

lemma or_else_masked: "masked_in a m \<Longrightarrow> masked_in b m \<Longrightarrow> masked_in (or_else a b) m"
  by (simp add: or_else_def)

lemmas selects = or_else_masked selectable_parts(1) [OF first_of_available]

lemma phone_selectable: "masked_in (phone_device B st s) (selectable B s)"
proof -
  have d: "masked_in (mDefaultOutputDevice s) (selectable B s)"
    by (intro selectable_parts(2) masked_in_self)
  have "masked_in (phone_normal B s) (selectable B s)" "masked_in (phone_sco B st s) (selectable B s)"
    "masked_in (phone_speaker B s) (selectable B s)"
    unfolding phone_normal_def phone_sco_def phone_speaker_def using d by (auto intro!: selects)
  then show ?thesis
    by (auto simp: phone_device_def Let_def intro!: or_else_masked selectable_parts(4) split: forced_config.split)
qed

lemma media_selectable:
  assumes "masked_in device (selectable B s)"
  shows "masked_in (media_device B st device s) (selectable B s)"
proof -
  have "masked_in (mAvailableOutputDevices s AND b_dev B O_SPEAKER) (selectable B s)"
    by (intro selectable_parts(1) and_masked_in)
  then have "masked_in (media_select B device s) (selectable B s)"
    unfolding media_select_def Let_def using assms by (auto simp: masked_in_or intro!: selects)
  then have "masked_in (media_fm B (media_select B device s) s) (selectable B s)"
    unfolding media_fm_def Let_def
    by (auto simp: masked_in_or intro!: selectable_parts(3,4) masked_in_and_left)
  then show ?thesis
    by (auto simp: media_device_def media_in_call_def intro!: selectable_parts(5))
qed

lemma audible_selectable: "masked_in (audible_device B st s) (selectable B s)"
proof -
  have "masked_in (mAvailableOutputDevices s AND b_dev B O_SPEAKER) (selectable B s)"
    by (intro selectable_parts(1) and_masked_in)
  then show ?thesis by (simp add: audible_device_def Let_def media_selectable)
qed

text \<open>
  C16. Whatever the strategy, the manager selects from what is available: the available devices,
  the default device, the radio and the loudspeaker it may be forced to, and during a call the
  device cached for it.
\<close>

theorem selected_device_available:
  "masked_in (getDeviceForStrategy B st False s) (selectable B s)"
  by (auto simp: getDeviceForStrategy_def sonification_device_def
      intro!: phone_selectable media_selectable audible_selectable split: strategy.split)

text \<open>
  During a call ringing and notifications go where the call goes, and so do the dial tones,
  except that they leave out a car kit.
\<close>

theorem in_call_strategies_agree:
  assumes "isInCall B s"
  shows "getDeviceForStrategy B STRATEGY_SONIFICATION False s = getDeviceForStrategy B STRATEGY_PHONE False s
    \<and> getDeviceForStrategy B STRATEGY_SONIFICATION_RESPECTFUL False s = getDeviceForStrategy B STRATEGY_PHONE False s
    \<and> (mForceUse s FOR_COMMUNICATION \<noteq> FORCE_BT_SCO \<or> \<not> holds (mAvailableOutputDevices s) (b_dev B O_SCO_CARKIT) \<longrightarrow>
       getDeviceForStrategy B STRATEGY_DTMF False s = getDeviceForStrategy B STRATEGY_PHONE False s)"
  using assms
  by (auto simp: getDeviceForStrategy_def sonification_device_def phone_device_def phone_sco_def Let_def
      first_of_def split: forced_config.split)

theorem in_call_strategies_agree_witness:
  "getDeviceForStrategy base0 STRATEGY_SONIFICATION False (pol0\<lparr>mPhoneState := MODE_IN_CALL\<rparr>) = 1"
proof -
  let ?s = "pol0\<lparr>mPhoneState := MODE_IN_CALL\<rparr>"
  have "isInCall base0 ?s" by (simp add: isInCall_def base0_def)
  from in_call_strategies_agree [OF this] show ?thesis
    by (simp add: getDeviceForStrategy_def phone_device_def phone_normal_def first_of_def phone_wired_def
        or_else_def base0_simps)
qed

text \<open>
  Media never falls back to the default device: with no device of its list available it
  selects none, where the strategy of the phone selects the default.
\<close>

theorem media_ignores_default:
  assumes "first_of B s media_list = 0" "\<not> a2dp_usable B s" "\<not> holds (mAvailableOutputDevices s) (b_dev B O_FM)"
  shows "getDeviceForStrategy B STRATEGY_MEDIA False s = 0
    \<and> (mForceUse s FOR_COMMUNICATION = FORCE_NONE \<and> first_of B s phone_wired = 0 \<longrightarrow>
       getDeviceForStrategy B STRATEGY_PHONE False s = mDefaultOutputDevice s)"
proof -
  have "mAvailableOutputDevices s AND b_dev B O_SPEAKER = 0"
    using assms(1) by (auto simp: first_of_def media_list_def split: if_splits)
  then show ?thesis using assms
    by (simp add: getDeviceForStrategy_def media_device_def media_select_def media_fm_def media_in_call_def
        or_else_def phone_device_def phone_normal_def Let_def)
qed

theorem media_ignores_default_witness:
  "getDeviceForStrategy base0 STRATEGY_MEDIA False (pol0\<lparr>mAvailableOutputDevices := 0\<rparr>) = 0
   \<and> getDeviceForStrategy base0 STRATEGY_PHONE False (pol0\<lparr>mAvailableOutputDevices := 0\<rparr>) = 1"
  using media_ignores_default [of base0 "pol0\<lparr>mAvailableOutputDevices := 0\<rparr>"]
  by (simp add: first_of_def media_list_def phone_wired_def a2dp_usable_def base0_simps)

section \<open>Profiles\<close>

lemma find_profile_Some:
  "find_profile ok i j ps = Some (a, b) \<Longrightarrow>
     a = i \<and> j \<le> b \<and> b - j < length ps \<and> ok (ps ! (b - j)) \<and> (\<forall>c < b - j. \<not> ok (ps ! c))"
proof (induction ps arbitrary: j)
  case (Cons p ps)
  show ?case
  proof (cases "ok p")
    case False
    then have "find_profile ok i (Suc j) ps = Some (a, b)" using Cons.prems by simp
    note IH = Cons.IH [OF this]
    then obtain n where n: "b = Suc (j + n)" by (metis Suc_le_D Suc_le_mono add_Suc le_Suc_ex)
    with IH False show ?thesis by (auto simp: less_Suc_eq_0_disj)
  qed (use Cons.prems in auto)
qed simp

lemma find_profile_None: "find_profile ok i j ps = None \<longleftrightarrow> (\<forall>p \<in> set ps. \<not> ok p)"
  by (induction ps arbitrary: j) auto

lemma find_in_modules_None:
  "find_in_modules ok i ms = None \<longleftrightarrow> (\<forall>m \<in> set ms. m_handle m \<noteq> 0 \<longrightarrow> (\<forall>p \<in> set (m_profiles m). \<not> ok p))"
proof (induction ms arbitrary: i)
  case (Cons m ms)
  show ?case
  proof (cases "find_profile ok i 0 (m_profiles m)")
    case None
    then show ?thesis using Cons.IH [of "Suc i"] find_profile_None [of ok i 0 "m_profiles m"] by simp
  next
    case (Some r)
    then have "\<not> (\<forall>p \<in> set (m_profiles m). \<not> ok p)" using find_profile_None [of ok i 0 "m_profiles m"] by simp
    then show ?thesis using Some Cons.IH [of "Suc i"] by auto
  qed
qed simp

text \<open>The profiles before a place, in the order of the search, that belong to loaded modules.\<close>

definition searched :: "hw_module list \<Rightarrow> nat \<times> nat \<Rightarrow> profile list" where
  "searched ms = (\<lambda>(a, b). concat (map (\<lambda>m. if m_handle m = 0 then [] else m_profiles m) (take a ms))
                           @ take b (m_profiles (ms ! a)))"

lemma find_in_modules_Some:
  assumes "find_in_modules ok i ms = Some (a, b)"
  shows "i \<le> a \<and> a - i < length ms \<and> m_handle (ms ! (a - i)) \<noteq> 0 \<and> b < length (m_profiles (ms ! (a - i)))
    \<and> ok (m_profiles (ms ! (a - i)) ! b) \<and> (\<forall>p \<in> set (searched ms (a - i, b)). \<not> ok p)"
  using assms
proof (induction ms arbitrary: i)
  case (Cons m ms)
  show ?case
  proof (cases "m_handle m \<noteq> 0 \<and> find_profile ok i 0 (m_profiles m) \<noteq> None")
    case True
    then have "find_profile ok i 0 (m_profiles m) = Some (a, b)" using Cons.prems True by auto
    from find_profile_Some [OF this] True show ?thesis
      by (auto simp: searched_def in_set_conv_nth)
  next
    case False
    then have "find_in_modules ok (Suc i) ms = Some (a, b)" using Cons.prems by (auto split: if_splits option.splits)
    note IH = Cons.IH [OF this]
    then obtain n where n: "a = Suc (i + n)" by (metis Suc_le_D Suc_le_mono add_Suc le_Suc_ex)
    from False have "m_handle m = 0 \<or> (\<forall>p \<in> set (m_profiles m). \<not> ok p)" by (auto simp: find_profile_None)
    with IH n show ?thesis by (auto simp: searched_def)
  qed
qed simp

text \<open>
  A direct output gets the first profile, in the order of modules and profiles, that fits
  the request and reaches an available device; it gets none only if no profile does.
\<close>

theorem direct_profile_first:
  "let ok = (\<lambda>p. b_profile_ok B p device rate fmt ch (lookup_flags fl) \<and> holds (mAvailableOutputDevices s) (pr_devices p))
   in case getProfileForDirectOutput B device rate fmt ch fl s of
        None \<Rightarrow> \<not> list_ex (\<lambda>m. m_handle m \<noteq> 0 \<and> list_ex ok (m_profiles m)) (mModules s)
      | Some (i, j) \<Rightarrow> i < length (mModules s) \<and> m_handle (mModules s ! i) \<noteq> 0
          \<and> j < length (m_profiles (mModules s ! i)) \<and> ok (m_profiles (mModules s ! i) ! j)
          \<and> \<not> list_ex ok (searched (mModules s) (i, j))"
  unfolding getProfileForDirectOutput_def Let_def
  by (auto simp: find_in_modules_None list_ex_iff dest!: find_in_modules_Some split: option.split)

section \<open>Frames\<close>

text \<open>
  What the base class may change is a parameter. \<open>base_keeps B V\<close>: its state changes leave the
  view \<open>V\<close> as it is.
\<close>

definition base_keeps :: "pbase \<Rightarrow> (pol \<Rightarrow> 'v) \<Rightarrow> bool" where
  "base_keeps B V \<longleftrightarrow>
     (\<forall>s. V (b_checkA2dpSuspend B s) = V s \<and> V (b_checkOutputs B s) = V s \<and> V (b_updateDevices B s) = V s
        \<and> (\<forall>st. V (b_checkOutput B st s) = V s))"

definition base_keeps_all :: "pbase \<Rightarrow> (pol \<Rightarrow> 'v) \<Rightarrow> bool" where
  "base_keeps_all B V \<longleftrightarrow> base_keeps B V
     \<and> (\<forall>s out st n. V (b_changeRef B out st n s) = V s) \<and> (\<forall>s k. V (b_closeOutput B k s) = V s)
     \<and> (\<forall>s k d. V (b_addOutput B k d s) = V s)"

lemma exec_upd_output [simp]:
  "exec (upd_output k f) s = s\<lparr>mOutputs := map (\<lambda>(j, d). (j, if j = k then f d else d)) (mOutputs s)\<rparr>"
  by (simp add: upd_output_def)

lemma exec_no_output [simp]: "exec no_output s = s\<lparr>p_fault := True\<rparr>"
  by (simp add: no_output_def)

text \<open>
  The contract of a view that changing the device of an output keeps: it does not depend on the
  log (but for the calls of \<open>own\<close>), nor on what is updated in a descriptor.
\<close>

locale output_view =
  fixes V :: "pol \<Rightarrow> 'v" and own :: "pcall \<Rightarrow> bool"
  assumes log [simp]: "\<not> own c \<Longrightarrow> V (s\<lparr>p_log := p_log s @ [c]\<rparr>) = V s"
    and fault [simp]: "V (s\<lparr>p_fault := b\<rparr>) = V s"
    and desc: "(\<And>d. q_refs (f d) = q_refs d) \<Longrightarrow> (\<And>d. q_dup (f d) = q_dup d) \<Longrightarrow>
        (\<And>d. q_device (f d) = q_device d) \<Longrightarrow>
        V (s\<lparr>mOutputs := map (\<lambda>(j, d). (j, if j = k then f d else d)) (mOutputs s)\<rparr>) = V s"
    and mute_calls: "\<not> own (SetStrategyMute st m k n dev)" "\<not> own (Sleep n)"
begin

lemma mute_outputs: "preserves (\<lambda>s. V s = v) (mute_outputs B out st mute tempMute device delayMs ds w)"
proof (induction ds arbitrary: w)
  case (Cons kd ds)
  then show ?case by (cases kd) (simp, intro pres impI conjI, simp_all add: mute_calls)
qed (simp add: pres)

lemma upd_muted: "preserves (\<lambda>s. V s = v) (upd_output out (\<lambda>d. d\<lparr>q_muted_by := f d\<rparr>))"
  unfolding upd_output_def by (intro pres) (simp add: desc)

lemma fault_raised: "preserves (\<lambda>s. V s = v) no_output"
  unfolding no_output_def by (intro pres) simp

lemma mute_strategies:
  "preserves (\<lambda>s. V s = v) (mute_strategies B out sm tm device delayMs sts w)"
proof (induction sts arbitrary: w)
  case (Cons st sts)
  show ?case unfolding mute_strategies.simps Let_def by (intro pres upd_muted mute_outputs Cons)
qed (simp add: pres)

lemma check_mutes: "preserves (\<lambda>s. V s = v) (checkDeviceMuteStrategies B out prev delayMs)"
  unfolding checkDeviceMuteStrategies_def Let_def
  by (intro pres mute_strategies fault_raised) (simp_all add: mute_calls)

end

text \<open>A view that routing calls and volumes do not touch either.\<close>

locale routed_view = output_view +
  assumes route_calls: "\<not> own (SetRouting k dev n)" "\<not> own (ApplyVolumes k dev n b)"
    and device: "V (s\<lparr>mOutputs := map (\<lambda>(j, d). (j, if j = k then d\<lparr>q_device := x\<rparr> else d)) (mOutputs s)\<rparr>) = V s"
begin

lemma upd_device: "preserves (\<lambda>s. V s = v) (upd_output out (\<lambda>d. d\<lparr>q_device := x\<rparr>))"
  unfolding upd_output_def by (intro pres) (simp add: device)

lemma set_device: "preserves (\<lambda>s. V s = v) (setOutputDevice B fuel out device force delayMs)"
proof (induction fuel arbitrary: out)
  case 0
  then show ?case by (simp add: pres fault_raised)
next
  case (Suc n)
  show ?case
    unfolding setOutputDevice.simps set_plain_device_def Let_def
    by (intro pres Suc check_mutes upd_device fault_raised) (simp_all add: route_calls)
qed

end

interpretation shape: routed_view "\<lambda>s. map (\<lambda>(k, d). (k, q_dup d)) (mOutputs s)" "\<lambda>_. False"
proof unfold_locales
  show "map (\<lambda>(k, d). (k, q_dup d)) (mOutputs (s\<lparr>mOutputs := map (\<lambda>(j, d). (j, if j = k then f d else d)) (mOutputs s)\<rparr>))
      = map (\<lambda>(k, d). (k, q_dup d)) (mOutputs s)"
    if "\<And>d. q_refs (f d) = q_refs d" "\<And>d. q_dup (f d) = q_dup d" for f s k
    using that by (simp add: case_prod_beta)
qed (simp_all add: case_prod_beta)

interpretation counts: routed_view "\<lambda>s. map (\<lambda>(k, d). (k, q_refs d)) (mOutputs s)" "\<lambda>_. False"
proof unfold_locales
  show "map (\<lambda>(k, d). (k, q_refs d)) (mOutputs (s\<lparr>mOutputs := map (\<lambda>(j, d). (j, if j = k then f d else d)) (mOutputs s)\<rparr>))
      = map (\<lambda>(k, d). (k, q_refs d)) (mOutputs s)"
    if "\<And>d. q_refs (f d) = q_refs d" "\<And>d. q_dup (f d) = q_dup d" for f s k
    using that by (simp add: case_prod_beta)
qed (simp_all add: case_prod_beta)

definition settings_view :: "pol \<Rightarrow> u32 \<times> (force_use \<Rightarrow> forced_config) \<times> fm_modes \<times> bool \<times> hw_module list \<times> nat" where
  "settings_view s = (mAvailableOutputDevices s, mForceUse s, fmMode s, pendingForceNone s, mModules s, mPrimaryOutput s)"

interpretation kept: routed_view settings_view "\<lambda>_. False"
  by unfold_locales (simp_all add: settings_view_def)




section \<open>Changing devices\<close>

lemma out_at_view: "map_option f (out_at s k) = map_of (map (\<lambda>(k, d). (k, f d)) (mOutputs s)) k"
  by (simp add: out_at_def map_of_map)

definition plain :: "pol \<Rightarrow> nat \<Rightarrow> bool" where
  "plain s k \<longleftrightarrow> map_option q_dup (out_at s k) = Some None"

lemma plain_shape:
  "map (\<lambda>(k, d). (k, q_dup d)) (mOutputs t) = map (\<lambda>(k, d). (k, q_dup d)) (mOutputs s) \<Longrightarrow> plain t k = plain s k"
  by (simp add: plain_def out_at_view)

lemma mute_outputs_fault: "preserves (\<lambda>s. p_fault s = v) (mute_outputs B out st mute tempMute device delayMs ds w)"
proof (induction ds arbitrary: w)
  case (Cons kd ds)
  then show ?case by (cases kd) (simp, intro pres impI conjI, simp_all)
qed (simp add: pres)

lemma mute_strategies_fault: "preserves (\<lambda>s. p_fault s = v) (mute_strategies B out sm tm device delayMs sts w)"
proof (induction sts arbitrary: w)
  case (Cons st sts)
  show ?case unfolding mute_strategies.simps Let_def upd_output_def
    by (intro pres mute_outputs_fault Cons) simp_all
qed (simp add: pres)

lemma check_mutes_fault:
  assumes "out_at s out = Some d"
  shows "p_fault (exec (checkDeviceMuteStrategies B out prev delayMs) s) = p_fault s"
  using assms preservesD [OF mute_strategies_fault, of s "p_fault s"]
  by (cases "q_dup d") (simp_all add: checkDeviceMuteStrategies_def Let_def)

lemma out_at_upd:
  "out_at (s\<lparr>mOutputs := map (\<lambda>(j, d). (j, if j = k then f d else d)) (mOutputs s)\<rparr>) i
     = (if i = k then map_option f (out_at s i) else out_at s i)"
proof -
  have "map_of (map (\<lambda>(j, d). (j, if j = k then f d else d)) xs) i
      = (if i = k then map_option f (map_of xs i) else map_of xs i)" for xs :: "(nat \<times> outdesc) list"
    by (induction xs) auto
  then show ?thesis by (simp add: out_at_def)
qed

lemma plain_device:
  assumes "plain s out"
  obtains d where "out_at s out = Some d" "q_dup d = None"
    "\<And>n. run_state (setOutputDevice B (Suc n) out device force delayMs) s
       = run_state (set_plain_device B out d device delayMs) s"
  using assms by (auto simp: plain_def)

lemma dup_device:
  assumes "out_at s out = Some d" "q_dup d = Some (a, b)"
  shows "run_state (setOutputDevice B (Suc n) out device force delayMs) s =
     (let (w1, t) = run_state (setOutputDevice B n a device force delayMs) s;
          (w2, u) = run_state (setOutputDevice B n b device force delayMs) t
      in (w1 + w2, u))"
  using assms by (simp add: split_beta)

lemma set_plain_fault:
  assumes "out_at s out = Some d"
  shows "p_fault (exec (set_plain_device B out d device delayMs) s) = p_fault s"
  using assms check_mutes_fault [where B = B and out = out]
  by (simp add: set_plain_device_def Let_def out_at_upd)

lemma set_device_fault:
  assumes "plain s out"
  shows "p_fault (exec (setOutputDevice B (Suc n) out device force delayMs) s) = p_fault s"
  by (rule plain_device [OF assms, of B device force delayMs])
    (metis exec_def set_plain_fault)

text \<open>No duplication feeds another one.\<close>

definition flat :: "pol \<Rightarrow> bool" where
  "flat s \<longleftrightarrow> list_all (\<lambda>(_, d). case q_dup d of None \<Rightarrow> True | Some (a, b) \<Rightarrow> plain s a \<and> plain s b) (mOutputs s)"

text \<open>
  The recursion of \<open>setOutputDevice\<close> ends: where duplications feed plain outputs two levels
  are enough, any more give the same result, and no output is missing.
\<close>

theorem duplication_resolved:
  assumes "flat s" "out_at s out \<noteq> None" "dup_depth \<le> fuel"
  shows "run_state (setOutputDevice B fuel out device force delayMs) s
      = run_state (setOutputDevice B dup_depth out device force delayMs) s
    \<and> p_fault (exec (setOutputDevice B fuel out device force delayMs) s) = p_fault s"
proof -
  obtain n where n: "fuel = Suc (Suc n)" using assms(3) by (auto simp: dup_depth_def dest: le_Suc_ex)
  obtain d where d: "out_at s out = Some d" using assms(2) by auto
  have deep: "run_state (setOutputDevice B (Suc m) k device force delayMs) t
      = run_state (setOutputDevice B (Suc 0) k device force delayMs) t" if "plain t k" for m k t
    using plain_device [OF that] by metis
  show ?thesis
  proof (cases "q_dup d")
    case None
    then have "plain s out" by (simp add: plain_def d)
    then show ?thesis using set_device_fault deep [of s out "Suc n"] deep [of s out 1]
      by (simp add: n dup_depth_def numeral_2_eq_2 del: setOutputDevice.simps)
  next
    case (Some ab)
    then obtain a b where ab: "q_dup d = Some (a, b)" by (cases ab) auto
    have "(out, d) \<in> set (mOutputs s)" using d by (simp add: out_at_def map_of_SomeD)
    then have pl: "plain s a" "plain s b" using assms(1) ab by (auto simp: flat_def list_all_iff)
    define t where "t = exec (setOutputDevice B (Suc 0) a device force delayMs) s"
    have "plain t b"
      using pl(2) plain_shape [OF preservesD [OF shape.set_device refl]] unfolding t_def by blast
    then have "run_state (setOutputDevice B (Suc n) b device force delayMs) t = run_state (setOutputDevice B (Suc 0) b device force delayMs) t"
      "p_fault (exec (setOutputDevice B (Suc 0) b device force delayMs) t) = p_fault t"
      using deep set_device_fault by blast+
    moreover have "run_state (setOutputDevice B (Suc n) a device force delayMs) s
        = (result (setOutputDevice B (Suc 0) a device force delayMs) s, t)"
      using deep [OF pl(1)] by (simp add: t_def run_state_split)
    moreover have "p_fault t = p_fault s" using set_device_fault [OF pl(1)] by (simp add: t_def)
    ultimately show ?thesis
      unfolding dup_depth_def numeral_2_eq_2 exec_def n
      by (simp add: dup_device [OF d ab] split_beta t_def exec_def result_def del: setOutputDevice.simps)
  qed
qed

lemma flat_base0: "flat pol0"
  by (simp add: flat_def base0_simps)

theorem duplication_resolved_witness:
  "run_state (setOutputDevice base0 5 1 4 False 0) pol0 = run_state (setOutputDevice base0 dup_depth 1 4 False 0) pol0
   \<and> p_fault (exec (setOutputDevice base0 5 1 4 False 0) pol0) = p_fault pol0"
  by (rule duplication_resolved [OF flat_base0]) (simp_all add: out_pol0 dup_depth_Suc)




section \<open>Mutes\<close>

definition short_unmute :: "pcall \<Rightarrow> bool" where
  "short_unmute c \<longleftrightarrow> (case c of SetStrategyMute st m k n (Some dev) \<Rightarrow> m \<or> n = 2 \<or> n = 4 | _ \<Rightarrow> True)"

lemma short_unmute_simps [simp]:
  "short_unmute (SetStrategyMute st m k n None)" "short_unmute (Sleep n)" "short_unmute (SetRouting k dev n)"
  "short_unmute (ApplyVolumes k dev n b)" "short_unmute (SetStrategyMute st m k (unmute_delay B lat fl) dv)"
  by (auto simp: short_unmute_def unmute_delay_def split: option.split)

lemma upd_output_log: "preserves (\<lambda>s. P (p_log s)) (upd_output k f)" "preserves (\<lambda>s. P (p_log s)) no_output"
  unfolding upd_output_def no_output_def by (intro pres, simp)+

lemma mute_outputs_short: "preserves (\<lambda>s. list_all short_unmute (p_log s)) (mute_outputs B out st m tm device delayMs ds w)"
proof (induction ds arbitrary: w)
  case (Cons kd ds)
  obtain k d where kd: "kd = (k, d)" by (cases kd)
  show ?case unfolding kd mute_outputs.simps by (intro pres Cons) simp_all
qed (simp add: pres)

lemma mute_strategies_short: "preserves (\<lambda>s. list_all short_unmute (p_log s)) (mute_strategies B out sm tm device delayMs sts w)"
proof (induction sts arbitrary: w)
  case (Cons st sts)
  show ?case unfolding mute_strategies.simps Let_def by (intro pres upd_output_log mute_outputs_short Cons)
qed (simp add: pres)

text \<open>
  A mute that covers the change of a device is lifted after 2 or 4 milliseconds, whatever the
  latency of the output: the product of latency and flag is only tested.
\<close>

theorem unmute_ignores_latency:
  assumes "list_all short_unmute (p_log s)"
  shows "list_all short_unmute (p_log (exec (setOutputDevice B fuel out device force delayMs) s))"
proof -
  have "preserves (\<lambda>s. list_all short_unmute (p_log s)) (setOutputDevice B fuel out device force delayMs)" for out
  proof (induction fuel arbitrary: out)
    case (Suc n)
    show ?case
      unfolding setOutputDevice.simps set_plain_device_def checkDeviceMuteStrategies_def Let_def
      by (intro pres Suc mute_strategies_short upd_output_log) simp_all
  qed (simp add: pres upd_output_log)
  then show ?thesis using assms by (rule preservesD)
qed

theorem unmute_ignores_latency_witness:
  "list_all short_unmute (p_log (exec (setOutputDevice base0 dup_depth 1 4 False 0) pol0))"
  by (rule unmute_ignores_latency) (simp add: out_pol0)

end
