(* ===== verification/PolicyEvents.thy ===== *)
theory PolicyEvents
  imports PolicyProps
begin

text \<open>
  Properties of the events of the audio policy manager: streams that start and stop, devices that
  come and go, forced configurations, calls and the radio.
\<close>

section \<open>Frames of the events\<close>

text \<open>
  The contract of a view that starting and stopping streams keeps, where the base class keeps it:
  the volume last sent and the inputs do not count.
\<close>

locale event_view = routed_view V "\<lambda>_. False" for V :: "pol \<Rightarrow> 'v" +
  assumes voice: "V (s\<lparr>mLastVoiceVolume := x\<rparr>) = V s"
    and inputs: "V (s\<lparr>mPolInputs := i\<rparr>) = V s"
begin

lemma calls: "preserves (\<lambda>s. V s = v) (p_call c)"
  by (intro pres) simp

lemma upd_plain:
  assumes "\<And>d. q_refs (f d) = q_refs d" "\<And>d. q_dup (f d) = q_dup d" "\<And>d. q_device (f d) = q_device d"
  shows "preserves (\<lambda>s. V s = v) (upd_output k f)"
  unfolding upd_output_def by (intro pres) (simp add: desc [OF assms])

lemma volume: "preserves (\<lambda>s. V s = v) (checkAndSetVolume B st index out device delayMs force)"
  unfolding checkAndSetVolume_def send_volume_def Let_def
  by (intro pres fault_raised upd_plain calls) (simp_all add: voice)

lemma base:
  assumes "base_keeps B V"
  shows "preserves (\<lambda>s. V s = v) (modify (b_checkA2dpSuspend B))"
    "preserves (\<lambda>s. V s = v) (modify (b_checkOutputs B))"
    "preserves (\<lambda>s. V s = v) (modify (b_updateDevices B))"
    "preserves (\<lambda>s. V s = v) (modify (b_checkOutput B st))"
  using assms by (auto simp: base_keeps_def intro!: pres)

lemma notify: "base_keeps B V \<Longrightarrow> preserves (\<lambda>s. V s = v) (handleNotificationRoutingForStream B st)"
  unfolding handleNotificationRoutingForStream_def by (intro pres base)

lemma start: "base_keeps B V \<Longrightarrow> preserves (\<lambda>s. V s = v) (start_routing B out st)"
  unfolding start_routing_def Let_def by (intro pres set_device calls volume notify)

lemma restore: "preserves (\<lambda>s. V s = v) (restore_others B out newDevice delayMs ks)"
  by (induction ks) (simp_all, (intro pres set_device | assumption)+)

lemma stop: "base_keeps B V \<Longrightarrow> preserves (\<lambda>s. V s = v) (stop_routing B out st latency)"
  unfolding stop_routing_def Let_def by (intro pres set_device upd_plain notify restore) simp_all

lemma input_routed: "preserves (\<lambda>s. V s = v) (route_input B)"
  unfolding route_input_def by (intro pres fault_raised calls) (simp_all add: inputs)

lemma forced: "preserves (\<lambda>s. V s = v) (force_outputs B volumes ks)"
  by (induction ks) (simp_all, (intro pres set_device calls | assumption)+)

lemma rerouted: "preserves (\<lambda>s. V s = v) (reroute_outputs B ks)"
  by (induction ks) (simp_all, (intro pres set_device | assumption)+)

lemma media_muted: "preserves (\<lambda>s. V s = v) (mute_media B ds delayMs)"
proof (induction ds arbitrary: delayMs)
  case (Cons kd ds)
  obtain k d where kd: "kd = (k, d)" by (cases kd)
  show ?case unfolding kd mute_media.simps by (intro pres calls Cons)
qed (simp add: pres)

lemma sonified: "preserves (\<lambda>s. V s = v) (sonification_all starting change sts)"
  by (induction sts) (simp_all, (intro pres calls | assumption)+)

lemma active_restored: "preserves (\<lambda>s. V s = v) (restore_active B primary force delayMs ks)"
  by (induction ks) (simp_all, (intro pres set_device | assumption)+)

text \<open>What of a larger event a view notices: the configuration taken, the mode of the radio, the dial tones.\<close>

lemma use_forced:
  assumes "base_keeps B V"
  shows "V (exec (setForceUse B u c) s) = V (exec (take_force u c) s)"
proof -
  have "preserves (\<lambda>s. V s = v) (whenM go (do {
       modify (b_checkA2dpSuspend B); modify (b_checkOutputs B); modify (b_updateDevices B);
       keys \<leftarrow> gets (\<lambda>s. map fst (mOutputs s));
       force_outputs B volumes keys;
       route_input B }))" for go volumes v
    by (intro pres base [OF assms] forced input_routed)
  note rest = preservesD [OF this refl]
  show ?thesis unfolding setForceUse_def exec_bind split_beta by (rule rest)
qed

lemma fm_off:
  assumes "base_keeps B V"
  shows "V (exec (fm_disconnect B) s) = V (if pendingForceNone s
      then exec (take_force FOR_MEDIA FORCE_NONE) (s\<lparr>fmMode := FM_NONE\<rparr>) else s\<lparr>fmMode := FM_NONE\<rparr>)"
proof -
  have dev: "V (exec (setOutputDevice B dup_depth k d True 0) t) = V t" for k d t
    by (rule preservesD [OF set_device refl])
  show ?thesis by (simp add: fm_disconnect_def Let_def use_forced [OF assms] dev)
qed

lemma phone_routed:
  assumes "base_keeps B V" and limit: "\<And>t x. V (t\<lparr>mLimitRingtoneVolume := x\<rparr>) = V t"
  shows "V (exec (phone_routing B old new) s) = V (s\<lparr>dtmfCurve :=
      (if b_in_call_state B new \<and> \<not> b_in_call_state B old then VOICE_CALL
       else if b_in_call_state B old \<and> \<not> b_in_call_state B new then DTMF else dtmfCurve s)\<rparr>)"
proof -
  have "\<exists>rest. phone_routing B old new =
      do { whenM (\<not> b_in_call_state B old \<and> b_in_call_state B new) (modify (\<lambda>s. s\<lparr>dtmfCurve := VOICE_CALL\<rparr>));
           whenM (b_in_call_state B old \<and> \<not> b_in_call_state B new) (modify (\<lambda>s. s\<lparr>dtmfCurve := DTMF\<rparr>));
           rest } \<and> (\<forall>v. preserves (\<lambda>s. V s = v) rest)"
    unfolding phone_routing_def Let_def
    by (rule exI, rule conjI, rule refl)
      (intro allI pres base [OF assms(1)] fault_raised calls media_muted set_device sonified active_restored,
        simp add: limit)
  then obtain rest where r: "phone_routing B old new =
      do { whenM (\<not> b_in_call_state B old \<and> b_in_call_state B new) (modify (\<lambda>s. s\<lparr>dtmfCurve := VOICE_CALL\<rparr>));
           whenM (b_in_call_state B old \<and> \<not> b_in_call_state B new) (modify (\<lambda>s. s\<lparr>dtmfCurve := DTMF\<rparr>));
           rest }" and k: "\<And>v. preserves (\<lambda>s. V s = v) rest" by blast
  have "V (exec rest t) = V t" for t by (rule preservesD [OF k refl])
  then show ?thesis by (simp add: r)
qed

lemma phone_set:
  assumes "base_keeps B V" and limit: "\<And>t x. V (t\<lparr>mLimitRingtoneVolume := x\<rparr>) = V t"
    and number: "\<And>t u m. V t = V u \<Longrightarrow> V (t\<lparr>mPhoneState := m\<rparr>) = V (u\<lparr>mPhoneState := m\<rparr>)"
    and dial: "\<And>t u x. V t = V u \<Longrightarrow> V (t\<lparr>dtmfCurve := x\<rparr>) = V (u\<lparr>dtmfCurve := x\<rparr>)"
    and dials: "\<And>t u. V t = V u \<Longrightarrow> dtmfCurve t = dtmfCurve u"
    and "b_valid_state B new" "new \<noteq> mPhoneState s"
  shows "V (exec (setPhoneState B new) s) = V (s\<lparr>mPhoneState := new, dtmfCurve :=
      (if b_in_call_state B new \<and> \<not> isInCall B s then VOICE_CALL
       else if isInCall B s \<and> \<not> b_in_call_state B new then DTMF else dtmfCurve s)\<rparr>)"
proof -
  define u where "u = (if isInCall B s then exec (sonification_all False True (b_streams B)) s else s)"
  have u: "V u = V s" using preservesD [OF sonified refl, of False True "b_streams B" s] by (simp add: u_def)
  have "exec (setPhoneState B new) s = exec (phone_routing B (mPhoneState s) new) (u\<lparr>mPhoneState := new\<rparr>)"
    using assms(6,7) by (cases "isInCall B s") (simp_all add: setPhoneState_def u_def)
  then show ?thesis
    using phone_routed [OF assms(1) limit, of "mPhoneState s" new "u\<lparr>mPhoneState := new\<rparr>"]
      dial [OF number [OF u]] dials [OF u] by (simp add: isInCall_def)
qed

end

text \<open>A view that does not look at the outputs, profiles and addresses: devices come and go without it.\<close>

locale device_view = event_view V for V :: "pol \<Rightarrow> 'v" +
  assumes outputs: "V (s\<lparr>mOutputs := os\<rparr>) = V s"
    and modules: "V (s\<lparr>mModules := ms\<rparr>) = V s"
    and addresses: "V (s\<lparr>mA2dpDeviceAddress := a, mA2dpSuspended := b\<rparr>) = V s"
      "V (s\<lparr>mScoDeviceAddress := a\<rparr>) = V s" "V (s\<lparr>mUsbCardAndDevice := a\<rparr>) = V s"
    and logs: "V (s\<lparr>p_log := l\<rparr>) = V s"
    and input_devices: "V (s\<lparr>mAvailableInputDevices := x\<rparr>) = V s"
    and previous: "V (s\<lparr>mPreviousOutputs := os\<rparr>) = V s"
begin

lemma base_all:
  assumes "base_keeps_all B V"
  shows "preserves (\<lambda>s. V s = v) (modify (b_changeRef B out st n))"
    "preserves (\<lambda>s. V s = v) (modify (b_closeOutput B k))"
    "preserves (\<lambda>s. V s = v) (modify (b_addOutput B k d))"
    "base_keeps B V"
  using assms by (auto simp: base_keeps_all_def intro!: pres)

lemma profile_set: "preserves (\<lambda>s. V s = v) (set_profile p q)"
  unfolding set_profile_def by (intro pres) (simp add: modules)

lemma opened_one: "base_keeps_all B V \<Longrightarrow> preserves (\<lambda>s. V s = v) (open_profile B device p)"
  unfolding open_profile_def add_direct_def add_mixed_def Let_def
  by (intro pres calls base_all profile_set fault_raised) (simp_all add: outputs)

lemma opened: "base_keeps_all B V \<Longrightarrow> preserves (\<lambda>s. V s = v) (open_profiles B device ps outs)"
proof (induction ps arbitrary: outs)
  case (Cons p ps)
  then show ?case unfolding open_profiles.simps by (intro pres opened_one) simp_all
qed (simp add: pres)

lemma outputs_checked: "base_keeps_all B V \<Longrightarrow> preserves (\<lambda>s. V s = v) (checkOutputsForDevice B device st)"
  unfolding checkOutputsForDevice_def by (intro pres opened) (simp_all add: modules)

lemma address_noted: "preserves (\<lambda>s. V s = v) (note_address B device address outs)"
  unfolding note_address_def by (intro pres) (simp_all add: addresses logs)

lemma address_forgotten: "preserves (\<lambda>s. V s = v) (forget_address B device)"
  unfolding forget_address_def by (intro pres) (simp_all add: addresses)

lemma closed: "base_keeps_all B V \<Longrightarrow> preserves (\<lambda>s. V s = v) (close_unused B st ks)"
  by (induction ks) (simp_all, (intro pres fault_raised base_all | assumption)+)

lemma followed: "base_keeps_all B V \<Longrightarrow> preserves (\<lambda>s. V s = v) (after_output B device st outs)"
  unfolding after_output_def fm_device_def Let_def
  by (intro pres set_device base base_all calls closed rerouted)

lemma input_connected: "preserves (\<lambda>s. V s = v) (input_connection B device st)"
  unfolding input_connection_def
  by (cases st) (simp_all, (intro pres input_routed | simp add: input_devices)+)

lemma input_part:
  "V (snd (if input_of B device = 0 then (NO_ERROR, t)
      else if b_is_input B (input_of B device) then run_state (input_connection B (input_of B device) st) t
      else (BAD_VALUE, t))) = V t"
  using preservesD [OF input_connected refl, of B "input_of B device" st t] by (simp add: exec_def)

lemma checked: "base_keeps_all B V \<Longrightarrow> V (exec (checkOutputsForDevice B device st) s) = V s"
  by (rule preservesD [OF outputs_checked refl])

lemma noted: "V (exec (note_address B device address outs) s) = V s"
  by (rule preservesD [OF address_noted refl])

lemma forgotten: "V (exec (forget_address B device) s) = V s"
  by (rule preservesD [OF address_forgotten refl])

lemma after: "base_keeps_all B V \<Longrightarrow> V (exec (after_output B device st outs) s) = V s"
  by (rule preservesD [OF followed refl])

end

definition avail_view :: "pol \<Rightarrow> u32 \<times> bool \<times> bool \<times> bool" where
  "avail_view s = (mAvailableOutputDevices s, mHasA2dp s, mHasUsb s, mHasRemoteSubmix s)"


definition force_view :: "pol \<Rightarrow> (force_use \<Rightarrow> forced_config) \<times> fm_modes \<times> bool" where
  "force_view s = (mForceUse s, fmMode s, pendingForceNone s)"

interpretation force_kept: device_view force_view
  by unfold_locales (simp_all add: force_view_def)

definition phone_view :: "pol \<Rightarrow> amode \<times> stream" where
  "phone_view s = (mPhoneState s, dtmfCurve s)"

interpretation phone_kept: event_view phone_view
  by unfold_locales (simp_all add: phone_view_def)

definition count_view :: "pol \<Rightarrow> (nat \<times> (stream \<Rightarrow> int)) list" where
  "count_view s = map (\<lambda>(k, d). (k, q_refs d)) (mOutputs s)"


section \<open>Devices that come and go\<close>

text \<open>What \<open>setDeviceConnectionState\<close> asks of an output device and its address.\<close>

definition accepted :: "pbase \<Rightarrow> u32 \<Rightarrow> string \<Rightarrow> pol \<Rightarrow> bool" where
  "accepted B device address s \<longleftrightarrow> b_is_output B device \<and> length address < b_max_address B
     \<and> (b_is_a2dp B device \<longrightarrow> mHasA2dp s) \<and> (b_is_usb B device \<longrightarrow> mHasUsb s)
     \<and> (b_is_submix B device \<longrightarrow> mHasRemoteSubmix s)"




text \<open>The switch on the new state of an output device, and the output part for an accepted device.\<close>

definition change_output :: "pbase \<Rightarrow> u32 \<Rightarrow> connection \<Rightarrow> string \<Rightarrow> (pol, status + nat list) state" where
  "change_output B device st address = (case st of
     AVAILABLE \<Rightarrow> connect_output B device address
   | UNAVAILABLE \<Rightarrow> disconnect_output B device
   | CONNECTION_OTHER n \<Rightarrow> ret (Inl BAD_VALUE))"

abbreviation saved :: "pol \<Rightarrow> pol" where
  "saved s \<equiv> s\<lparr>mPreviousOutputs := mOutputs s\<rparr>"

lemma output_connection_run:
  assumes "accepted B device address s"
  shows "run_state (output_connection B device st address) s =
      (case result (change_output B device st address) (saved s) of
         Inl e \<Rightarrow> (Some e, exec (change_output B device st address) (saved s))
       | Inr outs \<Rightarrow> (None, exec (after_output B device st outs) (exec (change_output B device st address) (saved s))))"
proof -
  have ok: "\<not> ((\<not> mHasA2dp s \<and> b_is_a2dp B device) \<or> (\<not> mHasUsb s \<and> b_is_usb B device)
      \<or> (\<not> mHasRemoteSubmix s \<and> b_is_submix B device))"
    using assms by (auto simp: accepted_def)
  show ?thesis
    unfolding output_connection_def change_output_def [symmetric] run_state_split
    using ok by (cases "result (change_output B device st address) (saved s)") auto
qed

lemma connection_run:
  assumes "accepted B device address s"
  shows "run_state (setDeviceConnectionState B device st address) s =
      (case run_state (output_connection B device st address) s of
         (Some e, t) \<Rightarrow> (e, t)
       | (None, t) \<Rightarrow>
           if input_of B device = 0 then (NO_ERROR, t)
           else if b_is_input B (input_of B device) then run_state (input_connection B (input_of B device) st) t
           else (BAD_VALUE, t))"
  using assms
  by (cases "result (output_connection B device st address) s")
    (simp_all add: accepted_def setDeviceConnectionState_def run_state_split)







lemma base0_keeps: "base_keeps_all base0 avail_view" "base_keeps_all base0 force_view"
  "base_keeps base0 phone_view" "base_keeps base0 count_view"
  by (simp_all add: base_keeps_all_def base_keeps_def base0_def change0_def close0_def
      avail_view_def force_view_def phone_view_def count_view_def)





section \<open>The radio\<close>

text \<open>
  Connecting the radio enters its mode before it is known whether an output can carry it: with no
  profile and no output for it the connection is refused, nothing becomes available, and the mode
  stays. Any later connection of the radio is refused, until it is disconnected.
\<close>

theorem refused_radio_keeps_mode:
  assumes "accepted B (b_dev B O_FM) address s" "fmMode s = FM_NONE" "\<not> holds (mAvailableOutputDevices s) (b_dev B O_FM)"
    "profiles_for (b_dev B O_FM) s = []"
    "filter (\<lambda>(_, d). q_dup d = None \<and> holds (supported_by s d) (b_dev B O_FM)) (mOutputs s) = []"
  defines "connect \<equiv> setDeviceConnectionState B (b_dev B O_FM) AVAILABLE address"
  shows "result connect s = INVALID_OPERATION
    \<and> exec connect s = s\<lparr>mPreviousOutputs := mOutputs s, fmMode := if b_analog_fm B then FM_ANALOG else FM_DIGITAL\<rparr>
    \<and> result connect (exec connect s) = INVALID_OPERATION \<and> exec connect (exec connect s) = exec connect s"
proof -
  let ?m = "if b_analog_fm B then FM_ANALOG else FM_DIGITAL"
  let ?t = "s\<lparr>mPreviousOutputs := mOutputs s, fmMode := ?m\<rparr>"
  have sup: "supported_by (saved s\<lparr>fmMode := m\<rparr>) d = supported_by s d" for m d
    by (simp add: supported_by_def profile_at_def cong del: if_weak_cong)
  have prof: "profiles_for (b_dev B O_FM) (saved s\<lparr>fmMode := m\<rparr>) = []" for m
    using assms(4) by (simp add: profiles_for_def cong del: if_weak_cong)
  have "run_state (connect_output B (b_dev B O_FM) address) (saved s) = (Inl INVALID_OPERATION, ?t)"
    using assms(2,3,5) prof sup
    by (simp add: connect_output_def fm_connect_def checkOutputsForDevice_def Let_def split_beta)
  then have 1: "run_state connect s = (INVALID_OPERATION, ?t)"
    by (simp add: connect_def connection_run [OF assms(1)] output_connection_run [OF assms(1)]
        change_output_def result_def exec_def)
  have acc: "accepted B (b_dev B O_FM) address ?t" using assms(1) by (simp add: accepted_def)
  have "run_state (connect_output B (b_dev B O_FM) address) (saved ?t) = (Inl INVALID_OPERATION, ?t)"
    by (simp add: connect_output_def fm_connect_def Let_def)
  then have "run_state connect ?t = (INVALID_OPERATION, ?t)"
    by (simp add: connect_def connection_run [OF acc] output_connection_run [OF acc]
        change_output_def result_def exec_def)
  with 1 show ?thesis by (simp add: result_def exec_def)
qed

theorem refused_radio_keeps_mode_witness:
  "result (setDeviceConnectionState base0 (b_dev base0 O_FM) AVAILABLE []) pol0 = INVALID_OPERATION
   \<and> fmMode (exec (setDeviceConnectionState base0 (b_dev base0 O_FM) AVAILABLE []) pol0) = FM_DIGITAL"
proof -
  have "accepted base0 (b_dev base0 O_FM) [] pol0" by (simp add: accepted_def base0_simps)
  from refused_radio_keeps_mode [OF this] show ?thesis
    by (simp add: base0_simps profiles_for_def supported_by_def profile_at_def)
qed

lemma radio_off:
  assumes "base_keeps_all B force_view" "pendingForceNone s"
  shows "force_view (exec (fm_disconnect B) s) = ((mForceUse s)(FOR_MEDIA := FORCE_NONE), FM_NONE, False)"
proof -
  have b: "base_keeps B force_view" using assms(1) by (simp add: base_keeps_all_def)
  show ?thesis using assms(2)
    by (simp add: force_kept.fm_off [OF b]) (simp add: take_force_def media_config_def set_force_def force_view_def)
qed

text \<open>
  While the digital radio plays, a request to force nothing on media only sets the mark; it is
  carried out when the radio is disconnected, which also ends its mode, whether or not it was
  connected.
\<close>

theorem forced_none_deferred:
  assumes "base_keeps_all B force_view" "accepted B (b_dev B O_FM) address s" "fmMode s = FM_DIGITAL"
  defines "t \<equiv> exec (setForceUse B FOR_MEDIA FORCE_NONE) s"
  shows "t = s\<lparr>pendingForceNone := True\<rparr>
    \<and> force_view (exec (setDeviceConnectionState B (b_dev B O_FM) UNAVAILABLE address) t)
      = ((mForceUse s)(FOR_MEDIA := FORCE_NONE), FM_NONE, False)"
proof -
  have t: "t = s\<lparr>pendingForceNone := True\<rparr>"
    using assms(3) by (simp add: t_def setForceUse_def take_force_def media_config_def)
  have acc: "accepted B (b_dev B O_FM) address t" using assms(2) by (simp add: t accepted_def)
  have off: "force_view (exec (fm_disconnect B) (saved t)) = ((mForceUse s)(FOR_MEDIA := FORCE_NONE), FM_NONE, False)"
    using radio_off [OF assms(1), of "saved t"] by (simp add: t)
  have avail: "force_view (u\<lparr>mAvailableOutputDevices := x\<rparr>) = force_view u" for u x
    by (simp add: force_view_def)
  have "force_view (exec (disconnect_output B (b_dev B O_FM)) (saved t)) = force_view (exec (fm_disconnect B) (saved t))"
    by (simp add: disconnect_output_def split_beta force_kept.checked [OF assms(1)] force_kept.forgotten avail)
  then have "force_view (exec (setDeviceConnectionState B (b_dev B O_FM) UNAVAILABLE address) t)
      = ((mForceUse s)(FOR_MEDIA := FORCE_NONE), FM_NONE, False)"
    using off force_kept.after [OF assms(1)] force_kept.input_part
    by (cases "result (disconnect_output B (b_dev B O_FM)) (saved t)")
      (simp_all add: exec_def [of "setDeviceConnectionState B (b_dev B O_FM) UNAVAILABLE address"]
        connection_run [OF acc] output_connection_run [OF acc] change_output_def del: if_split)
  with t show ?thesis by simp
qed

theorem forced_none_deferred_witness:
  "force_view (exec (setDeviceConnectionState base0 (b_dev base0 O_FM) UNAVAILABLE [])
     (exec (setForceUse base0 FOR_MEDIA FORCE_NONE) (pol0\<lparr>fmMode := FM_DIGITAL, mForceUse := (\<lambda>_. FORCE_SPEAKER)\<rparr>)))
   = ((\<lambda>_. FORCE_SPEAKER)(FOR_MEDIA := FORCE_NONE), FM_NONE, False)"
proof -
  let ?s = "pol0\<lparr>fmMode := FM_DIGITAL, mForceUse := (\<lambda>_. FORCE_SPEAKER)\<rparr>"
  have "accepted base0 (b_dev base0 O_FM) [] ?s" by (simp add: accepted_def base0_simps)
  from forced_none_deferred [OF base0_keeps(2) this, THEN conjunct2] show ?thesis by simp
qed

section \<open>Streams that start and stop\<close>











section \<open>The state of the phone\<close>

text \<open>
  The volumes of the dial tones follow those of the call exactly while there is one; a state that
  does not exist, or is the present one, is ignored.
\<close>

theorem dial_tones_follow_call:
  fixes new
  assumes "base_keeps B phone_view" "dtmfCurve s = (if isInCall B s then VOICE_CALL else DTMF)"
  defines "t \<equiv> exec (setPhoneState B new) s"
  shows "mPhoneState t = (if b_valid_state B new then new else mPhoneState s)
    \<and> dtmfCurve t = (if isInCall B t then VOICE_CALL else DTMF)
    \<and> (b_valid_state B new \<and> new \<noteq> mPhoneState s \<or> t = s)"
proof (cases "b_valid_state B new \<and> new \<noteq> mPhoneState s")
  case True
  then have "phone_view t = (new, if b_in_call_state B new \<and> \<not> isInCall B s then VOICE_CALL
      else if isInCall B s \<and> \<not> b_in_call_state B new then DTMF else dtmfCurve s)"
    unfolding t_def by (subst phone_kept.phone_set [OF assms(1)]) (simp_all add: phone_view_def)
  then show ?thesis using True assms(2) by (auto simp: phone_view_def isInCall_def split: if_splits)
next
  case False
  then have "t = s" by (auto simp: t_def setPhoneState_def)
  then show ?thesis using False assms(2) by auto
qed

theorem dial_tones_follow_call_witness:
  "dtmfCurve (exec (setPhoneState base0 MODE_IN_CALL) pol0) = VOICE_CALL
   \<and> mPhoneState (exec (setPhoneState base0 MODE_IN_CALL) pol0) = MODE_IN_CALL"
proof -
  have "dtmfCurve pol0 = (if isInCall base0 pol0 then VOICE_CALL else DTMF)"
    by (simp add: isInCall_def base0_simps)
  from dial_tones_follow_call [OF base0_keeps(3) this, of MODE_IN_CALL] show ?thesis
    by (simp add: isInCall_def base0_def)
qed

section \<open>Releasing direct outputs\<close>

text \<open>
  C30. A release takes one user from a direct output and closes it with the last one; but an output
  of a low power session, a tunnel or a call is closed by any release, however many users it has.
\<close>

theorem release_closes:
  assumes "out_at s k = Some d" "has_flag (q_flags d) FL_DIRECT" "\<And>t. out_at (b_closeOutput B k t) k = None"
  shows "map_option q_opens (out_at (exec (releaseOutput B k) s) k)
    = (if has_flag (q_flags d) FL_LPA \<or> has_flag (q_flags d) FL_TUNNEL \<or> has_flag (q_flags d) FL_VOIP_RX
            \<or> q_opens d = 1 then None
       else if q_opens d \<le> 0 then Some (q_opens d) else Some (q_opens d - 1))"
proof -
  have l: "out_at (t\<lparr>p_log := l\<rparr>) k = out_at t k" for t l by (simp add: out_at_def)
  show ?thesis using assms by (simp add: releaseOutput_def closed_at_once_def out_at_upd l)
qed

theorem release_closes_witness:
  "out_at (exec (releaseOutput base0 1) (pol0\<lparr>mOutputs := [(1, desc0\<lparr>q_flags := [FL_DIRECT, FL_VOIP_RX], q_opens := 2\<rparr>)]\<rparr>)) 1 = None"
proof -
  let ?d = "desc0\<lparr>q_flags := [FL_DIRECT, FL_VOIP_RX], q_opens := 2\<rparr>"
  have "out_at (b_closeOutput base0 1 t) 1 = None" for t
    by (auto simp: base0_def close0_def out_at_def map_of_eq_None_iff)
  moreover have "out_at (pol0\<lparr>mOutputs := [(1, ?d)]\<rparr>) 1 = Some ?d" by (simp add: out_at_def)
  ultimately show ?thesis
    using release_closes [of "pol0\<lparr>mOutputs := [(1, ?d)]\<rparr>" 1 ?d base0] by (simp add: has_flag_def)
qed

end
