(* ===== verification/PolicyClients.thy ===== *)
theory PolicyClients
  imports PolicyEvents
begin

text \<open>
  The member functions of the C interface of the audio policy (\<open>audio_policy_hal.cpp\<close>), and what
  every sequence of them does to the core of the policy: the phone, the devices, the forced
  configurations and the radio. \<open>core_step\<close> is the specification of the core.
\<close>

section \<open>The member functions\<close>

text \<open>
  The methods of the base class that this class does not override are parameters: queries, and
  operations that give a result and the state after them. The descriptor of an effect is only
  passed on, as a number; the functions for sessions are not compiled into the policy.
\<close>

record inherited =
  h_getDeviceConnectionState :: "pol \<Rightarrow> u32 \<Rightarrow> string \<Rightarrow> connection"
  h_getForceUse :: "pol \<Rightarrow> force_use \<Rightarrow> forced_config"
  h_setSystemProperty :: "string \<Rightarrow> string \<Rightarrow> pol \<Rightarrow> pol"
  h_initCheck :: "pol \<Rightarrow> int"
  h_getInput :: "source \<Rightarrow> u32 \<Rightarrow> u32 \<Rightarrow> u32 \<Rightarrow> u32 \<Rightarrow> (pol, nat) state"
  h_startInput :: "nat \<Rightarrow> (pol, int) state"
  h_releaseInput :: "nat \<Rightarrow> pol \<Rightarrow> pol"
  h_initStreamVolume :: "stream \<Rightarrow> int \<Rightarrow> int \<Rightarrow> pol \<Rightarrow> pol"
  h_setStreamVolumeIndex :: "stream \<Rightarrow> int \<Rightarrow> u32 \<Rightarrow> (pol, int) state"
  h_getStreamVolumeIndex :: "pol \<Rightarrow> stream \<Rightarrow> u32 \<Rightarrow> int \<times> int"
  h_getDevicesForStream :: "pol \<Rightarrow> stream \<Rightarrow> u32"
  h_registerEffect :: "nat \<Rightarrow> nat \<Rightarrow> strategy \<Rightarrow> int \<Rightarrow> int \<Rightarrow> (pol, int) state"
  h_unregisterEffect :: "int \<Rightarrow> (pol, int) state"
  h_setEffectEnabled :: "int \<Rightarrow> bool \<Rightarrow> (pol, int) state"
  h_isStreamActive :: "pol \<Rightarrow> stream \<Rightarrow> u32 \<Rightarrow> bool"
  h_isStreamActiveRemotely :: "pol \<Rightarrow> stream \<Rightarrow> u32 \<Rightarrow> bool"
  h_isSourceActive :: "pol \<Rightarrow> source \<Rightarrow> bool"
  h_isOffloadSupported :: "pol \<Rightarrow> u32 \<times> u32 \<times> u32 \<Rightarrow> bool"
  h_default_out :: u32

definition ap_set_device_connection_state :: "pbase \<Rightarrow> u32 \<Rightarrow> connection \<Rightarrow> string \<Rightarrow> (pol, status) state" where
  "ap_set_device_connection_state B device st address = setDeviceConnectionState B device st address"

definition ap_get_device_connection_state :: "inherited \<Rightarrow> u32 \<Rightarrow> string \<Rightarrow> (pol, connection) state" where
  "ap_get_device_connection_state H device address = gets (\<lambda>s. h_getDeviceConnectionState H s device address)"

definition ap_set_phone_state :: "pbase \<Rightarrow> amode \<Rightarrow> (pol, unit) state" where
  "ap_set_phone_state B st = setPhoneState B st"

definition ap_set_force_use :: "pbase \<Rightarrow> force_use \<Rightarrow> forced_config \<Rightarrow> (pol, unit) state" where
  "ap_set_force_use B u c = setForceUse B u c"

definition ap_get_force_use :: "inherited \<Rightarrow> force_use \<Rightarrow> (pol, forced_config) state" where
  "ap_get_force_use H u = gets (\<lambda>s. h_getForceUse H s u)"

definition ap_set_can_mute_enforced_audible :: "inherited \<Rightarrow> bool \<Rightarrow> (pol, unit) state" where
  "ap_set_can_mute_enforced_audible H can_mute =
     modify (h_setSystemProperty H ''ro.camera.sound.forced'' (if can_mute then ''0'' else ''1''))"

definition ap_init_check :: "inherited \<Rightarrow> (pol, int) state" where
  "ap_init_check H = gets (h_initCheck H)"

definition ap_get_output :: "pbase \<Rightarrow> stream \<Rightarrow> u32 \<Rightarrow> u32 \<Rightarrow> u32 \<Rightarrow> flags \<Rightarrow> (pol, nat) state" where
  "ap_get_output B st rate fmt ch fl = getOutput B st rate fmt ch fl"

text \<open>The session passed to \<open>startOutput\<close> and \<open>stopOutput\<close> is not used there.\<close>

definition ap_start_output :: "pbase \<Rightarrow> nat \<Rightarrow> stream \<Rightarrow> int \<Rightarrow> (pol, status) state" where
  "ap_start_output B out st session = startOutput B out st"

definition ap_stop_output :: "pbase \<Rightarrow> nat \<Rightarrow> stream \<Rightarrow> int \<Rightarrow> (pol, status) state" where
  "ap_stop_output B out st session = stopOutput B out st"

definition ap_release_output :: "pbase \<Rightarrow> nat \<Rightarrow> (pol, unit) state" where
  "ap_release_output B out = releaseOutput B out"

definition ap_get_input :: "inherited \<Rightarrow> source \<Rightarrow> u32 \<Rightarrow> u32 \<Rightarrow> u32 \<Rightarrow> u32 \<Rightarrow> (pol, nat) state" where
  "ap_get_input H src rate fmt ch acoustics = h_getInput H src rate fmt ch acoustics"

definition ap_start_input :: "inherited \<Rightarrow> nat \<Rightarrow> (pol, int) state" where
  "ap_start_input H inp = h_startInput H inp"

definition ap_stop_input :: "pbase \<Rightarrow> nat \<Rightarrow> (pol, status) state" where
  "ap_stop_input B inp = stopInput B inp"

definition ap_release_input :: "inherited \<Rightarrow> nat \<Rightarrow> (pol, unit) state" where
  "ap_release_input H inp = modify (h_releaseInput H inp)"

definition ap_init_stream_volume :: "inherited \<Rightarrow> stream \<Rightarrow> int \<Rightarrow> int \<Rightarrow> (pol, unit) state" where
  "ap_init_stream_volume H st lo hi = modify (h_initStreamVolume H st lo hi)"

text \<open>Without a device the index is that of the default output, \<open>h_default_out\<close>.\<close>

definition ap_set_stream_volume_index_for_device :: "inherited \<Rightarrow> stream \<Rightarrow> int \<Rightarrow> u32 \<Rightarrow> (pol, int) state" where
  "ap_set_stream_volume_index_for_device H st index device = h_setStreamVolumeIndex H st index device"

definition ap_set_stream_volume_index :: "inherited \<Rightarrow> stream \<Rightarrow> int \<Rightarrow> (pol, int) state" where
  "ap_set_stream_volume_index H st index = h_setStreamVolumeIndex H st index (h_default_out H)"

definition ap_get_stream_volume_index_for_device :: "inherited \<Rightarrow> stream \<Rightarrow> u32 \<Rightarrow> (pol, int \<times> int) state" where
  "ap_get_stream_volume_index_for_device H st device = gets (\<lambda>s. h_getStreamVolumeIndex H s st device)"

definition ap_get_stream_volume_index :: "inherited \<Rightarrow> stream \<Rightarrow> (pol, int \<times> int) state" where
  "ap_get_stream_volume_index H st = gets (\<lambda>s. h_getStreamVolumeIndex H s st (h_default_out H))"

definition ap_get_strategy_for_stream :: "pbase \<Rightarrow> stream \<Rightarrow> (pol, strategy) state" where
  "ap_get_strategy_for_stream B st = ret (b_strategy B st)"

definition ap_get_devices_for_stream :: "inherited \<Rightarrow> stream \<Rightarrow> (pol, u32) state" where
  "ap_get_devices_for_stream H st = gets (\<lambda>s. h_getDevicesForStream H s st)"

definition ap_get_output_for_effect :: "pbase \<Rightarrow> (pol, nat) state" where
  "ap_get_output_for_effect B = gets (b_outputForEffect B)"

definition ap_register_effect :: "inherited \<Rightarrow> nat \<Rightarrow> nat \<Rightarrow> strategy \<Rightarrow> int \<Rightarrow> int \<Rightarrow> (pol, int) state" where
  "ap_register_effect H desc io st session i = h_registerEffect H desc io st session i"

definition ap_unregister_effect :: "inherited \<Rightarrow> int \<Rightarrow> (pol, int) state" where
  "ap_unregister_effect H i = h_unregisterEffect H i"

definition ap_set_effect_enabled :: "inherited \<Rightarrow> int \<Rightarrow> bool \<Rightarrow> (pol, int) state" where
  "ap_set_effect_enabled H i enabled = h_setEffectEnabled H i enabled"

definition ap_is_stream_active :: "inherited \<Rightarrow> stream \<Rightarrow> u32 \<Rightarrow> (pol, bool) state" where
  "ap_is_stream_active H st past = gets (\<lambda>s. h_isStreamActive H s st past)"

definition ap_is_stream_active_remotely :: "inherited \<Rightarrow> stream \<Rightarrow> u32 \<Rightarrow> (pol, bool) state" where
  "ap_is_stream_active_remotely H st past = gets (\<lambda>s. h_isStreamActiveRemotely H s st past)"

definition ap_is_source_active :: "inherited \<Rightarrow> source \<Rightarrow> (pol, bool) state" where
  "ap_is_source_active H src = gets (\<lambda>s. h_isSourceActive H s src)"

definition ap_is_offload_supported :: "inherited \<Rightarrow> u32 \<times> u32 \<times> u32 \<Rightarrow> (pol, bool) state" where
  "ap_is_offload_supported H info = gets (\<lambda>s. h_isOffloadSupported H s info)"

section \<open>Calls of the service\<close>

text \<open>The member functions that may change the policy.\<close>

datatype ap_call =
    AP_Connection u32 connection string | AP_PhoneState amode | AP_ForceUse force_use forced_config
  | AP_CanMute bool | AP_GetOutput stream u32 u32 u32 flags | AP_StartOutput nat stream int
  | AP_StopOutput nat stream int | AP_ReleaseOutput nat | AP_GetInput source u32 u32 u32 u32
  | AP_StartInput nat | AP_StopInput nat | AP_ReleaseInput nat | AP_InitVolume stream int int
  | AP_SetVolume stream int "u32 option" | AP_RegisterEffect nat nat strategy int int
  | AP_UnregisterEffect int | AP_EnableEffect int bool

fun ap_step :: "pbase \<Rightarrow> inherited \<Rightarrow> ap_call \<Rightarrow> pol \<Rightarrow> pol" where
  "ap_step B H (AP_Connection device st address) s = exec (ap_set_device_connection_state B device st address) s"
| "ap_step B H (AP_PhoneState m) s = exec (ap_set_phone_state B m) s"
| "ap_step B H (AP_ForceUse u c) s = exec (ap_set_force_use B u c) s"
| "ap_step B H (AP_CanMute b) s = exec (ap_set_can_mute_enforced_audible H b) s"
| "ap_step B H (AP_GetOutput st rate fmt ch fl) s = exec (ap_get_output B st rate fmt ch fl) s"
| "ap_step B H (AP_StartOutput out st session) s = exec (ap_start_output B out st session) s"
| "ap_step B H (AP_StopOutput out st session) s = exec (ap_stop_output B out st session) s"
| "ap_step B H (AP_ReleaseOutput out) s = exec (ap_release_output B out) s"
| "ap_step B H (AP_GetInput src rate fmt ch ac) s = exec (ap_get_input H src rate fmt ch ac) s"
| "ap_step B H (AP_StartInput inp) s = exec (ap_start_input H inp) s"
| "ap_step B H (AP_StopInput inp) s = exec (ap_stop_input B inp) s"
| "ap_step B H (AP_ReleaseInput inp) s = exec (ap_release_input H inp) s"
| "ap_step B H (AP_InitVolume st lo hi) s = exec (ap_init_stream_volume H st lo hi) s"
| "ap_step B H (AP_SetVolume st i None) s = exec (ap_set_stream_volume_index H st i) s"
| "ap_step B H (AP_SetVolume st i (Some d)) s = exec (ap_set_stream_volume_index_for_device H st i d) s"
| "ap_step B H (AP_RegisterEffect desc io st session i) s = exec (ap_register_effect H desc io st session i) s"
| "ap_step B H (AP_UnregisterEffect i) s = exec (ap_unregister_effect H i) s"
| "ap_step B H (AP_EnableEffect i b) s = exec (ap_set_effect_enabled H i b) s"

section \<open>The core and its specification\<close>

record core =
  c_phone :: amode
  c_dial :: stream
  c_avail :: u32
  c_force :: "force_use \<Rightarrow> forced_config"
  c_fm :: fm_modes
  c_pending :: bool

definition core_of :: "pol \<Rightarrow> core" where
  "core_of s = \<lparr>c_phone = mPhoneState s, c_dial = dtmfCurve s, c_avail = mAvailableOutputDevices s,
     c_force = mForceUse s, c_fm = fmMode s, c_pending = pendingForceNone s\<rparr>"

interpretation core_kept: device_view core_of
  by unfold_locales (simp_all add: core_of_def)

definition radio_mode :: "pbase \<Rightarrow> fm_modes" where
  "radio_mode B = (if b_analog_fm B then FM_ANALOG else FM_DIGITAL)"

definition allowed :: "force_use \<Rightarrow> forced_config \<Rightarrow> bool" where
  "allowed u c \<longleftrightarrow> (u = FOR_COMMUNICATION \<longrightarrow> comm_config c) \<and> (u = FOR_MEDIA \<longrightarrow> media_config c)
     \<and> (u = FOR_RECORD \<longrightarrow> record_config c)"

text \<open>
  What may happen to the core: the state of the phone changes; a configuration is forced, or put off
  while the digital radio plays; a device comes or goes; the radio is tuned in, whether or not an
  output is then found for it; and it is switched off, which carries out what was put off.
\<close>

inductive core_step :: "pbase \<Rightarrow> core \<Rightarrow> core \<Rightarrow> bool" for B where
  phone: "b_valid_state B m \<Longrightarrow> m \<noteq> c_phone c \<Longrightarrow>
     core_step B c (c\<lparr>c_phone := m, c_dial :=
       (if b_in_call_state B m \<and> \<not> b_in_call_state B (c_phone c) then VOICE_CALL
        else if b_in_call_state B (c_phone c) \<and> \<not> b_in_call_state B m then DTMF else c_dial c)\<rparr>)"
| force: "allowed u f \<Longrightarrow> \<not> (u = FOR_MEDIA \<and> c_fm c = FM_DIGITAL \<and> f = FORCE_NONE) \<Longrightarrow>
     core_step B c (c\<lparr>c_force := (c_force c)(u := f), c_pending := u \<noteq> FOR_MEDIA \<and> c_pending c\<rparr>)"
| put_off: "c_fm c = FM_DIGITAL \<Longrightarrow> core_step B c (c\<lparr>c_pending := True\<rparr>)"
| comes: "b_is_output B d \<Longrightarrow> d \<noteq> b_dev B O_FM \<Longrightarrow> \<not> holds (c_avail c) d \<Longrightarrow>
     core_step B c (c\<lparr>c_avail := c_avail c OR d\<rparr>)"
| goes: "b_is_output B d \<Longrightarrow> d \<noteq> b_dev B O_FM \<Longrightarrow> holds (c_avail c) d \<Longrightarrow>
     core_step B c (c\<lparr>c_avail := c_avail c AND NOT d\<rparr>)"
| tuned: "c_fm c = FM_NONE \<Longrightarrow> core_step B c (c\<lparr>c_fm := radio_mode B\<rparr>)"
| radio: "c_fm c = FM_NONE \<Longrightarrow> \<not> holds (c_avail c) (b_dev B O_FM) \<Longrightarrow>
     core_step B c (c\<lparr>c_fm := radio_mode B, c_avail := c_avail c OR b_dev B O_FM\<rparr>)"
| radio_off: "core_step B c (c\<lparr>c_fm := FM_NONE, c_pending := False,
     c_force := (if c_pending c then (c_force c)(FOR_MEDIA := FORCE_NONE) else c_force c),
     c_avail := c_avail c AND NOT (b_dev B O_FM)\<rparr>)"

inductive_cases core_stepE: "core_step B c d"

text \<open>
  What holds of the core: the dial tones follow the call, the forced configurations are those each
  use admits, something is put off only while the digital radio plays, and the radio is
  available only in one of its modes.
\<close>

definition core_ok :: "pbase \<Rightarrow> core \<Rightarrow> bool" where
  "core_ok B c \<longleftrightarrow> c_dial c = (if b_in_call_state B (c_phone c) then VOICE_CALL else DTMF)
     \<and> (\<forall>u. allowed u (c_force c u)) \<and> (c_pending c \<longrightarrow> c_fm c = FM_DIGITAL)
     \<and> (holds (c_avail c) (b_dev B O_FM) \<longrightarrow> c_fm c \<noteq> FM_NONE)"

text \<open>Devices are single bits, so that none but the radio has its bit.\<close>

definition radio_alone :: "pbase \<Rightarrow> bool" where
  "radio_alone B \<longleftrightarrow> (\<forall>d. b_is_output B d \<and> d \<noteq> b_dev B O_FM \<longrightarrow> \<not> holds d (b_dev B O_FM))"



lemma radio_mode_some [simp]: "radio_mode B \<noteq> FM_NONE"
  by (simp add: radio_mode_def)


section \<open>Calls that leave the core alone\<close>

context device_view begin

lemma got_output: "base_keeps_all B V \<Longrightarrow> preserves (\<lambda>s. V s = v) (getOutput B st rate fmt ch fl)"
  unfolding getOutput_def open_direct_output_def Let_def
  by (intro pres calls base_all upd_plain) (simp_all add: previous)

lemma released: "base_keeps_all B V \<Longrightarrow> preserves (\<lambda>s. V s = v) (releaseOutput B out)"
  unfolding releaseOutput_def by (intro pres calls base_all upd_plain) simp_all

lemma started: "base_keeps_all B V \<Longrightarrow> preserves (\<lambda>s. V s = v) (startOutput B out st)"
  unfolding startOutput_def by (intro pres base_all start) simp_all

lemma stopped: "base_keeps_all B V \<Longrightarrow> preserves (\<lambda>s. V s = v) (stopOutput B out st)"
  unfolding stopOutput_def by (intro pres base_all stop calls) simp_all

text \<open>A device that comes or goes: what a view notices is the first part, if the call gets there.\<close>

lemma connection:
  assumes "base_keeps_all B V"
  shows "V (exec (setDeviceConnectionState B device st address) s) = V s
    \<or> b_is_output B device
      \<and> V (exec (setDeviceConnectionState B device st address) s) = V (exec (change_output B device st address) (saved s))"
proof (cases "accepted B device address s")
  case True
  note run = connection_run [OF True, of st] output_connection_run [OF True, of st]
  have "V (exec (setDeviceConnectionState B device st address) s) = V (exec (change_output B device st address) (saved s))"
    using after [OF assms] input_part
    by (cases "result (change_output B device st address) (saved s)")
      (simp_all add: exec_def [of "setDeviceConnectionState B device st address"] run del: if_split)
  then show ?thesis using True by (simp add: accepted_def)
next
  case False
  have i: "V (exec (input_connection B d st) t) = V t" for d t by (rule preservesD [OF input_connected refl])
  have "V (exec (setDeviceConnectionState B device st address) s) = V s"
    using False i by (auto simp: setDeviceConnectionState_def output_connection_def accepted_def)
  then show ?thesis by simp
qed

lemma input_stopped:
  "V (exec (stopInput B inp) s) = V s
    \<or> V (exec (stopInput B inp) s)
      = V (exec (setDeviceConnectionState B (b_dev B O_REMOTE_SUBMIX) UNAVAILABLE (b_submix_address B)) s)"
  by (simp add: stopInput_def logs inputs split: option.split)

end

section \<open>Each call follows the specification\<close>

lemma core_of_simps [simp]:
  "c_phone (core_of s) = mPhoneState s" "c_dial (core_of s) = dtmfCurve s"
  "c_avail (core_of s) = mAvailableOutputDevices s" "c_force (core_of s) = mForceUse s"
  "c_fm (core_of s) = fmMode s" "c_pending (core_of s) = pendingForceNone s"
  by (simp_all add: core_of_def)

lemma core_of_updates [simp]:
  "core_of (s\<lparr>mAvailableOutputDevices := a\<rparr>) = (core_of s)\<lparr>c_avail := a\<rparr>"
  "core_of (s\<lparr>mForceUse := f\<rparr>) = (core_of s)\<lparr>c_force := f\<rparr>"
  "core_of (s\<lparr>fmMode := m\<rparr>) = (core_of s)\<lparr>c_fm := m\<rparr>"
  "core_of (s\<lparr>pendingForceNone := b\<rparr>) = (core_of s)\<lparr>c_pending := b\<rparr>"
  "core_of (s\<lparr>mPhoneState := p\<rparr>) = (core_of s)\<lparr>c_phone := p\<rparr>"
  "core_of (s\<lparr>dtmfCurve := x\<rparr>) = (core_of s)\<lparr>c_dial := x\<rparr>"
  "core_of (s\<lparr>mPreviousOutputs := os\<rparr>) = core_of s"
  by (simp_all add: core_of_def)

text \<open>A configuration that is taken.\<close>

lemma force_step: "(core_step B)\<^sup>=\<^sup>= (core_of s) (core_of (exec (take_force u c) s))"
proof -
  have stored: "core_step B (core_of s) ((core_of s)\<lparr>c_pending := False, c_force := (mForceUse s)(FOR_MEDIA := c)\<rparr>)"
    if "media_config c" "\<not> (fmMode s = FM_DIGITAL \<and> c = FORCE_NONE)"
  proof -
    have eq: "(core_of s)\<lparr>c_pending := False, c_force := (mForceUse s)(FOR_MEDIA := c)\<rparr>
        = (core_of s)\<lparr>c_force := (mForceUse s)(FOR_MEDIA := c), c_pending := False\<rparr>" by (rule core.equality) simp_all
    show ?thesis unfolding eq using core_step.force [of FOR_MEDIA c "core_of s" B] that by (simp add: allowed_def)
  qed
  have other: "core_step B (core_of s) ((core_of s)\<lparr>c_force := (mForceUse s)(u := c)\<rparr>)"
    if "allowed u c" "u \<noteq> FOR_MEDIA"
    using core_step.force [of u c "core_of s" B] that by (simp add: core_of_def)
  have off: "core_step B (core_of s) ((core_of s)\<lparr>c_pending := True\<rparr>)" if "fmMode s = FM_DIGITAL"
    using core_step.put_off [of "core_of s" B] that by simp
  show ?thesis
    using stored other off by (cases u) (auto simp: take_force_def set_force_def allowed_def)
qed

lemma phone_step:
  assumes "base_keeps_all B core_of"
  shows "(core_step B)\<^sup>=\<^sup>= (core_of s) (core_of (exec (setPhoneState B m) s))"
proof (cases "b_valid_state B m \<and> m \<noteq> mPhoneState s")
  case True
  have b: "base_keeps B core_of" using assms by (simp add: base_keeps_all_def)
  have "core_of (exec (setPhoneState B m) s) = core_of (s\<lparr>mPhoneState := m, dtmfCurve :=
      (if b_in_call_state B m \<and> \<not> isInCall B s then VOICE_CALL
       else if isInCall B s \<and> \<not> b_in_call_state B m then DTMF else dtmfCurve s)\<rparr>)"
    using True by (intro core_kept.phone_set [OF b]) (auto simp: core_of_def)
  then show ?thesis using core_step.phone [of B m "core_of s"] True by (simp add: isInCall_def cong: if_cong)
qed (auto simp: setPhoneState_def)

text \<open>The two halves of a device event, on the state that remembers the outputs.\<close>

lemma connect_step:
  assumes "base_keeps_all B core_of" "b_is_output B device"
  shows "(core_step B)\<^sup>=\<^sup>= (core_of s) (core_of (exec (connect_output B device address) s))"
proof -
  note k = core_kept.checked [OF assms(1)] core_kept.noted
  show ?thesis
  proof (cases "device = b_dev B O_FM")
    case True
    have tune: "core_step B (core_of s) ((core_of s)\<lparr>c_fm := radio_mode B\<rparr>)" if "fmMode s = FM_NONE"
      using core_step.tuned [of "core_of s" B] that by simp
    have on: "core_step B (core_of s) ((core_of s)\<lparr>c_fm := radio_mode B, c_avail := mAvailableOutputDevices s OR b_dev B O_FM\<rparr>)"
      if "fmMode s = FM_NONE" "\<not> holds (mAvailableOutputDevices s) (b_dev B O_FM)"
      using core_step.radio [of "core_of s" B] that by simp
    let ?t = "exec (checkOutputsForDevice B (b_dev B O_FM) AVAILABLE) (s\<lparr>fmMode := radio_mode B\<rparr>)"
    have t: "core_of ?t = (core_of s)\<lparr>c_fm := radio_mode B\<rparr>" by (simp add: k)
    have a: "mAvailableOutputDevices ?t = mAvailableOutputDevices s" using arg_cong [OF t, of c_avail] by simp
    show ?thesis
    proof (cases "fmMode s = FM_NONE")
      case False
      then show ?thesis using True by (auto simp: connect_output_def fm_connect_def Let_def)
    next
      case fm: True
      have "core_of (exec (connect_output B device address) s) = (core_of s)\<lparr>c_fm := radio_mode B\<rparr>
        \<or> \<not> holds (mAvailableOutputDevices s) (b_dev B O_FM) \<and> core_of (exec (connect_output B device address) s)
          = (core_of s)\<lparr>c_fm := radio_mode B, c_avail := mAvailableOutputDevices s OR b_dev B O_FM\<rparr>"
        using True fm t a
        by (simp add: connect_output_def fm_connect_def Let_def radio_mode_def [symmetric] split_beta k(2))
      then show ?thesis using tune on fm by auto
    qed
  next
    case False
    define t where "t = exec (checkOutputsForDevice B device AVAILABLE) s"
    have t: "core_of t = core_of s" by (simp add: t_def k)
    have a: "mAvailableOutputDevices t = mAvailableOutputDevices s" using arg_cong [OF t, of c_avail] by simp
    have "core_step B (core_of s) ((core_of s)\<lparr>c_avail := mAvailableOutputDevices s OR device\<rparr>)"
      if "\<not> holds (mAvailableOutputDevices s) device"
      using core_step.comes [OF assms(2) False, of "core_of s"] that by simp
    then show ?thesis
      using False t a by (auto simp: connect_output_def split_beta t_def [symmetric] k(2))
  qed
qed

lemma radio_off_core:
  assumes "base_keeps_all B core_of"
  shows "core_of (exec (fm_disconnect B) s) = (core_of s)\<lparr>c_fm := FM_NONE, c_pending := False,
    c_force := (if pendingForceNone s then (mForceUse s)(FOR_MEDIA := FORCE_NONE) else mForceUse s)\<rparr>"
proof -
  have b: "base_keeps B core_of" using assms by (simp add: base_keeps_all_def)
  show ?thesis
    by (simp add: core_kept.fm_off [OF b]) (simp add: take_force_def media_config_def set_force_def core_of_def)
qed

lemma disconnect_step:
  assumes "base_keeps_all B core_of" "b_is_output B device"
  shows "(core_step B)\<^sup>=\<^sup>= (core_of s) (core_of (exec (disconnect_output B device) s))"
proof -
  note k = core_kept.checked [OF assms(1)] core_kept.forgotten
  show ?thesis
  proof (cases "device = b_dev B O_FM")
    case True
    define u where "u = exec (fm_disconnect B) s"
    have u: "core_of u = (core_of s)\<lparr>c_fm := FM_NONE, c_pending := False,
        c_force := (if pendingForceNone s then (mForceUse s)(FOR_MEDIA := FORCE_NONE) else mForceUse s)\<rparr>"
      using radio_off_core [OF assms(1)] by (simp add: u_def)
    then have a: "mAvailableOutputDevices u = mAvailableOutputDevices s" using core_of_simps(3) [of u] by simp
    have "core_of (exec (disconnect_output B device) s)
        = (core_of u)\<lparr>c_avail := mAvailableOutputDevices u AND NOT (b_dev B O_FM)\<rparr>"
    proof (cases "holds (mAvailableOutputDevices u) (b_dev B O_FM)")
      case h: False
      then have "mAvailableOutputDevices u AND NOT (b_dev B O_FM) = mAvailableOutputDevices u"
        by (auto simp: bit_eq_iff bit_simps)
      then show ?thesis using True h by (simp add: disconnect_output_def u_def [symmetric] core_of_def)
    qed (use True in \<open>simp add: disconnect_output_def u_def [symmetric] split_beta k\<close>)
    then show ?thesis using core_step.radio_off [of B "core_of s"] u a by (simp cong: if_cong)
  next
    case False
    have "core_step B (core_of s) ((core_of s)\<lparr>c_avail := mAvailableOutputDevices s AND NOT device\<rparr>)"
      if "holds (mAvailableOutputDevices s) device"
      using core_step.goes [OF assms(2) False, of "core_of s"] that by simp
    then show ?thesis using False by (auto simp: disconnect_output_def split_beta k)
  qed
qed

lemma connection_step:
  assumes "base_keeps_all B core_of"
  shows "(core_step B)\<^sup>=\<^sup>= (core_of s) (core_of (exec (setDeviceConnectionState B device st address) s))"
  using core_kept.connection [OF assms, of device st address s] connect_step [OF assms, of device "saved s" address]
    disconnect_step [OF assms, of device "saved s"]
  by (cases st) (auto simp: change_output_def)

text \<open>
  What an inherited operation may do to the core: whatever the overridden methods it calls do, and
  nothing itself.
\<close>

definition follows :: "pbase \<Rightarrow> (pol \<Rightarrow> pol) \<Rightarrow> bool" where
  "follows B f \<longleftrightarrow> (\<forall>s. (core_step B)\<^sup>*\<^sup>* (core_of s) (core_of (f s)))"

definition inherited_ok :: "pbase \<Rightarrow> inherited \<Rightarrow> bool" where
  "inherited_ok B H \<longleftrightarrow>
     (\<forall>k v. follows B (h_setSystemProperty H k v)) \<and> (\<forall>src r f c a. follows B (exec (h_getInput H src r f c a)))
     \<and> (\<forall>i. follows B (exec (h_startInput H i))) \<and> (\<forall>i. follows B (h_releaseInput H i))
     \<and> (\<forall>st lo hi. follows B (h_initStreamVolume H st lo hi))
     \<and> (\<forall>st i d. follows B (exec (h_setStreamVolumeIndex H st i d)))
     \<and> (\<forall>desc io st n i. follows B (exec (h_registerEffect H desc io st n i)))
     \<and> (\<forall>i. follows B (exec (h_unregisterEffect H i))) \<and> (\<forall>i b. follows B (exec (h_setEffectEnabled H i b)))"

lemma use_step:
  assumes "base_keeps_all B core_of"
  shows "(core_step B)\<^sup>=\<^sup>= (core_of s) (core_of (exec (setForceUse B u c) s))"
  using force_step [of B s u c] core_kept.use_forced [of B u c s] assms by (simp add: base_keeps_all_def)

lemma ap_step_follows:
  assumes "base_keeps_all B core_of" "inherited_ok B H"
  shows "(core_step B)\<^sup>*\<^sup>* (core_of s) (core_of (ap_step B H e s))"
proof -
  have one: "(core_step B)\<^sup>*\<^sup>* a b" if "(core_step B)\<^sup>=\<^sup>= a b" for a b using that by auto
  have eq: "core_of (exec (getOutput B st r f c fl) s) = core_of s" "core_of (exec (startOutput B out st) s) = core_of s"
    "core_of (exec (stopOutput B out st) s) = core_of s" "core_of (exec (releaseOutput B out) s) = core_of s"
    for st r f c fl out
    using core_kept.got_output [OF assms(1)] core_kept.started [OF assms(1)] core_kept.stopped [OF assms(1)]
      core_kept.released [OF assms(1)] by (blast dest: preservesD)+
  have inp: "(core_step B)\<^sup>*\<^sup>* (core_of s) (core_of (exec (stopInput B i) s))" for i
    using core_kept.input_stopped [of B i s] one [OF connection_step [OF assms(1)]] by (elim disjE) simp_all
  note h = assms(2) [unfolded inherited_ok_def follows_def]
  show ?thesis
  proof (cases e)
    case (AP_Connection d st a)
    then show ?thesis using one [OF connection_step [OF assms(1)]] by (simp add: ap_set_device_connection_state_def)
  next
    case (AP_PhoneState m)
    then show ?thesis using one [OF phone_step [OF assms(1)]] by (simp add: ap_set_phone_state_def)
  next
    case (AP_ForceUse u c)
    then show ?thesis using one [OF use_step [OF assms(1)]] by (simp add: ap_set_force_use_def)
  next
    case (AP_SetVolume st i d)
    then show ?thesis using h
      by (cases d) (simp_all add: ap_set_stream_volume_index_def ap_set_stream_volume_index_for_device_def)
  qed (use h eq inp in \<open>simp_all add: ap_set_can_mute_enforced_audible_def ap_get_output_def ap_start_output_def
      ap_stop_output_def ap_release_output_def ap_get_input_def ap_start_input_def ap_stop_input_def
      ap_release_input_def ap_init_stream_volume_def ap_register_effect_def ap_unregister_effect_def
      ap_set_effect_enabled_def\<close>)
qed

lemma policy_run_follows:
  assumes "base_keeps_all B core_of" "inherited_ok B H"
  shows "(core_step B)\<^sup>*\<^sup>* (core_of s) (core_of (fold (ap_step B H) es s))"
proof (induction es arbitrary: s)
  case (Cons e es)
  show ?case using rtranclp_trans [OF ap_step_follows [OF assms, of s e] Cons] by simp
qed simp


section \<open>Properties of the interface\<close>

text \<open>
  C4. The policy implements the specification of its core: whatever the service calls, in any order, the
  core changes by steps of \<open>core_step\<close> only, and in each call that this class overrides by one
  at most.
\<close>

theorem policy_refines_core:
  assumes "base_keeps_all B core_of" "inherited_ok B H"
  shows "(core_step B)\<^sup>*\<^sup>* (core_of s) (core_of (fold (ap_step B H) es s))
    \<and> (core_step B)\<^sup>=\<^sup>= (core_of s) (core_of (ap_step B H (AP_Connection d st address) s))
    \<and> (core_step B)\<^sup>=\<^sup>= (core_of s) (core_of (ap_step B H (AP_PhoneState m) s))
    \<and> (core_step B)\<^sup>=\<^sup>= (core_of s) (core_of (ap_step B H (AP_ForceUse u c) s))
    \<and> core_of (ap_step B H (AP_StartOutput out k i) s) = core_of s
    \<and> core_of (ap_step B H (AP_StopOutput out k i) s) = core_of s
    \<and> core_of (ap_step B H (AP_GetOutput k rate fmt ch fl) s) = core_of s
    \<and> core_of (ap_step B H (AP_ReleaseOutput out) s) = core_of s"
proof (intro conjI)
  show "(core_step B)\<^sup>*\<^sup>* (core_of s) (core_of (fold (ap_step B H) es s))" by (rule policy_run_follows [OF assms])
  show "(core_step B)\<^sup>=\<^sup>= (core_of s) (core_of (ap_step B H (AP_Connection d st address) s))"
    using connection_step [OF assms(1)] by (simp add: ap_set_device_connection_state_def)
  show "(core_step B)\<^sup>=\<^sup>= (core_of s) (core_of (ap_step B H (AP_PhoneState m) s))"
    using phone_step [OF assms(1)] by (simp add: ap_set_phone_state_def)
  show "(core_step B)\<^sup>=\<^sup>= (core_of s) (core_of (ap_step B H (AP_ForceUse u c) s))"
    using use_step [OF assms(1)] by (simp add: ap_set_force_use_def)
qed (use preservesD [OF core_kept.started [OF assms(1)] refl] preservesD [OF core_kept.stopped [OF assms(1)] refl]
    preservesD [OF core_kept.got_output [OF assms(1)] refl] preservesD [OF core_kept.released [OF assms(1)] refl]
    in \<open>simp_all add: ap_start_output_def ap_stop_output_def ap_get_output_def ap_release_output_def\<close>)


text \<open>An instance in which inherited operations do nothing, and outputs are the devices of a list.\<close>

definition inherited0 :: inherited where
  "inherited0 = \<lparr>h_getDeviceConnectionState = (\<lambda>s d a. UNAVAILABLE), h_getForceUse = mForceUse,
     h_setSystemProperty = (\<lambda>k v s. s\<lparr>enforcedCanBeMuted := (v = ''0'')\<rparr>), h_initCheck = (\<lambda>s. 0),
     h_getInput = (\<lambda>src r f c a. ret 0), h_startInput = (\<lambda>i. ret 0), h_releaseInput = (\<lambda>i s. s),
     h_initStreamVolume = (\<lambda>st lo hi s. s), h_setStreamVolumeIndex = (\<lambda>st i d. ret 0),
     h_getStreamVolumeIndex = (\<lambda>s st d. (0, 5)), h_getDevicesForStream = (\<lambda>s st. 2),
     h_registerEffect = (\<lambda>desc io st n i. ret 0), h_unregisterEffect = (\<lambda>i. ret 0), h_setEffectEnabled = (\<lambda>i b. ret 0),
     h_isStreamActive = (\<lambda>s st n. False), h_isStreamActiveRemotely = (\<lambda>s st n. False),
     h_isSourceActive = (\<lambda>s src. False), h_isOffloadSupported = (\<lambda>s i. False), h_default_out = 0x40000000\<rparr>"

definition base_single :: pbase where
  "base_single = base0\<lparr>b_is_output := (\<lambda>d. d \<in> {1, 2, 4, 8, 16, 32, 64, 128, 256, 512, 1024, 0x80000})\<rparr>"

lemma base_single_ok:
  "base_keeps_all base_single core_of" "radio_alone base_single" "inherited_ok base_single inherited0"
  "core_ok base_single (core_of pol0)"
proof -
  show "base_keeps_all base_single core_of"
    by (simp add: base_keeps_all_def base_keeps_def base_single_def base0_def change0_def close0_def core_of_def)
  show "radio_alone base_single" by (auto simp: radio_alone_def base_single_def base0_def)
  have c: "core_of (s\<lparr>enforcedCanBeMuted := b\<rparr>) = core_of s" for s b by (simp add: core_of_def)
  show "inherited_ok base_single inherited0" by (simp add: inherited_ok_def follows_def inherited0_def c)
  show "core_ok base_single (core_of pol0)"
    by (simp add: core_ok_def core_of_def pol0_def base_single_def base0_def allowed_def comm_config_def
        media_config_def record_config_def)
qed

lemma policy_refines_witness:
  "(core_step base_single)\<^sup>=\<^sup>= (core_of pol0) (core_of (ap_step base_single inherited0 (AP_PhoneState MODE_IN_CALL) pol0))"
  using policy_refines_core [OF base_single_ok(1,3), of pol0] by blast


end
