(* ===== verification/HalWrapper.thy ===== *)
theory HalWrapper
  imports Lifecycle LpaProps
begin

text \<open>
  The C interface of the audio HAL (\<open>audio_hw_hal.cpp\<close>): the conversion between the device
  numbers of the framework and those of the legacy classes, and the wrappers around the streams
  and the HAL object.
\<close>

section \<open>Device numbers\<close>

text \<open>
  The rows of \<open>audio_device_conv_table\<close>; \<open>old\<close> and \<open>new\<close> are the constants \<open>AudioSystem::DEVICE_x\<close> and
  \<open>AUDIO_DEVICE_x\<close> of the system headers.
\<close>

datatype hdev =
    D_OUT_EARPIECE | D_OUT_SPEAKER | D_OUT_WIRED_HEADSET | D_OUT_WIRED_HEADPHONE | D_OUT_SCO
  | D_OUT_SCO_HEADSET | D_OUT_SCO_CARKIT | D_OUT_A2DP | D_OUT_A2DP_HEADPHONES | D_OUT_A2DP_SPEAKER
  | D_OUT_AUX_DIGITAL | D_OUT_ANLG_DOCK | D_OUT_DGTL_DOCK | D_OUT_FM | D_OUT_FM_TX | D_OUT_DEFAULT
  | D_IN_COMMUNICATION | D_IN_AMBIENT | D_IN_BUILTIN_MIC | D_IN_SCO_HEADSET | D_IN_WIRED_HEADSET
  | D_IN_AUX_DIGITAL | D_IN_VOICE_CALL | D_IN_BACK_MIC | D_IN_FM_RX | D_IN_FM_RX_A2DP | D_IN_DEFAULT

datatype rev = HAL_API_REV_1_0 | HAL_API_REV_2_0

type_synonym conv_table = "(u32 \<times> u32) list"

definition audio_device_conv_table :: "(hdev \<Rightarrow> u32) \<Rightarrow> (hdev \<Rightarrow> u32) \<Rightarrow> conv_table" where
  "audio_device_conv_table old new = map (\<lambda>d. (old d, new d))
    [D_OUT_EARPIECE, D_OUT_SPEAKER, D_OUT_WIRED_HEADSET, D_OUT_WIRED_HEADPHONE, D_OUT_SCO,
     D_OUT_SCO_HEADSET, D_OUT_SCO_CARKIT, D_OUT_A2DP, D_OUT_A2DP_HEADPHONES, D_OUT_A2DP_SPEAKER,
     D_OUT_AUX_DIGITAL, D_OUT_ANLG_DOCK, D_OUT_DGTL_DOCK, D_OUT_FM, D_OUT_FM_TX, D_OUT_DEFAULT,
     D_IN_COMMUNICATION, D_IN_AMBIENT, D_IN_BUILTIN_MIC, D_IN_SCO_HEADSET, D_IN_WIRED_HEADSET,
     D_IN_AUX_DIGITAL, D_IN_VOICE_CALL, D_IN_BACK_MIC, D_IN_FM_RX, D_IN_FM_RX_A2DP, D_IN_DEFAULT]"

definition column :: "rev \<Rightarrow> u32 \<times> u32 \<Rightarrow> u32" where
  "column r e = (case r of HAL_API_REV_1_0 \<Rightarrow> fst e | HAL_API_REV_2_0 \<Rightarrow> snd e)"

text \<open>The inner loop: the first row that has the device, no device without one.\<close>

definition converted :: "conv_table \<Rightarrow> rev \<Rightarrow> rev \<Rightarrow> u32 \<Rightarrow> u32" where
  "converted tab from to cur = (case find (\<lambda>e. column from e = cur) tab of None \<Rightarrow> 0 | Some e \<Rightarrow> column to e)"

text \<open>\<open>31 - __builtin_clz(d)\<close>: the number of the highest bit.\<close>

definition clz :: "u32 \<Rightarrow> nat" where
  "clz d = length (takeWhile (\<lambda>i. \<not> bit d i) (rev [0..<32]))"

definition top_bit :: "u32 \<Rightarrow> nat" where
  "top_bit d = 31 - clz d"

lemma top_bit_set: "d \<noteq> 0 \<Longrightarrow> bit d (top_bit d) \<and> top_bit d < 32"
proof -
  assume "d \<noteq> 0"
  then obtain i where i: "bit d i" by (auto simp: bit_eq_iff)
  then have "i < 32" using bit_imp_le_length by fastforce
  have len: "clz d < length (rev [0..<32])"
  proof (rule ccontr)
    assume "\<not> clz d < length (rev [0..<32])"
    then have "takeWhile (\<lambda>i. \<not> bit d i) (rev [0..<32]) = rev [0..<32]"
      by (metis clz_def le_less_linear length_takeWhile_le takeWhile_eq_take take_all)
    then have "\<forall>i \<in> set (rev [0..<32]). \<not> bit d i" by (metis takeWhile_eq_all_conv)
    with i \<open>i < 32\<close> show False by auto
  qed
  then have "bit d (rev [0..<32] ! clz d)"
    using nth_length_takeWhile [of "\<lambda>i. \<not> bit d i" "rev [0..<32]"] by (simp add: clz_def)
  moreover have "rev [0..<32] ! clz d = 31 - clz d" using len by (subst rev_nth) simp_all
  ultimately show ?thesis by (simp add: top_bit_def)
qed

lemma clear_smaller:
  assumes "bit d i" "bit c i"
  shows "unat (d AND NOT c) < unat (d :: u32)"
proof -
  have "d AND NOT c \<le> d" by (simp add: word_and_le2)
  moreover have "d AND NOT c \<noteq> d"
  proof
    assume "d AND NOT c = d"
    with assms(1) have "bit (d AND NOT c) i" by simp
    with assms(2) show False by (simp add: bit_simps)
  qed
  ultimately have "d AND NOT c < d" by simp
  then show ?thesis by (simp add: word_less_nat_alt)
qed

function convert_loop :: "conv_table \<Rightarrow> rev \<Rightarrow> rev \<Rightarrow> u32 \<Rightarrow> u32 \<Rightarrow> u32 \<Rightarrow> u32" where
  "convert_loop tab from to in_bit from_device to_device =
     (if from_device = 0 then to_device
      else let cur = push_bit (top_bit from_device) 1 OR in_bit
           in convert_loop tab from to in_bit (from_device AND NOT cur) (to_device OR converted tab from to cur))"
  by pat_completeness auto

lemma cur_bit: "d \<noteq> 0 \<Longrightarrow> bit (push_bit (top_bit d) 1 OR in_bit :: u32) (top_bit d)"
  using top_bit_set [of d] by (simp add: bit_simps)

lemma loop_smaller: "d \<noteq> 0 \<Longrightarrow> unat (d AND NOT (2 ^ top_bit d) AND NOT in_bit) < unat (d :: u32)"
  using clear_smaller [OF conjunct1 [OF top_bit_set] cur_bit, of d in_bit] by simp

termination convert_loop
  by (relation "measure (\<lambda>(tab, from, to, in_bit, d, r). unat d)") (simp_all add: loop_smaller)

declare convert_loop.simps [simp del]

text \<open>\<open>bit_in\<close> is \<open>AUDIO_DEVICE_BIT_IN\<close>.\<close>

definition convert_audio_device :: "u32 \<Rightarrow> conv_table \<Rightarrow> u32 \<Rightarrow> rev \<Rightarrow> rev \<Rightarrow> u32" where
  "convert_audio_device bit_in tab from_device from to =
     (if from \<noteq> HAL_API_REV_1_0
      then convert_loop tab from to (from_device AND bit_in) (from_device AND NOT bit_in) 0
      else convert_loop tab from to 0 from_device 0)"

section \<open>The conversion\<close>

definition join_bits :: "u32 list \<Rightarrow> u32" where
  "join_bits ws = foldr (OR) ws 0"

lemma bit_join: "bit (join_bits ws) n \<longleftrightarrow> (\<exists>w \<in> set ws. bit w n)"
  by (induction ws) (auto simp: join_bits_def bit_simps)

lemma bit_single: "bit (2 ^ i :: u32) j \<longleftrightarrow> i = j \<and> j < 32"
  by (auto simp: bit_simps)

lemma single_inj: "(2 ^ i :: u32) = 2 ^ j \<Longrightarrow> j < 32 \<Longrightarrow> i = j"
  by (metis bit_single)

lemma convert_loop_bits:
  "d AND in_bit = 0 \<Longrightarrow> bit (convert_loop tab from to in_bit d r) n \<longleftrightarrow>
     bit r n \<or> (\<exists>i. bit d i \<and> bit (converted tab from to (push_bit i 1 OR in_bit)) n)"
proof (induction tab "from" to in_bit d r rule: convert_loop.induct)
  case (1 tab "from" to in_bit d r)
  show ?case
  proof (cases "d = 0")
    case True
    then show ?thesis by (simp add: convert_loop.simps)
  next
    case False
    let ?i = "top_bit d" and ?cur = "push_bit (top_bit d) 1 OR in_bit"
    let ?d = "d AND NOT ?cur"
    have dis: "bit d i \<Longrightarrow> \<not> bit in_bit i" for i
      using arg_cong [OF "1.prems", of "\<lambda>w. bit w i"] by (simp add: bit_simps)
    have top: "bit d ?i" "?i < 32" using top_bit_set [OF False] by auto
    have d: "bit ?d i \<longleftrightarrow> bit d i \<and> i \<noteq> ?i" for i
      using dis [of i] bit_imp_le_length [of d i] by (auto simp: bit_and_iff bit_not_iff bit_or_iff bit_single)
    have "?d AND in_bit = 0"
      using dis by (auto simp: bit_eq_iff bit_and_iff d)
    note IH = "1.IH" [OF False refl this]
    have "bit (convert_loop tab from to in_bit d r) n = bit (convert_loop tab from to in_bit ?d (r OR converted tab from to ?cur)) n"
      using False by (subst convert_loop.simps) (simp only: if_False Let_def)
    also have "\<dots> \<longleftrightarrow> bit r n \<or> bit (converted tab from to ?cur) n
        \<or> (\<exists>i. bit ?d i \<and> bit (converted tab from to (push_bit i 1 OR in_bit)) n)"
      unfolding IH by (simp add: bit_or_iff)
    also have "\<dots> \<longleftrightarrow> bit r n \<or> (\<exists>i. bit d i \<and> bit (converted tab from to (push_bit i 1 OR in_bit)) n)"
      using top(1) unfolding d by blast
    finally show ?thesis .
  qed
qed

text \<open>The bits that stand for devices, and the bit common to them, of a number of some revision.\<close>

definition device_bits :: "u32 \<Rightarrow> rev \<Rightarrow> u32 \<Rightarrow> u32 \<times> u32" where
  "device_bits bit_in from d = (if from = HAL_API_REV_1_0 then (d, 0) else (d AND NOT bit_in, d AND bit_in))"

lemma conversion_bits:
  "bit (convert_audio_device bit_in tab d from to) n \<longleftrightarrow>
     (\<exists>i. bit (fst (device_bits bit_in from d)) i
        \<and> bit (converted tab from to (push_bit i 1 OR snd (device_bits bit_in from d))) n)"
proof -
  have "(d AND NOT bit_in) AND (d AND bit_in) = 0" by (auto simp: bit_eq_iff bit_simps)
  then show ?thesis by (simp add: convert_audio_device_def device_bits_def convert_loop_bits)
qed

lemma device_bits_revs:
  "device_bits bit_in HAL_API_REV_2_0 d = (d AND NOT bit_in, d AND bit_in)"
  "device_bits bit_in HAL_API_REV_1_0 d = (d, 0)"
  by (simp_all add: device_bits_def)

text \<open>
  C22. The loop from the highest bit down computes the union of what the table has for each bit: the
  order of the bits does not matter, and a device without a row is dropped.
\<close>

theorem conversion_reference:
  "convert_audio_device bit_in tab d from to
     = join_bits (map (\<lambda>i. converted tab from to (push_bit i 1 OR snd (device_bits bit_in from d)))
                   (filter (bit (fst (device_bits bit_in from d))) [0..<32]))"
proof (rule bit_eqI)
  fix n
  have "i < 32" if "bit w i" for w :: u32 and i using bit_imp_le_length [OF that] by simp
  then show "bit (convert_audio_device bit_in tab d from to) n = bit (join_bits (map (\<lambda>i. converted tab from to
        (push_bit i 1 OR snd (device_bits bit_in from d))) (filter (bit (fst (device_bits bit_in from d))) [0..<32]))) n"
    unfolding conversion_bits bit_join by auto
qed

section \<open>There and back\<close>

text \<open>
  What the headers promise of the rows: no device occurs twice, and each is a single bit, beside
  the bit of inputs in the framework's column.
\<close>

definition good_table :: "u32 \<Rightarrow> conv_table \<Rightarrow> bool" where
  "good_table bit_in tab \<longleftrightarrow> distinct (map fst tab) \<and> distinct (map snd tab)
     \<and> (\<forall>e \<in> set tab. \<exists>i j. i < 32 \<and> j < 32 \<and> fst e = push_bit i 1 \<and> snd e AND NOT bit_in = push_bit j 1)"

lemma find_distinct: "distinct (map g xs) \<Longrightarrow> e \<in> set xs \<Longrightarrow> find (\<lambda>x. g x = g e) xs = Some e"
proof (induction xs)
  case (Cons a xs)
  show ?case
  proof (cases "g a = g e")
    case True
    have "g a \<notin> g ` set xs" using Cons.prems(1) by simp
    with True have "e \<notin> set xs" by (auto simp: image_iff)
    with Cons.prems(2) True show ?thesis by simp
  next
    case False
    with Cons show ?thesis by auto
  qed
qed simp

lemma converted_row:
  assumes "good_table bit_in tab" "e \<in> set tab"
  shows "converted tab HAL_API_REV_2_0 HAL_API_REV_1_0 (snd e) = fst e"
    "converted tab HAL_API_REV_1_0 HAL_API_REV_2_0 (fst e) = snd e"
  using assms find_distinct [of snd tab e] find_distinct [of fst tab e]
  by (simp_all add: good_table_def converted_def column_def)

lemma split_in: "(b AND NOT m) OR (b AND m) = (b :: u32)"
  by (auto simp: bit_eq_iff bit_simps)

text \<open>
  Devices of the table, all outputs or all inputs, are converted to their legacy numbers, and the
  conversion back gives the number of the framework again.
\<close>

lemma conversion_inverse:
  assumes "good_table bit_in tab" "set rows \<subseteq> set tab" "\<forall>e \<in> set rows. snd e AND bit_in = in_bit"
  shows "convert_audio_device bit_in tab (join_bits (map snd rows)) HAL_API_REV_2_0 HAL_API_REV_1_0 = join_bits (map fst rows)
    \<and> convert_audio_device bit_in tab (join_bits (map fst rows)) HAL_API_REV_1_0 HAL_API_REV_2_0 = join_bits (map snd rows)"
proof (cases "rows = []")
  case True
  then show ?thesis
    by (simp add: join_bits_def convert_audio_device_def convert_loop.simps)
next
  case False
  have e: "\<exists>i j. i < 32 \<and> j < 32 \<and> fst e = push_bit i 1 \<and> snd e AND NOT bit_in = push_bit j 1"
    "snd e AND bit_in = in_bit" if "e \<in> set rows" for e
    using assms that unfolding good_table_def by blast+
  note row = converted_row [OF assms(1), OF subsetD [OF assms(2)]]
  have common: "join_bits (map snd rows) AND bit_in = in_bit"
  proof (rule bit_eqI)
    fix n
    have "bit (snd e) n \<and> bit bit_in n \<longleftrightarrow> bit in_bit n" if "e \<in> set rows" for e
      using arg_cong [OF e(2) [OF that], of "\<lambda>w. bit w n"] by (simp add: bit_simps)
    then show "bit (join_bits (map snd rows) AND bit_in) n = bit in_bit n"
      using False by (cases rows) (auto simp: bit_and_iff bit_join)
  qed
  have new: "bit (snd e AND NOT bit_in) i \<longleftrightarrow> snd e = push_bit i 1 OR in_bit \<and> i < 32 \<and> snd e AND NOT bit_in = push_bit i 1"
    if "e \<in> set rows" for e i
    using e [OF that] split_in [of "snd e" bit_in] by (auto simp: bit_single) (metis bit_single)+
  have old: "bit (fst e) i \<longleftrightarrow> fst e = push_bit i 1 \<and> i < 32" if "e \<in> set rows" for e i
    using e(1) [OF that] by (auto simp: bit_single dest: single_inj)
  have to_old: "converted tab HAL_API_REV_2_0 HAL_API_REV_1_0 (push_bit i 1 OR in_bit) = fst e"
    if "e \<in> set rows" "bit (snd e AND NOT bit_in) i" for e i
    using new [OF that(1), of i] that(2) row(1) [OF that(1)] by simp
  have to_new: "converted tab HAL_API_REV_1_0 HAL_API_REV_2_0 (push_bit i 1 OR 0) = snd e"
    if "e \<in> set rows" "bit (fst e) i" for e i
    using old [OF that(1), of i] that(2) row(2) [OF that(1)] by simp
  have some_new: "\<exists>i. bit (snd e AND NOT bit_in) i" "\<exists>i. bit (fst e) i" if "e \<in> set rows" for e
    using e(1) [OF that] by (auto simp: bit_single)
  have new_bits: "bit (join_bits (map snd rows) AND NOT bit_in) i \<longleftrightarrow> (\<exists>e \<in> set rows. bit (snd e AND NOT bit_in) i)"
    and old_bits: "bit (join_bits (map fst rows)) i \<longleftrightarrow> (\<exists>e \<in> set rows. bit (fst e) i)"
    and snd_bits: "bit (join_bits (map snd rows)) i \<longleftrightarrow> (\<exists>e \<in> set rows. bit (snd e) i)" for i
    by (auto simp: bit_and_iff bit_join)
  have to_fst: "(\<exists>i. (\<exists>e\<in>set rows. bit (snd e AND NOT bit_in) i)
        \<and> bit (converted tab HAL_API_REV_2_0 HAL_API_REV_1_0 (push_bit i 1 OR in_bit)) n)
      \<longleftrightarrow> (\<exists>e\<in>set rows. bit (fst e) n)" for n
  proof
    assume "\<exists>e\<in>set rows. bit (fst e) n"
    then obtain e where e: "e \<in> set rows" "bit (fst e) n" by blast
    obtain i where "bit (snd e AND NOT bit_in) i" using some_new(1) [OF e(1)] by blast
    with e to_old [OF e(1) this] show "\<exists>i. (\<exists>e\<in>set rows. bit (snd e AND NOT bit_in) i)
        \<and> bit (converted tab HAL_API_REV_2_0 HAL_API_REV_1_0 (push_bit i 1 OR in_bit)) n"
      by (intro exI [of _ i] conjI bexI [of _ e]) (simp_all only:)
  next
    assume "\<exists>i. (\<exists>e\<in>set rows. bit (snd e AND NOT bit_in) i)
        \<and> bit (converted tab HAL_API_REV_2_0 HAL_API_REV_1_0 (push_bit i 1 OR in_bit)) n"
    then obtain i e where e: "e \<in> set rows" "bit (snd e AND NOT bit_in) i"
      "bit (converted tab HAL_API_REV_2_0 HAL_API_REV_1_0 (push_bit i 1 OR in_bit)) n" by blast
    then show "\<exists>e\<in>set rows. bit (fst e) n"
      using to_old [OF e(1,2)] by (intro bexI [of _ e]) (simp_all only:)
  qed
  have to_snd: "(\<exists>i. (\<exists>e\<in>set rows. bit (fst e) i)
        \<and> bit (converted tab HAL_API_REV_1_0 HAL_API_REV_2_0 (push_bit i 1 OR 0)) n)
      \<longleftrightarrow> (\<exists>e\<in>set rows. bit (snd e) n)" for n
  proof
    assume "\<exists>e\<in>set rows. bit (snd e) n"
    then obtain e where e: "e \<in> set rows" "bit (snd e) n" by blast
    obtain i where "bit (fst e) i" using some_new(2) [OF e(1)] by blast
    with e to_new [OF e(1) this] show "\<exists>i. (\<exists>e\<in>set rows. bit (fst e) i)
        \<and> bit (converted tab HAL_API_REV_1_0 HAL_API_REV_2_0 (push_bit i 1 OR 0)) n"
      by (intro exI [of _ i] conjI bexI [of _ e]) (simp_all only:)
  next
    assume "\<exists>i. (\<exists>e\<in>set rows. bit (fst e) i)
        \<and> bit (converted tab HAL_API_REV_1_0 HAL_API_REV_2_0 (push_bit i 1 OR 0)) n"
    then obtain i e where e: "e \<in> set rows" "bit (fst e) i"
      "bit (converted tab HAL_API_REV_1_0 HAL_API_REV_2_0 (push_bit i 1 OR 0)) n" by blast
    then show "\<exists>e\<in>set rows. bit (snd e) n"
      using to_new [OF e(1,2)] by (intro bexI [of _ e]) (simp_all only:)
  qed
  have "bit (convert_audio_device bit_in tab (join_bits (map snd rows)) HAL_API_REV_2_0 HAL_API_REV_1_0) n
      = bit (join_bits (map fst rows)) n" for n
    unfolding conversion_bits device_bits_revs common old_bits fst_conv snd_conv new_bits
    by (rule to_fst)
  moreover have "bit (convert_audio_device bit_in tab (join_bits (map fst rows)) HAL_API_REV_1_0 HAL_API_REV_2_0) n
      = bit (join_bits (map snd rows)) n" for n
    unfolding conversion_bits device_bits_revs snd_bits fst_conv snd_conv old_bits
    by (rule to_snd)
  ultimately show ?thesis by (simp add: bit_eq_iff)
qed

section \<open>The wrappers of the streams\<close>

text \<open>
  \<open>out_set_parameters\<close> and its like: a routing key with a number is taken out and added again with
  the converted device; \<open>show\<close> is how \<open>addInt\<close> prints the number, which is an \<open>int\<close>.
\<close>

definition convert_routing ::
  "env \<Rightarrow> (int \<Rightarrow> string) \<Rightarrow> u32 \<Rightarrow> conv_table \<Rightarrow> rev \<Rightarrow> rev \<Rightarrow> params \<Rightarrow> params"
where
  "convert_routing E show bit_in tab from to ps =
     (case par_getInt E ps (e_keyRouting E) of
        None \<Rightarrow> ps
      | Some d \<Rightarrow> par_add (e_keyRouting E)
                    (show (sint (convert_audio_device bit_in tab (word_of_int d) from to)))
                    (par_remove (e_keyRouting E) ps))"

text \<open>\<open>setp\<close> and \<open>getp\<close> are the virtual functions of the stream behind the wrapper.\<close>

definition out_set_parameters ::
  "env \<Rightarrow> (int \<Rightarrow> string) \<Rightarrow> u32 \<Rightarrow> conv_table \<Rightarrow> (params \<Rightarrow> (hw, status) state) \<Rightarrow> params \<Rightarrow> (hw, status) state"
where
  "out_set_parameters E show bit_in tab setp ps =
     setp (convert_routing E show bit_in tab HAL_API_REV_2_0 HAL_API_REV_1_0 ps)"

definition out_get_parameters ::
  "env \<Rightarrow> (int \<Rightarrow> string) \<Rightarrow> u32 \<Rightarrow> conv_table \<Rightarrow> (params \<Rightarrow> params) \<Rightarrow> params \<Rightarrow> params"
where
  "out_get_parameters E show bit_in tab getp keys =
     convert_routing E show bit_in tab HAL_API_REV_1_0 HAL_API_REV_2_0 (getp keys)"

definition in_set_parameters ::
  "env \<Rightarrow> (int \<Rightarrow> string) \<Rightarrow> u32 \<Rightarrow> conv_table \<Rightarrow> (params \<Rightarrow> 'v \<Rightarrow> (hw, status \<times> 'v) state)
     \<Rightarrow> params \<Rightarrow> 'v \<Rightarrow> (hw, status \<times> 'v) state"
where
  "in_set_parameters E show bit_in tab setp ps v =
     setp (convert_routing E show bit_in tab HAL_API_REV_2_0 HAL_API_REV_1_0 ps) v"

definition in_get_parameters ::
  "env \<Rightarrow> (int \<Rightarrow> string) \<Rightarrow> u32 \<Rightarrow> conv_table \<Rightarrow> (params \<Rightarrow> params) \<Rightarrow> params \<Rightarrow> params"
where
  "in_get_parameters E show bit_in tab getp keys =
     convert_routing E show bit_in tab HAL_API_REV_1_0 HAL_API_REV_2_0 (getp keys)"

section \<open>The wrappers of the HAL object\<close>

text \<open>
  Opening a stream: the status returned, the stream (0 for \<open>NULL\<close>), and the configuration written
  back. \<open>mem\<close> says whether \<open>calloc\<close> succeeds. The variable \<open>status\<close> holds the flags of the caller
  when an output is opened, and whatever its memory held when an input is.
\<close>

definition status_of :: "int \<Rightarrow> status option \<Rightarrow> status" where
  "status_of before st = (case st of None \<Rightarrow> of_rc before | Some s \<Rightarrow> s)"

definition adev_open_output_stream ::
  "env \<Rightarrow> u32 \<Rightarrow> conv_table \<Rightarrow> bool \<Rightarrow> nat \<Rightarrow> lpa \<Rightarrow> out_flags \<Rightarrow> int \<Rightarrow> u32 \<Rightarrow> format \<Rightarrow> u32 \<Rightarrow> u32 \<Rightarrow>
     (hal, status \<times> nat \<times> format \<times> u32 \<times> u32) state"
where
  "adev_open_output_stream E bit_in tab mem a session fl flags devices fmt ch rate =
     (if \<not> mem then ret (Code (-12), 0, fmt, ch, rate)
      else do {
        let d = convert_audio_device bit_in tab devices HAL_API_REV_2_0 HAL_API_REV_1_0;
        (p, st, fmt', ch', rate') \<leftarrow> openOutputStream E a session fl d fmt ch rate;
        ret (if p = 0 then status_of flags st else NO_ERROR, p, fmt', ch', rate')
      })"

definition adev_close_output_stream :: "env \<Rightarrow> nat \<Rightarrow> (hal, unit) state" where
  "adev_close_output_stream E p = closeOutputStream E p"

definition adev_open_input_stream ::
  "env \<Rightarrow> u32 \<Rightarrow> conv_table \<Rightarrow> bool \<Rightarrow> nat \<Rightarrow> bool \<Rightarrow> int \<Rightarrow> u32 \<Rightarrow> format \<Rightarrow> u32 \<Rightarrow> u32 \<Rightarrow>
     (hal, status \<times> nat \<times> format \<times> u32 \<times> u32) state"
where
  "adev_open_input_stream E bit_in tab mem a junk unset devices fmt ch rate =
     (if \<not> mem then ret (Code (-12), 0, fmt, ch, rate)
      else do {
        let d = convert_audio_device bit_in tab devices HAL_API_REV_2_0 HAL_API_REV_1_0;
        (p, st, fmt', ch', rate') \<leftarrow> on_hw (openInputStream E a junk d fmt ch rate);
        ret (if p = 0 then status_of unset st else NO_ERROR, p, fmt', ch', rate')
      })"

definition adev_close_input_stream :: "env \<Rightarrow> nat \<Rightarrow> (hal, unit) state" where
  "adev_close_input_stream E p = on_hw (closeInputStream E p)"

text \<open>Control calls; \<open>count_bits\<close> is \<open>popcount\<close>, whose result is kept in a byte.\<close>

definition adev_set_voice_volume :: "env \<Rightarrow> rat \<Rightarrow> (hal, status) state" where
  "adev_set_voice_volume E v = on_hw (setVoiceVolume E v)"

definition adev_set_master_volume :: "env \<Rightarrow> rat \<Rightarrow> (hal, status) state" where
  "adev_set_master_volume E v = on_hw (setMasterVolume E v)"

definition adev_set_mode :: "env \<Rightarrow> amode \<Rightarrow> (hal, status) state" where
  "adev_set_mode E m = on_hw (setMode E m)"

definition adev_set_mic_mute :: "env \<Rightarrow> bool \<Rightarrow> (hal, status) state" where
  "adev_set_mic_mute E b = on_hw (setMicMute E b)"

definition adev_set_parameters :: "env \<Rightarrow> params \<Rightarrow> (hal, status) state" where
  "adev_set_parameters E ps = on_hw (setParameters E ps)"

definition adev_get_parameters :: "params \<Rightarrow> hal \<Rightarrow> params" where
  "adev_get_parameters keys s = getParameters keys (hal_hw s)"

definition adev_get_input_buffer_size :: "(u32 \<Rightarrow> nat) \<Rightarrow> u32 \<Rightarrow> format \<Rightarrow> u32 \<Rightarrow> nat" where
  "adev_get_input_buffer_size count_bits rate fmt channels =
     getInputBufferSize rate fmt (int (count_bits channels mod 256))"

text \<open>\<open>iface\<close> is \<open>AUDIO_HARDWARE_INTERFACE\<close>.\<close>

definition qcom_adev_open :: "env \<Rightarrow> eq_cal option \<Rightarrow> bool \<Rightarrow> string \<Rightarrow> string \<Rightarrow> (hal, status) state" where
  "qcom_adev_open E eqlib mem iface name =
     (if name \<noteq> iface then ret E_INVAL
      else if \<not> mem then ret (Code (-12))
      else do { on_hw (hw_construct E eqlib); ret NO_ERROR })"

text \<open>The HAL object is never \<open>NULL\<close> behind an open device.\<close>

definition qcom_adev_close :: "env \<Rightarrow> (hal, unit) state" where
  "qcom_adev_close E = hw_destroy E"

section \<open>What the framework sees\<close>

lemma route_alone [simp]:
  "par_get [(k, v)] k = Some v" "par_remove k [(k, v)] = []" "par_add k w [(k, v)] = [(k, w)]"
  "par_add k w [] = [(k, w)]" "k' \<noteq> k \<Longrightarrow> par_get [(k, v)] k' = None"
  by (simp_all add: par_get_def par_remove_def par_add_def)

lemma routing_keeps_output: "mOutput (exec (doRouting E i d) s) = mOutput s"
  using preservesD [OF keeps_fixed.routing [where E = E and v = "fixed s" and i = i and od = d], of s] by (simp add: fixed_def)

lemma converted_alone:
  "e_int E v = Some d \<Longrightarrow> convert_routing E show bit_in tab from to [(e_keyRouting E, v)]
     = [(e_keyRouting E, show (sint (convert_audio_device bit_in tab (word_of_int d) from to)))]"
  by (simp add: convert_routing_def par_getInt_def)

lemma playback_route:
  assumes "e_keyFmVolume E \<noteq> e_keyRouting E" "e_keyHandleFm E \<noteq> e_keyRouting E" "e_int E v = Some d"
    "mOutput s = Some st"
  shows "mOutput (exec (out72_setParameters E [(e_keyRouting E, v)]) s) = Some (st\<lparr>o_devices := word_of_int d\<rparr>)"
  using assms by (simp add: out72_setParameters_def par_getInt_def routing_keeps_output upd_out_def)

text \<open>
  C21. Routing the playback stream with devices of the framework stores their legacy numbers in the
  stream, and asking it for its routing gives back the devices of the framework.
\<close>

theorem routing_parameter_roundtrip:
  assumes "good_table bit_in tab" "set rows \<subseteq> set tab" "\<forall>e \<in> set rows. snd e AND bit_in = in_bit"
    and keys: "e_keyFmVolume E \<noteq> e_keyRouting E" "e_keyHandleFm E \<noteq> e_keyRouting E"
    and print: "\<forall>w :: u32. e_int E (show (sint w)) = Some (sint w)"
    and st: "mOutput s = Some st"
  shows "let d = join_bits (map snd rows);
             t = exec (out_set_parameters E show bit_in tab (out72_setParameters E)
                         [(e_keyRouting E, show (sint d))]) s
         in mOutput t = Some (st\<lparr>o_devices := join_bits (map fst rows)\<rparr>)
            \<and> out_get_parameters E show bit_in tab
                (stream_getParameters E (\<lambda>w. show (sint w)) (o_devices (the (mOutput t)))) [(e_keyRouting E, [])]
              = [(e_keyRouting E, show (sint d))]"
proof -
  note conv = conversion_inverse [OF assms(1-3)]
  have e: "e_int E (show (sint w)) = Some (sint w)" for w :: u32 using print by blast
  have t: "mOutput (exec (out_set_parameters E show bit_in tab (out72_setParameters E)
             [(e_keyRouting E, show (sint (join_bits (map snd rows))))]) s)
           = Some (st\<lparr>o_devices := join_bits (map fst rows)\<rparr>)"
    using playback_route [OF keys e st, of "join_bits (map fst rows)"] conv
    by (simp add: out_set_parameters_def converted_alone [OF e])
  show ?thesis
    using conv by (simp add: t out_get_parameters_def stream_getParameters_def converted_alone [OF e])
qed

lemma playback_opened:
  "a \<noteq> 0 \<Longrightarrow> hal_out s = 0 \<Longrightarrow> case result (open_playback E a d fmt ch rate) s of
     (p, st, r) \<Rightarrow> \<exists>u. st = Some u \<and> (p = 0 \<longleftrightarrow> u \<noteq> NO_ERROR)"
  by (auto simp: open_playback_def split: prod.splits)

lemma direct_opened:
  "a \<noteq> 0 \<Longrightarrow> case result (open_direct E a d fmt ch rate) s of
     (p, st, r) \<Rightarrow> (p = 0 \<longrightarrow> (\<exists>u. st = Some u \<and> u \<noteq> NO_ERROR))"
  by (auto simp: open_direct_def split: prod.splits)

lemma session_opened:
  "a \<noteq> 0 \<Longrightarrow> case result (open_session E a mem fmt ch rate) s of
     (p, st, r) \<Rightarrow> (p = 0 \<longrightarrow> (\<exists>u. st = Some u \<and> u \<noteq> NO_ERROR))"
  by (auto simp: open_session_def split: prod.splits)

lemma output_opened:
  "a \<noteq> 0 \<Longrightarrow> case result (openOutputStream E a mem fl d fmt ch rate) s of
     (p, st, r) \<Rightarrow> (p = 0 \<longrightarrow> (\<exists>u. st = Some u \<and> u \<noteq> NO_ERROR))"
proof -
  assume a: "a \<noteq> 0"
  let ?t = "exec (on_hw lock_mLock) s"
  let ?m = "if hal_out s \<noteq> 0 \<and> \<not> (f_direct fl \<and> f_voip_rx fl) \<and> \<not> f_lpa fl
            then ret (0, Some INVALID_OPERATION, fmt, ch, rate)
            else if f_direct fl \<and> f_voip_rx fl then open_direct E a d fmt ch rate
            else if f_lpa fl then open_session E a mem fmt ch rate
            else open_playback E a d fmt ch rate"
  have t: "hal_out ?t = hal_out s" by simp
  have r: "result (openOutputStream E a mem fl d fmt ch rate) s = result ?m ?t"
    unfolding openOutputStream_def result_bind exec_gets result_gets result_return t ..
  show ?thesis
    unfolding r using direct_opened [OF a, of E d fmt ch rate ?t] session_opened [OF a, of E mem fmt ch rate ?t]
      playback_opened [OF a, of ?t E d fmt ch rate] t
    by (simp only: result_if split: if_split) (auto split: prod.splits)
qed

text \<open>A table of three rows, and numbers written in unary.\<close>

definition table0 :: conv_table where
  "table0 = [(0x1, 0x1), (0x2, 0x2), (0x10000, 0x80000001)]"

definition unary :: "int \<Rightarrow> string" where
  "unary i = (if i < 0 then CHR ''-'' # replicate (nat (- i)) CHR ''1'' else replicate (nat i) CHR ''1'')"

definition env_unary :: env where
  "env_unary = env0\<lparr>e_int := \<lambda>v. Some (if v \<noteq> [] \<and> hd v = CHR ''-'' then - int (length v - 1) else int (length v))\<rparr>"

lemma unary_read: "e_int env_unary (unary i) = Some i"
  by (cases "nat i") (auto simp: env_unary_def unary_def)

lemma table0_good: "good_table 0x80000000 table0"
proof -
  have "\<exists>i j. i < 32 \<and> j < 32 \<and> fst e = push_bit i (1 :: u32) \<and> snd e AND NOT 0x80000000 = push_bit j 1"
    if "e \<in> set table0" for e
  proof -
    from that consider "e = (0x1, 0x1)" | "e = (0x2, 0x2)" | "e = (0x10000, 0x80000001)"
      by (auto simp: table0_def)
    then show ?thesis
    proof cases
      case 1
      then show ?thesis by (intro exI [of _ 0]) simp
    next
      case 2
      then show ?thesis by (intro exI [of _ 1]) simp
    next
      case 3
      then show ?thesis by (intro exI [of _ 16] exI [of _ 0]) simp
    qed
  qed
  then show ?thesis by (simp add: good_table_def table0_def)
qed

lemma routing_parameter_witness:
  "let t = exec (out_set_parameters env_unary unary 0x80000000 table0 (out72_setParameters env_unary)
                   [(''routing'', unary 3)]) (hw_init\<lparr>mOutput := Some out72_new\<rparr>)
   in mOutput t = Some (out72_new\<lparr>o_devices := 3\<rparr>)"
proof -
  have "''fm_volume'' \<noteq> ''routing''" "''handle_fm'' \<noteq> ''routing''" by simp_all
  then have keys: "e_keyFmVolume env_unary \<noteq> e_keyRouting env_unary" "e_keyHandleFm env_unary \<noteq> e_keyRouting env_unary"
    "e_keyRouting env_unary = ''routing''"
    by (simp_all add: env_unary_def env0_def)
  have d: "join_bits [1, 2] = 3" by (simp add: join_bits_def)
  show ?thesis
    using routing_parameter_roundtrip [OF table0_good _ _ keys(1,2), of "[(0x1, 0x1), (0x2, 0x2)]" 0 unary
        "hw_init\<lparr>mOutput := Some out72_new\<rparr>" out72_new]
    by (simp add: table0_def unary_read d keys(3) Let_def)
qed

text \<open>
  Opening an output reports success exactly when it hands out a stream.
\<close>

theorem output_open_reports:
  assumes "a \<noteq> 0"
  shows "let r = result (adev_open_output_stream E bit_in tab mem a session fl flags devices fmt ch rate) s
         in fst r = NO_ERROR \<longleftrightarrow> fst (snd r) \<noteq> 0"
  using output_opened [OF assms, of E session fl
      "convert_audio_device bit_in tab devices HAL_API_REV_2_0 HAL_API_REV_1_0" fmt ch rate s]
  by (auto simp: adev_open_output_stream_def Let_def status_of_def split: prod.splits)

text \<open>
  A device without a row in the table is converted to no device; where no device is not an input,
  opening it reports whatever the variable \<open>status\<close> held, success among it, and hands out nothing.
\<close>

theorem input_open_unset_status:
  assumes "devices AND NOT bit_in = push_bit i 1" "i < 32" "devices \<notin> snd ` set tab" "\<not> e_isInput E 0"
  shows "result (adev_open_input_stream E bit_in tab True a junk unset devices fmt ch rate) s
           = (of_rc unset, 0, fmt, ch, rate)
    \<and> exec (adev_open_input_stream E bit_in tab True a junk unset devices fmt ch rate) s = s"
proof -
  have "find (\<lambda>e. snd e = devices) tab = None" using assms(3) by (force simp: find_None_iff)
  moreover have "(devices AND NOT bit_in) OR (devices AND bit_in) = devices" by (rule split_in)
  ultimately have "converted tab HAL_API_REV_2_0 HAL_API_REV_1_0 (push_bit i 1 OR (devices AND bit_in)) = 0"
    by (simp add: converted_def column_def assms(1))
  then have "bit (convert_audio_device bit_in tab devices HAL_API_REV_2_0 HAL_API_REV_1_0) n = False" for n
    unfolding conversion_bits device_bits_revs fst_conv snd_conv assms(1) by (auto simp: bit_simps)
  then have "convert_audio_device bit_in tab devices HAL_API_REV_2_0 HAL_API_REV_1_0 = 0"
    by (simp add: bit_eq_iff)
  with assms(4) show ?thesis
    by (simp add: adev_open_input_stream_def openInputStream_def on_hw_def status_of_def result_def exec_def)
qed

definition idle_hal :: hal where
  "idle_hal = \<lparr>hal_hw = hw_init, hal_out = 0, hal_direct = 0, hal_lpa = 0, hal_sessions = []\<rparr>"

lemma output_open_witness:
  "let r = result (adev_open_output_stream env0 0x80000000 table0 True 7 lpa_memory (\<lparr>f_direct = False, f_voip_rx = False, f_lpa = False\<rparr>)
                     0 2 PCM_16_BIT 3 44100) idle_hal
   in fst r = NO_ERROR \<longleftrightarrow> fst (snd r) \<noteq> 0"
  by (rule output_open_reports) simp

lemma input_open_witness:
  "fst (result (adev_open_input_stream (env0\<lparr>e_isInput := \<lambda>d. d \<noteq> 0\<rparr>) 0x80000000 table0 True 7 False 0
     0x80000004 PCM_16_BIT 0x10 8000) idle_hal) = NO_ERROR"
  using input_open_unset_status [where devices = "0x80000004" and bit_in = "0x80000000" and i = 2 and tab = table0
      and E = "env0\<lparr>e_isInput := \<lambda>d. d \<noteq> 0\<rparr>"]
  by (simp add: table0_def of_rc_def)

end
