(* ===== verification/StreamWrapper.thy ===== *)
theory StreamWrapper
  imports HalWrapper
begin

text \<open>
  The functions of \<open>audio_hw_hal.cpp\<close> on the streams. A stream is the pointer the HAL handed out;
  each function calls the virtual method of the object behind it, which is of one of three classes
  for outputs and of two for inputs. Without an object the pointer dangles: a bad access.
\<close>

section \<open>Objects behind pointers\<close>

datatype out_object = PLAYBACK_OUT out72 | DIRECT_OUT outdirect | SESSION_OUT lpa

definition out_object :: "nat \<Rightarrow> hal \<Rightarrow> out_object option" where
  "out_object p s =
     (if p = 0 then None
      else if p = hal_out s then map_option PLAYBACK_OUT (mOutput (hal_hw s))
      else if p = hal_direct s then map_option DIRECT_OUT (mDirectOutput (hal_hw s))
      else map_option SESSION_OUT (map_of (hal_sessions s) p))"

datatype in_object = RECORDING_IN instream | VOIP_IN voipin

definition in_object :: "nat \<Rightarrow> hal \<Rightarrow> in_object option" where
  "in_object p s =
     (case map_of (mInputs (hal_hw s)) p of
        Some v \<Rightarrow> Some (RECORDING_IN v)
      | None \<Rightarrow> map_option VOIP_IN (map_of (mVoipInputs (hal_hw s)) p))"

text \<open>A method called on the object at a pointer; the result is \<open>None\<close> when there is no object.\<close>

definition call_out :: "nat \<Rightarrow> (out_object \<Rightarrow> (hal, 'r) state) \<Rightarrow> (hal, 'r option) state" where
  "call_out p m = do {
     x \<leftarrow> gets (out_object p);
     (case x of
        None \<Rightarrow> do { on_hw (raise_fault BadPointer); ret None }
      | Some obj \<Rightarrow> do { r \<leftarrow> m obj; ret (Some r) })
   }"

definition call_in :: "nat \<Rightarrow> (in_object \<Rightarrow> (hal, 'r) state) \<Rightarrow> (hal, 'r option) state" where
  "call_in p m = do {
     x \<leftarrow> gets (in_object p);
     (case x of
        None \<Rightarrow> do { on_hw (raise_fault BadPointer); ret None }
      | Some obj \<Rightarrow> do { r \<leftarrow> m obj; ret (Some r) })
   }"

text \<open>A method of the session at a pointer, with its result.\<close>

definition session_call :: "nat \<Rightarrow> lpa \<Rightarrow> (lpa, 'r) state \<Rightarrow> (hal, 'r) state" where
  "session_call p l m = do {
     r \<leftarrow> gets (\<lambda>s. result m (session_view (hal_hw s) l));
     on_session p (modify (exec m));
     ret r
   }"

text \<open>Methods of the inputs give the object back; it stays where it was in the vector.\<close>

definition recording_call :: "nat \<Rightarrow> instream \<Rightarrow> (instream \<Rightarrow> (hw, 'r \<times> instream) state) \<Rightarrow> (hal, 'r) state" where
  "recording_call p v m = on_hw (do {
     (r, w) \<leftarrow> m v;
     modify (\<lambda>s. s\<lparr>mInputs := map (\<lambda>(b, u). (b, if b = p then w else u)) (mInputs s)\<rparr>);
     ret r
   })"

definition voip_call :: "nat \<Rightarrow> voipin \<Rightarrow> (voipin \<Rightarrow> (hw, 'r \<times> voipin) state) \<Rightarrow> (hal, 'r) state" where
  "voip_call p v m = on_hw (do {
     (r, w) \<leftarrow> m v;
     modify (\<lambda>s. s\<lparr>mVoipInputs := map (\<lambda>(b, u). (b, if b = p then w else u)) (mVoipInputs s)\<rparr>);
     ret r
   })"

text \<open>
  What \<open>AudioStreamOut\<close> of the framework's library answers where a class does not override it:
  it is not in the repository. An availability is a status and the value written, if any.
\<close>

record out_base =
  ob_start :: status
  ob_pause :: status
  ob_flush :: status
  ob_stop :: status
  ob_observer :: status
  ob_buffer_info :: "status \<times> int list option"
  ob_available :: "status \<times> bool option"
  ob_timestamp :: "status \<times> int option"

section \<open>Output streams\<close>

definition out_get_sample_rate :: "env \<Rightarrow> nat \<Rightarrow> (hal, u32 option) state" where
  "out_get_sample_rate E p = call_out p (\<lambda>x. ret (case x of
     PLAYBACK_OUT v \<Rightarrow> out72_sampleRate E | DIRECT_OUT v \<Rightarrow> 8000 | SESSION_OUT l \<Rightarrow> l_rate l))"

text \<open>Setting a rate or a format is not implemented and reports success; effects are ignored.\<close>

definition out_set_sample_rate :: "nat \<Rightarrow> u32 \<Rightarrow> (hal, int) state" where
  "out_set_sample_rate p rate = ret 0"

definition out_get_buffer_size :: "env \<Rightarrow> nat \<Rightarrow> (hal, nat option) state" where
  "out_get_buffer_size E p = call_out p (\<lambda>x. ret (case x of
     PLAYBACK_OUT v \<Rightarrow> out72_bufferSize E | DIRECT_OUT v \<Rightarrow> 320 | SESSION_OUT l \<Rightarrow> LPA_BUFFER_SIZE))"

definition out_get_channels :: "env \<Rightarrow> nat \<Rightarrow> (hal, u32 option) state" where
  "out_get_channels E p = call_out p (\<lambda>x. ret (case x of
     PLAYBACK_OUT v \<Rightarrow> out72_channels E | DIRECT_OUT v \<Rightarrow> d_channels v | SESSION_OUT l \<Rightarrow> l_channels l))"

definition out_get_format :: "nat \<Rightarrow> (hal, format option) state" where
  "out_get_format p = call_out p (\<lambda>x. ret (case x of
     PLAYBACK_OUT v \<Rightarrow> out72_format | DIRECT_OUT v \<Rightarrow> PCM_16_BIT | SESSION_OUT l \<Rightarrow> l_format l))"

definition out_set_format :: "nat \<Rightarrow> format \<Rightarrow> (hal, int) state" where
  "out_set_format p fmt = ret 0"

definition out_standby :: "env \<Rightarrow> nat \<Rightarrow> (hal, status option) state" where
  "out_standby E p = call_out p (\<lambda>x. case x of
     PLAYBACK_OUT v \<Rightarrow> on_hw (out72_standby E)
   | DIRECT_OUT v \<Rightarrow> on_hw (outdirect_standby E)
   | SESSION_OUT l \<Rightarrow> ret lpa_standby)"

definition session_setParameters :: "env \<Rightarrow> nat \<Rightarrow> params \<Rightarrow> (hal, status) state" where
  "session_setParameters E p ps = do {
     devs \<leftarrow> gets (\<lambda>s. case map_of (hal_sessions s) p of None \<Rightarrow> 0 | Some l \<Rightarrow> l_devices l);
     (st, devs') \<leftarrow> on_hw (lpa_setParameters E ps devs);
     modify (\<lambda>s. s\<lparr>hal_sessions := map (\<lambda>(b, k). (b, if b = p then k\<lparr>l_devices := devs'\<rparr> else k)) (hal_sessions s)\<rparr>);
     ret st
   }"

text \<open>\<open>out_set_parameters\<close> on the object behind the pointer; \<open>pr\<close> prints a number.\<close>

definition out_set_parameters_at ::
  "env \<Rightarrow> (int \<Rightarrow> string) \<Rightarrow> u32 \<Rightarrow> conv_table \<Rightarrow> nat \<Rightarrow> params \<Rightarrow> (hal, status option) state"
where
  "out_set_parameters_at E pr bit_in tab p kvpairs = call_out p (\<lambda>x.
     let ps = convert_routing E pr bit_in tab HAL_API_REV_2_0 HAL_API_REV_1_0 kvpairs
     in case x of
       PLAYBACK_OUT v \<Rightarrow> on_hw (out72_setParameters E ps)
     | DIRECT_OUT v \<Rightarrow> on_hw (outdirect_setParameters E ps)
     | SESSION_OUT l \<Rightarrow> session_setParameters E p ps)"

text \<open>\<open>getParameters\<close> of the classes: the session answers like playback, inputs of calls like their outputs.\<close>

definition lpa_getParameters :: "env \<Rightarrow> (u32 \<Rightarrow> string) \<Rightarrow> lpa \<Rightarrow> params \<Rightarrow> params" where
  "lpa_getParameters E pr l keys = stream_getParameters E pr (l_devices l) keys"

definition in_getParameters :: "env \<Rightarrow> (u32 \<Rightarrow> string) \<Rightarrow> instream \<Rightarrow> params \<Rightarrow> params" where
  "in_getParameters E pr v keys = stream_getParameters E pr (i_devices v) keys"

definition voipin_getParameters :: "env \<Rightarrow> (u32 \<Rightarrow> string) \<Rightarrow> voipin \<Rightarrow> params \<Rightarrow> params" where
  "voipin_getParameters E pr v keys = voip_getParameters E pr (i_devices v) keys"

definition out_get_parameters_at ::
  "env \<Rightarrow> (int \<Rightarrow> string) \<Rightarrow> u32 \<Rightarrow> conv_table \<Rightarrow> nat \<Rightarrow> params \<Rightarrow> (hal, params option) state"
where
  "out_get_parameters_at E pr bit_in tab p keys = call_out p (\<lambda>x. ret
     (convert_routing E pr bit_in tab HAL_API_REV_1_0 HAL_API_REV_2_0 (case x of
        PLAYBACK_OUT v \<Rightarrow> stream_getParameters E (\<lambda>w. pr (sint w)) (o_devices v) keys
      | DIRECT_OUT v \<Rightarrow> voip_getParameters E (\<lambda>w. pr (sint w)) (d_devices v) keys
      | SESSION_OUT l \<Rightarrow> lpa_getParameters E (\<lambda>w. pr (sint w)) l keys)))"

text \<open>The latency of a call over IP: two buffers of 320 bytes at 8000 Hz.\<close>

definition outdirect_latency :: "env \<Rightarrow> nat" where
  "outdirect_latency E = 1000 * 2 * (320 div e_frameSize E) div 8000"

definition out_get_latency :: "env \<Rightarrow> nat \<Rightarrow> (hal, nat option) state" where
  "out_get_latency E p = call_out p (\<lambda>x. ret (case x of
     PLAYBACK_OUT v \<Rightarrow> out72_latency E | DIRECT_OUT v \<Rightarrow> outdirect_latency E | SESSION_OUT l \<Rightarrow> lpa_latency))"

definition out_set_volume :: "env \<Rightarrow> nat \<Rightarrow> rat \<Rightarrow> rat \<Rightarrow> (hal, status option) state" where
  "out_set_volume E p left right = call_out p (\<lambda>x. case x of
     PLAYBACK_OUT v \<Rightarrow> ret INVALID_OPERATION
   | DIRECT_OUT v \<Rightarrow> ret INVALID_OPERATION
   | SESSION_OUT l \<Rightarrow> session_call p l (lpa_setVolume E left right))"

text \<open>\<open>write\<close>: what it returns by the class; \<open>fuel\<close> bounds the loops of the drivers, \<open>flen\<close> is the
  length of the last frame of a call.\<close>

datatype write_ret = WPlayback "int option" | WDirect direct_ret | WSession status

definition out_write :: "env \<Rightarrow> nat \<Rightarrow> int \<Rightarrow> nat \<Rightarrow> u32 \<Rightarrow> (hal, write_ret option) state" where
  "out_write E fuel flen p bytes = call_out p (\<lambda>x. case x of
     PLAYBACK_OUT v \<Rightarrow> do { r \<leftarrow> on_hw (out72_write E fuel (unat bytes)); ret (WPlayback r) }
   | DIRECT_OUT v \<Rightarrow> do { r \<leftarrow> on_hw (outdirect_write E fuel bytes flen); ret (WDirect r) }
   | SESSION_OUT l \<Rightarrow> do { r \<leftarrow> session_call p l (lpa_write E (unat bytes)); ret (WSession r) })"

definition out_get_render_position :: "nat \<Rightarrow> (hal, status option) state" where
  "out_get_render_position p = call_out p (\<lambda>x. ret (case x of
     PLAYBACK_OUT v \<Rightarrow> out72_getRenderPosition
   | DIRECT_OUT v \<Rightarrow> INVALID_OPERATION
   | SESSION_OUT l \<Rightarrow> lpa_getRenderPosition))"

definition out_set_observer :: "out_base \<Rightarrow> nat \<Rightarrow> bool \<Rightarrow> (hal, status option) state" where
  "out_set_observer D p given = call_out p (\<lambda>x. case x of
     SESSION_OUT l \<Rightarrow> session_call p l (lpa_setObserver given)
   | _ \<Rightarrow> ret (ob_observer D))"

text \<open>\<open>getBufferInfo\<close>: the addresses of the buffers; a session reads beyond its pool when it is short.\<close>

definition out_get_buffer_info :: "out_base \<Rightarrow> nat \<Rightarrow> (hal, (status \<times> int list option) option) state" where
  "out_get_buffer_info D p = call_out p (\<lambda>x. case x of
     SESSION_OUT l \<Rightarrow> do {
       whenM (lpa_getBufferInfo l = None) (on_hw (raise_fault BadPointer));
       ret (NO_ERROR, lpa_getBufferInfo l)
     }
   | _ \<Rightarrow> ret (ob_buffer_info D))"

text \<open>\<open>isBufferAvailable\<close>: no value where the caller of a session waits for a buffer.\<close>

definition out_is_buffer_available :: "out_base \<Rightarrow> nat \<Rightarrow> (hal, (status \<times> bool option) option) state" where
  "out_is_buffer_available D p = call_out p (\<lambda>x. case x of
     SESSION_OUT l \<Rightarrow> do { r \<leftarrow> session_call p l isBufferAvailable; ret (NO_ERROR, r) }
   | _ \<Rightarrow> ret (ob_available D))"

definition out_start :: "env \<Rightarrow> out_base \<Rightarrow> nat \<Rightarrow> (hal, status option) state" where
  "out_start E D p = call_out p (\<lambda>x. case x of
     SESSION_OUT l \<Rightarrow> session_call p l (lpa_start E) | _ \<Rightarrow> ret (ob_start D))"

definition out_pause :: "env \<Rightarrow> out_base \<Rightarrow> nat \<Rightarrow> (hal, status option) state" where
  "out_pause E D p = call_out p (\<lambda>x. case x of
     SESSION_OUT l \<Rightarrow> session_call p l (lpa_pause E) | _ \<Rightarrow> ret (ob_pause D))"

definition out_flush :: "env \<Rightarrow> out_base \<Rightarrow> nat \<Rightarrow> (hal, status option) state" where
  "out_flush E D p = call_out p (\<lambda>x. case x of
     SESSION_OUT l \<Rightarrow> session_call p l (lpa_flush E) | _ \<Rightarrow> ret (ob_flush D))"

definition out_stop :: "out_base \<Rightarrow> nat \<Rightarrow> (hal, status option) state" where
  "out_stop D p = call_out p (\<lambda>x. case x of
     SESSION_OUT l \<Rightarrow> session_call p l lpa_stop | _ \<Rightarrow> ret (ob_stop D))"

definition out_add_audio_effect :: "nat \<Rightarrow> (hal, int) state" where
  "out_add_audio_effect p = ret 0"

definition out_remove_audio_effect :: "nat \<Rightarrow> (hal, int) state" where
  "out_remove_audio_effect p = ret 0"

definition out_get_next_write_timestamp :: "env \<Rightarrow> out_base \<Rightarrow> nat \<Rightarrow> (hal, (status \<times> int option) option) state" where
  "out_get_next_write_timestamp E D p = call_out p (\<lambda>x. case x of
     SESSION_OUT l \<Rightarrow> do {
       t \<leftarrow> gets (\<lambda>s. lpa_getNextWriteTimestamp E (session_view (hal_hw s) l));
       ret (NO_ERROR, Some t)
     }
   | _ \<Rightarrow> ret (ob_timestamp D))"

section \<open>Input streams\<close>

definition in_get_sample_rate :: "nat \<Rightarrow> (hal, u32 option) state" where
  "in_get_sample_rate p = call_in p (\<lambda>x. ret (case x of RECORDING_IN v \<Rightarrow> i_rate v | VOIP_IN v \<Rightarrow> i_rate v))"

definition in_set_sample_rate :: "nat \<Rightarrow> u32 \<Rightarrow> (hal, int) state" where
  "in_set_sample_rate p rate = ret 0"

definition in_get_buffer_size :: "nat \<Rightarrow> (hal, nat option) state" where
  "in_get_buffer_size p = call_in p (\<lambda>x. ret (case x of RECORDING_IN v \<Rightarrow> i_bufsz v | VOIP_IN v \<Rightarrow> i_bufsz v))"

definition in_get_channels :: "nat \<Rightarrow> (hal, u32 option) state" where
  "in_get_channels p = call_in p (\<lambda>x. ret (case x of RECORDING_IN v \<Rightarrow> i_channels v | VOIP_IN v \<Rightarrow> i_channels v))"

text \<open>The format of an input of a call is that of recording, whatever it was opened with.\<close>

definition in_get_format :: "nat \<Rightarrow> (hal, format option) state" where
  "in_get_format p = call_in p (\<lambda>x. ret (case x of RECORDING_IN v \<Rightarrow> i_format v | VOIP_IN v \<Rightarrow> PCM_16_BIT))"

definition in_set_format :: "nat \<Rightarrow> format \<Rightarrow> (hal, int) state" where
  "in_set_format p fmt = ret 0"

definition in_standby_at :: "env \<Rightarrow> nat \<Rightarrow> (hal, status option) state" where
  "in_standby_at E p = call_in p (\<lambda>x. case x of
     RECORDING_IN v \<Rightarrow> recording_call p v (in_standby E) | VOIP_IN v \<Rightarrow> voip_call p v (voip_standby E))"

definition in_set_parameters_at ::
  "env \<Rightarrow> (int \<Rightarrow> string) \<Rightarrow> u32 \<Rightarrow> conv_table \<Rightarrow> nat \<Rightarrow> params \<Rightarrow> (hal, status option) state"
where
  "in_set_parameters_at E pr bit_in tab p kvpairs = call_in p (\<lambda>x. case x of
     RECORDING_IN v \<Rightarrow> recording_call p v (in_set_parameters E pr bit_in tab (in_setParameters E) kvpairs)
   | VOIP_IN v \<Rightarrow> voip_call p v (in_set_parameters E pr bit_in tab (voip_setParameters E) kvpairs))"

definition in_get_parameters_at ::
  "env \<Rightarrow> (int \<Rightarrow> string) \<Rightarrow> u32 \<Rightarrow> conv_table \<Rightarrow> nat \<Rightarrow> params \<Rightarrow> (hal, params option) state"
where
  "in_get_parameters_at E pr bit_in tab p keys = call_in p (\<lambda>x. ret
     (in_get_parameters E pr bit_in tab (case x of
        RECORDING_IN v \<Rightarrow> in_getParameters E (\<lambda>w. pr (sint w)) v
      | VOIP_IN v \<Rightarrow> voipin_getParameters E (\<lambda>w. pr (sint w)) v) keys))"

definition in_set_gain :: "nat \<Rightarrow> rat \<Rightarrow> (hal, status option) state" where
  "in_set_gain p gain = call_in p (\<lambda>x. ret INVALID_OPERATION)"

text \<open>\<open>read\<close>: the bytes read, and for a recording where the frames went.\<close>

datatype read_ret = RRecording "(int \<times> (nat \<times> nat) list) option" | RVoip "int option"

definition in_read_at :: "env \<Rightarrow> nat \<Rightarrow> nat \<Rightarrow> u32 \<Rightarrow> (hal, read_ret option) state" where
  "in_read_at E fuel p bytes = call_in p (\<lambda>x. case x of
     RECORDING_IN v \<Rightarrow> do { r \<leftarrow> recording_call p v (\<lambda>v. in_read E fuel v bytes); ret (RRecording r) }
   | VOIP_IN v \<Rightarrow> do { r \<leftarrow> voip_call p v (\<lambda>v. voip_read E fuel v (unat bytes)); ret (RVoip r) })"

definition in_get_input_frames_lost :: "nat \<Rightarrow> (hal, nat option) state" where
  "in_get_input_frames_lost p = call_in p (\<lambda>x. ret 0)"

definition in_add_audio_effect :: "nat \<Rightarrow> (hal, int option) state" where
  "in_add_audio_effect p = call_in p (\<lambda>x. ret 0)"

definition in_remove_audio_effect :: "nat \<Rightarrow> (hal, int option) state" where
  "in_remove_audio_effect p = call_in p (\<lambda>x. ret 0)"

section \<open>Questions to the HAL\<close>

definition adev_init_check :: "(hal, status) state" where
  "adev_init_check = on_hw initCheck"

definition adev_get_mic_mute :: "(hal, bool \<times> status) state" where
  "adev_get_mic_mute = on_hw getMicMute"

text \<open>\<open>getMasterVolume\<close> is a method of the base class: its answer and the volume, if it writes one.\<close>

definition adev_get_master_volume :: "(hal \<Rightarrow> status \<times> rat option) \<Rightarrow> (hal, status \<times> rat option) state" where
  "adev_get_master_volume getMasterVolume = gets getMasterVolume"

end
