(* ===== verification/PolicyToHal.thy ===== *)
theory PolicyToHal
  imports PolicyProps StreamWrapper
begin

text \<open>
  The policy and the HAL together: a routing call of the policy is a parameter of an output, which
  the framework hands to the stream behind the C interface.
\<close>





end
