(* ===== verification/LifeTables.thy ===== *)
theory LifeTables
  imports LifeProps AudppProps
begin

text \<open>
  The calibration tables over the life of the HAL: filled by the parser at construction, read by
  everything after, emptied of their masks at destruction. This composes the parser, the life
  cycle and the frames of the streams and of the control part.
\<close>

section \<open>No operation after construction changes the tables\<close>





lemma ctl_tables [simp]: "tables (ctl_step E e s) = tables s"
  using control_frame.step_view [of E e s] by (simp add: fixed_def)





lemma session_back_tables [simp]: "tables (session_back t h) = tables h"
  by (simp add: session_back_def)








section \<open>Construction and destruction\<close>







end
