(* ===== verification/SessionClients.thy ===== *)
theory SessionClients
  imports LifeProps StreamWrapper
begin

text \<open>
  A low power session beside the playback and recording streams: all of them log their calls to
  one kernel and share its descriptors. The session is driven by its client and by the events of
  the decoder, interleaved with the calls of \<open>media\<close>.
\<close>

section \<open>What a session leaves alone\<close>




lemma session_back_view [simp]: "session_back (session_view h l) h = h"
  by (simp add: session_back_def session_view_def)


lemma session_view_fields [simp]:
  "k_log (session_view h l) = k_log h" "k_fault (session_view h l) = k_fault h"
  "l_afd (session_view h l) = l_afd l" "l_ionfd (session_view h l) = l_ionfd l"
  by (simp_all add: session_view_def)

lemma session_back_fields [simp]:
  "k_log (session_back t h) = k_log t" "k_fault (session_back t h) = k_fault t"
  "mLock (session_back t h) = mLock h" "mOutput (session_back t h) = mOutput h"
  "mInputs (session_back t h) = mInputs h" "mDirectOutput (session_back t h) = mDirectOutput h"
  "mVoipInputs (session_back t h) = mVoipInputs h" "instanceCount (session_back t h) = instanceCount h"
  "out_owned (session_back t h) = out_owned h" "in_part (session_back t h) = in_part h"
  "recordings_ok (session_back t h) = recordings_ok h" "playback_ok (session_back t h) = playback_ok h"
  by (simp_all add: session_back_def out_owned_def in_part_def recordings_ok_def playback_ok_def)


section \<open>The session and the streams\<close>

definition held :: "lpa \<Rightarrow> int multiset" where
  "held l = owned (l_afd l) + owned (l_ionfd l) + image_mset snd (l_all l)"

definition own :: "lpa \<Rightarrow> bool" where
  "own l \<longleftrightarrow> l_idle l + l_busy l = l_all l \<and> list_all (\<lambda>b. 0 \<le> b_fd b) (l_pool l)"


lemma view_held [simp]: "held (session_view h l) = held l" "own (session_view h l) = own l"
  by (simp_all add: held_def own_def session_view_def l_idle_def l_busy_def l_all_def)

text \<open>
  The HAL with a session or without: the streams are as their clients leave them, and own, with the
  session, every descriptor besides \<open>base\<close>.
\<close>

definition forget :: "hal \<Rightarrow> hal" where
  "forget s = s\<lparr>hal_sessions := []\<rparr>"


lemma forget_simps [simp]:
  "hal_hw (forget s) = hal_hw s" "hal_out (forget s) = hal_out s" "hal_lpa (forget s) = hal_lpa s"
  "hal_direct (forget s) = hal_direct s" "hal_sessions (forget s) = []"
  "forget (s\<lparr>hal_hw := h\<rparr>) = (forget s)\<lparr>hal_hw := h\<rparr>"
  "forget (s\<lparr>hal_out := a\<rparr>) = (forget s)\<lparr>hal_out := a\<rparr>"
  by (simp_all add: forget_def)

lemma on_hw_forget [simp]: "exec (on_hw m) (forget s) = forget (exec (on_hw m) s)"
  by simp




section \<open>Clients of all three\<close>

text \<open>
  A call on the streams that is not about the session; a session opened where there is none, on
  memory that holds no number of a descriptor; a call on it or an event of its decoder; its parameters, which may route; closing it.
\<close>

inductive session_client :: "env \<Rightarrow> hal \<Rightarrow> hal \<Rightarrow> bool" for E where
  other: "media E s t \<Longrightarrow> hal_sessions s = [] \<or> hal_lpa t = hal_lpa s \<and> hal_out t \<noteq> hal_lpa s \<Longrightarrow>
     session_client E s t"
| opened: "hal_sessions s = [] \<Longrightarrow> a \<noteq> 0 \<Longrightarrow> a \<noteq> hal_out s \<Longrightarrow> f_lpa fl \<Longrightarrow> \<not> (f_direct fl \<and> f_voip_rx fl) \<Longrightarrow>
     l_afd mem < 0 \<Longrightarrow> l_ionfd mem < 0 \<Longrightarrow>
     session_client E s (exec (openOutputStream E a mem fl dev fmt ch rate) s)"
| called: "hal_sessions s = [(p, l)] \<Longrightarrow> session_client E s (exec (on_session p (modify (lpa_run E e))) s)"
| params: "hal_sessions s = [(p, l)] \<Longrightarrow> session_client E s (exec (session_setParameters E p ps) s)"
| closed: "hal_sessions s = [(p, l)] \<Longrightarrow> session_client E s (exec (closeOutputStream E p) s)"

inductive_cases session_clientE: "session_client E s t"


text \<open>The streams are as they were when a session gives the log back with other descriptors of its own.\<close>

lemma session_back_lock [simp]:
  "(session_back t h)\<lparr>mLock := b\<rparr> = session_back t (h\<lparr>mLock := b\<rparr>)"
  "session_view (h\<lparr>mLock := b\<rparr>) l = session_view h l"
  by (simp_all add: session_back_def session_view_def)











lemma held_devices [simp]: "held (l\<lparr>l_devices := d\<rparr>) = held l" "own (l\<lparr>l_devices := d\<rparr>) = own l"
  by (simp_all add: held_def own_def l_idle_def l_busy_def l_all_def)







end
