(* ===== verification/HalClients.thy ===== *)
theory HalClients
  imports LifeProps HalWrapper
begin

text \<open>
  The framework as a client of the C interface: every sequence of its calls on the HAL, a playback
  and a recording stream is a run of the clients of \<open>LifeProps\<close>, so that what holds of those holds
  behind the interface.
\<close>

text \<open>
  One call of the framework. The functions of the streams that pass a call on unchanged stand for
  the call; a stream that is opened gets an address not in use.
\<close>

inductive framework :: "env \<Rightarrow> (int \<Rightarrow> string) \<Rightarrow> u32 \<Rightarrow> conv_table \<Rightarrow> hal \<Rightarrow> hal \<Rightarrow> bool"
  for E pr bit_in tab where
  fw_open_out: "a \<noteq> 0 \<Longrightarrow> \<not> (f_direct fl \<and> f_voip_rx fl) \<Longrightarrow> \<not> f_lpa fl \<Longrightarrow>
     framework E pr bit_in tab s
       (exec (adev_open_output_stream E bit_in tab mem a session fl flags dev fmt ch rate) s)"
| fw_close_out: "framework E pr bit_in tab s (exec (adev_close_output_stream E p) s)"
| fw_out_write: "hal_out s \<noteq> 0 \<Longrightarrow> framework E pr bit_in tab s (exec (on_hw (out72_write E fuel n)) s)"
| fw_out_standby: "hal_out s \<noteq> 0 \<Longrightarrow> framework E pr bit_in tab s (exec (on_hw (out72_standby E)) s)"
| fw_out_params: "hal_out s \<noteq> 0 \<Longrightarrow> par_get ps (e_keyHandleFm E) = None \<Longrightarrow>
     framework E pr bit_in tab s
       (exec (on_hw (out_set_parameters E pr bit_in tab (out72_setParameters E) ps)) s)"
| fw_open_in: "a \<noteq> 0 \<Longrightarrow> a \<notin> fst ` set (mInputs (hal_hw s)) \<Longrightarrow>
     convert_audio_device bit_in tab dev HAL_API_REV_2_0 HAL_API_REV_1_0 \<noteq> e_dev E IN_COMMUNICATION \<Longrightarrow>
     framework E pr bit_in tab s (exec (adev_open_input_stream E bit_in tab mem a junk unset dev fmt ch rate) s)"
| fw_close_in: "framework E pr bit_in tab s (exec (adev_close_input_stream E a) s)"
| fw_in_read: "framework E pr bit_in tab s (exec (on_hw (on_input a (\<lambda>v. in_read E fuel v m))) s)"
| fw_in_standby: "framework E pr bit_in tab s (exec (on_hw (on_input a (in_standby E))) s)"
| fw_in_params: "framework E pr bit_in tab s
     (exec (on_hw (on_input a (in_set_parameters E pr bit_in tab (in_setParameters E) ps))) s)"
| fw_voice_volume: "framework E pr bit_in tab s (exec (adev_set_voice_volume E v) s)"
| fw_master_volume: "framework E pr bit_in tab s (exec (adev_set_master_volume E v) s)"
| fw_mode: "framework E pr bit_in tab s (exec (adev_set_mode E md) s)"
| fw_mic_mute: "framework E pr bit_in tab s (exec (adev_set_mic_mute E b) s)"
| fw_params: "framework E pr bit_in tab s (exec (adev_set_parameters E ps) s)"

lemma adev_open_exec:
  "exec (adev_open_output_stream E bit_in tab mem a session fl flags dev fmt ch rate) s =
     (if mem then exec (openOutputStream E a session fl
        (convert_audio_device bit_in tab dev HAL_API_REV_2_0 HAL_API_REV_1_0) fmt ch rate) s else s)"
  "exec (adev_open_input_stream E bit_in tab mem a junk unset dev fmt ch rate) s =
     (if mem then exec (on_hw (openInputStream E a junk
        (convert_audio_device bit_in tab dev HAL_API_REV_2_0 HAL_API_REV_1_0) fmt ch rate)) s else s)"
  by (simp_all add: adev_open_output_stream_def adev_open_input_stream_def split: prod.split)

lemma converted_other:
  assumes "k \<noteq> e_keyRouting E" "par_get ps k = None"
  shows "par_get (convert_routing E pr bit_in tab from to ps) k = None"
proof -
  have "k \<notin> fst ` set ps" using assms(2) by (simp add: par_get_def map_of_eq_None_iff)
  then have "k \<notin> fst ` set (par_add (e_keyRouting E) v (par_remove (e_keyRouting E) ps))" for v
    using assms(1) by (auto simp: par_add_def par_remove_def split: if_splits)
  then show ?thesis
    using assms(2) by (simp add: convert_routing_def par_get_def map_of_eq_None_iff split: option.split)
qed

lemmas control_calls = media.control [where e = "CVoiceVolume v" for v] media.control [where e = "CMasterVolume v" for v]
  media.control [where e = "CSetMode m" for m] media.control [where e = "CSetMicMute b" for b]
  media.control [where e = "CParams ps" for ps]

text \<open>Each call of the framework is one call of a media client, or fails without an effect.\<close>

lemma framework_step:
  assumes "framework E pr bit_in tab s t" "e_keyHandleFm E \<noteq> e_keyRouting E"
  shows "(media E)\<^sup>=\<^sup>= s t"
  using assms(1)
proof cases
  case (fw_open_out a fl mem session flags dev fmt ch rate)
  then show ?thesis by (auto simp: adev_open_exec intro: media.open_out)
next
  case (fw_out_params ps)
  then show ?thesis
    using converted_other [OF assms(2)] by (auto simp: out_set_parameters_def simp del: on_hw_simps intro!: media.out_params)
next
  case (fw_open_in a dev mem junk unset fmt ch rate)
  then show ?thesis by (auto simp: adev_open_exec simp del: on_hw_simps intro!: media.open_in)
next
  case (fw_in_params a ps)
  then show ?thesis
    using media.in_params [of E s a "convert_routing E pr bit_in tab HAL_API_REV_2_0 HAL_API_REV_1_0 ps"]
    by (simp add: in_set_parameters_def [abs_def])
qed (use media.close_out media.out_write media.out_standby media.close_in media.in_read media.in_standby control_calls in
     \<open>auto simp: adev_close_output_stream_def adev_close_input_stream_def adev_set_voice_volume_def
        adev_set_master_volume_def adev_set_mode_def adev_set_mic_mute_def adev_set_parameters_def\<close>)

lemma framework_run:
  assumes "(framework E pr bit_in tab)\<^sup>*\<^sup>* s t" "e_keyHandleFm E \<noteq> e_keyRouting E"
  shows "(media E)\<^sup>*\<^sup>* s t"
  using assms(1) by (induction rule: rtranclp_induct) (auto dest: framework_step [OF _ assms(2)])

text \<open>
  Whatever the framework calls through the C interface, in any order and with any answers of the
  drivers, is a run of media clients: the lock is free between calls and was never taken twice,
  there is at most one recording, and the two streams own every descriptor opened and not closed.
\<close>

theorem framework_refines_media:
  assumes "(framework E pr bit_in tab)\<^sup>*\<^sup>* s t" "e_keyHandleFm E \<noteq> e_keyRouting E"
    and "no_stdin E" "media_ok base s"
  shows "(media E)\<^sup>*\<^sup>* s t \<and> \<not> mLock (hal_hw t) \<and> k_fault (hal_hw t) \<noteq> Some SelfDeadlock
    \<and> length (mInputs (hal_hw t)) \<le> 1 \<and> live (k_log (hal_hw t)) = base + out_owned (hal_hw t) + in_part (hal_hw t)"
  using framework_run [OF assms(1,2)] media_reachable [OF framework_run [OF assms(1,2)] assms(3,4)]
  by (auto simp: media_ok_def media_hw_def free_def recordings_ok_def)

lemma framework_refines_witness:
  "\<not> mLock (hal_hw (exec (adev_open_output_stream env_posix 0x80000000 table0 True 7 lpa_memory plain_flags 0 2 PCM_16_BIT 3 44100) hal_new))"
proof -
  have "framework env_posix unary 0x80000000 table0 hal_new
     (exec (adev_open_output_stream env_posix 0x80000000 table0 True 7 lpa_memory plain_flags 0 2 PCM_16_BIT 3 44100) hal_new)"
    by (rule fw_open_out) (simp_all add: plain_flags_def)
  note run = r_into_rtranclp [where r = "framework env_posix unary 0x80000000 table0", OF this]
  have "e_keyHandleFm env_posix \<noteq> e_keyRouting env_posix" by (simp add: env_posix_def env0_def)
  from framework_refines_media [OF run this no_stdin_env hal_new_ok] show ?thesis by blast
qed

end
