(* ===== verification/InterfaceClients.thy ===== *)
theory InterfaceClients
  imports SessionClients HalClients
begin

text \<open>
  The framework on the whole C interface: it knows the streams by their pointers and calls them
  without knowing their class. Every sequence of its calls, with playback, recording and a low
  power session, is a run of the clients of \<open>SessionClients\<close>.
\<close>

section \<open>Calls by pointer\<close>





lemma call_out_simps [simp]:
  "out_object p s = Some x \<Longrightarrow> exec (call_out p m) s = exec (m x) s"
  "out_object p s = Some x \<Longrightarrow> result (call_out p m) s = Some (result (m x) s)"
  by (simp_all add: call_out_def)

lemma call_in_simps [simp]:
  "in_object p s = Some x \<Longrightarrow> exec (call_in p m) s = exec (m x) s"
  "in_object p s = Some x \<Longrightarrow> result (call_in p m) s = Some (result (m x) s)"
  by (simp_all add: call_in_def)

lemma session_call_exec [simp]: "exec (session_call p l m) s = exec (on_session p (modify (exec m))) s"
  by (simp add: session_call_def)


text \<open>The functions that only ask, on a stream that exists.\<close>

lemma queries_keep_state:
  assumes "out_object p s = Some x"
  shows "exec (out_get_sample_rate E p) s = s" "exec (out_get_buffer_size E p) s = s"
    "exec (out_get_channels E p) s = s" "exec (out_get_format p) s = s" "exec (out_get_latency E p) s = s"
    "exec (out_get_parameters_at E pr bit_in tab p ps) s = s" "exec (out_get_render_position p) s = s"
    "exec (out_get_next_write_timestamp E D p) s = s"
  using assms
  by (simp_all add: out_get_sample_rate_def out_get_buffer_size_def out_get_channels_def out_get_format_def
      out_get_latency_def out_get_parameters_at_def out_get_render_position_def out_get_next_write_timestamp_def
      split: out_object.split)

section \<open>The framework\<close>













end
