(* ===== verification/PolicyHal.thy ===== *)
theory PolicyHal
  imports Prelude
begin

text \<open>
  The C interface of the audio policy (\<open>audio_policy_hal.cpp\<close>): creation and destruction of the
  policy object. The state is the multiset of the objects that are allocated. The member functions
  between are in \<open>PolicyClients\<close>.
\<close>

datatype ap_object = QCOM_POLICY | SERVICE_CLIENT | POLICY_MANAGER

text \<open>What a call of \<open>create_qcom_ap\<close> leaves in \<open>*ap\<close>.\<close>

datatype ap_out = AP_Untouched | AP_Null | AP_Policy

type_synonym ap_heap = "ap_object multiset"

text \<open>\<open>mem x\<close>: whether the allocation of \<open>x\<close> succeeds.\<close>

definition ap_alloc :: "(ap_object \<Rightarrow> bool) \<Rightarrow> ap_object \<Rightarrow> (ap_heap, bool) state" where
  "ap_alloc mem x = do { whenM (mem x) (modify (add_mset x)); ret (mem x) }"

definition ap_free :: "ap_object \<Rightarrow> (ap_heap, unit) state" where
  "ap_free x = modify (\<lambda>h. h - {#x#})"

definition create_qcom_ap :: "(ap_object \<Rightarrow> bool) \<Rightarrow> bool \<Rightarrow> bool \<Rightarrow> (ap_heap, int \<times> ap_out) state" where
  "create_qcom_ap mem service aps_ops =
     (if \<not> service \<or> \<not> aps_ops then ret (-22, AP_Untouched)
      else do {
        qap \<leftarrow> ap_alloc mem QCOM_POLICY;
        if \<not> qap then ret (-12, AP_Untouched)
        else do {
          client \<leftarrow> ap_alloc mem SERVICE_CLIENT;
          if \<not> client then do { ap_free QCOM_POLICY; ret (-12, AP_Null) }
          else do {
            apm \<leftarrow> ap_alloc mem POLICY_MANAGER;
            if \<not> apm then do { ap_free SERVICE_CLIENT; ap_free QCOM_POLICY; ret (-12, AP_Null) }
            else ret (0, AP_Policy)
          }
        }
      })"

text \<open>A policy that was created has both its objects.\<close>

definition destroy_qcom_ap :: "bool \<Rightarrow> (ap_heap, int) state" where
  "destroy_qcom_ap qap =
     (if \<not> qap then ret 0
      else do {
        ap_free POLICY_MANAGER;
        ap_free SERVICE_CLIENT;
        ap_free QCOM_POLICY;
        ret 0
      })"

lemma ap_simps [simp]:
  "exec (ap_alloc mem x) h = (if mem x then add_mset x h else h)" "result (ap_alloc mem x) h = mem x"
  "exec (ap_free x) h = h - {#x#}"
  by (simp_all add: ap_alloc_def ap_free_def)

text \<open>
  Creating a policy hands out a policy exactly when it reports success, and keeps memory only
  then; destroying what was handed out, or nothing, returns all of it.
\<close>

theorem policy_memory_returned:
  "let (rc, ap) = result (create_qcom_ap mem service aps_ops) h;
       t = exec (create_qcom_ap mem service aps_ops) h
   in (rc = 0 \<longleftrightarrow> ap = AP_Policy) \<and> (t = h \<longleftrightarrow> rc \<noteq> 0)
      \<and> exec (destroy_qcom_ap (ap = AP_Policy)) t = h"
  by (simp add: create_qcom_ap_def destroy_qcom_ap_def)

end
