(* ===== verification/Srs.thy ===== *)
theory Srs
  imports StreamWrapper
begin

text \<open>
  The hooks for SRS TruMedia, which are compiled with \<open>SRS_PROCESSING\<close> only: six buffers of
  parameters that the framework hands over as addresses, and the function that sends them to the
  driver. The calls of this function from routing and playback are not part of the models there.
\<close>

datatype srs_set = SRS_G | SRS_W | SRS_C | SRS_HP | SRS_P | SRS_HL

fun srs_flag :: "srs_set \<Rightarrow> u32" where
  "srs_flag SRS_G = 1"
| "srs_flag SRS_W = 2"
| "srs_flag SRS_C = 4"
| "srs_flag SRS_HP = 8"
| "srs_flag SRS_P = 16"
| "srs_flag SRS_HL = 32"

definition SRS_PARAMS_ALL :: u32 where "SRS_PARAMS_ALL = 0xFF"
definition SRS_ENABLE :: u32 where "SRS_ENABLE = 0x20"
definition SRS_DISABLE :: u32 where "SRS_DISABLE = 0xFFDF"

fun srs_key :: "srs_set \<Rightarrow> string" where
  "srs_key SRS_G = ''SRS_BufferG''"
| "srs_key SRS_W = ''SRS_BufferW''"
| "srs_key SRS_C = ''SRS_BufferC''"
| "srs_key SRS_HP = ''SRS_BufferHP''"
| "srs_key SRS_P = ''SRS_BufferP''"
| "srs_key SRS_HL = ''SRS_BufferHL''"

text \<open>
  The addresses, 0 for \<open>NULL\<close>, and the memory as far as the code looks at it: the third halfword of
  the buffer at an address.
\<close>

record srs =
  srs_hw :: hw
  srs_ptr :: "srs_set \<Rightarrow> u32"
  srs_third :: "u32 \<Rightarrow> u16"

definition on_srs_hw :: "(hw, 'a) state \<Rightarrow> (srs, 'a) state" where
  "on_srs_hw m = State (\<lambda>s. (result m (srs_hw s), s\<lparr>srs_hw := exec m (srs_hw s)\<rparr>))"

lemma on_srs_hw_simps [simp]:
  "exec (on_srs_hw m) s = s\<lparr>srs_hw := exec m (srs_hw s)\<rparr>" "result (on_srs_hw m) s = result m (srs_hw s)"
  by (simp_all add: on_srs_hw_def exec_def result_def)

definition srs_send :: "env \<Rightarrow> int \<Rightarrow> u32 \<Rightarrow> srs_set \<Rightarrow> (srs, unit) state" where
  "srs_send E fd flags x = do {
     p \<leftarrow> gets (\<lambda>s. srs_ptr s x);
     w \<leftarrow> gets (\<lambda>s. srs_third s p);
     whenM (p \<noteq> 0 \<and> holds flags (srs_flag x)) (do {
       on_srs_hw (sys_ioctl E fd (AUDIO_SET_SRS_TRUMEDIA_PARAM p w));
       ret ()
     })
   }"

text \<open>
  Switching off clears the bit of both masks, and sends the general parameters with their third
  halfword set to 0, which is put back afterwards.
\<close>

definition srs_off :: "env \<Rightarrow> int \<Rightarrow> (srs, unit) state" where
  "srs_off E fd = do {
     on \<leftarrow> gets (\<lambda>s. holds (post_proc_feature_mask (srs_hw s)) SRS_ENABLE);
     whenM on (on_srs_hw (modify (\<lambda>s. s\<lparr>new_post_proc_feature_mask := new_post_proc_feature_mask s AND SRS_DISABLE,
         post_proc_feature_mask := post_proc_feature_mask s AND SRS_DISABLE\<rparr>)));
     g \<leftarrow> gets (\<lambda>s. srs_ptr s SRS_G);
     backup \<leftarrow> gets (\<lambda>s. srs_third s g);
     whenM (g \<noteq> 0) (do {
       modify (\<lambda>s. s\<lparr>srs_third := (srs_third s)(g := 0)\<rparr>);
       w \<leftarrow> gets (\<lambda>s. srs_third s g);
       on_srs_hw (sys_ioctl E fd (AUDIO_SET_SRS_TRUMEDIA_PARAM g w));
       modify (\<lambda>s. s\<lparr>srs_third := (srs_third s)(g := backup)\<rparr>)
     })
   }"

definition srs_on :: "env \<Rightarrow> int \<Rightarrow> u32 \<Rightarrow> (srs, unit) state" where
  "srs_on E fd flags = do {
     on_srs_hw (modify (\<lambda>s. s\<lparr>new_post_proc_feature_mask := new_post_proc_feature_mask s OR SRS_ENABLE,
       post_proc_feature_mask := post_proc_feature_mask s OR SRS_ENABLE\<rparr>));
     srs_send E fd flags SRS_W;
     srs_send E fd flags SRS_C;
     srs_send E fd flags SRS_HP;
     srs_send E fd flags SRS_P;
     srs_send E fd flags SRS_HL;
     srs_send E fd flags SRS_G
   }"

definition msm72xx_enable_srs :: "env \<Rightarrow> u32 \<Rightarrow> bool \<Rightarrow> (srs, unit) state" where
  "msm72xx_enable_srs E flags on = do {
     fd \<leftarrow> on_srs_hw (sys_open E ''/dev/msm_pcm_ctl'');
     whenM (\<not> fd < 0) (do {
       (if \<not> on then srs_off E fd else srs_on E fd flags);
       m \<leftarrow> gets (\<lambda>s. post_proc_feature_mask (srs_hw s));
       on_srs_hw (sys_ioctl E fd (AUDIO_ENABLE_AUDPP m));
       on_srs_hw (sys_close E fd);
       ret ()
     })
   }"

text \<open>
  The part of \<open>setParameters\<close> for SRS: a string that starts with the common prefix. The first set
  that is named is taken, in the order of the tests; with an address other than 0 the call ends.
  \<open>raw\<close> is the string, \<open>ps\<close> what it is parsed to.
\<close>

definition srs_named :: "env \<Rightarrow> params \<Rightarrow> (srs_set \<times> u32) option" where
  "srs_named E ps =
     (case find (\<lambda>x. par_getInt E ps (srs_key x) \<noteq> None) [SRS_G, SRS_W, SRS_C, SRS_HP, SRS_P, SRS_HL] of
        None \<Rightarrow> None
      | Some x \<Rightarrow> Some (x, word_of_int (the (par_getInt E ps (srs_key x)))))"

definition srs_setParameters :: "env \<Rightarrow> string \<Rightarrow> params \<Rightarrow> (srs, status) state" where
  "srs_setParameters E raw ps =
     (if take 10 raw \<noteq> ''SRS_Buffer'' then on_srs_hw (setParameters E ps)
      else do {
        let named = srs_named E ps;
        (case named of None \<Rightarrow> ret () | Some (x, p) \<Rightarrow> modify (\<lambda>s. s\<lparr>srs_ptr := (srs_ptr s)(x := p)\<rparr>));
        let flags = (case named of None \<Rightarrow> 0 | Some (x, p) \<Rightarrow> srs_flag x);
        playing \<leftarrow> gets (\<lambda>s. hpcm_playback_in_progress (srs_hw s) \<or> lpa_playback_in_progress (srs_hw s));
        whenM playing (msm72xx_enable_srs E flags True);
        (case named of
           Some (x, p) \<Rightarrow> if p \<noteq> 0 then ret NO_ERROR else on_srs_hw (setParameters E ps)
         | None \<Rightarrow> on_srs_hw (setParameters E ps))
      })"

section \<open>Properties\<close>

lemma srs_send_simps [simp]:
  "srs_ptr (exec (srs_send E fd flags x) s) = srs_ptr s" "srs_third (exec (srs_send E fd flags x) s) = srs_third s"
  "post_proc_feature_mask (srs_hw (exec (srs_send E fd flags x) s)) = post_proc_feature_mask (srs_hw s)"
  "new_post_proc_feature_mask (srs_hw (exec (srs_send E fd flags x) s)) = new_post_proc_feature_mask (srs_hw s)"
  "live (k_log (srs_hw (exec (srs_send E fd flags x) s))) = live (k_log (srs_hw s))"
  by (simp_all add: srs_send_def)

lemma srs_bit: "(m OR SRS_ENABLE) AND SRS_ENABLE = SRS_ENABLE" "(m AND SRS_DISABLE) AND SRS_ENABLE = 0" "SRS_ENABLE \<noteq> 0"
proof -
  have 1: "(m OR 0x20) AND 0x20 = (0x20 :: u32)" by (rule or_sets)
  have "(m AND 0xFFDF) AND 0x20 = m AND (0xFFDF AND 0x20 :: u32)" by (simp only: and.assoc)
  then have 2: "(m AND 0xFFDF) AND 0x20 = (0 :: u32)" by simp
  show "(m OR SRS_ENABLE) AND SRS_ENABLE = SRS_ENABLE" "(m AND SRS_DISABLE) AND SRS_ENABLE = 0" "SRS_ENABLE \<noteq> 0"
    using 1 2 by (simp_all add: SRS_ENABLE_def SRS_DISABLE_def)
qed

text \<open>
  Whatever the driver answers, switching SRS leaves the buffers of the framework and the open
  descriptors as they were, although switching off writes to a buffer. If the driver opens, the mask
  says afterwards what was asked for.
\<close>

theorem srs_switch_transparent:
  "srs_third (exec (msm72xx_enable_srs E flags on) s) = srs_third s
   \<and> srs_ptr (exec (msm72xx_enable_srs E flags on) s) = srs_ptr s
   \<and> live (k_log (srs_hw (exec (msm72xx_enable_srs E flags on) s))) = live (k_log (srs_hw s))
   \<and> (e_ret E (k_log (srs_hw s)) (Open ''/dev/msm_pcm_ctl'') < 0
      \<or> holds (post_proc_feature_mask (srs_hw (exec (msm72xx_enable_srs E flags on) s))) SRS_ENABLE = on)"
  by (cases on) (simp_all add: msm72xx_enable_srs_def srs_off_def srs_on_def srs_bit)

text \<open>
  An address is taken from the parameter as it is. The buffer it names is read and sent by every
  later switch, whether or not there is anything at the address; a set with the address 0 is
  passed on to the other parameters as if it were unknown.
\<close>

theorem srs_address_taken:
  assumes "take 10 raw = ''SRS_Buffer''" "srs_named E ps = Some (x, p)"
    and "\<not> hpcm_playback_in_progress (srs_hw s)" "\<not> lpa_playback_in_progress (srs_hw s)"
  shows "exec (srs_setParameters E raw ps) s
      = (let t = s\<lparr>srs_ptr := (srs_ptr s)(x := p)\<rparr>
         in if p \<noteq> 0 then t else t\<lparr>srs_hw := exec (setParameters E ps) (srs_hw s)\<rparr>)"
  using assms by (simp add: srs_setParameters_def Let_def)

lemma srs_address_witness:
  "srs_ptr (exec (srs_setParameters env0 ''SRS_BufferW=2'' [(''SRS_BufferW'', ''2'')])
     \<lparr>srs_hw = hw_init, srs_ptr = (\<lambda>_. 0), srs_third = (\<lambda>_. 0)\<rparr>) SRS_W = 2"
proof -
  have "srs_named env0 [(''SRS_BufferW'', ''2'')] = Some (SRS_W, 2)"
    by (simp add: srs_named_def par_getInt_def par_get_def env0_def)
  from srs_address_taken [OF _ this, of "''SRS_BufferW=2''"] show ?thesis
    by (simp add: hw_init_def Let_def)
qed

end
