(* ===== verification/SysFiles.thy ===== *)
theory SysFiles
  imports CStrings
begin

text \<open>
  What the small HAL modules (lights, power, Bluetooth) stand on: the files of the kernel they
  read and write, as a log of system calls with their results, and the C library functions that
  print and read decimal numbers.
\<close>

section \<open>Files\<close>

text \<open>
  A file is opened for writing or not; a write carries its data. \<open>FLock\<close> and \<open>FUnlock\<close> are the
  mutex of the module, \<open>FSystem\<close> is \<open>system\<close>, \<open>FTerm\<close> one of the calls on a serial line.
\<close>

datatype term_call = TcFlush | TcGetAttr | TcSetRaw

datatype fcall =
    FOpen string bool | FRead int nat | FWrite int string | FClose int
  | FLock | FUnlock | FSystem string | FTerm term_call int

type_synonym flog = "(fcall \<times> int) list"

text \<open>
  The environment: the result of a call given the calls before it, the data that the last read
  delivered, and \<open>errno\<close>.
\<close>

record senv =
  s_ret :: "flog \<Rightarrow> fcall \<Rightarrow> int"
  s_data :: "flog \<Rightarrow> string"
  s_errno :: "flog \<Rightarrow> int"

record files = f_log :: flog

definition fcall :: "senv \<Rightarrow> fcall \<Rightarrow> ('a files_scheme, int) state" where
  "fcall E c = State (\<lambda>s. (s_ret E (f_log s) c, s\<lparr>f_log := f_log s @ [(c, s_ret E (f_log s) c)]\<rparr>))"

lemma fcall_simps [simp]:
  "exec (fcall E c) s = s\<lparr>f_log := f_log s @ [(c, s_ret E (f_log s) c)]\<rparr>"
  "result (fcall E c) s = s_ret E (f_log s) c"
  by (simp_all add: fcall_def exec_def result_def)

text \<open>The descriptors a log leaves open, and how often the mutex is held.\<close>

fun descs_step :: "int multiset \<Rightarrow> fcall \<times> int \<Rightarrow> int multiset" where
  "descs_step M (FOpen p w, r) = (if r \<ge> 0 then add_mset r M else M)"
| "descs_step M (FClose fd, r) = M - {#fd#}"
| "descs_step M (_, r) = M"

definition descs :: "flog \<Rightarrow> int multiset" where
  "descs l = foldl descs_step {#} l"

fun held_step :: "int \<Rightarrow> fcall \<times> int \<Rightarrow> int" where
  "held_step n (FLock, r) = n + 1"
| "held_step n (FUnlock, r) = n - 1"
| "held_step n (_, r) = n"

definition held :: "flog \<Rightarrow> int" where
  "held l = foldl held_step 0 l"

lemma descs_Nil [simp]: "descs [] = {#}" "held [] = 0"
  by (simp_all add: descs_def held_def)

lemma descs_append [simp]: "descs (l @ m) = foldl descs_step (descs l) m" "held (l @ m) = foldl held_step (held l) m"
  by (simp_all add: descs_def held_def)

section \<open>Decimal numbers\<close>

fun digits :: "nat \<Rightarrow> string" where
  "digits n = (if n < 10 then [char_of (48 + n)] else digits (n div 10) @ [char_of (48 + n mod 10)])"

declare digits.simps [simp del]

text \<open>\<open>%d\<close>\<close>

definition decimal :: "int \<Rightarrow> string" where
  "decimal i = (if i < 0 then ''-'' @ digits (nat (- i)) else digits (nat i))"

text \<open>\<open>atoi\<close>\<close>

definition atoi :: "string \<Rightarrow> int" where
  "atoi s =
     (case dropWhile is_space s of
        [] \<Rightarrow> 0
      | c # r \<Rightarrow>
          if c = CHR ''-'' then clamp_long (- int (digits_value 10 0 r))
          else if c = CHR ''+'' then clamp_long (int (digits_value 10 0 r))
          else clamp_long (int (digits_value 10 0 (c # r))))"

lemma digit_val_char: "d < 10 \<Longrightarrow> digit_val (char_of (48 + d)) = Some d"
  by (simp add: digit_val_def Let_def of_char_of take_bit_eq_mod)

lemma digits_value_append:
  "digits_value 10 acc (digits n @ r) = digits_value 10 (acc * 10 ^ length (digits n) + n) r"
proof (induction n arbitrary: acc r rule: digits.induct)
  case (1 n)
  show ?case
  proof (cases "n < 10")
    case True
    then show ?thesis by (simp add: digits.simps [of n] digit_val_char)
  next
    case False
    have "digits_value 10 acc (digits n @ r)
        = digits_value 10 acc (digits (n div 10) @ char_of (48 + n mod 10) # r)"
      using False by (subst digits.simps) simp
    also have "\<dots> = digits_value 10 ((acc * 10 ^ length (digits (n div 10)) + n div 10) * 10 + n mod 10) r"
      using 1 [OF False] by (simp add: digit_val_char)
    also have "(acc * 10 ^ length (digits (n div 10)) + n div 10) * 10 + n mod 10
        = acc * 10 ^ length (digits n) + n"
      using False by (simp add: digits.simps [of n] algebra_simps)
    finally show ?thesis .
  qed
qed

lemma digits_head: "\<exists>c r. digits n = c # r \<and> digit_val c \<noteq> None \<and> \<not> is_space c \<and> c \<noteq> CHR ''-'' \<and> c \<noteq> CHR ''+''"
proof (induction n rule: digits.induct)
  case (1 n)
  show ?case
  proof (cases "n < 10")
    case True
    have neq: "x \<noteq> y" if "(of_char x :: nat) \<noteq> of_char y" for x y :: char using that by auto
    have "char_of (48 + n) \<noteq> CHR ''-''" "char_of (48 + n) \<noteq> CHR ''+''" "char_of (48 + n) \<noteq> CHR '' ''"
      using True by (auto intro!: neq simp: of_char_of take_bit_eq_mod)
    with True show ?thesis
      by (simp add: digits.simps [of n] digit_val_char is_space_def of_char_of take_bit_eq_mod)
  next
    case False
    then show ?thesis using 1 [OF False] by (subst digits.simps) auto
  qed
qed

text \<open>What the driver of a file reads from a printed level is that level.\<close>

lemma atoi_digits: "int n \<le> 2 ^ 31 - 1 \<Longrightarrow> atoi (digits n @ ''\<newline>'') = int n"
  "int n \<le> 2 ^ 31 - 1 \<Longrightarrow> atoi (digits n) = int n"
proof -
  obtain c r where c: "digits n = c # r" "\<not> is_space c" "c \<noteq> CHR ''-''" "c \<noteq> CHR ''+''"
    using digits_head by metis
  have v: "digits_value 10 0 (digits n @ t) = digits_value 10 n t" for t
    using digits_value_append [of 0 n t] by simp
  have "digits_value 10 n ''\<newline>'' = n" by (simp add: digit_val_def Let_def)
  then show "int n \<le> 2 ^ 31 - 1 \<Longrightarrow> atoi (digits n @ ''\<newline>'') = int n"
    using c v [of "''\<newline>''"] by (simp add: atoi_def clamp_long_def)
  show "int n \<le> 2 ^ 31 - 1 \<Longrightarrow> atoi (digits n) = int n"
    using c v [of "[]"] by (simp add: atoi_def clamp_long_def)
qed

end
