(* ===== verification/Lights.thy ===== *)
theory Lights
  imports SysFiles
begin

text \<open>
  The lights module (\<open>lights.c\<close>): the brightness of a colour, and the three lights, each written
  to its file under the lock of the module.
\<close>

datatype light = LIGHT_BACKLIGHT | LIGHT_BUTTONS | LIGHT_NOTIFICATIONS

definition LCD_FILE :: string where
  "LCD_FILE = ''/sys/class/leds/lcd-backlight/brightness''"

definition BUTTON_FILE :: string where
  "BUTTON_FILE = ''/sys/class/leds/button-backlight/brightness''"

definition NOTIFICATION_FILE :: string where
  "NOTIFICATION_FILE = ''/sys/class/misc/backlightnotification/notification_led''"

text \<open>\<open>errno\<close> is read after the file is closed.\<close>

definition write_int :: "senv \<Rightarrow> string \<Rightarrow> int \<Rightarrow> (files, int) state" where
  "write_int E path value = do {
     fd \<leftarrow> fcall E (FOpen path True);
     if fd \<ge> 0 then do {
       amt \<leftarrow> fcall E (FWrite fd (decimal value @ ''\<newline>''));
       fcall E (FClose fd);
       gets (\<lambda>s. if amt = -1 then - s_errno E (f_log s) else 0)
     } else gets (\<lambda>s. - s_errno E (f_log s))
   }"

definition rgb_to_brightness :: "u32 \<Rightarrow> u32" where
  "rgb_to_brightness state_color =
     (let color = state_color AND 0x00ffffff
      in drop_bit 8 (77 * (drop_bit 16 color AND 0x00ff) + 150 * (drop_bit 8 color AND 0x00ff)
                     + 29 * (color AND 0x00ff)))"

definition is_lit :: "u32 \<Rightarrow> bool" where
  "is_lit state_color \<longleftrightarrow> holds state_color 0x00ffffff"

definition set_light_backlight :: "senv \<Rightarrow> u32 \<Rightarrow> (files, int) state" where
  "set_light_backlight E color = do {
     fcall E FLock;
     err \<leftarrow> write_int E LCD_FILE (sint (rgb_to_brightness color));
     fcall E FUnlock;
     ret err
   }"

definition set_light_buttons :: "senv \<Rightarrow> u32 \<Rightarrow> (files, int) state" where
  "set_light_buttons E color = do {
     fcall E FLock;
     (if is_lit color then write_int E BUTTON_FILE 1 else write_int E BUTTON_FILE 0);
     fcall E FUnlock;
     ret 0
   }"

definition set_light_notifications :: "senv \<Rightarrow> u32 \<Rightarrow> (files, int) state" where
  "set_light_notifications E color = do {
     fcall E FLock;
     (if is_lit color then write_int E NOTIFICATION_FILE 1 else write_int E NOTIFICATION_FILE 0);
     fcall E FUnlock;
     ret 0
   }"

text \<open>
  The name of a light selects the function of the device that is opened; \<open>-EINVAL\<close> otherwise.
  \<open>light_id\<close> are the names of \<open>hardware/lights.h\<close>.
\<close>

definition open_lights :: "(light \<Rightarrow> string) \<Rightarrow> string \<Rightarrow> light option" where
  "open_lights light_id name =
     (if light_id LIGHT_BACKLIGHT = name then Some LIGHT_BACKLIGHT
      else if light_id LIGHT_BUTTONS = name then Some LIGHT_BUTTONS
      else if light_id LIGHT_NOTIFICATIONS = name then Some LIGHT_NOTIFICATIONS
      else None)"

definition set_light :: "senv \<Rightarrow> light \<Rightarrow> u32 \<Rightarrow> (files, int) state" where
  "set_light E l = (case l of
     LIGHT_BACKLIGHT \<Rightarrow> set_light_backlight E
   | LIGHT_BUTTONS \<Rightarrow> set_light_buttons E
   | LIGHT_NOTIFICATIONS \<Rightarrow> set_light_notifications E)"

section \<open>Brightness\<close>

definition red :: "u32 \<Rightarrow> nat" where "red c = unat c div 65536 mod 256"
definition green :: "u32 \<Rightarrow> nat" where "green c = unat c div 256 mod 256"
definition blue :: "u32 \<Rightarrow> nat" where "blue c = unat c mod 256"

lemma unat_mask: "unat (x AND mask n :: u32) = unat x mod 2 ^ n"
  unfolding take_bit_eq_mask [symmetric] unsigned_take_bit_eq by (rule take_bit_eq_mod)

lemma and_255: "unat (x AND 0xff :: u32) = unat x mod 256"
  using unat_mask [of x 8] by (simp add: mask_eq_exp_minus_1)

lemma and_24: "unat (x AND 0x00ffffff :: u32) = unat x mod 16777216"
  using unat_mask [of x 24] by (simp add: mask_eq_exp_minus_1)

lemma unat_drop: "unat (drop_bit n x :: u32) = unat x div 2 ^ n"
proof -
  have "unat x < 2 ^ 32" using unsigned_less [of x, where 'a = nat] by simp
  then show ?thesis unfolding unsigned_drop_bit_eq by (simp add: drop_bit_eq_div take_bit_nat_eq_self)
qed

lemma mod_div: "a mod (b * c) div b = a div b mod (c :: nat)"
  by (cases "b = 0") (simp_all add: mod_mult2_eq)

lemma channels:
  "unat (drop_bit 16 (c AND 0x00ffffff) AND 0x00ff :: u32) = red c"
  "unat (drop_bit 8 (c AND 0x00ffffff) AND 0x00ff :: u32) = green c"
  "unat ((c AND 0x00ffffff) AND 0x00ff :: u32) = blue c"
  unfolding and_255 unat_drop and_24 red_def green_def blue_def
  using mod_div [of "unat c" 65536 256] mod_div [of "unat c" 256 65536] by (simp_all add: mod_mod_cancel)

lemma channel_bounds: "red c \<le> 255" "green c \<le> 255" "blue c \<le> 255"
  by (simp_all add: red_def green_def blue_def flip: less_Suc_eq_le)

lemma weights:
  "unat (77 * x + 150 * y + 29 * z :: u32) = 77 * unat x + 150 * unat y + 29 * unat z"
  if "unat x \<le> 255" "unat y \<le> 255" "unat z \<le> 255"
proof -
  have m: "unat (k * w) = unat k * unat w" if "unat k * unat w < 2 ^ 32" for k w :: u32
    using that by (simp add: unat_word_ariths)
  have a: "unat (v + w) = unat v + unat w" if "unat v + unat w < 2 ^ 32" for v w :: u32
    using that by (simp add: unat_word_ariths)
  show ?thesis using that by (simp add: m a)
qed

text \<open>
  C39. The brightness of a colour is its luma in 256ths, rounded down: it fits the range 0 to 255 of
  the driver, and is full for white only.
\<close>

theorem brightness_of_colour:
  "unat (rgb_to_brightness c) = (77 * red c + 150 * green c + 29 * blue c) div 256
   \<and> unat (rgb_to_brightness c) \<le> 255
   \<and> (unat (rgb_to_brightness c) = 255 \<longleftrightarrow> red c = 255 \<and> green c = 255 \<and> blue c = 255)"
proof -
  let ?l = "77 * red c + 150 * green c + 29 * blue c"
  have e: "unat (rgb_to_brightness c) = ?l div 256"
    using weights [of "drop_bit 16 (c AND 0x00ffffff) AND 0x00ff" "drop_bit 8 (c AND 0x00ffffff) AND 0x00ff"
        "(c AND 0x00ffffff) AND 0x00ff"] channel_bounds [of c]
    unfolding rgb_to_brightness_def Let_def unat_drop channels by simp
  have "?l \<le> 256 * 255" "256 * 255 \<le> ?l \<longleftrightarrow> red c = 255 \<and> green c = 255 \<and> blue c = 255"
    using channel_bounds [of c] by auto
  then show ?thesis unfolding e by auto
qed

section \<open>Writing a light\<close>

definition file_of :: "light \<Rightarrow> string" where
  "file_of l = (case l of LIGHT_BACKLIGHT \<Rightarrow> LCD_FILE | LIGHT_BUTTONS \<Rightarrow> BUTTON_FILE | LIGHT_NOTIFICATIONS \<Rightarrow> NOTIFICATION_FILE)"

definition level_of :: "light \<Rightarrow> u32 \<Rightarrow> nat" where
  "level_of l c = (case l of
     LIGHT_BACKLIGHT \<Rightarrow> unat (rgb_to_brightness c) | _ \<Rightarrow> (if is_lit c then 1 else 0))"

lemma written_level:
  "set_light E l c = do {
     fcall E FLock;
     err \<leftarrow> write_int E (file_of l) (int (level_of l c));
     fcall E FUnlock;
     ret (if l = LIGHT_BACKLIGHT then err else 0)
   }"
proof -
  have "unat (rgb_to_brightness c) \<le> 255" using brightness_of_colour [of c] by blast
  then have "int (unat (rgb_to_brightness c)) \<le> 255" by linarith
  then have "uint (rgb_to_brightness c) \<le> 255" by simp
  then have "sint (rgb_to_brightness c) = uint (rgb_to_brightness c)"
    unfolding sint_uint by (intro signed_take_bit_int_eq_self) (simp_all add: order_trans [OF _ uint_ge_0])
  then have "sint (rgb_to_brightness c) = int (unat (rgb_to_brightness c))" by simp
  then show ?thesis
    by (cases l) (simp_all add: set_light_def set_light_backlight_def set_light_buttons_def
        set_light_notifications_def file_of_def level_of_def)
qed

text \<open>
  Setting a light writes its level, in decimal, once to its file, under the lock, and leaves
  neither the lock nor a descriptor behind, also when the file cannot be opened. The result is
  that of the write for the backlight; errors of the other two are not reported.
\<close>

theorem light_set:
  fixes c :: u32 and s :: files
  assumes "fd = s_ret E (f_log s @ [(FLock, s_ret E (f_log s) FLock)]) (FOpen (file_of l) True)"
  defines "t \<equiv> exec (set_light E l c) s"
    and "data \<equiv> decimal (int (level_of l c)) @ ''\<newline>''"
  shows "map fst (f_log t) = map fst (f_log s) @ [FLock, FOpen (file_of l) True]
      @ (if fd \<ge> 0 then [FWrite fd data, FClose fd] else []) @ [FUnlock]
    \<and> atoi data = int (level_of l c) \<and> level_of l c \<le> 255
    \<and> descs (f_log t) = descs (f_log s) \<and> held (f_log t) = held (f_log s)
    \<and> (l = LIGHT_BACKLIGHT \<or> result (set_light E l c) s = 0)"
proof -
  have l: "level_of l c \<le> 255" using brightness_of_colour [of c] by (simp add: level_of_def split: light.split)
  then have "atoi data = int (level_of l c)" by (simp add: data_def decimal_def atoi_digits)
  with l assms(1) show ?thesis unfolding t_def data_def written_level by (auto simp: write_int_def)
qed

definition lights_env0 :: senv where
  "lights_env0 = \<lparr>s_ret = (\<lambda>l c. case c of FOpen p w \<Rightarrow> 7 | FWrite fd d \<Rightarrow> int (length d) | _ \<Rightarrow> 0),
     s_data = (\<lambda>_. []), s_errno = (\<lambda>_. 5)\<rparr>"

lemma decimal_128: "decimal 128 = ''128''"
  by code_simp

theorem light_set_witness:
  "map fst (f_log (exec (set_light lights_env0 LIGHT_BACKLIGHT 0xff808080) \<lparr>f_log = []\<rparr>))
   = [FLock, FOpen LCD_FILE True, FWrite 7 ''128\<newline>'', FClose 7, FUnlock]"
proof -
  have "level_of LIGHT_BACKLIGHT 0xff808080 = 128"
    by (simp add: level_of_def brightness_of_colour red_def green_def blue_def)
  then show ?thesis
    using light_set [of 7 lights_env0 "\<lparr>f_log = []\<rparr>" LIGHT_BACKLIGHT "0xff808080"]
    by (simp add: lights_env0_def file_of_def decimal_128)
qed

end
