(* ===== verification/PowerHal.thy ===== *)
theory PowerHal
  imports SysFiles
begin

text \<open>
  The power module (\<open>power.c\<close>): the cpufreq governor, its configuration, and the boost pulse that
  interactions trigger.
\<close>

section \<open>State and operations\<close>

text \<open>The static \<open>governor\<close>, up to its terminating NUL, and \<open>struct cm_power_module\<close>.\<close>

record power = files +
  governor :: string
  boostpulse_fd :: int
  boostpulse_warned :: bool

definition SCALING_GOVERNOR_PATH :: string where
  "SCALING_GOVERNOR_PATH = ''/sys/devices/system/cpu/cpu0/cpufreq/scaling_governor''"

definition BOOSTPULSE_ONDEMAND :: string where
  "BOOSTPULSE_ONDEMAND = ''/sys/devices/system/cpu/cpufreq/ondemand/boostpulse''"

definition BOOSTPULSE_INTERACTIVE :: string where
  "BOOSTPULSE_INTERACTIVE = ''/sys/devices/system/cpu/cpufreq/interactive/boostpulse''"

definition power_init :: power where
  "power_init = \<lparr>f_log = [], governor = [], boostpulse_fd = -1, boostpulse_warned = False\<rparr>"

text \<open>\<open>NULC\<close> is the terminating character; a C string ends before the first one.\<close>

definition c_string :: "string \<Rightarrow> string" where
  "c_string s = takeWhile (\<lambda>c. of_char c \<noteq> (0 :: nat)) s"

text \<open>At most \<open>num_bytes - 1\<close> characters are read; \<open>None\<close> is the result -1.\<close>

definition sysfs_read :: "senv \<Rightarrow> string \<Rightarrow> nat \<Rightarrow> (power, string option) state" where
  "sysfs_read E path num_bytes = do {
     fd \<leftarrow> fcall E (FOpen path False);
     if fd < 0 then ret None
     else do {
       n \<leftarrow> fcall E (FRead fd (num_bytes - 1));
       data \<leftarrow> gets (\<lambda>s. s_data E (f_log s));
       fcall E (FClose fd);
       ret (if n < 0 then None else Some (take (nat n) data))
     }
   }"

definition sysfs_write :: "senv \<Rightarrow> string \<Rightarrow> string \<Rightarrow> (power, unit) state" where
  "sysfs_write E path data = do {
     fd \<leftarrow> fcall E (FOpen path True);
     whenM (fd \<ge> 0) (do { fcall E (FWrite fd data); fcall E (FClose fd); ret () })
   }"

definition is_newline :: "char \<Rightarrow> bool" where
  "is_newline c \<longleftrightarrow> of_char c = (10 :: nat) \<or> of_char c = (13 :: nat)"

definition strip_newlines :: "string \<Rightarrow> string" where
  "strip_newlines s = rev (dropWhile is_newline (rev s))"

definition get_scaling_governor :: "senv \<Rightarrow> (power, int) state" where
  "get_scaling_governor E = do {
     r \<leftarrow> sysfs_read E SCALING_GOVERNOR_PATH 20;
     (case r of
        None \<Rightarrow> ret (-1)
      | Some data \<Rightarrow> do {
          modify (\<lambda>s. s\<lparr>governor := strip_newlines (c_string data)\<rparr>);
          ret 0
        })
   }"

definition ondemand :: "string \<Rightarrow> bool" where
  "ondemand g \<longleftrightarrow> take 8 g = ''ondemand''"

definition interactive :: "string \<Rightarrow> bool" where
  "interactive g \<longleftrightarrow> take 11 g = ''interactive''"

definition ondemand_settings :: "(string \<times> string) list" where
  "ondemand_settings =
    [(''/sys/devices/system/cpu/cpufreq/ondemand/sampling_rate'', ''50000''),
     (''/sys/devices/system/cpu/cpufreq/ondemand/up_threshold'', ''90''),
     (''/sys/devices/system/cpu/cpufreq/ondemand/io_is_busy'', ''0''),
     (''/sys/devices/system/cpu/cpufreq/ondemand/sampling_down_factor'', ''4''),
     (''/sys/devices/system/cpu/cpufreq/ondemand/down_differential'', ''10'')]"

definition interactive_settings :: "(string \<times> string) list" where
  "interactive_settings =
    [(''/sys/devices/system/cpu/cpufreq/interactive/timer_rate'', ''30000''),
     (''/sys/devices/system/cpu/cpufreq/interactive/min_sample_time'', ''90000''),
     (''/sys/devices/system/cpu/cpufreq/interactive/io_is_busy'', ''0''),
     (''/sys/devices/system/cpu/cpufreq/interactive/hispeed_freq'', ''1008000''),
     (''/sys/devices/system/cpu/cpufreq/interactive/above_hispeed_delay'', ''30000'')]"

fun write_settings :: "senv \<Rightarrow> (string \<times> string) list \<Rightarrow> (power, unit) state" where
  "write_settings E [] = ret ()"
| "write_settings E ((path, data) # ps) = do { sysfs_write E path data; write_settings E ps }"

definition configure_governor :: "senv \<Rightarrow> (power, unit) state" where
  "configure_governor E = do {
     g \<leftarrow> gets governor;
     (if ondemand g then write_settings E ondemand_settings
      else if interactive g then write_settings E interactive_settings
      else ret ())
   }"

definition boostpulse_open :: "senv \<Rightarrow> (power, int) state" where
  "boostpulse_open E = do {
     fcall E FLock;
     fd \<leftarrow> gets boostpulse_fd;
     whenM (fd < 0) (do {
       r \<leftarrow> get_scaling_governor E;
       if r < 0 then modify (\<lambda>s. s\<lparr>boostpulse_warned := True\<rparr>)
       else do {
         g \<leftarrow> gets governor;
         whenM (ondemand g \<or> interactive g) (do {
           fd' \<leftarrow> fcall E (FOpen (if ondemand g then BOOSTPULSE_ONDEMAND else BOOSTPULSE_INTERACTIVE) True);
           modify (\<lambda>s. s\<lparr>boostpulse_fd := fd'\<rparr>)
         });
         new \<leftarrow> gets boostpulse_fd;
         warned \<leftarrow> gets boostpulse_warned;
         (if new < 0 \<and> \<not> warned then modify (\<lambda>s. s\<lparr>boostpulse_warned := True\<rparr>)
          else whenM (new > 0) (configure_governor E))
       }
     });
     fcall E FUnlock;
     gets boostpulse_fd
   }"

text \<open>The hints; \<open>data\<close> is the pointer as a number, \<open>None\<close> for NULL.\<close>

datatype hint = HINT_INTERACTION | HINT_CPU_BOOST | HINT_VSYNC | HINT_OTHER int

definition cm_power_hint :: "senv \<Rightarrow> hint \<Rightarrow> int option \<Rightarrow> (power, unit) state" where
  "cm_power_hint E h data = whenM (h = HINT_INTERACTION \<or> h = HINT_CPU_BOOST) (do {
     fd \<leftarrow> boostpulse_open E;
     whenM (fd \<ge> 0) (do {
       len \<leftarrow> fcall E (FWrite fd (decimal (case data of None \<Rightarrow> 1 | Some d \<Rightarrow> d)));
       whenM (len < 0) (do {
         fcall E FLock;
         cur \<leftarrow> gets boostpulse_fd;
         fcall E (FClose cur);
         modify (\<lambda>s. s\<lparr>boostpulse_fd := -1, boostpulse_warned := False\<rparr>);
         fcall E FUnlock;
         ret ()
       })
     })
   })"

definition cm_power_init :: "senv \<Rightarrow> (power, unit) state" where
  "cm_power_init E = do { get_scaling_governor E; configure_governor E }"

section \<open>Descriptors and the lock\<close>

text \<open>The contract of what runs between two changes of the descriptor of the boost pulse.\<close>

definition power_view :: "power \<Rightarrow> int multiset \<times> int \<times> int \<times> bool" where
  "power_view s = (descs (f_log s), held (f_log s), boostpulse_fd s, boostpulse_warned s)"

lemma sysfs_read_view: "power_view (exec (sysfs_read E path n) s) = power_view s"
  by (simp add: sysfs_read_def power_view_def)

lemma sysfs_write_view: "power_view (exec (sysfs_write E path data) s) = power_view s"
  by (simp add: sysfs_write_def power_view_def)

lemma power_view_governor [simp]: "power_view (s\<lparr>governor := g\<rparr>) = power_view s"
  by (simp add: power_view_def)

lemma get_governor_view: "power_view (exec (get_scaling_governor E) s) = power_view s"
  using sysfs_read_view [of E SCALING_GOVERNOR_PATH 20 s]
  by (simp add: get_scaling_governor_def split: option.split)

lemma write_settings_view: "power_view (exec (write_settings E ps) s) = power_view s"
  by (induction E ps arbitrary: s rule: write_settings.induct) (simp_all add: sysfs_write_view)

lemma configure_view: "power_view (exec (configure_governor E) s) = power_view s"
  by (simp add: configure_governor_def write_settings_view)

text \<open>The module owns the descriptor of the boost pulse, and nothing else, and holds no lock.\<close>

definition owned :: "int \<Rightarrow> int multiset" where
  "owned fd = (if fd \<ge> 0 then {#fd#} else {#})"

definition power_good :: "power \<Rightarrow> bool" where
  "power_good s \<longleftrightarrow> descs (f_log s) = owned (boostpulse_fd s) \<and> held (f_log s) = 0"

lemma power_good_view: "power_view t = power_view s \<Longrightarrow> power_good t = power_good s"
  by (simp add: power_view_def power_good_def)

lemma fcall_view:
  "descs (f_log (exec (fcall E c) s)) = descs_step (descs (f_log s)) (c, result (fcall E c) s)"
  "held (f_log (exec (fcall E c) s)) = held_step (held (f_log s)) (c, result (fcall E c) s)"
  "boostpulse_fd (exec (fcall E c) s) = boostpulse_fd s"
  by simp_all

lemma opened_good:
  assumes "power_good s"
  shows "power_good (exec (boostpulse_open E) s)"
    "result (boostpulse_open E) s = boostpulse_fd (exec (boostpulse_open E) s)"
proof -
  show "result (boostpulse_open E) s = boostpulse_fd (exec (boostpulse_open E) s)"
    by (simp add: boostpulse_open_def)
  have g: "descs (f_log (exec (get_scaling_governor E) t)) = descs (f_log t)"
      "held (f_log (exec (get_scaling_governor E) t)) = held (f_log t)"
      "boostpulse_fd (exec (get_scaling_governor E) t) = boostpulse_fd t" for t
    using get_governor_view [of E t] by (simp_all add: power_view_def)
  have c: "descs (f_log (exec (configure_governor E) t)) = descs (f_log t)"
      "held (f_log (exec (configure_governor E) t)) = held (f_log t)"
      "boostpulse_fd (exec (configure_governor E) t) = boostpulse_fd t" for t
    using configure_view [of E t] by (simp_all add: power_view_def)
  show "power_good (exec (boostpulse_open E) s)"
    using assms by (auto simp: boostpulse_open_def power_good_def owned_def c g fcall_view simp del: fcall_simps)
qed

lemma hint_good: "power_good s \<Longrightarrow> power_good (exec (cm_power_hint E h data) s)"
  using opened_good [of s E] by (auto simp: cm_power_hint_def power_good_def owned_def Let_def)

lemma init_good: "power_good s \<Longrightarrow> power_good (exec (cm_power_init E) s)"
  by (simp add: cm_power_init_def power_good_view [OF configure_view] power_good_view [OF get_governor_view])

datatype power_event = Init | Hint hint "int option"

definition power_step :: "senv \<Rightarrow> power_event \<Rightarrow> power \<Rightarrow> power" where
  "power_step E e = (case e of Init \<Rightarrow> exec (cm_power_init E) | Hint h d \<Rightarrow> exec (cm_power_hint E h d))"

interpretation power: machine "power_step E" power_good for E
  by unfold_locales (simp add: power_step_def hint_good init_good split: power_event.split)

text \<open>
  C24. After any calls, whatever the files of the kernel answer, the module has open exactly the file
  of the boost pulse, if any, and does not hold its lock.
\<close>

theorem power_descriptors:
  "power_good (fold (power_step E) es power_init)"
  by (rule power.run_good) (simp add: power_good_def power_init_def owned_def)

section \<open>The boost pulse\<close>

text \<open>
  An interaction with the pulse open writes its duration there, 1 without data, without a look at
  the governor, which may have changed; where the write fails the file is closed, so that the
  next interaction opens it again.
\<close>

theorem pulse_sent:
  assumes "boostpulse_fd s \<ge> 0" "h = HINT_INTERACTION \<or> h = HINT_CPU_BOOST"
    "r = s_ret E (f_log s @ [(FLock, s_ret E (f_log s) FLock),
      (FUnlock, s_ret E (f_log s @ [(FLock, s_ret E (f_log s) FLock)]) FUnlock)])
      (FWrite (boostpulse_fd s) (decimal (case data of None \<Rightarrow> 1 | Some d \<Rightarrow> d)))"
  shows "map fst (f_log (exec (cm_power_hint E h data) s)) = map fst (f_log s)
      @ [FLock, FUnlock, FWrite (boostpulse_fd s) (decimal (case data of None \<Rightarrow> 1 | Some d \<Rightarrow> d))]
      @ (if r < 0 then [FLock, FClose (boostpulse_fd s), FUnlock] else [])
    \<and> boostpulse_fd (exec (cm_power_hint E h data) s) = (if r < 0 then -1 else boostpulse_fd s)
    \<and> governor (exec (cm_power_hint E h data) s) = governor s"
  using assms by (auto simp: cm_power_hint_def boostpulse_open_def)

definition power_env0 :: senv where
  "power_env0 = \<lparr>s_ret = (\<lambda>l c. case c of FWrite fd d \<Rightarrow> -1 | _ \<Rightarrow> 0), s_data = (\<lambda>_. []), s_errno = (\<lambda>_. 19)\<rparr>"

theorem pulse_sent_witness:
  "map fst (f_log (exec (cm_power_hint power_env0 HINT_INTERACTION None) (power_init\<lparr>boostpulse_fd := 4\<rparr>)))
   = [FLock, FUnlock, FWrite 4 ''1'', FLock, FClose 4, FUnlock]"
proof -
  have d: "decimal 1 = ''1''" by code_simp
  have r: "s_ret power_env0 l (FWrite fd x) = -1" for l fd x by (simp add: power_env0_def)
  have i: "f_log (power_init\<lparr>boostpulse_fd := 4\<rparr>) = []" by (simp add: power_init_def)
  show ?thesis
    using pulse_sent [of "power_init\<lparr>boostpulse_fd := 4\<rparr>" HINT_INTERACTION "-1" power_env0 None]
    by (simp add: r i d)
qed

end
