(* ===== verification/BtVendor.thy ===== *)
theory BtVendor
  imports SysFiles
begin

text \<open>
  The Bluetooth vendor library: the search for the power switch of the chip
  (\<open>bt_helper.c\<close>), power, firmware and the serial line (\<open>bt_hardware.c\<close>), and the operations the
  Bluetooth stack calls (\<open>bt_vendor_qcom.c\<close>).
\<close>

section \<open>State\<close>

text \<open>
  The static variables of the three files: the path of the switch, the descriptor of the serial
  line, the address of the device, and whether callbacks were given. \<open>bt_result\<close> collects the
  results reported through the callbacks, \<open>bt_fault\<close> an access through NULL.
\<close>

datatype callback = FWCFG | SCOCFG | LPM | EPILOG

record bt = files +
  bt_path :: string
  serial_fd :: int
  bt_bdaddr :: "u8 list option"
  bt_callbacks :: bool
  bt_results :: "callback list"
  bt_fault :: bool

definition bt_init :: bt where
  "bt_init = \<lparr>f_log = [], bt_path = [], serial_fd = 0, bt_bdaddr = None, bt_callbacks = False,
     bt_results = [], bt_fault = False\<rparr>"

section \<open>The switch\<close>

definition rfkill_path :: "nat \<Rightarrow> string \<Rightarrow> string" where
  "rfkill_path nr file = ''/sys/class/rfkill/rfkill'' @ digits nr @ ''/'' @ file"

text \<open>\<open>memcmp(buf, "bluetooth", 9) == 0\<close> on the buffer a read has filled.\<close>

definition is_bluetooth :: "string \<Rightarrow> bool" where
  "is_bluetooth buf \<longleftrightarrow> take 9 buf = ''bluetooth''"

text \<open>
  The type files in turn, until one cannot be opened; no bound on their number, so not returning
  is the value \<open>None\<close>. The number of bytes read is a \<open>size_t\<close>: a failed read counts as many bytes
  and the buffer is compared as the reads before have left it.
\<close>

definition look_at :: "senv \<Rightarrow> nat \<Rightarrow> bt \<times> string \<Rightarrow> (bt \<times> string) \<times> bool option" where
  "look_at E nr = (\<lambda>(s, buf).
     let (fd, s1) = run_state (fcall E (FOpen (rfkill_path nr ''type'') False)) s
     in if fd < 0 then ((s1, buf), None)
        else let (n, s2) = run_state (fcall E (FRead fd 16)) s1;
                 data = take (nat n) (s_data E (f_log s2));
                 buf' = (if n < 0 then buf else data @ drop (length data) buf);
                 s3 = exec (fcall E (FClose fd)) s2
             in ((s3, buf'), Some ((n < 0 \<or> n \<ge> 9) \<and> is_bluetooth buf')))"

partial_function (option) find_rfkill :: "senv \<Rightarrow> nat \<Rightarrow> bt \<times> string \<Rightarrow> (bt \<times> nat option) option" where
  "find_rfkill E nr sb =
     (case look_at E nr sb of
        ((s, buf), None) \<Rightarrow> Some (s, None)
      | ((s, buf), Some found) \<Rightarrow> if found then Some (s, Some nr) else find_rfkill E (Suc nr) (s, buf))"

text \<open>The path found, cut to the size of the array, and the status; \<open>buf\<close> is uninitialised.\<close>

definition bt_get_rfkill_state_path :: "senv \<Rightarrow> nat \<Rightarrow> string \<Rightarrow> bt \<Rightarrow> (int \<times> bt) option" where
  "bt_get_rfkill_state_path E sz buf s =
     (case find_rfkill E 0 (s, buf) of
        None \<Rightarrow> None
      | Some (t, None) \<Rightarrow> Some (-1, t)
      | Some (t, Some nr) \<Rightarrow> Some (0, t\<lparr>bt_path := take (sz - 1) (rfkill_path nr ''state'')\<rparr>))"

definition write_value :: "senv \<Rightarrow> string \<Rightarrow> string \<Rightarrow> (bt, int) state" where
  "write_value E path value = do {
     fd \<leftarrow> fcall E (FOpen path True);
     if fd < 0 then ret (-1)
     else do {
       n \<leftarrow> fcall E (FWrite fd value);
       fcall E (FClose fd);
       ret (if n \<noteq> int (length value) then -1 else 0)
     }
   }"

section \<open>Power and firmware\<close>

definition hex_digit :: "nat \<Rightarrow> char" where
  "hex_digit n = (if n < 10 then char_of (48 + n) else char_of (55 + n))"

text \<open>\<open>%02X\<close>\<close>

definition hex2 :: "u8 \<Rightarrow> string" where
  "hex2 b = [hex_digit (unat b div 16), hex_digit (unat b mod 16)]"

fun colons :: "string list \<Rightarrow> string" where
  "colons [] = []"
| "colons [x] = x"
| "colons (x # xs) = x @ '':'' @ colons xs"

definition clamp_power :: "int \<Rightarrow> int" where
  "clamp_power p = (if p > 2 then 2 else if p < 0 then 0 else p)"

text \<open>\<open>prop\<close> is the property \<open>persist.service.bt.power\<close>, with its default "1".\<close>

definition firmware_command :: "u8 list \<Rightarrow> string option \<Rightarrow> string" where
  "firmware_command addr prop =
     take 255 (''/system/bin/hci_qcomm_init'' @ '' --force-hw-sleep --board-address ''
       @ colons (map hex2 (take 6 addr))
       @ '' --power-class '' @ decimal (clamp_power (atoi (case prop of None \<Rightarrow> ''1'' | Some v \<Rightarrow> v))))"

definition bt_hardware_download_firmware :: "senv \<Rightarrow> string option \<Rightarrow> (bt, int) state" where
  "bt_hardware_download_firmware E prop = do {
     addr \<leftarrow> gets bt_bdaddr;
     (case addr of
        None \<Rightarrow> do { modify (\<lambda>s. s\<lparr>bt_fault := True\<rparr>); ret 0 }
      | Some a \<Rightarrow> do { fcall E (FSystem (firmware_command a prop)); ret 0 })
   }"

definition bt_hardware_power :: "senv \<Rightarrow> string option \<Rightarrow> bool \<Rightarrow> (bt, int) state" where
  "bt_hardware_power E prop enable = do {
     path \<leftarrow> gets bt_path;
     write_value E path (if enable then ''1'' else ''0'');
     whenM enable (do { bt_hardware_download_firmware E prop; ret () });
     ret 0
   }"

section \<open>The serial line\<close>

text \<open>\<open>uart\<close> is \<open>BT_HS_UART_DEVICE\<close>. The static descriptor keeps its value when the line is closed.\<close>

definition BT_HS_UART_DEVICE :: string where "BT_HS_UART_DEVICE = ''/dev/ttyHS0''"

fun set_line :: "senv \<Rightarrow> int \<Rightarrow> term_call list \<Rightarrow> (bt, int) state" where
  "set_line E fd [] = ret fd"
| "set_line E fd (c # cs) = do {
     r \<leftarrow> fcall E (FTerm c fd);
     if r < 0 then do { fcall E (FClose fd); ret (-1) } else set_line E fd cs
   }"

definition bt_hardware_serial :: "senv \<Rightarrow> bool \<Rightarrow> (bt, int) state" where
  "bt_hardware_serial E opens =
     (if opens then do {
        fd \<leftarrow> fcall E (FOpen BT_HS_UART_DEVICE True);
        modify (\<lambda>s. s\<lparr>serial_fd := fd\<rparr>);
        set_line E fd [TcFlush, TcGetAttr, TcSetRaw]
      } else do {
        fd \<leftarrow> gets serial_fd;
        fcall E (FClose fd);
        ret fd
      })"

section \<open>The operations\<close>

datatype opcode =
    POWER_CTRL nat | FW_CFG | SCO_CFG | USERIAL_OPEN | USERIAL_CLOSE | GET_LPM_IDLE_TIMEOUT
  | LPM_SET_MODE | LPM_WAKE_SET_STATE | OP_EPILOG | OP_OTHER int

text \<open>Initialisation; \<open>cb\<close>: callbacks were given. \<open>-22\<close> is \<open>-EINVAL\<close>.\<close>

definition bt_vendor_qcom_init :: "senv \<Rightarrow> string \<Rightarrow> bool \<Rightarrow> u8 list \<Rightarrow> bt \<Rightarrow> (int \<times> bt) option" where
  "bt_vendor_qcom_init E buf cb addr s =
     (if \<not> cb then Some (-22, s)
      else bt_get_rfkill_state_path E 64 buf (s\<lparr>bt_callbacks := True, bt_bdaddr := Some addr\<rparr>))"

definition report :: "callback \<Rightarrow> (bt, unit) state" where
  "report c = do {
     ok \<leftarrow> gets bt_callbacks;
     if ok then modify (\<lambda>s. s\<lparr>bt_results := bt_results s @ [c]\<rparr>) else modify (\<lambda>s. s\<lparr>bt_fault := True\<rparr>)
   }"

text \<open>
  The result, and the descriptors stored for the four channels, if any. \<open>off\<close> and \<open>on\<close> are
  \<open>BT_VND_PWR_OFF\<close> and \<open>BT_VND_PWR_ON\<close>.
\<close>

definition bt_vendor_qcom_op ::
  "senv \<Rightarrow> string option \<Rightarrow> nat \<Rightarrow> nat \<Rightarrow> opcode \<Rightarrow> (bt, int \<times> int list option) state" where
  "bt_vendor_qcom_op E prop off on op = (case op of
     POWER_CTRL p \<Rightarrow>
       if p = off then do { bt_hardware_power E prop False; ret (0, None) }
       else if p = on then do { bt_hardware_power E prop True; ret (0, None) }
       else ret (0, None)
   | FW_CFG \<Rightarrow> do { report FWCFG; ret (0, None) }
   | SCO_CFG \<Rightarrow> do { report SCOCFG; ret (0, None) }
   | USERIAL_OPEN \<Rightarrow> do {
       fd \<leftarrow> bt_hardware_serial E True;
       ret (1, if fd > 0 then Some [fd, fd, fd, fd] else None)
     }
   | USERIAL_CLOSE \<Rightarrow> do { bt_hardware_serial E False; ret (0, None) }
   | GET_LPM_IDLE_TIMEOUT \<Rightarrow> ret (0, None)
   | LPM_SET_MODE \<Rightarrow> do { report LPM; ret (0, None) }
   | LPM_WAKE_SET_STATE \<Rightarrow> ret (0, None)
   | OP_EPILOG \<Rightarrow> do { report EPILOG; ret (0, None) }
   | OP_OTHER n \<Rightarrow> ret (0, None))"

section \<open>Properties of the search\<close>

lemma find_rfkill_step:
  "find_rfkill E nr (s, buf) =
     (case snd (look_at E nr (s, buf)) of
        None \<Rightarrow> Some (fst (fst (look_at E nr (s, buf))), None)
      | Some True \<Rightarrow> Some (fst (fst (look_at E nr (s, buf))), Some nr)
      | Some False \<Rightarrow> find_rfkill E (Suc nr) (fst (look_at E nr (s, buf))))"
  by (subst find_rfkill.simps) (auto split: prod.split option.split bool.split)

text \<open>The outcome of a look depends on files only; \<open>types\<close> are the contents of the type files.\<close>

definition rfkill_env :: "senv \<Rightarrow> string list \<Rightarrow> bool" where
  "rfkill_env E types \<longleftrightarrow>
     (\<forall>l nr. s_ret E l (FOpen (rfkill_path nr ''type'') False) = (if nr < length types then int nr + 3 else -1))
   \<and> (\<forall>l nr. nr < length types \<longrightarrow>
        s_ret E (l @ [(FOpen (rfkill_path nr ''type'') False, int nr + 3)]) (FRead (int nr + 3) 16)
        = int (length (take 16 (types ! nr))))
   \<and> (\<forall>l nr n. nr < length types \<longrightarrow>
        s_data E (l @ [(FOpen (rfkill_path nr ''type'') False, int nr + 3), (FRead (int nr + 3) 16, n)]) = types ! nr)"

lemma look_at_env:
  assumes "rfkill_env E types" "length buf = 16"
  shows "snd (look_at E nr (s, buf)) =
      (if nr < length types then Some (length (types ! nr) \<ge> 9 \<and> is_bluetooth (types ! nr)) else None)"
    "length (snd (fst (look_at E nr (s, buf)))) = 16"
  using assms
  by (auto simp: look_at_def rfkill_env_def Let_def split_beta run_state_split is_bluetooth_def min_def)

lemma find_rfkill_env:
  assumes "rfkill_env E types" "length buf = 16" "n = length types - nr" "nr \<le> length types"
  shows "\<exists>t. find_rfkill E nr (s, buf) = Some (t, find (\<lambda>i. is_bluetooth (types ! i)) [nr..<length types])
    \<and> bt_path t = bt_path s"
  using assms(2-)
proof (induction n arbitrary: nr s buf)
  case 0
  then show ?case using look_at_env [OF assms(1), of buf nr s]
    by (auto simp: find_rfkill_step) (simp add: look_at_def Let_def split_beta run_state_split)
next
  case (Suc n)
  let ?l = "look_at E nr (s, buf)"
  have nr: "nr < length types" using Suc.prems by simp
  have up: "[nr..<length types] = nr # [Suc nr..<length types]" using nr by (simp add: upt_conv_Cons)
  have path: "bt_path (fst (fst ?l)) = bt_path s" by (simp add: look_at_def Let_def split_beta run_state_split)
  show ?case
  proof (cases "is_bluetooth (types ! nr)")
    case True
    then have "length (types ! nr) \<ge> 9"
      using arg_cong [of _ _ length, OF True [unfolded is_bluetooth_def]] by (simp add: min_def split: if_splits)
    with True show ?thesis using look_at_env [OF assms(1) Suc.prems(1), of nr s] nr path by (simp add: find_rfkill_step up)
  next
    case False
    obtain s' buf' where l: "fst ?l = (s', buf')" by (cases "fst ?l")
    have "\<exists>t. find_rfkill E (Suc nr) (s', buf') = Some (t, find (\<lambda>i. is_bluetooth (types ! i)) [Suc nr..<length types])
        \<and> bt_path t = bt_path s'"
      using look_at_env(2) [OF assms(1) Suc.prems(1), of nr s] nr Suc.prems(2) l by (intro Suc.IH) auto
    with False show ?thesis using look_at_env(1) [OF assms(1) Suc.prems(1), of nr s] nr path l
      by (simp add: find_rfkill_step [of E nr] up)
  qed
qed

text \<open>
  C31. The search ends where the type files end; it stores the path of the first one of type
  bluetooth, and fails without a change of the path exactly if there is none.
\<close>

theorem bluetooth_found:
  assumes "rfkill_env E types" "length buf = 16"
  shows "\<exists>t. bt_get_rfkill_state_path E 64 buf s = Some t
    \<and> (case find (\<lambda>i. is_bluetooth (types ! i)) [0..<length types] of
         None \<Rightarrow> fst t = -1 \<and> bt_path (snd t) = bt_path s
       | Some i \<Rightarrow> fst t = 0 \<and> bt_path (snd t) = take 63 (rfkill_path i ''state''))"
proof -
  obtain t where "find_rfkill E 0 (s, buf) = Some (t, find (\<lambda>i. is_bluetooth (types ! i)) [0..<length types])"
    "bt_path t = bt_path s"
    using find_rfkill_env [OF assms(1,2), of "length types" 0 s] by auto
  then show ?thesis by (auto simp: bt_get_rfkill_state_path_def split: option.split)
qed

lemma digits_inj: "digits i = digits j \<Longrightarrow> i = j"
  using digits_value_append [of 0 i "[]"] digits_value_append [of 0 j "[]"] by simp

lemma rfkill_path_inj [simp]: "rfkill_path i file = rfkill_path j file \<longleftrightarrow> i = j"
  by (auto simp: rfkill_path_def dest: digits_inj)

definition bt_env0 :: "string list \<Rightarrow> senv" where
  "bt_env0 types = \<lparr>s_ret = (\<lambda>l c. case c of
       FOpen p w \<Rightarrow> (case find (\<lambda>i. rfkill_path i ''type'' = p) [0..<length types] of None \<Rightarrow> -1 | Some i \<Rightarrow> int i + 3)
     | FRead fd n \<Rightarrow> if nat (fd - 3) < length types \<and> fd \<ge> 3 then int (length (take n (types ! nat (fd - 3)))) else -1
     | _ \<Rightarrow> 0),
     s_data = (\<lambda>l. case last (butlast l) of (FOpen p w, r) \<Rightarrow>
         (case find (\<lambda>i. rfkill_path i ''type'' = p) [0..<length types] of None \<Rightarrow> [] | Some i \<Rightarrow> types ! i) | _ \<Rightarrow> []),
     s_errno = (\<lambda>_. 2)\<rparr>"

lemma find_upt: "find (\<lambda>i. i = nr) [0..<n] = (if nr < n then Some nr else None)"
proof -
  have "find (\<lambda>i. i = nr) xs = (if nr \<in> set xs then Some nr else None)" for xs by (induction xs) auto
  then show ?thesis by simp
qed

lemma bt_env0_ok: "rfkill_env (bt_env0 types) types"
  by (auto simp: rfkill_env_def bt_env0_def find_upt butlast_append)

theorem bluetooth_found_witness:
  "\<exists>t. bt_get_rfkill_state_path (bt_env0 [''wlan\<newline>'', ''bluetooth\<newline>'']) 64 (replicate 16 CHR ''x'') bt_init = Some t
     \<and> fst t = 0 \<and> bt_path (snd t) = take 63 (rfkill_path 1 ''state'')"
  using bluetooth_found [OF bt_env0_ok, of "replicate 16 CHR ''x''" "[''wlan\<newline>'', ''bluetooth\<newline>'']" bt_init]
  by (simp add: is_bluetooth_def upt_rec)

section \<open>The serial line\<close>

text \<open>
  A serial line that cannot be flushed is closed, and closed again when the stack closes it: its
  static descriptor is kept. Closed without having been opened, it closes descriptor 0. The
  status of the opening says success either way.
\<close>

theorem serial_closed_twice:
  assumes "s_ret E (f_log s) (FOpen BT_HS_UART_DEVICE True) = fd"
    "s_ret E (f_log s @ [(FOpen BT_HS_UART_DEVICE True, fd)]) (FTerm TcFlush fd) < 0"
  shows "result (bt_vendor_qcom_op E prop off on USERIAL_OPEN) s = (1, None)
    \<and> map fst (f_log (exec (bt_vendor_qcom_op E prop off on USERIAL_CLOSE)
          (exec (bt_vendor_qcom_op E prop off on USERIAL_OPEN) s))) = map fst (f_log s)
        @ [FOpen BT_HS_UART_DEVICE True, FTerm TcFlush fd, FClose fd, FClose fd]
    \<and> map fst (f_log (exec (bt_vendor_qcom_op E prop off on USERIAL_CLOSE) bt_init)) = [FClose 0]"
  using assms by (simp add: bt_vendor_qcom_op_def bt_hardware_serial_def bt_init_def)

definition serial_env0 :: senv where
  "serial_env0 = \<lparr>s_ret = (\<lambda>l c. case c of FOpen p w \<Rightarrow> 5 | FTerm c fd \<Rightarrow> -1 | _ \<Rightarrow> 0), s_data = (\<lambda>_. []), s_errno = (\<lambda>_. 5)\<rparr>"

theorem serial_closed_twice_witness:
  "map fst (f_log (exec (bt_vendor_qcom_op serial_env0 None 0 1 USERIAL_CLOSE)
      (exec (bt_vendor_qcom_op serial_env0 None 0 1 USERIAL_OPEN) bt_init)))
     = [FOpen BT_HS_UART_DEVICE True, FTerm TcFlush 5, FClose 5, FClose 5]"
proof -
  have "s_ret serial_env0 (f_log bt_init) (FOpen BT_HS_UART_DEVICE True) = 5"
    "s_ret serial_env0 (f_log bt_init @ [(FOpen BT_HS_UART_DEVICE True, 5)]) (FTerm TcFlush 5) < 0"
    by (simp_all add: serial_env0_def)
  from serial_closed_twice [OF this, of None 0 1] show ?thesis by (simp add: bt_init_def)
qed

end
