(* ===== verification/Camera.thy ===== *)
theory Camera
  imports Prelude
begin

text \<open>
  The camera wrapper (\<open>cameraHAL.cpp\<close>): it gives the proprietary camera library, whose object is
  the static \<open>qCamera\<close>, the interface of a camera device. The library, the preview window, gralloc
  and \<open>CameraParameters\<close> are not in the repository: calls to them are a log, their results the
  environment.
\<close>

section \<open>State\<close>

datatype forwarded =
    StartRecording | StopRecording | RecordingEnabled | PreviewEnabled | AutoFocus | CancelAutoFocus
  | TakePicture | CancelPicture | SendCommand int int int | ReleaseCamera | DumpCamera int

type_synonym cparams = "(string \<times> string) list"

text \<open>
  \<open>Q\<close> calls go to the library, \<open>W\<close> calls to the window and gralloc, \<open>C\<close> calls to the client. A
  client call carries the memory it is given, if any; \<open>WCopy\<close> is the copy of a frame of some size
  into a buffer with the number of bytes copied.
\<close>

datatype camcall =
    QEnable u32 | QDisable u32 | QEnabled u32 | QStartPreview | QStopPreview | QSetCallbacks nat
  | QReleaseFrame nat | QSetParameters cparams | QGetParameters | QForward forwarded
  | WDequeue | WEnqueue nat | WLock nat | WUnlock nat | WCopy nat nat int | WMinUndequeued | WBufferCount int
  | WUsage | WGeometry int int | WGralloc
  | CNotify u32 int int | CData u32 "nat option" | CTimestamp int u32 "nat option"
  | MRequest nat | MRelease nat | HOpen int

type_synonym camlog = "(camcall \<times> int) list"

text \<open>\<open>struct priv_camera_device\<close>; the callbacks and gralloc are present or not.\<close>

record camdev =
  d_window :: "nat option"
  d_notify :: bool
  d_data :: bool
  d_timestamp :: bool
  d_request :: bool
  d_gralloc :: bool
  d_width :: int
  d_height :: int
  d_cameraid :: int
  d_ops :: nat

record cam =
  c_log :: camlog
  c_devs :: "(nat \<times> camdev) list"
  c_blocks :: "nat multiset"
  c_next :: nat
  qCamera :: "nat option"
  c_fault :: bool

definition cam_init :: cam where
  "cam_init = \<lparr>c_log = [], c_devs = [], c_blocks = {#}, c_next = 0, qCamera = None, c_fault = False\<rparr>"

text \<open>
  \<open>k_ret\<close>: the result of a call given the calls before it (a handle or address as a number, NULL
  as 0); \<open>k_malloc\<close>: whether memory is there; \<open>k_cameras\<close>: \<open>HAL_getNumberOfCameras\<close>; \<open>k_memory\<close>:
  the size of a block of shared memory and whether it has a heap; \<open>k_params\<close>, \<open>k_size\<close>: parameters
  of the library and the preview size in them; \<open>k_frame\<close> to \<open>k_shutter\<close>: message types; \<open>k_info\<close>:
  facing and orientation of a camera; \<open>k_key\<close>: the names of parameters.
\<close>

datatype ckey =
    VIDEO_FRAME_FORMAT | PREFERRED_PREVIEW_SIZE | MAX_NUM_FOCUS_AREAS | VIDEO_SIZE | MAX_CONTRAST
  | MAX_SATURATION | MAX_SHARPNESS | FORMAT_YUV420SP

record camenv =
  k_ret :: "camlog \<Rightarrow> camcall \<Rightarrow> int"
  k_malloc :: "camlog \<Rightarrow> nat \<Rightarrow> bool"
  k_cameras :: int
  k_memory :: "nat \<Rightarrow> nat \<times> bool"
  k_params :: "camlog \<Rightarrow> cparams"
  k_size :: "cparams \<Rightarrow> int \<times> int"
  k_frame :: u32
  k_raw :: u32
  k_raw_notify :: u32
  k_shutter :: u32
  k_info :: "int \<Rightarrow> int \<times> int"
  k_key :: "ckey \<Rightarrow> string"

definition ccall :: "camenv \<Rightarrow> camcall \<Rightarrow> (cam, int) state" where
  "ccall K c = State (\<lambda>s. (k_ret K (c_log s) c, s\<lparr>c_log := c_log s @ [(c, k_ret K (c_log s) c)]\<rparr>))"

definition crash :: "(cam, unit) state" where
  "crash = modify (\<lambda>s. s\<lparr>c_fault := True\<rparr>)"

text \<open>A call through \<open>qCamera\<close>, which may be NULL.\<close>

definition qcall :: "camenv \<Rightarrow> camcall \<Rightarrow> (cam, int) state" where
  "qcall K c = do {
     q \<leftarrow> gets qCamera;
     if q = None then do { crash; ret 0 } else ccall K c
   }"

definition dev_at :: "cam \<Rightarrow> nat \<Rightarrow> camdev option" where
  "dev_at s p = map_of (c_devs s) p"

definition upd_dev :: "nat \<Rightarrow> (camdev \<Rightarrow> camdev) \<Rightarrow> (cam, unit) state" where
  "upd_dev p f = modify (\<lambda>s. s\<lparr>c_devs := map (\<lambda>(q, d). (q, if q = p then f d else d)) (c_devs s)\<rparr>)"

text \<open>Runs \<open>f\<close> on a device; a pointer that is no device is an access to freed memory.\<close>

definition with_dev :: "nat \<Rightarrow> 'a \<Rightarrow> (camdev \<Rightarrow> (cam, 'a) state) \<Rightarrow> (cam, 'a) state" where
  "with_dev p x f = do {
     d \<leftarrow> gets (\<lambda>s. dev_at s p);
     (case d of None \<Rightarrow> do { crash; ret x } | Some d \<Rightarrow> f d)
   }"

section \<open>Callbacks of the library\<close>

text \<open>
  A copy of shared memory for the client. The result of \<open>request_memory\<close> is used without a check
  for NULL, and so is the heap.
\<close>

definition wrap_memory_data :: "camenv \<Rightarrow> camdev \<Rightarrow> nat \<Rightarrow> (cam, nat option) state" where
  "wrap_memory_data K d dataPtr =
     (if \<not> d_request d then ret None
      else do {
        whenM (\<not> snd (k_memory K dataPtr)) crash;
        mem \<leftarrow> ccall K (MRequest (fst (k_memory K dataPtr)));
        whenM (mem = 0) crash;
        ret (if mem = 0 then None else Some (nat mem))
      })"

definition wrap_notify_callback :: "camenv \<Rightarrow> u32 \<Rightarrow> int \<Rightarrow> int \<Rightarrow> nat option \<Rightarrow> (cam, unit) state" where
  "wrap_notify_callback K msg ext1 ext2 user = (case user of
     None \<Rightarrow> ret ()
   | Some p \<Rightarrow> with_dev p () (\<lambda>d. whenM (d_notify d) (do { ccall K (CNotify msg ext1 ext2); ret () })))"

text \<open>
  A preview frame is copied into a buffer of the window. Where gralloc is missing or does not lock
  the buffer, the buffer that was dequeued is not given back.
\<close>

definition CameraHAL_HandlePreviewData :: "camenv \<Rightarrow> camdev \<Rightarrow> nat \<Rightarrow> (cam, unit) state" where
  "CameraHAL_HandlePreviewData K d dataPtr =
     (if d_window d = None then ret ()
      else if \<not> snd (k_memory K dataPtr) then ret ()
      else do {
        buf \<leftarrow> ccall K WDequeue;
        if buf < 0 then ret ()
        else if \<not> d_gralloc d then ret ()
        else do {
          vaddr \<leftarrow> ccall K (WLock (nat buf));
          if vaddr < 0 then ret ()
          else do {
            ccall K (WCopy (fst (k_memory K dataPtr)) (nat buf) (d_width d * d_height d * 3 div 2));
            ccall K (WUnlock (nat buf));
            ccall K (WEnqueue (nat buf));
            ret ()
          }
        }
      })"

definition release_mem :: "camenv \<Rightarrow> nat option \<Rightarrow> (cam, unit) state" where
  "release_mem K m = (case m of None \<Rightarrow> ret () | Some x \<Rightarrow> do { ccall K (MRelease x); ret () })"

definition wrap_data_callback :: "camenv \<Rightarrow> u32 \<Rightarrow> nat option \<Rightarrow> nat option \<Rightarrow> (cam, unit) state" where
  "wrap_data_callback K msg dataPtr user = (case user of
     None \<Rightarrow> ret ()
   | Some p \<Rightarrow>
       if msg = k_raw K then do { qcall K (QDisable (k_raw K)); ret () }
       else (case dataPtr of
         None \<Rightarrow> ret ()
       | Some x \<Rightarrow> with_dev p () (\<lambda>d. do {
           whenM (msg = k_frame K) (CameraHAL_HandlePreviewData K d x);
           mem \<leftarrow> wrap_memory_data K d x;
           whenM (d_data d) (do { ccall K (CData msg mem); ret () });
           release_mem K mem
         })))"

definition wrap_data_callback_timestamp :: "camenv \<Rightarrow> int \<Rightarrow> u32 \<Rightarrow> nat \<Rightarrow> nat option \<Rightarrow> (cam, unit) state" where
  "wrap_data_callback_timestamp K t msg x user = (case user of
     None \<Rightarrow> ret ()
   | Some p \<Rightarrow> with_dev p () (\<lambda>d. do {
       mem \<leftarrow> wrap_memory_data K d x;
       whenM (d_timestamp d) (do { ccall K (CTimestamp t msg mem); ret () });
       qcall K (QReleaseFrame x);
       release_mem K mem
     }))"

section \<open>Operations of the device\<close>

definition par_of :: "cparams \<Rightarrow> string \<Rightarrow> string option" where
  "par_of ps k = map_of ps k"

definition par_set :: "string \<Rightarrow> string \<Rightarrow> cparams \<Rightarrow> cparams" where
  "par_set k v ps = (k, v) # filter (\<lambda>(j, _). j \<noteq> k) ps"

definition copy_or_unset :: "string \<Rightarrow> string \<Rightarrow> cparams \<Rightarrow> cparams" where
  "copy_or_unset k k' ps = par_set k' (case par_of ps k of None \<Rightarrow> ''-1'' | Some v \<Rightarrow> v) ps"

definition CameraHAL_FixupParams :: "camenv \<Rightarrow> cparams \<Rightarrow> cparams" where
  "CameraHAL_FixupParams K ps =
     (let key = k_key K;
          preferred_size = ''480x320'';
          p1 = par_set (key VIDEO_FRAME_FORMAT) (key FORMAT_YUV420SP) ps;
          p2 = par_set (key PREFERRED_PREVIEW_SIZE) preferred_size p1;
          p3 = (if par_of p2 (key MAX_NUM_FOCUS_AREAS) = None then par_set (key MAX_NUM_FOCUS_AREAS) ''1'' p2 else p2);
          p4 = (if par_of p3 (key VIDEO_SIZE) = None then par_set (key VIDEO_SIZE) preferred_size p3 else p3)
      in copy_or_unset (key MAX_SHARPNESS) ''max-sharpness''
           (copy_or_unset (key MAX_SATURATION) ''max-saturation''
             (copy_or_unset (key MAX_CONTRAST) ''max-contrast'' p4)))"

definition kBufferCount :: int where "kBufferCount = 4"

definition camera_set_preview_window :: "camenv \<Rightarrow> nat option \<Rightarrow> nat option \<Rightarrow> (cam, int) state" where
  "camera_set_preview_window K device window = (case device of
     None \<Rightarrow> ret (-22)
   | Some p \<Rightarrow> with_dev p 0 (\<lambda>d. do {
       upd_dev p (\<lambda>d. d\<lparr>d_window := window\<rparr>);
       if window = None then ret 0
       else do {
         whenM (\<not> d_gralloc d) (do {
           r \<leftarrow> ccall K WGralloc;
           whenM (r = 0) (upd_dev p (\<lambda>d. d\<lparr>d_gralloc := True\<rparr>))
         });
         r \<leftarrow> ccall K WMinUndequeued;
         if r \<noteq> 0 then ret (-1)
         else do {
           r \<leftarrow> ccall K (WBufferCount kBufferCount);
           if r \<noteq> 0 then ret (-1)
           else do {
             qcall K QGetParameters;
             (w, h) \<leftarrow> gets (\<lambda>s. k_size K (k_params K (c_log s)));
             upd_dev p (\<lambda>d. d\<lparr>d_width := w, d_height := h\<rparr>);
             ccall K WUsage;
             r \<leftarrow> ccall K (WGeometry w h);
             ret (if r \<noteq> 0 then -1 else 0)
           }
         }
       }
     }))"

definition camera_set_callbacks :: "camenv \<Rightarrow> nat option \<Rightarrow> bool \<Rightarrow> bool \<Rightarrow> bool \<Rightarrow> bool \<Rightarrow> (cam, unit) state" where
  "camera_set_callbacks K device notify data timestamp request = (case device of
     None \<Rightarrow> ret ()
   | Some p \<Rightarrow> with_dev p () (\<lambda>d. do {
       upd_dev p (\<lambda>d. d\<lparr>d_notify := notify, d_data := data, d_timestamp := timestamp, d_request := request\<rparr>);
       qcall K (QSetCallbacks p);
       ret ()
     }))"

definition enabled_type :: "camenv \<Rightarrow> u32 \<Rightarrow> u32" where
  "enabled_type K msg =
     (if holds msg (k_raw_notify K) then (msg AND NOT (k_raw_notify K)) OR k_raw K else msg)"

definition camera_enable_msg_type :: "camenv \<Rightarrow> u32 \<Rightarrow> (cam, unit) state" where
  "camera_enable_msg_type K msg = do { qcall K (QEnable (enabled_type K msg)); ret () }"

definition camera_disable_msg_type :: "camenv \<Rightarrow> u32 \<Rightarrow> (cam, unit) state" where
  "camera_disable_msg_type K msg = whenM (msg \<noteq> k_shutter K) (do { qcall K (QDisable msg); ret () })"

definition camera_msg_type_enabled :: "camenv \<Rightarrow> u32 \<Rightarrow> (cam, int) state" where
  "camera_msg_type_enabled K msg = qcall K (QEnabled msg)"

definition camera_start_preview :: "camenv \<Rightarrow> (cam, int) state" where
  "camera_start_preview K = do {
     on \<leftarrow> qcall K (QEnabled (k_frame K));
     whenM (on = 0) (do { qcall K (QEnable (k_frame K)); ret () });
     qcall K QStartPreview
   }"

definition camera_stop_preview :: "camenv \<Rightarrow> (cam, unit) state" where
  "camera_stop_preview K = do {
     on \<leftarrow> qcall K (QEnabled (k_frame K));
     whenM (on \<noteq> 0) (do { qcall K (QDisable (k_frame K)); ret () });
     qcall K QStopPreview;
     ret ()
   }"

text \<open>The operations that call the method of the same name and return its result.\<close>

definition camera_forward :: "camenv \<Rightarrow> forwarded \<Rightarrow> (cam, int) state" where
  "camera_forward K f = qcall K (QForward f)"

text \<open>\<open>unflatten\<close>: the parameters a string stands for.\<close>

definition camera_set_parameters :: "camenv \<Rightarrow> (string \<Rightarrow> cparams) \<Rightarrow> string \<Rightarrow> (cam, int) state" where
  "camera_set_parameters K unflatten params = qcall K (QSetParameters (unflatten params))"

text \<open>A block for the string is allocated, which \<open>camera_put_parameters\<close> frees.\<close>

definition cam_alloc :: "camenv \<Rightarrow> (cam, nat option) state" where
  "cam_alloc K = do {
     s \<leftarrow> gets (\<lambda>s. s);
     if k_malloc K (c_log s) (c_next s) then do {
       modify (\<lambda>s. s\<lparr>c_blocks := add_mset (c_next s) (c_blocks s), c_next := Suc (c_next s)\<rparr>);
       ret (Some (c_next s))
     } else do { modify (\<lambda>s. s\<lparr>c_next := Suc (c_next s)\<rparr>); ret None }
   }"

definition cam_free :: "nat \<Rightarrow> (cam, unit) state" where
  "cam_free b = modify (\<lambda>s. s\<lparr>c_blocks := c_blocks s - {#b#}, c_fault := (c_fault s \<or> b \<notin># c_blocks s)\<rparr>)"

definition camera_get_parameters :: "camenv \<Rightarrow> (cam, nat option \<times> cparams) state" where
  "camera_get_parameters K = do {
     qcall K QGetParameters;
     ps \<leftarrow> gets (\<lambda>s. k_params K (c_log s));
     b \<leftarrow> cam_alloc K;
     whenM (b = None) crash;
     ret (b, CameraHAL_FixupParams K ps)
   }"

definition camera_put_parameters :: "nat \<Rightarrow> (cam, unit) state" where
  "camera_put_parameters b = cam_free b"

section \<open>Opening and closing\<close>

definition camdev0 :: "int \<Rightarrow> nat \<Rightarrow> camdev" where
  "camdev0 cameraid ops = \<lparr>d_window = None, d_notify = False, d_data = False, d_timestamp = False, d_request = False,
     d_gralloc = False, d_width = 0, d_height = 0, d_cameraid = cameraid, d_ops = ops\<rparr>"

definition forget_dev :: "nat \<Rightarrow> (cam, unit) state" where
  "forget_dev p = modify (\<lambda>s. s\<lparr>c_devs := filter (\<lambda>(q, _). q \<noteq> p) (c_devs s)\<rparr>)"

text \<open>
  The status and what is stored in \<open>*device\<close>, \<open>None\<close> for no store. \<open>name\<close> is the number that
  \<open>atoi\<close> reads from the name, if there is one.
\<close>

definition camera_device_open :: "camenv \<Rightarrow> int option \<Rightarrow> (cam, int \<times> nat option option) state" where
  "camera_device_open K name = (case name of
     None \<Rightarrow> ret (0, None)
   | Some cameraid \<Rightarrow>
       if cameraid > k_cameras K then ret (-22, Some None)
       else do {
         dev \<leftarrow> cam_alloc K;
         (case dev of
            None \<Rightarrow> ret (-12, Some None)
          | Some p \<Rightarrow> do {
              ops \<leftarrow> cam_alloc K;
              (case ops of
                 None \<Rightarrow> do { cam_free p; ret (-12, Some None) }
               | Some b \<Rightarrow> do {
                   modify (\<lambda>s. s\<lparr>c_devs := (p, camdev0 cameraid b) # c_devs s\<rparr>);
                   camera \<leftarrow> ccall K (HOpen cameraid);
                   if camera = 0 then do {
                     forget_dev p; cam_free p; cam_free b;
                     ret (-12, Some None)
                   } else do {
                     modify (\<lambda>s. s\<lparr>qCamera := Some (nat camera)\<rparr>);
                     ret (0, Some (Some p))
                   }
                 })
            })
       })"

definition camera_device_close :: "nat option \<Rightarrow> (cam, int) state" where
  "camera_device_close device = (case device of
     None \<Rightarrow> ret (-22)
   | Some p \<Rightarrow> with_dev p 0 (\<lambda>d. do {
       modify (\<lambda>s. s\<lparr>qCamera := None\<rparr>);
       cam_free (d_ops d);
       forget_dev p;
       cam_free p;
       ret 0
     }))"

text \<open>Facing and orientation; the orientation of the library is not used.\<close>

definition camera_get_camera_info :: "camenv \<Rightarrow> int \<Rightarrow> int \<times> int" where
  "camera_get_camera_info K camera_id =
     (let facing = fst (k_info K camera_id) in (facing, if facing = 1 then 270 else 90))"

section \<open>Memory\<close>

lemma ccall_simps [simp]:
  "exec (ccall K c) s = s\<lparr>c_log := c_log s @ [(c, k_ret K (c_log s) c)]\<rparr>"
  "result (ccall K c) s = k_ret K (c_log s) c"
  by (simp_all add: ccall_def exec_def result_def)

lemma crash_simps [simp]: "exec crash s = s\<lparr>c_fault := True\<rparr>" "result crash s = ()"
  by (simp_all add: crash_def)

text \<open>
  C25. Opening a device allocates its two blocks and gives it out with status 0, or fails, with status
  and NULL, and leaves no block behind; without a name it does neither and still reports 0.
  Closing the device it gave out frees exactly these blocks, and leaves the wrapper without a
  camera.
\<close>

theorem camera_blocks_balanced:
  "let t = exec (camera_device_open K name) s in
   case result (camera_device_open K name) s of
     (status, Some (Some p)) \<Rightarrow> status = 0 \<and> size (c_blocks t) = size (c_blocks s) + 2
       \<and> c_blocks (exec (camera_device_close (Some p)) t) = c_blocks s
       \<and> qCamera (exec (camera_device_close (Some p)) t) = None
       \<and> c_fault (exec (camera_device_close (Some p)) t) = c_fault s
   | (status, Some None) \<Rightarrow> status < 0 \<and> c_blocks t = c_blocks s \<and> c_fault t = c_fault s
   | (status, None) \<Rightarrow> status = 0 \<and> name = None \<and> t = s"
  by (auto simp: camera_device_open_def camera_device_close_def cam_alloc_def cam_free_def forget_dev_def
      with_dev_def dev_at_def camdev0_def Let_def split: option.split prod.split)

text \<open>
  There is one camera for all devices: once any device is closed, every operation of another one
  goes through NULL.
\<close>

theorem closed_device_takes_camera:
  assumes "dev_at s p \<noteq> None"
  shows "c_fault (exec (camera_start_preview K) (exec (camera_device_close (Some p)) s))
    \<and> c_fault (exec (camera_forward K f) (exec (camera_device_close (Some p)) s))"
  using assms
  by (auto simp: camera_start_preview_def camera_forward_def qcall_def camera_device_close_def with_dev_def
      cam_free_def forget_dev_def)

section \<open>Buffers of the preview\<close>

text \<open>The buffers that are dequeued and not given back.\<close>

fun out_step :: "int \<Rightarrow> camcall \<times> int \<Rightarrow> int" where
  "out_step n (WDequeue, r) = (if r \<ge> 0 then n + 1 else n)"
| "out_step n (WEnqueue b, r) = n - 1"
| "out_step n (_, r) = n"

definition buffers_out :: "camlog \<Rightarrow> int" where
  "buffers_out l = foldl out_step 0 l"

lemma buffers_out_append [simp]: "buffers_out (l @ m) = foldl out_step (buffers_out l) m"
  by (simp add: buffers_out_def)




definition cam_env0 :: camenv where
  "cam_env0 = \<lparr>k_ret = (\<lambda>l c. case c of WLock b \<Rightarrow> -1 | WDequeue \<Rightarrow> 1 | _ \<Rightarrow> 0), k_malloc = (\<lambda>l n. True), k_cameras = 2,
     k_memory = (\<lambda>_. (460800, True)), k_params = (\<lambda>_. []), k_size = (\<lambda>_. (640, 480)), k_frame = 16, k_raw = 128,
     k_raw_notify = 512, k_shutter = 2, k_info = (\<lambda>_. (0, 90)), k_key = (\<lambda>_. [])\<rparr>"


theorem closed_device_takes_camera_witness:
  "c_fault (exec (camera_start_preview cam_env0) (exec (camera_device_close (Some 0)) (cam_init\<lparr>c_devs := [(0, camdev0 0 1), (2, camdev0 1 3)],
     c_blocks := {#0, 1, 2, 3#}, qCamera := Some 7\<rparr>)))"
  using closed_device_takes_camera [of "cam_init\<lparr>c_devs := [(0, camdev0 0 1), (2, camdev0 1 3)],
     c_blocks := {#0, 1, 2, 3#}, qCamera := Some 7\<rparr>" 0 cam_env0]
  by (simp add: dev_at_def)

end
