(* ===== verification/Spec2Isabelle.thy ===== *)
theory Spec2Isabelle
  imports AudppProps AudioTables RoutingProps VoipProps InProps LpaProps LpaLocks EventThread LifeProps
    PolicyClients PolicyToHal LifeTables InterfaceClients PolicyHal Srs Lights PowerHal BtVendor Camera
begin

text \<open>
  Verification of the device code of the Samsung msm7x27a phones: the audio HAL and its routing
  policy (\<open>src/audio\<close>), and the small HAL modules for lights, power, Bluetooth and camera
  (\<open>src/lights\<close>, \<open>src/power\<close>, \<open>src/bt-vendor\<close>, \<open>src/camera\<close>).

  The parts and how they interact. The framework calls the audio HAL through C functions
  (\<open>audio_hw_hal.cpp\<close>), which convert device numbers and pass the call on to \<open>AudioHardware\<close>
  (\<open>AudioHardware.cpp\<close>). \<open>AudioHardware\<close> owns the sound driver and the streams: PCM playback, the
  two streams of a call over IP, recording, and low power sessions. It fills the calibration tables
  at construction from a file, and every change of route selects from them what post-processing
  is sent to the driver; FM routes first switch the pins the codec shares with Bluetooth
  (\<open>HardwarePinSwitching.c\<close>). The policy manager (\<open>AudioPolicyManager.cpp\<close>) decides which device
  each output uses and tells the HAL through routing parameters. The four modules are independent
  of each other and of audio; they talk to files of the kernel or to a vendor library.

  How the code is modelled. A C++ object is a record of its members, a member function a
  definition of the same name in the state monad of \<open>Prelude\<close> or, where it is pure, a function.
  Everything outside the repository is a parameter: the kernel's answers to system calls as a
  function of the log of calls made so far (\<open>env\<close> for audio, \<open>senv\<close> for the modules, \<open>camenv\<close> for the
  camera), the constants of system headers, the base class of the policy manager (\<open>pbase\<close>), the
  equalizer library, printing and reading of numbers by \<open>AudioParameter\<close>. Machine integers are
  words, \<open>float\<close> is a rational with the rounding as a parameter, status codes a datatype. A bad
  access, a \<open>NULL\<close> dereference, and a mutex taken twice by its holder are recorded as the first
  fault of the run. Memory that the code reads before writing it is an argument.

  Theories and the code they model.
    \<^item> \<open>Prelude\<close>: state monad, calculus of invariants (\<open>preserves\<close>), locales \<open>machine\<close> and
      \<open>framed_machine\<close>, interpreted for every component driven by a sequence of calls.
    \<^item> \<open>CStrings\<close>, \<open>FilterTypes\<close>, \<open>AudppParser\<close>: \<open>strtok\<close> and \<open>strtol\<close>; the tables of
      \<open>AudioHardware.h\<close>; \<open>check_and_set_audpp_parameters\<close> as programs of parser steps for the record
      kinds A to G, and the line loop of \<open>get_audpp_filter\<close>.
    \<^item> \<open>HwTypes\<close>: the state \<open>hw\<close> of \<open>AudioHardware\<close> with the statics of its file, system calls,
      locks, parameter strings. \<open>AudioTables\<close>: rates, buffer sizes, vocoder tables.
    \<^item> \<open>PostProc\<close>, \<open>PinSwitch\<close>, \<open>Routing\<close>: \<open>msm72xx_enable_postproc\<close> and \<open>_preproc\<close>;
      \<open>switch_mode\<close>; volume, mute, mode, FM, \<open>setParameters\<close>, \<open>doRouting\<close>.
    \<^item> \<open>OutStream\<close>, \<open>VoipStreams\<close>, \<open>InStream\<close>, \<open>LpaSession\<close>: \<open>AudioStreamOutMSM72xx\<close>,
      \<open>AudioStreamOutDirect\<close> and \<open>AudioStreamInVoip\<close>, \<open>AudioStreamInMSM72xx\<close>, \<open>AudioSessionOutLPA\<close>.
      \<open>LpaLocks\<close>: the order in which the threads of a session take its mutexes. \<open>EventThread\<close>: the
      loop of its event thread, from the driver's event to the call that handles it.
    \<^item> \<open>Lifecycle\<close>: constructor, destructor, opening and closing of streams by address.
    \<^item> \<open>Srs\<close>: the SRS hooks \<open>msm72xx_enable_srs\<close> and their parameters, as the code has them under
      \<open>SRS_PROCESSING\<close>.
    \<^item> \<open>HalWrapper\<close>, \<open>StreamWrapper\<close>: \<open>audio_hw_hal.cpp\<close>, first the functions of the device and of a
      known stream, then every function of the stream interface by the pointer it is given, with the
      class of the object behind it. \<open>PolicyHal\<close>, \<open>PolicyClients\<close>: \<open>audio_policy_hal.cpp\<close>.
    \<^item> \<open>PolicyTypes\<close>, \<open>PolicyDevices\<close>, \<open>PolicyOutputs\<close>, \<open>PolicyConnect\<close>: state of the policy manager;
      decisions that only read it; outputs, volume and mute; events. \<open>PolicyExample\<close> is an instance.
    \<^item> \<open>SysFiles\<close> and \<open>Lights\<close>, \<open>PowerHal\<close>, \<open>BtVendor\<close>: \<open>lights.c\<close>, \<open>power.c\<close>, \<open>bt_helper.c\<close>,
      \<open>bt_hardware.c\<close>, \<open>bt_vendor_qcom.c\<close>. \<open>Camera\<close>: \<open>cameraHAL.cpp\<close>.

  What the lemmas show.
    \<^item> \<open>AudppProps\<close>: a record is accepted exactly if it is complete, and no store leaves its array
      unless a D record announces more than five bands; a file is accepted exactly if its lines are.
      \<open>LifeTables\<close>: the tables keep their shape for the life of the HAL.
    \<^item> \<open>PostProc\<close>, \<open>PinSwitch\<close>, \<open>RoutingProps\<close>: which features stay on, the pins of the two buses
      are never driven together, control calls leave the lock free and the current device the one
      the driver was given last. The locales \<open>route_frame\<close> and \<open>ctl_frame\<close> carry what routing and
      control calls keep; they are interpreted for descriptors, streams, settings and tables.
    \<^item> \<open>OutStream\<close>, \<open>VoipProps\<close>, \<open>InProps\<close>: descriptors are owned by exactly one stream, or by the
      two streams of a call together; writes end; frames are packed as their reader expects.
    \<^item> \<open>LpaProps\<close>: the queues of a session refine an exchange of buffers between two owners (locale
      \<open>exchange\<close>), the end of the stream is reported once and not early, closing returns everything
      opened. \<open>EventThread\<close>: whatever the driver reports, the thread keeps the queues in order until
      it leaves. \<open>LpaLocks\<close>: threads that take the mutexes in one order never block each other, and
      all of them finish.
    \<^item> \<open>LifeProps\<close>: over the step relation \<open>media\<close> of clients of playback and recording, locks and
      descriptors stay in order, and destruction closes what is left. \<open>SessionClients\<close>: the relation \<open>session_client\<close> adds a low
      power session to these; its descriptors and those of the streams stay apart. What the session
      leaves unchanged is the locale \<open>session_frame\<close>, interpreted for locks and routes.
    \<^item> \<open>HalWrapper\<close>: the loop over the bits of a device number equals the union over its bits, and
      routing goes through the wrapper and back. \<open>HalClients\<close>: every run of the framework's calls
      through the C interface is a run of \<open>media\<close>. \<open>InterfaceClients\<close>: with every function of the
      stream interface and a low power session it is a run of \<open>session_client\<close>.
    \<^item> \<open>PolicyProps\<close>, \<open>PolicyEvents\<close>: only available devices are selected, changes of device reach
      the driver and change nothing else, connecting and disconnecting, starting and stopping undo each
      other. The locales \<open>output_view\<close>, \<open>routed_view\<close>, \<open>event_view\<close>, \<open>device_view\<close> carry what each
      event leaves unchanged. \<open>PolicyClients\<close>: every run of the framework's calls to the policy refines
      \<open>core_step\<close>, a specification with phone state, dial tones, devices, forced uses
      and radio only, which never reaches an inconsistent state. \<open>PolicyToHal\<close>: a change of device decided by the
      policy arrives at the playback stream in the driver's numbers.
    \<^item> \<open>Lights\<close>, \<open>PowerHal\<close>, \<open>BtVendor\<close>, \<open>Camera\<close>: brightness of colours, descriptors of the boost pulse,
      the search for the Bluetooth switch, memory of a camera device, buffers of the preview.

  Fuel and termination. Loops over data are structural or end by a measure (the parser's lines
  shrink, the bits of a device number are cleared from the top). Loops that wait for a driver take
  fuel: \<open>out72_write_loop\<close> ends with as many steps as bytes if the driver takes part of each buffer;
  the reading loops (\<open>in_read_loop\<close>, \<open>voip_read_loop\<close>) go on for as long as the driver says EAGAIN
  and so have no bound, their results are stated for every fuel. \<open>setOutputDevice\<close> recurses over
  duplicated outputs; two levels are enough, since an output that is duplicated feeds plain ones.
  \<open>close_inputs\<close> runs as often as there are inputs. \<open>find_rfkill\<close> is unbounded and partial; it
  is shown to return where the files of the kernel end.

  Not modelled. The \<open>dump\<close> functions, log messages and code under \<open>AUDIO_POLICY_TEST\<close>, which is
  not compiled. The build does not set \<open>SRS_PROCESSING\<close>, so the calls of the SRS hooks from routing
  and playback are left out there. The session functions of \<open>audio_policy_hal.cpp\<close> are compiled with
  \<open>QCOM_TUNNEL_LPA_ENABLED\<close>, which only the HAL module sets. \<open>healthd\<close>, which assigns constant paths.
  The headers under \<open>src/include\<close>, copies of kernel headers: their numbers appear as requests of a
  datatype. Concurrency is modelled where the code depends on it, in the low power session;
  elsewhere an operation runs alone, and a mutex shows only whether its holder takes it again.
\<close>

end
